(* ===== verification/Prelude.thy ===== *)
theory Prelude
  imports Main "HOL-Library.Word"
begin

text \<open>
  Shared vocabulary of the development: the machine types of the C and C++ code, the
  undefined behaviours the code could run into (as error values), the checked \<open>int\<close>
  arithmetic and array accesses the components are written with, and the generic facts on
  lists and on circular indices that their proofs share.
\<close>

section \<open>Machine types\<close>

type_synonym u8 = "8 word"
type_synonym u32 = "32 word"
type_synonym u64 = "64 word"

text \<open>
  A C \<open>float\<close> or \<open>double\<close> that the code only copies is kept as its IEEE bit pattern.
\<close>

type_synonym float32 = "32 word"
type_synonym float64 = "64 word"

named_theorems c_int \<open>unfolding rules of the checked C arithmetic\<close>
named_theorems circ \<open>circular index arithmetic\<close>

section \<open>Undefined behaviour as a value\<close>

text \<open>
  A computation that the C standard leaves undefined, or that a failed \<open>assert\<close> aborts, is the
  left injection of a sum; every component is shown never to produce one.
\<close>

datatype ub =
    Signed_Overflow
  | Division_By_Zero
  | Index_Out_Of_Range
  | Uninitialised_Read
  | Invalid_Free
  | Null_Dereference
  | Assertion_Failed

fun sum_bind :: "'e + 'a \<Rightarrow> ('a \<Rightarrow> 'e + 'b) \<Rightarrow> 'e + 'b" where
  "sum_bind (Inl e) f = Inl e"
| "sum_bind (Inr a) f = f a"

lemma sum_bind_eq_Inr:
  "sum_bind m f = Inr b \<longleftrightarrow> (\<exists>a. m = Inr a \<and> f a = Inr b)"
  by (cases m) auto

lemma sum_bind_cong [fundef_cong]:
  "m = m' \<Longrightarrow> (\<And>a. m' = Inr a \<Longrightarrow> f a = g a) \<Longrightarrow> sum_bind m f = sum_bind m' g"
  by (cases m') auto

section \<open>C \<open>int\<close>\<close>

text \<open>A 32-bit signed \<open>int\<close> is an HOL \<open>int\<close> in range; leaving the range is undefined.\<close>

definition INT_MAX :: int where
  "INT_MAX = 2147483647"

definition INT_MIN :: int where
  "INT_MIN = - 2147483648"

definition c_int_ok :: "int \<Rightarrow> bool" where
  "c_int_ok i \<longleftrightarrow> INT_MIN \<le> i \<and> i \<le> INT_MAX"

definition c_result :: "int \<Rightarrow> ub + int" where
  "c_result i = (if c_int_ok i then Inr i else Inl Signed_Overflow)"

definition c_add :: "int \<Rightarrow> int \<Rightarrow> ub + int" where
  "c_add a b = c_result (a + b)"

definition c_sub :: "int \<Rightarrow> int \<Rightarrow> ub + int" where
  "c_sub a b = c_result (a - b)"

text \<open>C's \<open>%\<close> truncates towards zero: the result has the sign of the dividend.\<close>

definition c_mod :: "int \<Rightarrow> int \<Rightarrow> ub + int" where
  "c_mod a b =
     (if b = 0 then Inl Division_By_Zero
      else if a = INT_MIN \<and> b = -1 then Inl Signed_Overflow
      else Inr (sgn a * (\<bar>a\<bar> mod \<bar>b\<bar>)))"

lemma c_add_ok [c_int]: "c_int_ok (a + b) \<Longrightarrow> c_add a b = Inr (a + b)"
  by (simp add: c_add_def c_result_def)

lemma c_sub_ok [c_int]: "c_int_ok (a - b) \<Longrightarrow> c_sub a b = Inr (a - b)"
  by (simp add: c_sub_def c_result_def)

lemma c_mod_pos [c_int]: "0 \<le> a \<Longrightarrow> 0 < b \<Longrightarrow> c_mod a b = Inr (a mod b)"
  by (cases "a = 0") (auto simp: c_mod_def INT_MIN_def)

lemma c_int_okI: "0 \<le> i \<Longrightarrow> i \<le> INT_MAX \<Longrightarrow> c_int_ok i"
  by (simp add: c_int_ok_def INT_MIN_def)

text \<open>Reading an unsigned 32-bit value into an \<open>int\<close> keeps the bits (two's complement).\<close>

definition int_of_u32 :: "u32 \<Rightarrow> int" where
  "int_of_u32 w = sint w"

lemma c_int_ok_int_of_u32: "c_int_ok (int_of_u32 w)"
  using sint_greater_eq [of w] sint_lt [of w]
  by (simp add: int_of_u32_def c_int_ok_def INT_MIN_def INT_MAX_def)

lemma sint_u32: "sint (w :: u32) = (if uint w < 2 ^ 31 then uint w else uint w - 2 ^ 32)"
proof -
  have "0 \<le> uint w" "uint w < 2 ^ 32" using unsigned_less [of w, where 'a = int] by simp_all
  then have "bit (uint w) 31 \<longleftrightarrow> 2 ^ 31 \<le> uint w"
  proof -
    have "uint w div 2147483648 = (if 2147483648 \<le> uint w then 1 else 0)"
    proof (cases "2147483648 \<le> uint w")
      case True
      with \<open>uint w < 2 ^ 32\<close> have "uint w div 2147483648 = 1"
        by (intro int_div_pos_eq [where r = "uint w - 2147483648"]) simp_all
      with True show ?thesis by simp
    qed (use \<open>0 \<le> uint w\<close> in simp)
    then show ?thesis by (simp add: bit_iff_odd)
  qed
  then show ?thesis
    using \<open>0 \<le> uint w\<close> \<open>uint w < 2 ^ 32\<close>
    by (simp add: sint_uint signed_take_bit_eq_take_bit_minus take_bit_int_eq_self)
qed

section \<open>C arrays\<close>

text \<open>
  An array is a list of cells; \<open>None\<close> is an indeterminate cell (memory that
  \<open>malloc\<close> returned and nothing has written). An index is a C \<open>int\<close>.
\<close>

type_synonym 'a c_array = "'a option list"

definition arr_read :: "'a c_array \<Rightarrow> int \<Rightarrow> ub + 'a" where
  "arr_read xs i =
     (if 0 \<le> i \<and> i < int (length xs)
      then (case xs ! nat i of None \<Rightarrow> Inl Uninitialised_Read | Some a \<Rightarrow> Inr a)
      else Inl Index_Out_Of_Range)"

definition arr_write :: "'a c_array \<Rightarrow> int \<Rightarrow> 'a \<Rightarrow> ub + 'a c_array" where
  "arr_write xs i a =
     (if 0 \<le> i \<and> i < int (length xs) then Inr (xs[nat i := Some a])
      else Inl Index_Out_Of_Range)"

lemma arr_write_ok [c_int]:
  "0 \<le> i \<Longrightarrow> i < int (length xs) \<Longrightarrow> arr_write xs i a = Inr (xs[nat i := Some a])"
  by (simp add: arr_write_def)

lemma arr_read_ok [c_int]:
  "0 \<le> i \<Longrightarrow> i < int (length xs) \<Longrightarrow> xs ! nat i = Some a \<Longrightarrow> arr_read xs i = Inr a"
  by (simp add: arr_read_def)

section \<open>Circular indices\<close>

text \<open>
  Two distances below the modulus that land on the same slot are equal: the fact behind
  every circular store of the program.
\<close>

lemma circ_inj_le:
  assumes "(t + i) mod n = (t + j) mod n" "j < (n::nat)" "i \<le> j"
  shows "i = j"
proof -
  have "n dvd (t + j) - (t + i)"
    using assms(1,3) mod_eq_dvd_iff_nat [of "t + i" "t + j" n] by simp
  then have "n dvd j - i" by simp
  with \<open>j < n\<close> have "j - i = 0"
    using nat_dvd_not_less [of "j - i" n] by (cases "j - i = 0") auto
  with \<open>i \<le> j\<close> show ?thesis by simp
qed

lemma circ_inj [circ]:
  "i < n \<Longrightarrow> j < (n::nat) \<Longrightarrow> (t + i) mod n = (t + j) mod n \<longleftrightarrow> i = j"
  using circ_inj_le [of t i n j] circ_inj_le [of t j n i] by (metis nat_le_linear)

section \<open>Searching lists\<close>

lemma map_of_positions:
  "map_option (\<lambda>i. xs ! (i - k)) (map_of (zip (map f xs) [k..<k + length xs]) v) =
     find (\<lambda>x. f x = v) xs"
proof (induction xs arbitrary: k)
  case (Cons x xs)
  have "map_option (\<lambda>i. (x # xs) ! (i - k)) (map_of (zip (map f xs) [Suc k..<Suc k + length xs]) v) =
    map_option (\<lambda>i. xs ! (i - Suc k)) (map_of (zip (map f xs) [Suc k..<Suc k + length xs]) v)"
  proof (rule option.map_cong0)
    fix i assume "i \<in> set_option (map_of (zip (map f xs) [Suc k..<Suc k + length xs]) v)"
    then have "(v, i) \<in> set (zip (map f xs) [Suc k..<Suc k + length xs])"
      by (simp add: map_of_SomeD del: upt_Suc)
    then have "i \<in> set [Suc k..<Suc k + length xs]" by (rule set_zip_rightD)
    then have "Suc k \<le> i" by (auto split: if_splits)
    then show "(x # xs) ! (i - k) = xs ! (i - Suc k)" by (simp add: nth_Cons')
  qed
  with Cons [of "Suc k"] show ?case by (simp add: upt_conv_Cons del: upt_Suc)
qed simp

lemma map_of_index:
  "map_option (\<lambda>i. xs ! i) (map_of (zip (map f xs) [0..<length xs]) v) = find (\<lambda>x. f x = v) xs"
  using map_of_positions [where k = 0] by simp

lemma find_unique:
  assumes "set xs = set ys" "\<And>x y. x \<in> set xs \<Longrightarrow> y \<in> set xs \<Longrightarrow> P x \<Longrightarrow> P y \<Longrightarrow> x = y"
  shows "find P xs = find P ys"
proof (cases "find P xs")
  case None
  with assms(1) show ?thesis by (metis find_None_iff)
next
  case (Some x)
  then have "x \<in> set xs" "P x" by (auto simp: find_Some_iff)
  with assms show ?thesis
    unfolding Some by (metis find_None_iff find_Some_iff nth_mem option.exhaust)
qed

lemma find_sort_key:
  assumes "distinct (map k xs)"
  shows "find (\<lambda>x. k x = v) (sort_key k' xs) = find (\<lambda>x. k x = v) xs"
  using assms by (intro find_unique) (auto simp: distinct_map inj_on_def)

section \<open>Lookup by number\<close>

lemma find_parallel:
  assumes "map g xs = map h ys" "map p xs = map q ys"
  shows "map_option g (find (\<lambda>x. P (p x)) xs) = map_option h (find (\<lambda>y. P (q y)) ys)"
  using assms by (induction xs arbitrary: ys) auto

end
