(* ===== verification/Heap.thy ===== *)
theory Heap
  imports Prelude
begin

text \<open>
  The C heap: allocated blocks of bytes under fresh identities, with \<open>malloc\<close>,
  \<open>realloc\<close>, \<open>free\<close> and \<open>memcpy\<close> as the standard describes them. Whether the
  allocator refuses a request is a parameter of the heap (\<open>refuses\<close>: the number of the
  request and its size), so every out-of-memory path of the code is a branch of the model.
  A pointer is an optional identity; \<open>None\<close> is \<open>NULL\<close>.
\<close>

type_synonym ptr = "nat option"

record heap =
  next_id :: nat
  blocks :: "nat \<rightharpoonup> u8 option list"
  refuses :: "nat \<Rightarrow> nat \<Rightarrow> bool"

definition malloc :: "heap \<Rightarrow> nat \<Rightarrow> heap \<times> ptr" where
  "malloc h n =
     (let i = next_id h; h' = h\<lparr>next_id := Suc i\<rparr>
      in if refuses h i n then (h', None)
         else (h'\<lparr>blocks := (blocks h)(i \<mapsto> replicate n None)\<rparr>, Some i))"

definition free :: "heap \<Rightarrow> ptr \<Rightarrow> ub + heap" where
  "free h p =
     (case p of
        None \<Rightarrow> Inr h
      | Some i \<Rightarrow> (if i \<in> dom (blocks h) then Inr (h\<lparr>blocks := (blocks h)(i := None)\<rparr>)
                  else Inl Invalid_Free))"

text \<open>
  A successful \<open>realloc\<close> moves the content into a block of its own and releases the old
  one; a refused \<open>realloc\<close> leaves the old block as it was.
\<close>

definition realloc :: "heap \<Rightarrow> ptr \<Rightarrow> nat \<Rightarrow> ub + (heap \<times> ptr)" where
  "realloc h p n =
     (case p of
        None \<Rightarrow> Inr (malloc h n)
      | Some i \<Rightarrow>
          (case blocks h i of
             None \<Rightarrow> Inl Invalid_Free
           | Some bs \<Rightarrow>
               (let j = next_id h; h' = h\<lparr>next_id := Suc j\<rparr>
                in if refuses h j n then Inr (h', None)
                   else Inr (h'\<lparr>blocks := (blocks h)(i := None,
                              j \<mapsto> take n (bs @ replicate (n - length bs) None))\<rparr>, Some j))))"

text \<open>\<open>memcpy(&p[off], src, length src)\<close>, with the bounds of the block checked.\<close>

definition store_bytes :: "heap \<Rightarrow> ptr \<Rightarrow> nat \<Rightarrow> u8 list \<Rightarrow> ub + heap" where
  "store_bytes h p off src =
     (case p of
        None \<Rightarrow> Inl Null_Dereference
      | Some i \<Rightarrow>
          (case blocks h i of
             None \<Rightarrow> Inl Index_Out_Of_Range
           | Some bs \<Rightarrow>
               (if off + length src \<le> length bs
                then Inr (h\<lparr>blocks := (blocks h)(i \<mapsto>
                        take off bs @ map Some src @ drop (off + length src) bs)\<rparr>)
                else Inl Index_Out_Of_Range)))"

text \<open>
  Identities at or above \<open>next_id\<close> are not in use: kept by every operation, and the
  reason a new block is a different block.
\<close>

definition heap_ok :: "heap \<Rightarrow> bool" where
  "heap_ok h \<longleftrightarrow> (\<forall>i bs. blocks h i = Some bs \<longrightarrow> i < next_id h)"

lemma heap_okD: "heap_ok h \<Longrightarrow> blocks h i = Some bs \<Longrightarrow> i < next_id h"
  by (auto simp: heap_ok_def)

lemma heap_ok_fresh: "heap_ok h \<Longrightarrow> next_id h \<le> i \<Longrightarrow> blocks h i = None"
  by (cases "blocks h i") (auto dest: heap_okD)

lemma malloc_heap_ok: "heap_ok h \<Longrightarrow> malloc h n = (h', p) \<Longrightarrow> heap_ok h'"
  by (auto simp: heap_ok_def malloc_def Let_def less_Suc_eq split: if_splits)

lemma free_heap_ok: "heap_ok h \<Longrightarrow> free h p = Inr h' \<Longrightarrow> heap_ok h'"
  by (auto simp: heap_ok_def free_def split: option.splits if_splits)

lemma realloc_heap_ok: "heap_ok h \<Longrightarrow> realloc h p n = Inr (h', q) \<Longrightarrow> heap_ok h'"
  by (auto simp: heap_ok_def realloc_def malloc_def Let_def less_Suc_eq
      split: option.splits if_splits)

lemma store_bytes_heap_ok: "heap_ok h \<Longrightarrow> store_bytes h p off src = Inr h' \<Longrightarrow> heap_ok h'"
  by (auto simp: heap_ok_def store_bytes_def split: option.splits if_splits)

text \<open>A block that was just allocated can be released, and that restores the blocks.\<close>

lemma malloc_free:
  assumes "heap_ok h" "malloc h n = (h', Some p)"
  shows "free h' (Some p) = Inr (h\<lparr>next_id := Suc (next_id h)\<rparr>)"
  using assms heap_ok_fresh [of h "next_id h"]
  by (auto simp: malloc_def free_def Let_def fun_upd_idem split: if_splits)

end
