(* ===== verification/C_Layout.thy ===== *)
theory C_Layout
  imports Prelude
begin

text \<open>
  The memory layout of C structs on the LP64 ABI the program is built for (Linux and macOS
  on x86-64): sizes, alignments and member offsets, computed from the member lists of the
  headers. The sizes the code asserts at compile time or hands to \<open>malloc\<close>, and the
  \<open>offsetof\<close> and \<open>sizeof\<close> entries of the generated tables, are evaluated with these
  definitions.
\<close>

datatype ctype =
    C_Char
  | C_Bool
  | C_U8
  | C_Int
  | C_U32
  | C_I64
  | C_U64
  | C_Float
  | C_Double
  | C_Pointer
  | C_Array ctype nat
  | C_Struct nat "(string \<times> ctype) list" \<comment> \<open>least alignment (\<open>alignas\<close>), members\<close>

text \<open>\<open>align_up a n\<close> is the least multiple of \<open>a\<close> that is at least \<open>n\<close>.\<close>

definition align_up :: "nat \<Rightarrow> nat \<Rightarrow> nat" where
  "align_up a n = (n + (a - 1)) div a * a"

fun align_of :: "ctype \<Rightarrow> nat" where
  "align_of C_Char = 1"
| "align_of C_Bool = 1"
| "align_of C_U8 = 1"
| "align_of C_Int = 4"
| "align_of C_U32 = 4"
| "align_of C_I64 = 8"
| "align_of C_U64 = 8"
| "align_of C_Float = 4"
| "align_of C_Double = 8"
| "align_of C_Pointer = 8"
| "align_of (C_Array t n) = align_of t"
| "align_of (C_Struct a ms) = foldr max (map (\<lambda>m. align_of (snd m)) ms) (max a 1)"

text \<open>
  Members are placed in order, each at the next multiple of its alignment; the struct is
  padded to a multiple of its own alignment. \<open>struct_end\<close> takes the sizes and alignments
  of the members.
\<close>

fun struct_end :: "nat \<Rightarrow> (nat \<times> nat) list \<Rightarrow> nat" where
  "struct_end pos [] = pos"
| "struct_end pos ((sz, al) # ms) = struct_end (align_up al pos + sz) ms"

fun size_of :: "ctype \<Rightarrow> nat" where
  "size_of C_Char = 1"
| "size_of C_Bool = 1"
| "size_of C_U8 = 1"
| "size_of C_Int = 4"
| "size_of C_U32 = 4"
| "size_of C_I64 = 8"
| "size_of C_U64 = 8"
| "size_of C_Float = 4"
| "size_of C_Double = 8"
| "size_of C_Pointer = 8"
| "size_of (C_Array t n) = n * size_of t"
| "size_of (C_Struct a ms) =
     align_up (align_of (C_Struct a ms))
       (struct_end 0 (map (\<lambda>m. (size_of (snd m), align_of (snd m))) ms))"

text \<open>The offset of every member, in order.\<close>

fun member_offsets :: "nat \<Rightarrow> (string \<times> ctype) list \<Rightarrow> (string \<times> nat) list" where
  "member_offsets pos [] = []"
| "member_offsets pos ((n, t) # ms) =
     (let off = align_up (align_of t) pos
      in (n, off) # member_offsets (off + size_of t) ms)"

definition offset_of :: "(string \<times> ctype) list \<Rightarrow> string \<Rightarrow> nat option" where
  "offset_of ms n = map_of (member_offsets 0 ms) n"

lemma align_up_ge: "0 < a \<Longrightarrow> n \<le> align_up a n"
proof -
  assume "0 < a"
  then have "n + (a - 1) < (n + (a - 1)) div a * a + a"
    by (metis add.commute div_mult_mod_eq mod_less_divisor nat_add_left_cancel_less)
  with \<open>0 < a\<close> show ?thesis by (simp add: align_up_def)
qed

lemma align_of_pos: "0 < align_of t"
proof (induction t rule: align_of.induct)
  case (12 a ms)
  have "0 < foldr max xs (max a (Suc 0))" for xs :: "nat list"
    by (induction xs) auto
  then show ?case by simp
qed auto

text \<open>Members are laid out in order and do not overlap.\<close>

lemma member_offsets_lower: "(m, off) \<in> set (member_offsets pos ms) \<Longrightarrow> pos \<le> off"
proof (induction ms arbitrary: pos)
  case (Cons mt ms)
  obtain n t where mt: "mt = (n, t)" by (cases mt)
  have "pos \<le> align_up (align_of t) pos" by (rule align_up_ge [OF align_of_pos])
  with Cons show ?case by (fastforce simp: mt Let_def)
qed simp

lemma map_fst_member_offsets [simp]: "map fst (member_offsets pos ms) = map fst ms"
  by (induction pos ms rule: member_offsets.induct) (auto simp: Let_def)

lemma member_offsets_name: "(m, off) \<in> set (member_offsets pos ms) \<Longrightarrow> m \<in> fst ` set ms"
  by (metis fst_conv image_eqI list.set_map map_fst_member_offsets)

lemma member_offsets_head:
  assumes "(m, off) \<in> set (member_offsets pos ((m, t) # ms))" "m \<notin> fst ` set ms"
  shows "off = align_up (align_of t) pos"
  using assms by (auto simp: Let_def dest: member_offsets_name)

lemma member_offsets_tail:
  assumes "(m, off) \<in> set (member_offsets pos ((n, t) # ms))" "m \<noteq> n"
  shows "(m, off) \<in> set (member_offsets (align_up (align_of t) pos + size_of t) ms)"
  using assms by (auto simp: Let_def)

lemma member_offsets_disjoint:
  assumes "(m, off) \<in> set (member_offsets pos ms)" "(m', off') \<in> set (member_offsets pos ms)"
    and "distinct (map fst ms)" "(m, t) \<in> set ms" "(m', t') \<in> set ms" "m \<noteq> m'"
  shows "off + size_of t \<le> off' \<or> off' + size_of t' \<le> off"
  using assms
proof (induction ms arbitrary: pos)
  case (Cons nt ms)
  obtain n u where nt: "nt = (n, u)" by (cases nt)
  from Cons.prems(3) nt have n: "n \<notin> fst ` set ms" by simp
  have uniq: "(n, v) \<in> set (nt # ms) \<Longrightarrow> v = u" for v
    using n nt by force
  consider "m = n" | "m' = n" | "m \<noteq> n" "m' \<noteq> n" by blast
  then show ?case
  proof cases
    case 1
    with Cons.prems nt n have "off = align_up (align_of u) pos"
      by (intro member_offsets_head [of n]) auto
    moreover from 1 Cons.prems have "t = u" by (auto intro: uniq)
    moreover have "align_up (align_of u) pos + size_of u \<le> off'"
      using member_offsets_lower [OF member_offsets_tail [OF Cons.prems(2) [unfolded nt]]] 1 Cons.prems(6)
      by simp
    ultimately show ?thesis by simp
  next
    case 2
    with Cons.prems nt n have "off' = align_up (align_of u) pos"
      by (intro member_offsets_head [of n]) auto
    moreover from 2 Cons.prems have "t' = u" by (auto intro: uniq)
    moreover have "align_up (align_of u) pos + size_of u \<le> off"
      using member_offsets_lower [OF member_offsets_tail [OF Cons.prems(1) [unfolded nt]]] 2 Cons.prems(6)
      by simp
    ultimately show ?thesis by simp
  next
    case 3
    show ?thesis
    proof (rule Cons.IH)
      show "(m, off) \<in> set (member_offsets (align_up (align_of u) pos + size_of u) ms)"
        by (rule member_offsets_tail [OF Cons.prems(1) [unfolded nt] 3(1)])
      show "(m', off') \<in> set (member_offsets (align_up (align_of u) pos + size_of u) ms)"
        by (rule member_offsets_tail [OF Cons.prems(2) [unfolded nt] 3(2)])
    qed (use Cons.prems 3 nt in auto)
  qed
qed simp

text \<open>Members lie inside the struct.\<close>

lemma struct_end_ge: "list_all (\<lambda>m. 0 < snd m) ms \<Longrightarrow> pos \<le> struct_end pos ms"
proof (induction pos ms rule: struct_end.induct)
  case (2 pos sz al ms)
  then have "align_up al pos + sz \<le> struct_end (align_up al pos + sz) ms" by simp
  moreover have "pos \<le> align_up al pos" using 2 by (simp add: align_up_ge)
  ultimately show ?case by simp
qed simp

lemma member_offsets_within:
  assumes "(n, off) \<in> set (member_offsets pos ms)" "(n, t) \<in> set ms" "distinct (map fst ms)"
  shows "off + size_of t \<le> struct_end pos (map (\<lambda>m. (size_of (snd m), align_of (snd m))) ms)"
  using assms
proof (induction ms arbitrary: pos)
  case (Cons mu ms)
  obtain m u where mu: "mu = (m, u)" by (cases mu)
  show ?case
  proof (cases "n = m")
    case True
    with Cons.prems mu have "t = u" by force
    moreover have "off = align_up (align_of u) pos"
      using Cons.prems mu True by (intro member_offsets_head [of n]) auto
    ultimately show ?thesis
      using mu by (simp add: struct_end_ge list_all_iff align_of_pos)
  next
    case False
    with Cons mu show ?thesis using member_offsets_tail [of n off pos m u ms] by auto
  qed
qed simp

end
