(* ===== verification/Vehicle_Data.thy ===== *)
theory Vehicle_Data
  imports C_Layout
begin

text \<open>
  The record that travels through the ring buffer (\<open>VehicleData\<close>, \<open>include/buffer.h\<close>)
  and its layout. Character arrays are lists of characters of the array's length.
\<close>

record vehicle_data =
  fleet_number :: string
  internal_id :: string
  route_id :: string
  lat :: float32
  lon :: float32
  speed :: float32
  occupancy_status :: int
  occupancy_percentage :: int
  bearing :: float32
  timestamp :: u64
  current_status :: int
  congestion_level :: int
  stop_id :: string

definition struct_VehicleData :: "(string \<times> ctype) list" where
  "struct_VehicleData =
    [(''fleet_number'', C_Array C_Char 16),
     (''internal_id'', C_Array C_Char 16),
     (''route_id'', C_Array C_Char 16),
     (''lat'', C_Float),
     (''lon'', C_Float),
     (''speed'', C_Float),
     (''occupancy_status'', C_Int),
     (''occupancy_percentage'', C_Int),
     (''bearing'', C_Float),
     (''timestamp'', C_U64),
     (''current_status'', C_Int),
     (''congestion_level'', C_Int),
     (''stop_id'', C_Array C_Char 32)]"

definition sizeof_VehicleData :: nat where
  "sizeof_VehicleData = size_of (C_Struct 1 struct_VehicleData)"

text \<open>The declared array lengths hold of the record's character arrays.\<close>

definition vehicle_data_ok :: "vehicle_data \<Rightarrow> bool" where
  "vehicle_data_ok v \<longleftrightarrow>
     length (fleet_number v) = 16 \<and> length (internal_id v) = 16 \<and>
     length (route_id v) = 16 \<and> length (stop_id v) = 32 \<and>
     c_int_ok (occupancy_status v) \<and> c_int_ok (occupancy_percentage v) \<and>
     c_int_ok (current_status v) \<and> c_int_ok (congestion_level v)"

lemma sizeof_VehicleData: "sizeof_VehicleData = 120"
  by (simp add: sizeof_VehicleData_def struct_VehicleData_def align_up_def)

end
