(* ===== verification/Queue_Interface.thy ===== *)
theory Queue_Interface
  imports Prelude
begin

text \<open>
  What the clients of the ring buffer rely on: a bounded first-in first-out queue that can
  be closed. A call either returns or would wait (\<open>Blocks\<close>). The abstract queue, its
  operations, and a locale that states the contract of an implementation and proves, once,
  the facts about whole sequences of calls.
\<close>

datatype 'a call = Blocks | Returns 'a

text \<open>To go on with the result of a call; a call that waits for ever never goes on.\<close>

fun call_bind :: "'e + 'a call \<Rightarrow> ('a \<Rightarrow> 'e + 'b call) \<Rightarrow> 'e + 'b call" where
  "call_bind (Inl e) f = Inl e"
| "call_bind (Inr Blocks) f = Inr Blocks"
| "call_bind (Inr (Returns a)) f = f a"

lemma call_bind_cong [fundef_cong]:
  "m = m' \<Longrightarrow> (\<And>a. m' = Inr (Returns a) \<Longrightarrow> f a = g a) \<Longrightarrow> call_bind m f = call_bind m' g"
  by (cases "(m', f)" rule: call_bind.cases) auto

lemma call_cases [case_names undefined waits returns]:
  fixes m :: "'e + 'a call"
  obtains e where "m = Inl e" | "m = Inr Blocks" | a where "m = Inr (Returns a)"
  by (metis call.exhaust sum.exhaust)

lemma call_bind_assoc:
  "call_bind (call_bind m f) g = call_bind m (\<lambda>a. call_bind (f a) g)"
  by (cases m rule: call_cases) simp_all

section \<open>The abstract bounded queue\<close>

record 'v bounded_queue =
  bq_items :: "'v list"
  bq_bound :: nat
  bq_closed :: bool

definition bq_push :: "'v bounded_queue \<Rightarrow> 'v \<Rightarrow> ('v bounded_queue \<times> bool) call" where
  "bq_push q v =
     (if bq_closed q then Returns (q, False)
      else if length (bq_items q) = bq_bound q then Blocks
      else Returns (q\<lparr>bq_items := bq_items q @ [v]\<rparr>, True))"

definition bq_pop :: "'v bounded_queue \<Rightarrow> ('v bounded_queue \<times> 'v option) call" where
  "bq_pop q =
     (case bq_items q of
        [] \<Rightarrow> if bq_closed q then Returns (q, None) else Blocks
      | v # vs \<Rightarrow> Returns (q\<lparr>bq_items := vs\<rparr>, Some v))"

definition bq_close :: "'v bounded_queue \<Rightarrow> 'v bounded_queue" where
  "bq_close q = q\<lparr>bq_closed := True\<rparr>"

section \<open>Sequences of calls\<close>

datatype 'v queue_op = Push 'v | Pop | Close

datatype 'v queue_event = Pushed 'v | Rejected | Popped 'v | Drained | Waits | Closes

text \<open>
  \<open>op_step\<close> makes one call; a call that would wait has no effect on the state. The event
  records what the call returned. \<open>run_ops\<close> makes calls one after the other.
\<close>

fun op_step ::
  "('q \<Rightarrow> 'v \<Rightarrow> 'e + ('q \<times> bool) call) \<Rightarrow> ('q \<Rightarrow> 'e + ('q \<times> 'v option) call) \<Rightarrow> ('q \<Rightarrow> 'q)
   \<Rightarrow> 'q \<Rightarrow> 'v queue_op \<Rightarrow> 'e + ('q \<times> 'v queue_event)"
where
  "op_step push pop close q (Push v) =
     sum_bind (push q v) (\<lambda>c. Inr (case c of
         Blocks \<Rightarrow> (q, Waits)
       | Returns (q', ok) \<Rightarrow> (q', if ok then Pushed v else Rejected)))"
| "op_step push pop close q Pop =
     sum_bind (pop q) (\<lambda>c. Inr (case c of
         Blocks \<Rightarrow> (q, Waits)
       | Returns (q', None) \<Rightarrow> (q', Drained)
       | Returns (q', Some v) \<Rightarrow> (q', Popped v)))"
| "op_step push pop close q Close = Inr (close q, Closes)"

fun run_ops ::
  "('q \<Rightarrow> 'v \<Rightarrow> 'e + ('q \<times> bool) call) \<Rightarrow> ('q \<Rightarrow> 'e + ('q \<times> 'v option) call) \<Rightarrow> ('q \<Rightarrow> 'q)
   \<Rightarrow> 'q \<Rightarrow> 'v queue_op list \<Rightarrow> 'e + ('q \<times> 'v queue_event list)"
where
  "run_ops push pop close q [] = Inr (q, [])"
| "run_ops push pop close q (op # ops) =
     sum_bind (op_step push pop close q op) (\<lambda>(q', ev).
       sum_bind (run_ops push pop close q' ops) (\<lambda>(q'', evs). Inr (q'', ev # evs)))"

lemma run_ops_append:
  assumes "run_ops push pop close q xs = Inr (q1, e1)" "run_ops push pop close q1 ys = Inr (q2, e2)"
  shows "run_ops push pop close q (xs @ ys) = Inr (q2, e1 @ e2)"
  using assms
  by (induction xs arbitrary: q e1) (fastforce simp: sum_bind_eq_Inr)+

fun pushed_values :: "'v queue_event list \<Rightarrow> 'v list" where
  "pushed_values [] = []"
| "pushed_values (Pushed v # evs) = v # pushed_values evs"
| "pushed_values (_ # evs) = pushed_values evs"

fun popped_values :: "'v queue_event list \<Rightarrow> 'v list" where
  "popped_values [] = []"
| "popped_values (Popped v # evs) = v # popped_values evs"
| "popped_values (_ # evs) = popped_values evs"

section \<open>The contract\<close>

locale fifo_queue =
  fixes push :: "'q \<Rightarrow> 'v \<Rightarrow> 'e + ('q \<times> bool) call"
    and pop :: "'q \<Rightarrow> 'e + ('q \<times> 'v option) call"
    and close :: "'q \<Rightarrow> 'q"
    and abs :: "'q \<Rightarrow> 'v bounded_queue"
    and invar :: "'q \<Rightarrow> bool"
  assumes push_law:
      "invar q \<Longrightarrow> \<exists>c. push q v = Inr c \<and>
         map_call (map_prod abs id) c = bq_push (abs q) v \<and>
         (\<forall>q' ok. c = Returns (q', ok) \<longrightarrow> invar q')"
    and pop_law:
      "invar q \<Longrightarrow> \<exists>c. pop q = Inr c \<and>
         map_call (map_prod abs id) c = bq_pop (abs q) \<and>
         (\<forall>q' r. c = Returns (q', r) \<longrightarrow> invar q')"
    and close_law: "invar q \<Longrightarrow> invar (close q) \<and> abs (close q) = bq_close (abs q)"
    and bound_law: "invar q \<Longrightarrow> length (bq_items (abs q)) \<le> bq_bound (abs q)"
begin

lemma push_cases:
  assumes "invar q"
  obtains (blocks) "push q v = Inr Blocks" "\<not> bq_closed (abs q)"
      "length (bq_items (abs q)) = bq_bound (abs q)"
    | (rejected) q' where "push q v = Inr (Returns (q', False))" "invar q'" "abs q' = abs q"
      "bq_closed (abs q)"
    | (accepted) q' where "push q v = Inr (Returns (q', True))" "invar q'"
      "abs q' = (abs q)\<lparr>bq_items := bq_items (abs q) @ [v]\<rparr>" "\<not> bq_closed (abs q)"
proof -
  from push_law [OF assms, of v] obtain c where
    c: "push q v = Inr c" "map_call (map_prod abs id) c = bq_push (abs q) v"
       "\<forall>q' ok. c = Returns (q', ok) \<longrightarrow> invar q'"
    by blast
  then show thesis
    using blocks rejected accepted by (cases c) (auto simp: bq_push_def split: if_splits)
qed

lemma pop_cases:
  assumes "invar q"
  obtains (blocks) "pop q = Inr Blocks" "\<not> bq_closed (abs q)" "bq_items (abs q) = []"
    | (drained) q' where "pop q = Inr (Returns (q', None))" "invar q'" "abs q' = abs q"
      "bq_closed (abs q)" "bq_items (abs q) = []"
    | (popped) q' v vs where "pop q = Inr (Returns (q', Some v))" "invar q'"
      "bq_items (abs q) = v # vs" "abs q' = (abs q)\<lparr>bq_items := vs\<rparr>"
proof -
  from pop_law [OF assms] obtain c where
    c: "pop q = Inr c" "map_call (map_prod abs id) c = bq_pop (abs q)"
       "\<forall>q' r. c = Returns (q', r) \<longrightarrow> invar q'"
    by blast
  then show thesis
    using blocks drained popped
    by (cases c) (auto simp: bq_pop_def split: if_splits list.splits)
qed

lemma run_ops_fifo:
  assumes "invar q"
  shows "\<exists>q' evs. run_ops push pop close q ops = Inr (q', evs) \<and> invar q' \<and>
     bq_items (abs q) @ pushed_values evs = popped_values evs @ bq_items (abs q') \<and>
     bq_bound (abs q') = bq_bound (abs q)"
  using assms
proof (induction ops arbitrary: q)
  case (Cons op ops)
  show ?case
  proof (cases op)
    case (Push v)
    from Cons.prems show ?thesis
    proof (cases rule: push_cases [where v = v])
      case blocks
      with Cons.IH [OF Cons.prems] Push show ?thesis by auto
    next
      case (rejected q')
      with Cons.IH [of q'] Push show ?thesis by auto
    next
      case (accepted q')
      with Cons.IH [of q'] Push show ?thesis by auto
    qed
  next
    case Pop
    from Cons.prems show ?thesis
    proof (cases rule: pop_cases)
      case blocks
      with Cons.IH [OF Cons.prems] Pop show ?thesis by auto
    next
      case (drained q')
      with Cons.IH [of q'] Pop show ?thesis by auto
    next
      case (popped q' v vs)
      with Cons.IH [of q'] Pop show ?thesis by auto
    qed
  next
    case Close
    with Cons.IH [of "close q"] close_law [OF Cons.prems] show ?thesis
      by (auto simp: bq_close_def)
  qed
qed simp

text \<open>As many pops as there are items take them all.\<close>

lemma run_ops_drain:
  assumes "invar q"
  shows "\<exists>q'. run_ops push pop close q (replicate (length (bq_items (abs q))) Pop) =
      Inr (q', map Popped (bq_items (abs q))) \<and> invar q' \<and> bq_items (abs q') = []"
  using assms
proof (induction "bq_items (abs q)" arbitrary: q)
  case (Cons v vs)
  from Cons.prems show ?case
  proof (cases rule: pop_cases)
    case (popped q' w ws)
    with Cons.hyps(1) [of q'] Cons.hyps(2) show ?thesis by (auto simp flip: Cons.hyps(2))
  qed (use Cons.hyps(2) in simp_all)
qed auto

text \<open>A closed queue accepts nothing more.\<close>

lemma run_ops_closed:
  assumes "invar q" "bq_closed (abs q)" "run_ops push pop close q ops = Inr (q', evs)"
  shows "pushed_values evs = [] \<and> Waits \<notin> set evs \<and> bq_closed (abs q')"
  using assms
proof (induction ops arbitrary: q evs)
  case (Cons op ops)
  show ?case
  proof (cases op)
    case (Push v)
    from Cons.prems(1) show ?thesis
      by (cases rule: push_cases [where v = v])
        (use Cons.prems Cons.IH Push in \<open>fastforce simp: sum_bind_eq_Inr\<close>)+
  next
    case Pop
    from Cons.prems(1) show ?thesis
      by (cases rule: pop_cases)
        (use Cons.prems Cons.IH Pop in \<open>fastforce simp: sum_bind_eq_Inr\<close>)+
  next
    case Close
    with Cons close_law [of q] show ?thesis
      by (fastforce simp: sum_bind_eq_Inr bq_close_def)
  qed
qed simp

end

end
