(* ===== verification/Ring_Buffer.thy ===== *)
theory Ring_Buffer
  imports Heap Vehicle_Data Queue_Interface
begin

text \<open>
  The bounded ring buffer (\<open>include/buffer.h\<close>, \<open>src/ingestion/buffer.c\<close>) as its
  critical sections see it: the state, each operation between its lock and its unlock, and
  the refinement of the abstract bounded queue. Threads, the mutex and the condition
  variables are added in \<open>Ring_Threads\<close>. Indices are C \<open>int\<close>s; every arithmetic
  operation and array access of the code is checked.
\<close>

section \<open>State\<close>

record 'v ring_buffer =
  rb_data :: "'v c_array"
  rb_capacity :: int
  rb_head :: int
  rb_tail :: int
  rb_count :: int
  rb_shutdown :: bool

text \<open>The values in the queue, oldest first.\<close>

definition rb_slot :: "'v ring_buffer \<Rightarrow> nat \<Rightarrow> nat" where
  "rb_slot rb i = (nat (rb_tail rb) + i) mod nat (rb_capacity rb)"

definition rb_contents :: "'v ring_buffer \<Rightarrow> 'v list" where
  "rb_contents rb = map (\<lambda>i. the (rb_data rb ! rb_slot rb i)) [0..<nat (rb_count rb)]"

text \<open>
  The invariant: the indices are in range, \<open>head\<close> is \<open>count\<close> slots after \<open>tail\<close>, and
  the occupied slots have been written.
\<close>

definition rb_inv :: "'v ring_buffer \<Rightarrow> bool" where
  "rb_inv rb \<longleftrightarrow>
     length (rb_data rb) = nat (rb_capacity rb) \<and>
     0 \<le> rb_capacity rb \<and> rb_capacity rb \<le> INT_MAX \<and>
     0 \<le> rb_count rb \<and> rb_count rb \<le> rb_capacity rb \<and>
     0 \<le> rb_tail rb \<and> (0 < rb_capacity rb \<longrightarrow> rb_tail rb < rb_capacity rb) \<and>
     rb_head rb = int (rb_slot rb (nat (rb_count rb))) \<and>
     (\<forall>i < nat (rb_count rb). rb_data rb ! rb_slot rb i \<noteq> None)"

section \<open>Creation and destruction\<close>

text \<open>
  \<open>buffer_init\<close> allocates the struct and then the data array; the size of the struct
  depends on the platform's pthread types and is an argument. \<open>sizeof(VehicleData) *
  capacity\<close> is computed in \<open>size_t\<close>, the \<open>int\<close> capacity converted to it.
\<close>

record 'v rb_handle =
  hd_struct :: ptr
  hd_data :: ptr
  hd_ring :: "'v ring_buffer"

definition data_bytes :: "int \<Rightarrow> nat" where
  "data_bytes capacity = unat (word_of_nat sizeof_VehicleData * (word_of_int capacity :: u64))"

definition fresh_ring :: "int \<Rightarrow> 'v ring_buffer" where
  "fresh_ring capacity =
     \<lparr>rb_data = replicate (data_bytes capacity div sizeof_VehicleData) None,
      rb_capacity = capacity, rb_head = 0, rb_tail = 0, rb_count = 0, rb_shutdown = False\<rparr>"

definition buffer_init :: "nat \<Rightarrow> heap \<Rightarrow> int \<Rightarrow> ub + (heap \<times> 'v rb_handle option)" where
  "buffer_init rb_size h capacity =
     (case malloc h rb_size of
        (h1, None) \<Rightarrow> Inr (h1, None)
      | (h1, Some p) \<Rightarrow>
          (case malloc h1 (data_bytes capacity) of
             (h2, None) \<Rightarrow> sum_bind (free h2 (Some p)) (\<lambda>h3. Inr (h3, None))
           | (h2, Some d) \<Rightarrow>
               Inr (h2, Some \<lparr>hd_struct = Some p, hd_data = Some d,
                              hd_ring = fresh_ring capacity\<rparr>)))"

definition buffer_destroy :: "heap \<Rightarrow> 'v rb_handle option \<Rightarrow> ub + heap" where
  "buffer_destroy h rb =
     (case rb of
        None \<Rightarrow> Inr h
      | Some r \<Rightarrow> sum_bind (free h (hd_data r)) (\<lambda>h'. free h' (hd_struct r)))"

section \<open>Operations under the lock\<close>

text \<open>\<open>buffer_push\<close>: the loop test, and the code after the loop.\<close>

definition push_must_wait :: "'v ring_buffer \<Rightarrow> bool" where
  "push_must_wait rb \<longleftrightarrow> rb_count rb = rb_capacity rb \<and> \<not> rb_shutdown rb"

definition push_body :: "'v ring_buffer \<Rightarrow> 'v \<Rightarrow> ub + ('v ring_buffer \<times> bool)" where
  "push_body rb item =
     (if rb_shutdown rb then Inr (rb, False)
      else
        sum_bind (arr_write (rb_data rb) (rb_head rb) item) (\<lambda>d.
        sum_bind (sum_bind (c_add (rb_head rb) 1) (\<lambda>n. c_mod n (rb_capacity rb))) (\<lambda>hd'.
        sum_bind (c_add (rb_count rb) 1) (\<lambda>cnt.
          Inr (rb\<lparr>rb_data := d, rb_head := hd', rb_count := cnt\<rparr>, True)))))"

definition buffer_push :: "'v ring_buffer \<Rightarrow> 'v \<Rightarrow> ub + ('v ring_buffer \<times> bool) call" where
  "buffer_push rb item =
     (if push_must_wait rb then Inr Blocks
      else sum_bind (push_body rb item) (\<lambda>r. Inr (Returns r)))"

text \<open>\<open>buffer_pop\<close>: \<open>None\<close> is the result \<open>false\<close>, which leaves \<open>*item\<close> as it was.\<close>

definition pop_must_wait :: "'v ring_buffer \<Rightarrow> bool" where
  "pop_must_wait rb \<longleftrightarrow> rb_count rb = 0 \<and> \<not> rb_shutdown rb"

definition pop_body :: "'v ring_buffer \<Rightarrow> ub + ('v ring_buffer \<times> 'v option)" where
  "pop_body rb =
     (if rb_shutdown rb \<and> rb_count rb = 0 then Inr (rb, None)
      else
        sum_bind (arr_read (rb_data rb) (rb_tail rb)) (\<lambda>item.
        sum_bind (sum_bind (c_add (rb_tail rb) 1) (\<lambda>n. c_mod n (rb_capacity rb))) (\<lambda>tl'.
        sum_bind (c_sub (rb_count rb) 1) (\<lambda>cnt.
          Inr (rb\<lparr>rb_tail := tl', rb_count := cnt\<rparr>, Some item)))))"

definition buffer_pop :: "'v ring_buffer \<Rightarrow> ub + ('v ring_buffer \<times> 'v option) call" where
  "buffer_pop rb =
     (if pop_must_wait rb then Inr Blocks
      else sum_bind (pop_body rb) (\<lambda>r. Inr (Returns r)))"

definition buffer_signal_shutdown :: "'v ring_buffer \<Rightarrow> 'v ring_buffer" where
  "buffer_signal_shutdown rb = rb\<lparr>rb_shutdown := True\<rparr>"

definition buffer_is_shutdown :: "'v ring_buffer \<Rightarrow> bool" where
  "buffer_is_shutdown rb = rb_shutdown rb"

section \<open>Refusals\<close>

lemma push_body_rejected: "push_body rb v = Inr (r, False) \<Longrightarrow> r = rb"
  by (auto simp: push_body_def sum_bind_eq_Inr split: if_splits)

lemma pop_body_drained: "pop_body rb = Inr (r, None) \<Longrightarrow> r = rb"
  by (auto simp: pop_body_def sum_bind_eq_Inr split: if_splits)

section \<open>Facts about slots\<close>

lemma length_rb_contents [simp]: "length (rb_contents rb) = nat (rb_count rb)"
  by (simp add: rb_contents_def)

lemma rb_slot_less: "0 < rb_capacity rb \<Longrightarrow> rb_slot rb i < nat (rb_capacity rb)"
  by (simp add: rb_slot_def)

lemma rb_slot_inj:
  "i < nat (rb_capacity rb) \<Longrightarrow> j < nat (rb_capacity rb) \<Longrightarrow>
   rb_slot rb i = rb_slot rb j \<longleftrightarrow> i = j"
  by (simp add: rb_slot_def circ)

lemma rb_slot_0: "rb_inv rb \<Longrightarrow> 0 < rb_capacity rb \<Longrightarrow> rb_slot rb 0 = nat (rb_tail rb)"
  by (simp add: rb_inv_def rb_slot_def nat_less_eq_zless)

text \<open>The C expression \<open>(i + 1) % capacity\<close> is the next slot.\<close>

lemma c_next_slot:
  assumes "rb_inv rb" "0 < rb_capacity rb"
  shows "sum_bind (c_add (int (rb_slot rb i)) 1) (\<lambda>n. c_mod n (rb_capacity rb))
         = Inr (int (rb_slot rb (Suc i)))"
proof -
  let ?s = "int (rb_slot rb i)"
  from rb_slot_less [OF assms(2), of i] assms have "?s < rb_capacity rb" "rb_capacity rb \<le> INT_MAX"
    by (auto simp: rb_inv_def)
  then have "c_int_ok (?s + 1)" by (intro c_int_okI) auto
  moreover have "(?s + 1) mod rb_capacity rb = int (rb_slot rb (Suc i))"
    using assms(2) by (simp add: rb_slot_def zmod_int mod_Suc_eq mod_simps ac_simps)
  ultimately show ?thesis using assms(2) by (simp add: c_int)
qed

section \<open>The effect of each operation\<close>

definition push_result :: "'v ring_buffer \<Rightarrow> 'v \<Rightarrow> 'v ring_buffer" where
  "push_result rb v =
     rb\<lparr>rb_data := (rb_data rb)[rb_slot rb (nat (rb_count rb)) := Some v],
        rb_head := int (rb_slot rb (Suc (nat (rb_count rb)))),
        rb_count := rb_count rb + 1\<rparr>"

definition pop_result :: "'v ring_buffer \<Rightarrow> 'v ring_buffer" where
  "pop_result rb = rb\<lparr>rb_tail := int (rb_slot rb 1), rb_count := rb_count rb - 1\<rparr>"

lemma push_body_room:
  assumes "rb_inv rb" "\<not> rb_shutdown rb" "rb_count rb < rb_capacity rb"
  shows "push_body rb v = Inr (push_result rb v, True)"
proof -
  have cap: "0 < rb_capacity rb" using assms by (auto simp: rb_inv_def)
  have hd: "rb_head rb = int (rb_slot rb (nat (rb_count rb)))"
    and len: "length (rb_data rb) = nat (rb_capacity rb)"
    using assms(1) by (auto simp: rb_inv_def)
  have "c_int_ok (rb_count rb + 1)" using assms by (intro c_int_okI) (auto simp: rb_inv_def)
  then show ?thesis
    using assms(2) cap rb_slot_less [OF cap, of "nat (rb_count rb)"]
    by (simp add: push_body_def push_result_def hd len arr_write_def c_next_slot [OF assms(1) cap]
        c_int)
qed

lemma push_result_frame [simp]:
  "rb_capacity (push_result rb v) = rb_capacity rb"
  "rb_shutdown (push_result rb v) = rb_shutdown rb"
  "rb_count (push_result rb v) = rb_count rb + 1"
  "rb_tail (push_result rb v) = rb_tail rb"
  "rb_slot (push_result rb v) i = rb_slot rb i"
  by (simp_all add: push_result_def rb_slot_def)

lemma push_result_data:
  assumes "rb_inv rb" "rb_count rb < rb_capacity rb" "i \<le> nat (rb_count rb)"
  shows "rb_data (push_result rb v) ! rb_slot rb i =
     (if i = nat (rb_count rb) then Some v else rb_data rb ! rb_slot rb i)"
proof -
  have cap: "0 < rb_capacity rb" "nat (rb_count rb) < nat (rb_capacity rb)"
    using assms by (auto simp: rb_inv_def)
  have len: "length (rb_data rb) = nat (rb_capacity rb)" using assms by (simp add: rb_inv_def)
  show ?thesis
    using rb_slot_less [OF cap(1)] rb_slot_inj [of i rb "nat (rb_count rb)"] cap assms(3) len
    by (auto simp: push_result_def nth_list_update)
qed

lemma push_result_inv:
  assumes "rb_inv rb" "rb_count rb < rb_capacity rb"
  shows "rb_inv (push_result rb v)"
  using assms push_result_data [OF assms, of _ v]
  by (auto simp: rb_inv_def less_Suc_eq nat_add_distrib)
    (simp_all add: push_result_def nat_add_distrib)

lemma push_result_contents:
  assumes "rb_inv rb" "rb_count rb < rb_capacity rb"
  shows "rb_contents (push_result rb v) = rb_contents rb @ [v]"
proof -
  have "nat (rb_count rb + 1) = Suc (nat (rb_count rb))"
    using assms(1) by (simp add: rb_inv_def nat_add_distrib)
  then show ?thesis
    using push_result_data [OF assms, of _ v] by (simp add: rb_contents_def)
qed

lemma pop_body_item:
  assumes "rb_inv rb" "0 < rb_count rb"
  shows "pop_body rb = Inr (pop_result rb, Some (hd (rb_contents rb)))"
proof -
  have cap: "0 < rb_capacity rb" using assms by (auto simp: rb_inv_def)
  have len: "length (rb_data rb) = nat (rb_capacity rb)"
    and tl: "rb_tail rb = int (rb_slot rb 0)"
    using assms cap by (auto simp: rb_inv_def rb_slot_def)
  have "rb_data rb ! rb_slot rb 0 \<noteq> None"
    using assms by (simp add: rb_inv_def del: not_None_eq)
  then obtain v where v: "rb_data rb ! rb_slot rb 0 = Some v" by auto
  then have hd: "hd (rb_contents rb) = v"
    using assms by (simp add: rb_contents_def hd_map upt_conv_Cons)
  have read: "arr_read (rb_data rb) (int (rb_slot rb 0)) = Inr v"
    using v len cap rb_slot_less [OF cap, of 0] by (simp add: arr_read_def)
  have "c_int_ok (rb_count rb - 1)" using assms by (intro c_int_okI) (auto simp: rb_inv_def)
  then show ?thesis
    using assms(2) c_next_slot [OF assms(1) cap, of 0]
    by (simp add: pop_body_def pop_result_def hd read tl c_int del: of_nat_mod) 
qed

lemma pop_result_frame [simp]:
  "rb_capacity (pop_result rb) = rb_capacity rb"
  "rb_shutdown (pop_result rb) = rb_shutdown rb"
  "rb_count (pop_result rb) = rb_count rb - 1"
  "rb_data (pop_result rb) = rb_data rb"
  "rb_head (pop_result rb) = rb_head rb"
  by (simp_all add: pop_result_def)

lemma pop_result_slot: "rb_slot (pop_result rb) i = rb_slot rb (Suc i)"
  by (simp add: pop_result_def rb_slot_def mod_simps)

lemma pop_result_inv:
  assumes "rb_inv rb" "0 < rb_count rb"
  shows "rb_inv (pop_result rb)"
proof -
  have cap: "0 < rb_capacity rb" using assms by (auto simp: rb_inv_def)
  have n: "nat (rb_count rb) = Suc (nat (rb_count rb - 1))" using assms by simp
  show ?thesis
    using assms rb_slot_less [OF cap, of 1]
    by (auto simp: rb_inv_def pop_result_slot n) (auto simp: pop_result_def)
qed

lemma pop_result_contents:
  assumes "rb_inv rb" "0 < rb_count rb"
  shows "rb_contents (pop_result rb) = tl (rb_contents rb)"
proof -
  have n: "nat (rb_count rb) = Suc (nat (rb_count rb - 1))" using assms by simp
  show ?thesis
    by (simp add: rb_contents_def pop_result_slot n map_tl [symmetric] del: upt_Suc)
      (simp add: map_Suc_upt [symmetric] o_def del: upt_Suc)
qed

section \<open>Refinement of the bounded queue\<close>

definition rb_abs :: "'v ring_buffer \<Rightarrow> 'v bounded_queue" where
  "rb_abs rb = \<lparr>bq_items = rb_contents rb, bq_bound = nat (rb_capacity rb),
                bq_closed = rb_shutdown rb\<rparr>"

lemma rb_abs_sel [simp]:
  "bq_items (rb_abs rb) = rb_contents rb"
  "bq_bound (rb_abs rb) = nat (rb_capacity rb)"
  "bq_closed (rb_abs rb) = rb_shutdown rb"
  by (simp_all add: rb_abs_def)

lemma rb_full_iff: "rb_inv rb \<Longrightarrow> length (rb_contents rb) = nat (rb_capacity rb) \<longleftrightarrow> rb_count rb = rb_capacity rb"
  by (auto simp: rb_inv_def)

lemma rb_empty_iff: "rb_inv rb \<Longrightarrow> rb_contents rb = [] \<longleftrightarrow> rb_count rb = 0"
  by (auto simp: rb_inv_def simp flip: length_0_conv)

lemma buffer_push_refines:
  assumes "rb_inv rb"
  shows "\<exists>c. buffer_push rb v = Inr c \<and> map_call (map_prod rb_abs id) c = bq_push (rb_abs rb) v \<and>
     (\<forall>rb' ok. c = Returns (rb', ok) \<longrightarrow> rb_inv rb')"
proof -
  consider "rb_shutdown rb" | "push_must_wait rb" | "\<not> rb_shutdown rb" "rb_count rb < rb_capacity rb"
    using assms by (force simp: rb_inv_def push_must_wait_def)
  then show ?thesis
  proof cases
    case 1
    with assms show ?thesis
      by (auto simp: buffer_push_def push_must_wait_def push_body_def bq_push_def)
  next
    case 2
    with assms show ?thesis
      by (auto simp: buffer_push_def push_must_wait_def bq_push_def)
  next
    case 3
    with assms have "nat (rb_count rb) \<noteq> nat (rb_capacity rb)" by (auto simp: rb_inv_def)
    with 3 assms show ?thesis
      by (simp add: buffer_push_def push_must_wait_def push_body_room push_result_inv bq_push_def
          push_result_contents rb_abs_def)
  qed
qed

lemma buffer_pop_refines:
  assumes "rb_inv rb"
  shows "\<exists>c. buffer_pop rb = Inr c \<and> map_call (map_prod rb_abs id) c = bq_pop (rb_abs rb) \<and>
     (\<forall>rb' r. c = Returns (rb', r) \<longrightarrow> rb_inv rb')"
proof (cases "rb_count rb = 0")
  case True
  with assms have "rb_contents rb = []" by (simp add: rb_empty_iff)
  with True assms show ?thesis
    by (auto simp: buffer_pop_def pop_must_wait_def pop_body_def bq_pop_def)
next
  case False
  with assms have pos: "0 < rb_count rb" by (simp add: rb_inv_def)
  with assms obtain v vs where "rb_contents rb = v # vs"
    using rb_empty_iff [OF assms] by (cases "rb_contents rb") auto
  with pos assms show ?thesis
    by (simp add: buffer_pop_def pop_must_wait_def pop_body_item pop_result_inv bq_pop_def
        pop_result_contents rb_abs_def)
qed

lemma buffer_signal_shutdown_refines:
  "rb_inv rb \<Longrightarrow> rb_inv (buffer_signal_shutdown rb) \<and>
     rb_abs (buffer_signal_shutdown rb) = bq_close (rb_abs rb)"
  by (simp add: rb_inv_def buffer_signal_shutdown_def rb_abs_def bq_close_def rb_contents_def
      rb_slot_def)

lemma rb_contents_bound: "rb_inv rb \<Longrightarrow> length (rb_contents rb) \<le> nat (rb_capacity rb)"
  by (simp add: rb_inv_def nat_le_iff)

interpretation rbq: fifo_queue buffer_push buffer_pop buffer_signal_shutdown rb_abs rb_inv
  by (unfold_locales; (rule buffer_push_refines buffer_pop_refines
      buffer_signal_shutdown_refines; assumption)?) (simp add: rb_contents_bound del: length_rb_contents)

section \<open>Creation and destruction\<close>

lemma data_bytes_mod: "int (data_bytes capacity) = (120 * capacity) mod 2 ^ 64"
proof -
  have "uint (word_of_int capacity :: u64) = capacity mod 2 ^ 64"
    by (simp add: uint_word_of_int)
  then show ?thesis
    by (simp add: data_bytes_def sizeof_VehicleData uint_word_ariths mod_mult_right_eq)
qed

lemma data_bytes_nonneg:
  assumes "0 \<le> capacity" "capacity \<le> INT_MAX"
  shows "data_bytes capacity = sizeof_VehicleData * nat capacity"
proof -
  from assms have "int (data_bytes capacity) = int (sizeof_VehicleData * nat capacity)"
    by (simp add: data_bytes_mod sizeof_VehicleData INT_MAX_def)
  then show ?thesis by (simp only: of_nat_eq_iff)
qed

lemma data_bytes_negative:
  assumes "capacity < 0" "INT_MIN \<le> capacity"
  shows "data_bytes capacity > 2 ^ 63"
proof -
  let ?b = "2 ^ 64 + 120 * capacity"
  from assms have range: "0 \<le> ?b" "?b < 2 ^ 64" "2 ^ 63 < ?b" by (simp_all add: INT_MIN_def)
  then have "(120 * capacity) mod 2 ^ 64 = ?b"
    by (metis mod_add_self1 mod_pos_pos_trivial)
  then have "int (data_bytes capacity) = ?b" by (simp only: data_bytes_mod)
  with range(3) show ?thesis by simp
qed

lemma fresh_ring_inv:
  assumes "0 \<le> capacity" "capacity \<le> INT_MAX"
  shows "rb_inv (fresh_ring capacity)"
  using assms
  by (simp add: fresh_ring_def data_bytes_nonneg rb_inv_def rb_slot_def sizeof_VehicleData)

lemma fresh_ring_abs [simp]:
  "rb_abs (fresh_ring capacity) = \<lparr>bq_items = [], bq_bound = nat capacity, bq_closed = False\<rparr>"
  by (simp add: rb_abs_def fresh_ring_def rb_contents_def)

lemma malloc_cases:
  assumes "heap_ok h"
  obtains (refused) "malloc h n = (h\<lparr>next_id := Suc (next_id h)\<rparr>, None)" "refuses h (next_id h) n"
    | (granted) "malloc h n = (h\<lparr>next_id := Suc (next_id h),
          blocks := (blocks h)(next_id h \<mapsto> replicate n None)\<rparr>, Some (next_id h))"
        "\<not> refuses h (next_id h) n" "blocks h (next_id h) = None"
  using heap_ok_fresh [OF assms, of "next_id h"] by (auto simp: malloc_def Let_def split: if_splits)

lemma buffer_init_balanced:
  assumes "heap_ok h" "c_int_ok capacity" "\<forall>i n. 2 ^ 63 \<le> n \<longrightarrow> refuses h i n"
  shows "\<exists>h' r. buffer_init rb_size h capacity = Inr (h', r) \<and>
     (case r of
        None \<Rightarrow> blocks h' = blocks h
      | Some q \<Rightarrow> 0 \<le> capacity \<and> rb_inv (hd_ring q) \<and>
          rb_abs (hd_ring q) = \<lparr>bq_items = [], bq_bound = nat capacity, bq_closed = False\<rparr> \<and>
          (\<exists>h''. buffer_destroy h' (Some q) = Inr h'' \<and> blocks h'' = blocks h))"
  using assms(1)
proof (cases rule: malloc_cases [where n = rb_size])
  case refused
  then show ?thesis by (simp add: buffer_init_def)
next
  case granted
  let ?h1 = "h\<lparr>next_id := Suc (next_id h), blocks := (blocks h)(next_id h \<mapsto> replicate rb_size None)\<rparr>"
  have ok1: "heap_ok ?h1" using malloc_heap_ok [OF assms(1) granted(1)] .
  have two: "blocks ?h1 (Suc (next_id h)) = None" using heap_ok_fresh [OF ok1] by simp
  show ?thesis
    using ok1
  proof (cases rule: malloc_cases [where n = "data_bytes capacity"])
    case refused
    with granted show ?thesis by (simp add: buffer_init_def free_def fun_upd_idem)
  next
    case g2: granted
    have "0 \<le> capacity"
      using data_bytes_negative [of capacity] assms(2,3) g2(2) by (fastforce simp: c_int_ok_def)
    then have "rb_inv (fresh_ring capacity :: 'a ring_buffer)"
      using assms(2) by (intro fresh_ring_inv) (simp_all add: c_int_ok_def)
    with granted g2 two \<open>0 \<le> capacity\<close> show ?thesis
      by (simp add: buffer_init_def buffer_destroy_def free_def fun_upd_idem fun_upd_twist)
  qed
qed

lemma pred_call_Returns: "pred_call (\<lambda>(q, r). P q) c \<longleftrightarrow> (\<forall>q r. c = Returns (q, r) \<longrightarrow> P q)"
  by (cases c) auto

section \<open>Properties\<close>

text \<open>
  C18: Every call of the ring buffer refines the bounded queue on every branch: it waits,
  is rejected, stores at the back, takes from the front or reports a drained queue exactly
  when the abstract queue does, without undefined behaviour, and keeps the ring invariant.
\<close>

theorem ring_refines_queue:
  assumes "rb_inv rb"
  shows "(\<exists>c. buffer_push rb v = Inr c \<and> map_call (map_prod rb_abs id) c = bq_push (rb_abs rb) v \<and>
           pred_call (\<lambda>(rb', ok). rb_inv rb') c) \<and>
         (\<exists>c. buffer_pop rb = Inr c \<and> map_call (map_prod rb_abs id) c = bq_pop (rb_abs rb) \<and>
           pred_call (\<lambda>(rb', r). rb_inv rb') c) \<and>
         rb_inv (buffer_signal_shutdown rb) \<and>
         rb_abs (buffer_signal_shutdown rb) = bq_close (rb_abs rb)"
  using buffer_push_refines [OF assms, of v] buffer_pop_refines [OF assms]
    buffer_signal_shutdown_refines [OF assms]
  by (auto simp: pred_call_Returns)

definition one_ring :: "nat ring_buffer" where
  "one_ring = push_result (fresh_ring 2) 7"

lemma one_ring_inv: "rb_inv one_ring"
  unfolding one_ring_def
  by (rule push_result_inv [OF fresh_ring_inv]) (simp_all add: INT_MAX_def fresh_ring_def)

theorem ring_refines_queue_witness:
  "(\<exists>c. buffer_push one_ring 8 = Inr c \<and> map_call (map_prod rb_abs id) c = bq_push (rb_abs one_ring) 8 \<and>
           pred_call (\<lambda>(rb', ok). rb_inv rb') c) \<and>
         (\<exists>c. buffer_pop one_ring = Inr c \<and> map_call (map_prod rb_abs id) c = bq_pop (rb_abs one_ring) \<and>
           pred_call (\<lambda>(rb', r). rb_inv rb') c) \<and>
         rb_inv (buffer_signal_shutdown one_ring) \<and>
         rb_abs (buffer_signal_shutdown one_ring) = bq_close (rb_abs one_ring)"
  by (rule ring_refines_queue [OF one_ring_inv])

text \<open>
  C25: \<open>buffer_init\<close> either returns NULL and leaves no block behind, on each of its two
  out-of-memory paths, or returns an empty open queue of the requested capacity whose
  destruction releases exactly what was allocated. A negative capacity wraps to a request
  that an allocator refusing more than PTRDIFF_MAX bytes does not grant.
\<close>

theorem buffer_init_destroy:
  assumes "heap_ok h" "c_int_ok capacity" "\<forall>i n. 2 ^ 63 \<le> n \<longrightarrow> refuses h i n"
  shows "\<exists>h' r. buffer_init rb_size h capacity = Inr (h', r) \<and>
     (case r of
        None \<Rightarrow> blocks h' = blocks h
      | Some q \<Rightarrow> 0 \<le> capacity \<and> rb_inv (hd_ring q) \<and>
          rb_abs (hd_ring q) = \<lparr>bq_items = [], bq_bound = nat capacity, bq_closed = False\<rparr> \<and>
          (\<exists>h''. buffer_destroy h' (Some q) = Inr h'' \<and> blocks h'' = blocks h))"
  by (rule buffer_init_balanced [OF assms])

definition sample_heap :: heap where
  "sample_heap = \<lparr>next_id = 0, blocks = Map.empty, refuses = (\<lambda>i n. 2 ^ 63 \<le> n)\<rparr>"

theorem buffer_init_destroy_witness:
  "\<exists>h' r. (buffer_init 200 sample_heap 1024 :: ub + (heap \<times> nat rb_handle option)) = Inr (h', r) \<and>
     (case r of
        None \<Rightarrow> blocks h' = blocks sample_heap
      | Some q \<Rightarrow> 0 \<le> (1024 :: int) \<and> rb_inv (hd_ring q) \<and>
          rb_abs (hd_ring q) = \<lparr>bq_items = [], bq_bound = nat 1024, bq_closed = False\<rparr> \<and>
          (\<exists>h''. buffer_destroy h' (Some q) = Inr h'' \<and> blocks h'' = blocks sample_heap))"
  by (rule buffer_init_destroy)
    (simp_all add: sample_heap_def heap_ok_def c_int_ok_def INT_MAX_def INT_MIN_def)

end
