(* ===== verification/Ring_Threads.thy ===== *)
theory Ring_Threads
  imports Ring_Buffer
begin

text \<open>
  The ring buffer under threads: any number of threads call the operations of
  \<open>src/ingestion/buffer.c\<close>, interleaved at every lock, loop test, critical body, signal,
  broadcast and unlock. The mutex is its owner; a thread in \<open>pthread_cond_wait\<close> holds
  nothing and sits in the wait set of its condition variable until a signal, a broadcast or
  a spurious wake-up sends it back to acquire the mutex, after which it tests its loop
  condition again.
\<close>

section \<open>Program points and system state\<close>

type_synonym tid = nat

datatype 'v pc =
    Idle
  | Push_Lock 'v | Push_Test 'v | Push_Waiting 'v | Push_Body 'v | Push_Signal
  | Push_Unlock bool
  | Pop_Lock | Pop_Test | Pop_Waiting | Pop_Body | Pop_Signal 'v
  | Pop_Unlock "'v option"
  | Shut_Lock | Shut_Set | Shut_Wake_Pop | Shut_Wake_Push | Shut_Unlock
  | Query_Lock | Query_Read | Query_Unlock bool

record 'v sys =
  ring :: "'v ring_buffer"
  owner :: "tid option"
  pcs :: "tid \<Rightarrow> 'v pc"
  fault :: "ub option"

text \<open>The point a thread reaches when it acquires the mutex, if it is waiting to.\<close>

fun after_lock :: "'v pc \<Rightarrow> 'v pc option" where
  "after_lock (Push_Lock v) = Some (Push_Test v)"
| "after_lock Pop_Lock = Some Pop_Test"
| "after_lock Shut_Lock = Some Shut_Set"
| "after_lock Query_Lock = Some Query_Read"
| "after_lock _ = None"

fun at_unlock :: "'v pc \<Rightarrow> bool" where
  "at_unlock (Push_Unlock _) = True"
| "at_unlock (Pop_Unlock _) = True"
| "at_unlock Shut_Unlock = True"
| "at_unlock (Query_Unlock _) = True"
| "at_unlock _ = False"

text \<open>The points between a lock and its unlock.\<close>

fun in_critical :: "'v pc \<Rightarrow> bool" where
  "in_critical (Push_Test _) = True"
| "in_critical (Push_Body _) = True"
| "in_critical Push_Signal = True"
| "in_critical Pop_Test = True"
| "in_critical Pop_Body = True"
| "in_critical (Pop_Signal _) = True"
| "in_critical Shut_Set = True"
| "in_critical Shut_Wake_Pop = True"
| "in_critical Shut_Wake_Push = True"
| "in_critical Query_Read = True"
| "in_critical p = at_unlock p"

fun wake_pusher :: "'v pc \<Rightarrow> 'v pc" where
  "wake_pusher (Push_Waiting v) = Push_Lock v"
| "wake_pusher p = p"

fun wake_popper :: "'v pc \<Rightarrow> 'v pc" where
  "wake_popper Pop_Waiting = Pop_Lock"
| "wake_popper p = p"

fun push_waiting :: "'v pc \<Rightarrow> bool" where
  "push_waiting (Push_Waiting _) = True"
| "push_waiting _ = False"

fun pop_waiting :: "'v pc \<Rightarrow> bool" where
  "pop_waiting Pop_Waiting = True"
| "pop_waiting _ = False"

abbreviation goto :: "'v sys \<Rightarrow> tid \<Rightarrow> 'v pc \<Rightarrow> 'v sys" where
  "goto s t p \<equiv> s\<lparr>pcs := (pcs s)(t := p)\<rparr>"

section \<open>Steps of the program\<close>

text \<open>
  \<open>thread_step s t ev s'\<close>: thread \<open>t\<close> executes its next action; \<open>ev\<close> is what the action
  does to the queue, if anything. \<open>pthread_cond_signal\<close> wakes some waiting thread if there
  is one.
\<close>

inductive thread_step :: "'v sys \<Rightarrow> tid \<Rightarrow> 'v queue_event option \<Rightarrow> 'v sys \<Rightarrow> bool" where
  lock: "owner s = None \<Longrightarrow> after_lock (pcs s t) = Some p \<Longrightarrow>
    thread_step s t None (goto s t p\<lparr>owner := Some t\<rparr>)"
| unlock: "at_unlock (pcs s t) \<Longrightarrow>
    thread_step s t None (goto s t Idle\<lparr>owner := None\<rparr>)"
| push_wait: "pcs s t = Push_Test v \<Longrightarrow> push_must_wait (ring s) \<Longrightarrow>
    thread_step s t (Some Waits) (goto s t (Push_Waiting v)\<lparr>owner := None\<rparr>)"
| push_pass: "pcs s t = Push_Test v \<Longrightarrow> \<not> push_must_wait (ring s) \<Longrightarrow>
    thread_step s t None (goto s t (Push_Body v))"
| push_store: "pcs s t = Push_Body v \<Longrightarrow> push_body (ring s) v = Inr (r, True) \<Longrightarrow>
    thread_step s t (Some (Pushed v)) (goto s t Push_Signal\<lparr>ring := r\<rparr>)"
| push_reject: "pcs s t = Push_Body v \<Longrightarrow> push_body (ring s) v = Inr (r, False) \<Longrightarrow>
    thread_step s t (Some Rejected) (goto s t (Push_Unlock False)\<lparr>ring := r\<rparr>)"
| push_fault: "pcs s t = Push_Body v \<Longrightarrow> push_body (ring s) v = Inl e \<Longrightarrow>
    thread_step s t None (s\<lparr>fault := Some e\<rparr>)"
| push_signal: "pcs s t = Push_Signal \<Longrightarrow> pop_waiting (pcs s u) \<Longrightarrow>
    thread_step s t None (goto (goto s u Pop_Lock) t (Push_Unlock True))"
| push_signal_none: "pcs s t = Push_Signal \<Longrightarrow> \<forall>u. \<not> pop_waiting (pcs s u) \<Longrightarrow>
    thread_step s t None (goto s t (Push_Unlock True))"
| pop_wait: "pcs s t = Pop_Test \<Longrightarrow> pop_must_wait (ring s) \<Longrightarrow>
    thread_step s t (Some Waits) (goto s t Pop_Waiting\<lparr>owner := None\<rparr>)"
| pop_pass: "pcs s t = Pop_Test \<Longrightarrow> \<not> pop_must_wait (ring s) \<Longrightarrow>
    thread_step s t None (goto s t Pop_Body)"
| pop_take: "pcs s t = Pop_Body \<Longrightarrow> pop_body (ring s) = Inr (r, Some v) \<Longrightarrow>
    thread_step s t (Some (Popped v)) (goto s t (Pop_Signal v)\<lparr>ring := r\<rparr>)"
| pop_drained: "pcs s t = Pop_Body \<Longrightarrow> pop_body (ring s) = Inr (r, None) \<Longrightarrow>
    thread_step s t (Some Drained) (goto s t (Pop_Unlock None)\<lparr>ring := r\<rparr>)"
| pop_fault: "pcs s t = Pop_Body \<Longrightarrow> pop_body (ring s) = Inl e \<Longrightarrow>
    thread_step s t None (s\<lparr>fault := Some e\<rparr>)"
| pop_signal: "pcs s t = Pop_Signal v \<Longrightarrow> pcs s u = Push_Waiting w \<Longrightarrow>
    thread_step s t None (goto (goto s u (Push_Lock w)) t (Pop_Unlock (Some v)))"
| pop_signal_none: "pcs s t = Pop_Signal v \<Longrightarrow> \<forall>u. \<not> push_waiting (pcs s u) \<Longrightarrow>
    thread_step s t None (goto s t (Pop_Unlock (Some v)))"
| shut_set: "pcs s t = Shut_Set \<Longrightarrow>
    thread_step s t (Some Closes)
      (goto s t Shut_Wake_Pop\<lparr>ring := buffer_signal_shutdown (ring s)\<rparr>)"
| shut_wake_pop: "pcs s t = Shut_Wake_Pop \<Longrightarrow>
    thread_step s t None (s\<lparr>pcs := (wake_popper \<circ> pcs s)(t := Shut_Wake_Push)\<rparr>)"
| shut_wake_push: "pcs s t = Shut_Wake_Push \<Longrightarrow>
    thread_step s t None (s\<lparr>pcs := (wake_pusher \<circ> pcs s)(t := Shut_Unlock)\<rparr>)"
| query_read: "pcs s t = Query_Read \<Longrightarrow>
    thread_step s t None (goto s t (Query_Unlock (buffer_is_shutdown (ring s))))"

text \<open>Steps of the environment: calls, and spurious wake-ups.\<close>

inductive env_step :: "'v sys \<Rightarrow> tid \<Rightarrow> 'v sys \<Rightarrow> bool" where
  call: "pcs s t = Idle \<Longrightarrow> p \<in> {Push_Lock v, Pop_Lock, Shut_Lock, Query_Lock} \<Longrightarrow>
    env_step s t (goto s t p)"
| spurious_push: "env_step s t (goto s t (wake_pusher (pcs s t)))"
| spurious_pop: "env_step s t (goto s t (wake_popper (pcs s t)))"

inductive_cases thread_stepE: "thread_step s t ev s'"
inductive_cases env_stepE: "env_step s t s'"

text \<open>A run from a state, with the events of its steps in order.\<close>

inductive sys_run :: "'v sys \<Rightarrow> 'v queue_event list \<Rightarrow> 'v sys \<Rightarrow> bool" for s0 where
  start: "sys_run s0 [] s0"
| thread: "sys_run s0 evs s \<Longrightarrow> thread_step s t ev s' \<Longrightarrow>
    sys_run s0 (evs @ (case ev of None \<Rightarrow> [] | Some e \<Rightarrow> [e])) s'"
| env: "sys_run s0 evs s \<Longrightarrow> env_step s t s' \<Longrightarrow> sys_run s0 evs s'"

definition initial_sys :: "int \<Rightarrow> 'v sys" where
  "initial_sys capacity =
     \<lparr>ring = fresh_ring capacity, owner = None, pcs = (\<lambda>_. Idle), fault = None\<rparr>"

end
