(* ===== verification/Ring_Monitor.thy ===== *)
theory Ring_Monitor
  imports Ring_Threads
begin

text \<open>
  Correctness of the threaded ring buffer: the invariant of its states (mutual exclusion,
  ring invariant, no lost wake-up), progress, and linearisation: the actions of any
  interleaving are a sequence of atomic calls of the operations of \<open>Ring_Buffer\<close>.
\<close>

section \<open>The invariant\<close>

subsection \<open>Counting threads at a set of program points\<close>

definition threads_at :: "('v pc \<Rightarrow> bool) \<Rightarrow> (tid \<Rightarrow> 'v pc) \<Rightarrow> tid set" where
  "threads_at P f = {t. P (f t)}"

definition finitely_busy :: "(tid \<Rightarrow> 'v pc) \<Rightarrow> bool" where
  "finitely_busy f \<longleftrightarrow> finite {t. f t \<noteq> Idle}"

lemma finitely_busy_upd [simp]: "finitely_busy f \<Longrightarrow> finitely_busy (f(t := p))"
proof -
  assume "finitely_busy f"
  moreover have "{u. (f(t := p)) u \<noteq> Idle} \<subseteq> insert t {u. f u \<noteq> Idle}" by auto
  ultimately show ?thesis
    unfolding finitely_busy_def by (meson finite.insertI finite_subset)
qed

lemma finitely_busy_comp:
  "finitely_busy f \<Longrightarrow> g Idle = Idle \<Longrightarrow> finitely_busy (g \<circ> f)"
  unfolding finitely_busy_def by (rule finite_subset [rotated]) auto

lemma finite_threads_at:
  assumes "finitely_busy f" "\<not> P Idle"
  shows "finite (threads_at P f)"
proof -
  have "threads_at P f \<subseteq> {t. f t \<noteq> Idle}" using assms(2) by (auto simp: threads_at_def)
  with assms(1) show ?thesis unfolding finitely_busy_def by (rule rev_finite_subset)
qed

lemma threads_at_upd:
  "threads_at P (f(t := p)) =
     (if P p then insert t (threads_at P f) else threads_at P f - {t})"
  by (auto simp: threads_at_def)

lemma card_threads_at_upd:
  assumes "finitely_busy f" "\<not> P Idle"
  shows "card (threads_at P (f(t := p))) + (if P (f t) then 1 else 0)
         = card (threads_at P f) + (if P p then 1 else 0)"
proof -
  note fin = finite_threads_at [of f P, OF assms]
  have t: "t \<in> threads_at P f \<longleftrightarrow> P (f t)" by (simp add: threads_at_def)
  show ?thesis
    using fin t card_Suc_Diff1 [OF fin, of t]
    by (auto simp: threads_at_upd card_insert_if insert_absorb)
qed

text \<open>Threads that will test their loop condition, or will signal, before they can sleep.\<close>

fun pop_pending :: "'v pc \<Rightarrow> bool" where
  "pop_pending Pop_Lock = True"
| "pop_pending Pop_Test = True"
| "pop_pending Pop_Body = True"
| "pop_pending Push_Signal = True"
| "pop_pending _ = False"

fun push_pending :: "'v pc \<Rightarrow> bool" where
  "push_pending (Push_Lock _) = True"
| "push_pending (Push_Test _) = True"
| "push_pending (Push_Body _) = True"
| "push_pending (Pop_Signal _) = True"
| "push_pending _ = False"

subsection \<open>Its parts\<close>

definition mutex_ok :: "(tid \<Rightarrow> 'v pc) \<Rightarrow> tid option \<Rightarrow> bool" where
  "mutex_ok f own \<longleftrightarrow> (\<forall>t. in_critical (f t) \<longleftrightarrow> own = Some t)"

definition ring_ok :: "'v sys \<Rightarrow> bool" where
  "ring_ok s \<longleftrightarrow> rb_inv (ring s) \<and> fault s = None \<and>
     (\<forall>t. (\<forall>v. pcs s t = Push_Body v \<longrightarrow> \<not> push_must_wait (ring s)) \<and>
          (pcs s t = Pop_Body \<longrightarrow> \<not> pop_must_wait (ring s)))"

text \<open>
  No lost wake-up, for one condition variable: while threads sleep on it (\<open>W\<close>), at least
  as many threads as there are units for them (\<open>n\<close>: values to take, or free slots to
  fill) are on their way to use or to signal one (\<open>P\<close>); and after shutdown a broadcast
  to them is still to come (\<open>S\<close>).
\<close>

definition wake_ok ::
  "('v pc \<Rightarrow> bool) \<Rightarrow> ('v pc \<Rightarrow> bool) \<Rightarrow> ('v pc \<Rightarrow> bool) \<Rightarrow> nat \<Rightarrow> bool \<Rightarrow> (tid \<Rightarrow> 'v pc) \<Rightarrow> bool"
where
  "wake_ok W P S n shut f \<longleftrightarrow>
     ((\<exists>u. W (f u)) \<longrightarrow> n \<le> card (threads_at P f) \<and> (shut \<longrightarrow> (\<exists>t. S (f t))))"

fun will_wake_pop :: "'v pc \<Rightarrow> bool" where
  "will_wake_pop Shut_Wake_Pop = True"
| "will_wake_pop _ = False"

fun will_wake_push :: "'v pc \<Rightarrow> bool" where
  "will_wake_push Shut_Wake_Pop = True"
| "will_wake_push Shut_Wake_Push = True"
| "will_wake_push _ = False"

abbreviation pop_wake :: "'v ring_buffer \<Rightarrow> (tid \<Rightarrow> 'v pc) \<Rightarrow> bool" where
  "pop_wake rb f \<equiv>
     wake_ok pop_waiting pop_pending will_wake_pop (nat (rb_count rb)) (rb_shutdown rb) f"

text \<open>After shutdown no slot is for a pusher, since every push is rejected.\<close>

definition open_slots :: "'v ring_buffer \<Rightarrow> nat" where
  "open_slots rb = (if rb_shutdown rb then 0 else nat (rb_capacity rb - rb_count rb))"

abbreviation push_wake :: "'v ring_buffer \<Rightarrow> (tid \<Rightarrow> 'v pc) \<Rightarrow> bool" where
  "push_wake rb f \<equiv>
     wake_ok push_waiting push_pending will_wake_push (open_slots rb) (rb_shutdown rb) f"

definition sys_inv :: "'v sys \<Rightarrow> bool" where
  "sys_inv s \<longleftrightarrow> finitely_busy (pcs s) \<and> mutex_ok (pcs s) (owner s) \<and> ring_ok s \<and>
     pop_wake (ring s) (pcs s) \<and> push_wake (ring s) (pcs s)"

subsection \<open>Each part is kept\<close>

lemma after_lock_props:
  "after_lock p = Some q \<Longrightarrow> \<not> in_critical p \<and> in_critical q \<and> \<not> at_unlock q \<and> p \<noteq> Idle"
  by (cases p) auto

lemma after_lock_body:
  "after_lock p = Some q \<Longrightarrow> \<not> pop_waiting q \<and> \<not> push_waiting q \<and>
     pop_pending p = pop_pending q \<and> push_pending p = push_pending q \<and>
     \<not> will_wake_pop p \<and> \<not> will_wake_push p"
  by (cases p) auto

lemma after_lock_not_body [simp]:
  "after_lock p \<noteq> Some Pop_Body" "after_lock p \<noteq> Some (Push_Body v)"
  by (cases p; simp)+

lemma at_unlock_props:
  "at_unlock p \<Longrightarrow> in_critical p \<and> \<not> pop_waiting p \<and> \<not> push_waiting p \<and>
     \<not> pop_pending p \<and> \<not> push_pending p \<and> 
     \<not> will_wake_pop p \<and> \<not> will_wake_push p"
  by (cases p) auto

lemma in_critical_wake [simp]:
  "in_critical (wake_pusher p) = in_critical p"
  "in_critical (wake_popper p) = in_critical p"
  by (cases p; simp)+

lemma wake_body [simp]:
  "wake_pusher p = Push_Body v \<longleftrightarrow> p = Push_Body v"
  "wake_popper p = Push_Body v \<longleftrightarrow> p = Push_Body v"
  "wake_pusher p = Pop_Body \<longleftrightarrow> p = Pop_Body"
  "wake_popper p = Pop_Body \<longleftrightarrow> p = Pop_Body"
  by (cases p; simp)+

lemma not_in_critical_waiting:
  "pop_waiting p \<Longrightarrow> \<not> in_critical p" "push_waiting p \<Longrightarrow> \<not> in_critical p"
  by (cases p; simp)+

lemma thread_step_busy: "thread_step s t ev s' \<Longrightarrow> finitely_busy (pcs s) \<Longrightarrow> finitely_busy (pcs s')"
  by (cases rule: thread_step.cases, assumption) (simp_all add: finitely_busy_comp)

lemma mutex_acquire: "mutex_ok f None \<Longrightarrow> in_critical p \<Longrightarrow> mutex_ok (f(t := p)) (Some t)"
  by (auto simp: mutex_ok_def)

lemma mutex_release:
  "mutex_ok f own \<Longrightarrow> in_critical (f t) \<Longrightarrow> \<not> in_critical p \<Longrightarrow> mutex_ok (f(t := p)) None"
  by (auto simp: mutex_ok_def)

lemma mutex_stay:
  "mutex_ok f own \<Longrightarrow> in_critical p = in_critical (f t) \<Longrightarrow> mutex_ok (f(t := p)) own"
  by (auto simp: mutex_ok_def)

lemma mutex_same:
  "mutex_ok f own \<Longrightarrow> \<forall>t. in_critical (g t) = in_critical (f t) \<Longrightarrow> mutex_ok g own"
  by (auto simp: mutex_ok_def)

lemma pop_waiting_iff: "pop_waiting p \<longleftrightarrow> p = Pop_Waiting"
  by (cases p) auto

lemma thread_step_mutex:
  assumes "thread_step s t ev s'" "mutex_ok (pcs s) (owner s)"
  shows "mutex_ok (pcs s') (owner s')"
  using assms
proof (cases rule: thread_step.cases)
  case (lock p)
  with assms(2) after_lock_props [OF lock(4)] show ?thesis by (auto intro: mutex_acquire)
next
  case unlock
  with assms(2) at_unlock_props [OF unlock(3)] show ?thesis by (auto intro: mutex_release)
next
  case (push_wait v)
  with assms(2) show ?thesis by (auto intro: mutex_release)
next
  case pop_wait
  with assms(2) show ?thesis by (auto intro: mutex_release)
qed (use assms(2) in \<open>auto simp: pop_waiting_iff intro!: mutex_stay
       intro: mutex_same [OF assms(2)]\<close>)

lemma mutex_unique:
  "mutex_ok f own \<Longrightarrow> in_critical (f t) \<Longrightarrow> in_critical (f u) \<Longrightarrow> u = t"
  by (auto simp: mutex_ok_def)

lemma push_body_cases:
  assumes "rb_inv rb" "\<not> push_must_wait rb"
  shows "push_body rb v = Inr (rb, False) \<and> rb_shutdown rb \<or>
    push_body rb v = Inr (push_result rb v, True) \<and> \<not> rb_shutdown rb \<and>
      rb_count rb < rb_capacity rb"
proof (cases "rb_shutdown rb")
  case True
  then show ?thesis by (simp add: push_body_def)
next
  case False
  with assms have "rb_count rb < rb_capacity rb" by (auto simp: rb_inv_def push_must_wait_def)
  with False assms show ?thesis by (simp add: push_body_room)
qed

lemma pop_body_cases:
  assumes "rb_inv rb" "\<not> pop_must_wait rb"
  shows "pop_body rb = Inr (rb, None) \<and> rb_shutdown rb \<and> rb_count rb = 0 \<or>
    pop_body rb = Inr (pop_result rb, Some (hd (rb_contents rb))) \<and> 0 < rb_count rb"
proof (cases "rb_count rb = 0")
  case True
  with assms have "rb_shutdown rb" by (simp add: pop_must_wait_def)
  with True show ?thesis by (simp add: pop_body_def)
next
  case False
  with assms have "0 < rb_count rb" by (simp add: rb_inv_def)
  with assms show ?thesis by (simp add: pop_body_item)
qed

lemma ring_okD:
  assumes "ring_ok s"
  shows "rb_inv (ring s)" "fault s = None"
    "pcs s t = Push_Body v \<Longrightarrow> \<not> push_must_wait (ring s)"
    "pcs s t = Pop_Body \<Longrightarrow> \<not> pop_must_wait (ring s)"
  using assms by (auto simp: ring_ok_def)

text \<open>A step that leaves the ring alone and sends nobody to a body keeps \<open>ring_ok\<close>.\<close>

lemma ring_ok_frame:
  assumes "ring_ok s" "ring s' = ring s" "fault s' = fault s"
    and "\<forall>u. (\<forall>v. pcs s' u = Push_Body v \<longrightarrow> pcs s u = Push_Body v \<or> \<not> push_must_wait (ring s)) \<and>
             (pcs s' u = Pop_Body \<longrightarrow> pcs s u = Pop_Body \<or> \<not> pop_must_wait (ring s))"
  shows "ring_ok s'"
  using assms unfolding ring_ok_def by metis

text \<open>A step that changes the ring is made by the owner of the mutex, alone.\<close>

lemma ring_ok_change:
  assumes "mutex_ok (pcs s) (owner s)" "in_critical (pcs s t)" "rb_inv r"
    and "p \<noteq> Pop_Body" "\<forall>v. p \<noteq> Push_Body v" "fault s' = None" "ring s' = r"
    and "pcs s' = (pcs s)(t := p)"
  shows "ring_ok s'"
proof -
  have "\<not> in_critical (pcs s u)" if "u \<noteq> t" for u
    using mutex_unique [OF assms(1,2)] that by blast
  then show ?thesis using assms(3-) by (auto simp: ring_ok_def) (metis in_critical.simps(2,5))+
qed

lemma thread_step_ring_ok:
  assumes "thread_step s t ev s'" "mutex_ok (pcs s) (owner s)" "ring_ok s"
  shows "ring_ok s'"
proof -
  note inv = ring_okD(1) [OF assms(3)] and fault = ring_okD(2) [OF assms(3)]
  show ?thesis
  using assms(1)
proof (cases rule: thread_step.cases)
  case (lock p)
  show ?thesis
    by (rule ring_ok_frame [OF assms(3)]) (use lock in auto)
next
  case (push_store v r)
  then have "rb_inv r"
    using push_body_cases [OF inv ring_okD(3) [OF assms(3)], of t v v]
    by (auto simp: push_result_inv inv)
  with push_store fault inv show ?thesis
    by (intro ring_ok_change [OF assms(2), of t]) simp_all
next
  case (push_reject v r)
  then have "r = ring s" by (auto dest: push_body_rejected)
  with push_reject fault inv show ?thesis
    by (intro ring_ok_change [OF assms(2), of t]) simp_all
next
  case (push_fault v e)
  then show ?thesis
    using push_body_cases [OF inv ring_okD(3) [OF assms(3)], of t v v] by auto
next
  case (pop_take r v)
  then have "rb_inv r"
    using pop_body_cases [OF inv ring_okD(4) [OF assms(3)], of t]
    by (auto simp: pop_result_inv inv)
  with pop_take fault inv show ?thesis
    by (intro ring_ok_change [OF assms(2), of t]) simp_all
next
  case (pop_drained r)
  then have "r = ring s" by (auto dest: pop_body_drained)
  with pop_drained fault inv show ?thesis
    by (intro ring_ok_change [OF assms(2), of t]) simp_all
next
  case (pop_fault e)
  then show ?thesis
    using pop_body_cases [OF inv ring_okD(4) [OF assms(3)], of t] by auto
next
  case shut_set
  with fault inv show ?thesis
    by (intro ring_ok_change [OF assms(2), of t]) (simp_all add: buffer_signal_shutdown_refines)
qed (auto intro!: ring_ok_frame [OF assms(3)] split: if_splits)
qed

lemma wake_ok_upd:
  assumes "finitely_busy f" "\<not> P Idle" "wake_ok W P S n shut f" "\<not> W p" "S (f t) \<Longrightarrow> S p"
    and "n' + (if P (f t) then 1 else 0) \<le> n + (if P p then 1 else 0) \<or> n' = 0" "shut' \<Longrightarrow> shut \<or> S p"
  shows "wake_ok W P S n' shut' (f(t := p))"
  unfolding wake_ok_def
proof (intro impI conjI)
  assume "\<exists>u. W ((f(t := p)) u)"
  with assms(4) have W: "\<exists>u. W (f u)" by (auto split: if_splits)
  with assms(3) have "n \<le> card (threads_at P f)" by (simp add: wake_ok_def)
  with assms(6) card_threads_at_upd [of f P, OF assms(1,2), of t p]
  show "n' \<le> card (threads_at P (f(t := p)))" by auto
  assume "shut'"
  with assms(7) consider "S p" | shut by blast
  then show "\<exists>u. S ((f(t := p)) u)"
  proof cases
    case 1
    then show ?thesis by (intro exI [of _ t]) simp
  next
    case 2
    with W assms(3) obtain u where "S (f u)" by (auto simp: wake_ok_def)
    with assms(5) show ?thesis by (intro exI [of _ u]) auto
  qed
qed

lemma wake_ok_nobody: "\<forall>u. \<not> W (f u) \<Longrightarrow> wake_ok W P S n shut f"
  by (simp add: wake_ok_def)

lemma wake_ok_nothing: "\<not> shut \<Longrightarrow> n = 0 \<Longrightarrow> wake_ok W P S n shut f"
  by (simp add: wake_ok_def)

lemma wake_popper_frame [simp]:
  "push_waiting (wake_popper p) = push_waiting p" "push_pending (wake_popper p) = push_pending p"
  "will_wake_push (wake_popper p) = will_wake_push p" "\<not> pop_waiting (wake_popper p)"
  by (cases p; simp)+

lemma wake_pusher_frame [simp]:
  "pop_waiting (wake_pusher p) = pop_waiting p" "pop_pending (wake_pusher p) = pop_pending p"
  "will_wake_pop (wake_pusher p) = will_wake_pop p" "\<not> push_waiting (wake_pusher p)"
  by (cases p; simp)+

lemma wake_ok_comp:
  assumes "\<forall>p. W (g p) = W p \<and> P (g p) = P p \<and> S (g p) = S p"
  shows "wake_ok W P S n shut (g \<circ> f) = wake_ok W P S n shut f"
  using assms by (simp add: wake_ok_def threads_at_def)

lemma push_must_wait_room: "push_must_wait rb \<Longrightarrow> rb_capacity rb - rb_count rb = 0 \<and> \<not> rb_shutdown rb"
  by (simp add: push_must_wait_def)

lemma push_waiting_iff: "push_waiting p \<longleftrightarrow> (\<exists>v. p = Push_Waiting v)"
  by (cases p) auto

lemma thread_step_pop_wake:
  assumes "thread_step s t ev s'" "finitely_busy (pcs s)" "ring_ok s" "pop_wake (ring s) (pcs s)"
  shows "pop_wake (ring s') (pcs s')"
proof -
  note inv = ring_okD(1) [OF assms(3)]
  note upd = wake_ok_upd [of "pcs s" pop_pending, OF assms(2) _ assms(4)]
  show ?thesis
    using assms(1)
  proof (cases rule: thread_step.cases)
    case (lock p)
    with after_lock_body [OF lock(4)] show ?thesis by (auto intro!: upd)
  next
    case unlock
    with at_unlock_props [OF unlock(3)] show ?thesis by (auto intro!: upd)
  next
    case (push_store v r)
    with push_body_cases [OF inv ring_okD(3) [OF assms(3)], of t v v] inv
    show ?thesis by (auto intro!: upd simp: rb_inv_def)
  next
    case (push_reject v r)
    then have "r = ring s" by (auto dest: push_body_rejected)
    with push_reject show ?thesis by (auto intro!: upd)
  next
    case (push_signal u)
    have "wake_ok pop_waiting pop_pending will_wake_pop (Suc (nat (rb_count (ring s))))
        (rb_shutdown (ring s)) ((pcs s)(u := Pop_Lock))"
      using push_signal by (intro upd) (auto simp: pop_waiting_iff)
    with push_signal assms(2) show ?thesis
      by (auto intro!: wake_ok_upd [of "(pcs s)(u := Pop_Lock)"] split: if_splits)
  next
    case push_signal_none
    then show ?thesis by (auto intro!: wake_ok_nobody split: if_splits)
  next
    case pop_wait
    then show ?thesis by (simp add: pop_must_wait_def wake_ok_nothing)
  next
    case (pop_take r v)
    with pop_body_cases [OF inv ring_okD(4) [OF assms(3)], of t] inv
    show ?thesis by (auto intro!: upd simp: rb_inv_def)
  next
    case (pop_drained r)
    with pop_body_cases [OF inv ring_okD(4) [OF assms(3)], of t]
    show ?thesis by (auto intro!: upd)
  next
    case (pop_signal v u w)
    have "wake_ok pop_waiting pop_pending will_wake_pop (nat (rb_count (ring s)))
        (rb_shutdown (ring s)) ((pcs s)(u := Push_Lock w))"
      using pop_signal by (intro upd) auto
    with pop_signal assms(2) show ?thesis
      by (auto intro!: wake_ok_upd [of "(pcs s)(u := Push_Lock w)"] split: if_splits)
  next
    case shut_set
    then show ?thesis by (auto intro!: upd simp: buffer_signal_shutdown_def)
  next
    case shut_wake_pop
    then show ?thesis by (auto intro!: wake_ok_nobody split: if_splits)
  next
    case shut_wake_push
    have "wake_ok pop_waiting pop_pending will_wake_pop (nat (rb_count (ring s)))
        (rb_shutdown (ring s)) (wake_pusher \<circ> pcs s)"
      using assms(4) by (simp add: wake_ok_comp)
    with shut_wake_push assms(2) show ?thesis
      by (auto intro!: wake_ok_upd [of "wake_pusher \<circ> pcs s"] finitely_busy_comp)
  qed (use assms(4) in \<open>auto intro!: upd\<close>)
qed

lemma thread_step_push_wake:
  assumes "thread_step s t ev s'" "finitely_busy (pcs s)" "ring_ok s" "push_wake (ring s) (pcs s)"
  shows "push_wake (ring s') (pcs s')"
proof -
  note inv = ring_okD(1) [OF assms(3)]
  note upd = wake_ok_upd [of "pcs s" push_pending, OF assms(2) _ assms(4)]
  show ?thesis
    using assms(1)
  proof (cases rule: thread_step.cases)
    case (lock p)
    with after_lock_body [OF lock(4)] show ?thesis by (auto intro!: upd)
  next
    case unlock
    with at_unlock_props [OF unlock(3)] show ?thesis by (auto intro!: upd)
  next
    case (push_wait v)
    then show ?thesis
      by (auto intro!: wake_ok_nothing simp: push_must_wait_def open_slots_def)
  next
    case (push_store v r)
    with push_body_cases [OF inv ring_okD(3) [OF assms(3)], of t v v] inv
    show ?thesis by (auto intro!: upd simp: rb_inv_def open_slots_def)
  next
    case (push_reject v r)
    then have "r = ring s" by (auto dest: push_body_rejected)
    with push_reject push_body_cases [OF inv ring_okD(3) [OF assms(3)], of t v v]
    show ?thesis by (auto intro!: upd simp: open_slots_def)
  next
    case (push_signal u)
    have "wake_ok push_waiting push_pending will_wake_push (open_slots (ring s))
        (rb_shutdown (ring s)) ((pcs s)(u := Pop_Lock))"
      using push_signal by (intro upd) (auto simp: pop_waiting_iff)
    with push_signal assms(2) show ?thesis
      by (auto intro!: wake_ok_upd [of "(pcs s)(u := Pop_Lock)"] split: if_splits)
  next
    case (pop_take r v)
    with pop_body_cases [OF inv ring_okD(4) [OF assms(3)], of t] inv
    show ?thesis by (auto intro!: upd simp: rb_inv_def open_slots_def)
  next
    case (pop_drained r)
    with pop_body_cases [OF inv ring_okD(4) [OF assms(3)], of t]
    show ?thesis by (auto intro!: upd)
  next
    case (pop_signal v u w)
    have "wake_ok push_waiting push_pending will_wake_push (Suc (open_slots (ring s)))
        (rb_shutdown (ring s)) ((pcs s)(u := Push_Lock w))"
      using pop_signal by (intro upd) auto
    with pop_signal assms(2) show ?thesis
      by (auto intro!: wake_ok_upd [of "(pcs s)(u := Push_Lock w)"] split: if_splits)
  next
    case (pop_signal_none v)
    then show ?thesis by (auto intro!: wake_ok_nobody split: if_splits)
  next
    case shut_set
    then show ?thesis by (auto intro!: upd simp: buffer_signal_shutdown_def open_slots_def)
  next
    case shut_wake_pop
    have "wake_ok push_waiting push_pending will_wake_push (open_slots (ring s))
        (rb_shutdown (ring s)) (wake_popper \<circ> pcs s)"
      using assms(4) by (simp add: wake_ok_comp)
    with shut_wake_pop assms(2) show ?thesis
      by (auto intro!: wake_ok_upd [of "wake_popper \<circ> pcs s"] finitely_busy_comp)
  next
    case shut_wake_push
    then show ?thesis by (auto intro!: wake_ok_nobody split: if_splits)
  qed (use assms(4) in \<open>auto intro!: upd\<close>)
qed

subsection \<open>The whole invariant\<close>

lemma thread_step_sys_inv:
  assumes "thread_step s t ev s'" "sys_inv s"
  shows "sys_inv s'"
proof -
  from assms(2) have inv: "finitely_busy (pcs s)" "mutex_ok (pcs s) (owner s)" "ring_ok s"
    "pop_wake (ring s) (pcs s)" "push_wake (ring s) (pcs s)"
    by (simp_all add: sys_inv_def)
  show ?thesis
    unfolding sys_inv_def
    using thread_step_busy [OF assms(1) inv(1)] thread_step_mutex [OF assms(1) inv(2)]
      thread_step_ring_ok [OF assms(1) inv(2,3)] thread_step_pop_wake [OF assms(1) inv(1,3,4)]
      thread_step_push_wake [OF assms(1) inv(1,3,5)]
    by blast
qed

text \<open>The environment wakes sleepers or starts a call: neither loses a wake-up.\<close>

lemma wake_ok_env:
  assumes "finitely_busy f" "\<not> P Idle" "wake_ok W P S n shut f" "\<not> W p \<or> p = f t"
    "S (f t) \<Longrightarrow> S p" "P (f t) \<Longrightarrow> P p"
  shows "wake_ok W P S n shut (f(t := p))"
proof (cases "p = f t")
  case True
  with assms(3) show ?thesis by simp
next
  case False
  with assms show ?thesis by (intro wake_ok_upd) auto
qed

fun env_move :: "'v pc \<Rightarrow> 'v pc \<Rightarrow> bool" where
  "env_move Idle q = (q \<noteq> Idle \<longrightarrow> after_lock q \<noteq> None)"
| "env_move p q = (q = wake_pusher p \<or> q = wake_popper p)"

lemma env_step_move: "env_step s t s' \<Longrightarrow> \<exists>q. s' = goto s t q \<and> env_move (pcs s t) q"
proof (cases rule: env_step.cases, assumption)
  fix p v
  assume "s' = goto s t p" "pcs s t = Idle" "p \<in> {Push_Lock v, Pop_Lock, Shut_Lock, Query_Lock}"
  then show ?thesis by (intro exI [of _ p]) auto
next
  assume "s' = goto s t (wake_pusher (pcs s t))"
  then show ?thesis by (intro exI [of _ "wake_pusher (pcs s t)"]) (cases "pcs s t"; simp)
next
  assume "s' = goto s t (wake_popper (pcs s t))"
  then show ?thesis by (intro exI [of _ "wake_popper (pcs s t)"]) (cases "pcs s t"; simp)
qed

lemma env_move_cases:
  "env_move p q \<Longrightarrow>
     q = wake_pusher p \<or> q = wake_popper p \<or> p = Idle \<and> (q = Idle \<or> after_lock q \<noteq> None)"
  by (cases p) auto

text \<open>What such a move keeps.\<close>

definition calm :: "'v pc \<Rightarrow> 'v pc \<Rightarrow> bool" where
  "calm p q \<longleftrightarrow>
     in_critical q = in_critical p \<and> (\<not> pop_waiting q \<or> q = p) \<and> (\<not> push_waiting q \<or> q = p) \<and>
     (pop_pending p \<longrightarrow> pop_pending q) \<and> (push_pending p \<longrightarrow> push_pending q) \<and>
     (will_wake_pop p \<longrightarrow> will_wake_pop q) \<and> (will_wake_push p \<longrightarrow> will_wake_push q) \<and>
     (q = Pop_Body \<longrightarrow> p = Pop_Body) \<and> (\<forall>v. q = Push_Body v \<longrightarrow> p = Push_Body v)"

lemma calm_wake: "calm p (wake_pusher p)" "calm p (wake_popper p)"
  by (cases p; simp add: calm_def)+

lemma calm_call: "q = Idle \<or> after_lock q \<noteq> None \<Longrightarrow> calm Idle q"
  by (cases q) (auto simp: calm_def)

lemma env_move_calm: "env_move p q \<Longrightarrow> calm p q"
  using env_move_cases [of p q] calm_wake [of p] calm_call [of q] by auto

lemma env_step_sys_inv:
  assumes "env_step s t s'" "sys_inv s"
  shows "sys_inv s'"
proof -
  obtain q where q: "s' = goto s t q" and m: "env_move (pcs s t) q"
    using env_step_move [OF assms(1)] by blast
  have f: "calm (pcs s t) q" by (rule env_move_calm [OF m])
  from assms(2) have inv: "finitely_busy (pcs s)" "mutex_ok (pcs s) (owner s)" "ring_ok s"
    "pop_wake (ring s) (pcs s)" "push_wake (ring s) (pcs s)"
    by (simp_all add: sys_inv_def)
  have "ring_ok s'"
    by (rule ring_ok_frame [OF inv(3)]) (use q f in \<open>auto simp: calm_def\<close>)
  moreover have "pop_wake (ring s) ((pcs s)(t := q))"
    by (rule wake_ok_env [OF inv(1) _ inv(4)]) (use f in \<open>auto simp: calm_def\<close>)
  moreover have "push_wake (ring s) ((pcs s)(t := q))"
    by (rule wake_ok_env [OF inv(1) _ inv(5)]) (use f in \<open>auto simp: calm_def\<close>)
  moreover have "mutex_ok ((pcs s)(t := q)) (owner s)"
    by (rule mutex_stay [OF inv(2)]) (use f in \<open>simp add: calm_def\<close>)
  ultimately show ?thesis using q inv(1) by (simp add: sys_inv_def)
qed

lemma initial_sys_inv:
  assumes "0 \<le> capacity" "capacity \<le> INT_MAX"
  shows "sys_inv (initial_sys capacity)"
  using fresh_ring_inv [OF assms]
  by (simp add: sys_inv_def initial_sys_def finitely_busy_def mutex_ok_def ring_ok_def wake_ok_def)

lemma sys_run_inv: "sys_run s0 evs s \<Longrightarrow> sys_inv s0 \<Longrightarrow> sys_inv s"
  by (induction rule: sys_run.induct) (auto intro: thread_step_sys_inv env_step_sys_inv)

section \<open>Progress\<close>

text \<open>A thread inside a critical section can always take its next step.\<close>

lemma critical_enabled:
  assumes "in_critical (pcs s t)"
  shows "\<exists>ev s'. thread_step s t ev s'"
proof (cases "pcs s t")
  case (Push_Test v)
  then show ?thesis
    by (cases "push_must_wait (ring s)") (blast intro: push_wait push_pass)+
next
  case (Push_Body v)
  show ?thesis
  proof (cases "push_body (ring s) v")
    case (Inl e)
    with Push_Body show ?thesis by (blast intro: push_fault)
  next
    case (Inr r)
    with Push_Body show ?thesis
      by (cases r; cases "snd r") (auto intro: push_store push_reject)
  qed
next
  case Push_Signal
  then show ?thesis
    by (cases "\<exists>u. pop_waiting (pcs s u)") (blast intro: push_signal push_signal_none)+
next
  case Pop_Test
  then show ?thesis
    by (cases "pop_must_wait (ring s)") (blast intro: pop_wait pop_pass)+
next
  case Pop_Body
  show ?thesis
  proof (cases "pop_body (ring s)")
    case (Inl e)
    with Pop_Body show ?thesis by (blast intro: pop_fault)
  next
    case (Inr r)
    with Pop_Body show ?thesis
      by (cases r; cases "snd r") (auto intro: pop_take pop_drained)
  qed
next
  case (Pop_Signal v)
  then show ?thesis
    by (cases "\<exists>u w. pcs s u = Push_Waiting w")
      (blast intro: pop_signal pop_signal_none [unfolded push_waiting_iff])+
qed (use assms unlock [of s t] in
    \<open>auto intro: shut_set shut_wake_pop shut_wake_push query_read\<close>)

lemma pc_cases:
  obtains "p = Idle" | "push_waiting p" | "pop_waiting p" | "in_critical p" | q where "after_lock p = Some q"
  by (cases p) auto

text \<open>
  In a state of the invariant where some thread is neither idle nor asleep, a thread can
  take a step: the owner of the mutex, or anyone if it is free.
\<close>

lemma awake_enabled:
  assumes "mutex_ok (pcs s) (owner s)" "pcs s t \<noteq> Idle" "\<not> push_waiting (pcs s t)"
    "\<not> pop_waiting (pcs s t)"
  shows "\<exists>u ev s'. thread_step s u ev s'"
proof (cases "owner s")
  case None
  show ?thesis
  proof (cases "pcs s t" rule: pc_cases)
    case (5 q)
    with None show ?thesis by (blast intro: lock)
  qed (use assms critical_enabled in blast)+
next
  case (Some u)
  with assms(1) have "in_critical (pcs s u)" by (simp add: mutex_ok_def)
  then show ?thesis using critical_enabled by blast
qed

lemma pending_awake:
  "pop_pending p \<or> push_pending p \<or> will_wake_pop p \<or> will_wake_push p \<Longrightarrow>
   p \<noteq> Idle \<and> \<not> push_waiting p \<and> \<not> pop_waiting p"
  by (cases p) auto

lemma wake_ok_sleeper:
  assumes "wake_ok W P S n shut f" "W (f t)" "0 < n \<or> shut"
  shows "\<exists>u. P (f u) \<or> S (f u)"
proof (cases shut)
  case True
  with assms show ?thesis by (auto simp: wake_ok_def)
next
  case False
  with assms have "0 < card (threads_at P f)" by (auto simp: wake_ok_def)
  then have "threads_at P f \<noteq> {}" by (metis card.empty less_irrefl)
  then show ?thesis by (auto simp: threads_at_def)
qed

definition rightly_asleep :: "'v sys \<Rightarrow> bool" where
  "rightly_asleep s \<longleftrightarrow>
     (\<forall>t. pcs s t = Idle \<or>
          push_waiting (pcs s t) \<and> push_must_wait (ring s) \<or>
          pop_waiting (pcs s t) \<and> pop_must_wait (ring s))"

lemma sys_inv_progress:
  assumes "sys_inv s" "\<nexists>u ev s'. thread_step s u ev s'"
  shows "rightly_asleep s"
  unfolding rightly_asleep_def
proof
  fix t
  from assms(1) have inv: "mutex_ok (pcs s) (owner s)" "rb_inv (ring s)"
    "pop_wake (ring s) (pcs s)" "push_wake (ring s) (pcs s)"
    by (simp_all add: sys_inv_def ring_ok_def)
  have asleep: "pcs s u = Idle \<or> push_waiting (pcs s u) \<or> pop_waiting (pcs s u)" for u
    using awake_enabled [OF inv(1)] assms(2) by blast
  then have none: "\<nexists>u. pop_pending (pcs s u) \<or> will_wake_pop (pcs s u)"
    "\<nexists>u. push_pending (pcs s u) \<or> will_wake_push (pcs s u)"
    using pending_awake by blast+
  have "pop_must_wait (ring s)" if "pop_waiting (pcs s t)"
  proof -
    have "\<not> (0 < nat (rb_count (ring s)) \<or> rb_shutdown (ring s))"
      using wake_ok_sleeper [OF inv(3) that] none(1) by blast
    with inv(2) show ?thesis by (simp add: pop_must_wait_def rb_inv_def)
  qed
  moreover have "push_must_wait (ring s)" if "push_waiting (pcs s t)"
  proof -
    have "\<not> (0 < open_slots (ring s) \<or> rb_shutdown (ring s))"
      using wake_ok_sleeper [OF inv(4) that] none(2) by blast
    with inv(2) show ?thesis
      by (auto simp: push_must_wait_def open_slots_def rb_inv_def split: if_splits)
  qed
  ultimately show "pcs s t = Idle \<or>
          push_waiting (pcs s t) \<and> push_must_wait (ring s) \<or>
          pop_waiting (pcs s t) \<and> pop_must_wait (ring s)"
    using asleep [of t] by blast
qed

section \<open>Linearisation\<close>

abbreviation run_ring ::
  "'v ring_buffer \<Rightarrow> 'v queue_op list \<Rightarrow> ub + ('v ring_buffer \<times> 'v queue_event list)"
where
  "run_ring \<equiv> run_ops buffer_push buffer_pop buffer_signal_shutdown"

text \<open>Each action on the queue is one call of the sequential operations, made atomically.\<close>

lemma thread_step_atomic:
  assumes "thread_step s t ev s'" "ring_ok s"
  shows "(ev = None \<and> ring s' = ring s) \<or>
     (\<exists>op e. ev = Some e \<and> run_ring (ring s) [op] = Inr (ring s', [e]))"
  using assms(1)
proof (cases rule: thread_step.cases)
  case (push_wait v)
  then show ?thesis by (auto intro!: exI [of _ "Push v"] simp: buffer_push_def)
next
  case (push_store v r)
  with ring_okD(3) [OF assms(2), of t v] show ?thesis
    by (auto intro!: exI [of _ "Push v"] simp: buffer_push_def)
next
  case (push_reject v r)
  with ring_okD(3) [OF assms(2), of t v] show ?thesis
    by (auto intro!: exI [of _ "Push v"] simp: buffer_push_def)
next
  case pop_wait
  then show ?thesis by (auto intro!: exI [of _ Pop] simp: buffer_pop_def)
next
  case (pop_take r v)
  with ring_okD(4) [OF assms(2), of t] show ?thesis
    by (auto intro!: exI [of _ Pop] simp: buffer_pop_def)
next
  case (pop_drained r)
  with ring_okD(4) [OF assms(2), of t] show ?thesis
    by (auto intro!: exI [of _ Pop] simp: buffer_pop_def)
next
  case shut_set
  then show ?thesis by (auto intro!: exI [of _ Close])
qed auto

lemma env_step_ring: "env_step s t s' \<Longrightarrow> ring s' = ring s"
  by (auto elim: env_stepE)

lemma sys_run_linear:
  "sys_run s0 evs s \<Longrightarrow> sys_inv s0 \<Longrightarrow> \<exists>ops. run_ring (ring s0) ops = Inr (ring s, evs)"
proof (induction rule: sys_run.induct)
  case start
  show ?case by (rule exI [of _ "[]"]) simp
next
  case (thread evs s t ev s')
  then obtain ops where ops: "run_ring (ring s0) ops = Inr (ring s, evs)" by blast
  have "ring_ok s" using sys_run_inv [OF thread.hyps(1) thread.prems] by (simp add: sys_inv_def)
  from thread_step_atomic [OF thread.hyps(2) this] show ?case
  proof
    assume "ev = None \<and> ring s' = ring s"
    with ops show ?thesis by auto
  next
    assume "\<exists>op e. ev = Some e \<and> run_ring (ring s) [op] = Inr (ring s', [e])"
    then obtain op e where "ev = Some e" "run_ring (ring s) [op] = Inr (ring s', [e])" by blast
    with run_ops_append [OF ops this(2)] show ?thesis by auto
  qed
next
  case (env evs s t s')
  then obtain ops where "run_ring (ring s0) ops = Inr (ring s, evs)" by blast
  with env_step_ring [OF env.hyps(2)] show ?case by auto
qed

section \<open>Two runs\<close>

text \<open>Thread 0 stores a value; thread 0 goes to sleep on the empty queue.\<close>

definition stored_sys :: "nat sys" where
  "stored_sys = goto (initial_sys 1) 0 Push_Signal
     \<lparr>owner := Some 0, ring := push_result (fresh_ring 1) 7\<rparr>"

lemma stored_run: "sys_run (initial_sys 1) [Pushed 7] stored_sys"
proof -
  let ?s0 = "initial_sys 1 :: nat sys"
  let ?s1 = "goto ?s0 0 (Push_Lock 7)"
  let ?s2 = "goto ?s1 0 (Push_Test 7)\<lparr>owner := Some 0\<rparr>"
  let ?s3 = "goto ?s2 0 (Push_Body 7)"
  have inv: "rb_inv (fresh_ring 1 :: nat ring_buffer)" by (rule fresh_ring_inv) (auto simp: INT_MAX_def)
  have "sys_run ?s0 [] ?s1"
    by (rule sys_run.env [OF sys_run.start env_step.call]) (auto simp: initial_sys_def)
  from sys_run.thread [OF this thread_step.lock, of 0 "Push_Test 7"]
  have "sys_run ?s0 [] ?s2" by (simp add: initial_sys_def)
  from sys_run.thread [OF this thread_step.push_pass, of 0 7]
  have "sys_run ?s0 [] ?s3" by (simp add: initial_sys_def fresh_ring_def push_must_wait_def)
  from sys_run.thread [OF this thread_step.push_store, of 0 7 "push_result (fresh_ring 1) 7"]
  have "sys_run ?s0 [Pushed 7] (goto ?s3 0 Push_Signal\<lparr>ring := push_result (fresh_ring 1) 7\<rparr>)"
    using push_body_room [OF inv, of 7] by (simp add: initial_sys_def fresh_ring_def)
  then show ?thesis by (simp add: stored_sys_def initial_sys_def)
qed

definition asleep_sys :: "nat sys" where
  "asleep_sys = goto (initial_sys 1) 0 Pop_Waiting"

lemma asleep_run: "sys_run (initial_sys 1) [Waits] asleep_sys"
proof -
  let ?s0 = "initial_sys 1 :: nat sys"
  let ?s1 = "goto ?s0 0 Pop_Lock"
  let ?s2 = "goto ?s1 0 Pop_Test\<lparr>owner := Some 0\<rparr>"
  have "sys_run ?s0 [] ?s1"
    by (rule sys_run.env [OF sys_run.start env_step.call]) (auto simp: initial_sys_def)
  from sys_run.thread [OF this thread_step.lock, of 0 Pop_Test]
  have "sys_run ?s0 [] ?s2" by (simp add: initial_sys_def)
  from sys_run.thread [OF this thread_step.pop_wait, of 0]
  have "sys_run ?s0 [Waits] (goto ?s2 0 Pop_Waiting\<lparr>owner := None\<rparr>)"
    by (simp add: initial_sys_def fresh_ring_def pop_must_wait_def)
  then show ?thesis by (simp add: asleep_sys_def initial_sys_def)
qed

lemma asleep_stuck: "\<nexists>u ev s'. thread_step asleep_sys u ev s'"
  by (auto simp: asleep_sys_def initial_sys_def elim!: thread_stepE split: if_splits)

section \<open>Properties\<close>

text \<open>
  C2: Threads calling push, pop, shutdown and the shutdown query in any interleaving, with
  spurious wake-ups, act on the queue as some sequence of atomic calls would: the events of
  the run are those of the sequence, and the ring is left in the same state.
\<close>

theorem ring_linearisable:
  assumes "0 \<le> capacity" "capacity \<le> INT_MAX" "sys_run (initial_sys capacity) evs s"
  shows "\<exists>ops. run_ops buffer_push buffer_pop buffer_signal_shutdown (fresh_ring capacity) ops
           = Inr (ring s, evs)"
  using sys_run_linear [OF assms(3) initial_sys_inv [OF assms(1,2)]]
  by (simp add: initial_sys_def)

theorem ring_linearisable_witness:
  "\<exists>ops. run_ops buffer_push buffer_pop buffer_signal_shutdown (fresh_ring 1) ops
      = Inr (ring stored_sys, [Pushed 7])"
  by (rule ring_linearisable [OF _ _ stored_run]) (simp_all add: INT_MAX_def)

text \<open>
  C12: In every interleaving the values popped so far, followed by the values in the ring,
  are the values pushed so far, in order; the ring never holds more than its capacity.
\<close>

theorem ring_fifo:
  assumes "0 \<le> capacity" "capacity \<le> INT_MAX" "sys_run (initial_sys capacity) evs s"
  shows "pushed_values evs = popped_values evs @ rb_contents (ring s) \<and>
     length (rb_contents (ring s)) \<le> nat capacity"
proof -
  obtain ops where "run_ring (fresh_ring capacity) ops = Inr (ring s, evs)"
    using sys_run_linear [OF assms(3) initial_sys_inv [OF assms(1,2)]]
    by (auto simp: initial_sys_def)
  with rbq.run_ops_fifo [OF fresh_ring_inv [OF assms(1,2)], of ops]
  show ?thesis using rbq.bound_law [of "ring s"] by auto
qed

theorem ring_fifo_witness:
  "pushed_values [Pushed 7] = popped_values [Pushed 7] @ rb_contents (ring stored_sys) \<and>
   length (rb_contents (ring stored_sys)) \<le> nat 1"
  by (rule ring_fifo [OF _ _ stored_run]) (simp_all add: INT_MAX_def)

text \<open>
  C17: In every reachable state the ring invariant holds, no operation has run into
  undefined behaviour (an index out of range, a signed overflow, a division by zero, a read
  of an unwritten slot), and exactly the owner of the mutex, so at most one thread, is
  inside a critical section.
\<close>

theorem ring_threads_safe:
  assumes "0 \<le> capacity" "capacity \<le> INT_MAX" "sys_run (initial_sys capacity) evs s"
  shows "rb_inv (ring s) \<and> fault s = None \<and>
     (\<forall>t. in_critical (pcs s t) \<longleftrightarrow> owner s = Some t)"
  using sys_run_inv [OF assms(3) initial_sys_inv [OF assms(1,2)]]
  by (auto simp: sys_inv_def ring_ok_def mutex_ok_def)

theorem ring_threads_safe_witness:
  "rb_inv (ring stored_sys) \<and> fault stored_sys = None \<and>
     (\<forall>t. in_critical (pcs stored_sys t) \<longleftrightarrow> owner stored_sys = Some t)"
  by (rule ring_threads_safe [OF _ _ stored_run]) (simp_all add: INT_MAX_def)

text \<open>
  C6: No lost wake-up and no deadlock: if no thread of a reachable state can take a step,
  then every thread that is inside an operation is asleep for a reason that holds: a pusher
  because the queue is full and open, a popper because it is empty and open.
\<close>

theorem ring_no_lost_wakeup:
  assumes "0 \<le> capacity" "capacity \<le> INT_MAX" "sys_run (initial_sys capacity) evs s"
    and "\<nexists>u ev s'. thread_step s u ev s'"
  shows "pcs s t = Idle \<or>
     push_waiting (pcs s t) \<and> rb_count (ring s) = rb_capacity (ring s) \<and> \<not> rb_shutdown (ring s) \<or>
     pop_waiting (pcs s t) \<and> rb_count (ring s) = 0 \<and> \<not> rb_shutdown (ring s)"
  using sys_inv_progress [OF sys_run_inv [OF assms(3) initial_sys_inv [OF assms(1,2)]] assms(4)]
  by (auto simp: rightly_asleep_def push_must_wait_def pop_must_wait_def)

theorem ring_no_lost_wakeup_witness:
  "pcs asleep_sys 0 = Idle \<or>
     push_waiting (pcs asleep_sys 0) \<and> rb_count (ring asleep_sys) = rb_capacity (ring asleep_sys) \<and>
       \<not> rb_shutdown (ring asleep_sys) \<or>
     pop_waiting (pcs asleep_sys 0) \<and> rb_count (ring asleep_sys) = 0 \<and>
       \<not> rb_shutdown (ring asleep_sys)"
  by (rule ring_no_lost_wakeup [OF _ _ asleep_run asleep_stuck]) (simp_all add: INT_MAX_def)

text \<open>
  C28: Once shutdown has been signalled, whatever the threads do afterwards stores nothing
  more, no call goes to sleep again, and shutdown stays set.
\<close>

theorem ring_shutdown_final:
  assumes "0 \<le> capacity" "capacity \<le> INT_MAX" "sys_run (initial_sys capacity) evs s"
    and "rb_shutdown (ring s)" "sys_run s evs' s'"
  shows "pushed_values evs' = [] \<and> Waits \<notin> set evs' \<and> rb_shutdown (ring s')"
proof -
  have inv: "sys_inv s" by (rule sys_run_inv [OF assms(3) initial_sys_inv [OF assms(1,2)]])
  then have "rb_inv (ring s)" by (simp add: sys_inv_def ring_ok_def)
  moreover obtain ops where "run_ring (ring s) ops = Inr (ring s', evs')"
    using sys_run_linear [OF assms(5) inv] by blast
  ultimately show ?thesis
    using rbq.run_ops_closed [of "ring s" ops "ring s'" evs'] assms(4) by simp
qed

definition shut_sys :: "nat sys" where
  "shut_sys = goto (initial_sys 1) 0 Shut_Wake_Pop
     \<lparr>owner := Some 0, ring := buffer_signal_shutdown (fresh_ring 1)\<rparr>"

lemma shut_run: "sys_run (initial_sys 1) [Closes] shut_sys"
proof -
  let ?s0 = "initial_sys 1 :: nat sys"
  let ?s1 = "goto ?s0 0 Shut_Lock"
  let ?s2 = "goto ?s1 0 Shut_Set\<lparr>owner := Some 0\<rparr>"
  have "sys_run ?s0 [] ?s1"
    by (rule sys_run.env [OF sys_run.start env_step.call]) (auto simp: initial_sys_def)
  from sys_run.thread [OF this thread_step.lock, of 0 Shut_Set]
  have "sys_run ?s0 [] ?s2" by (simp add: initial_sys_def)
  from sys_run.thread [OF this thread_step.shut_set, of 0]
  show ?thesis by (simp add: initial_sys_def shut_sys_def)
qed

lemma quiet_step: "sys_run s0 evs s \<Longrightarrow> thread_step s t None s' \<Longrightarrow> sys_run s0 evs s'"
  using sys_run.thread [of s0 evs s t None s'] by simp

text \<open>After the shutdown another thread calls \<open>buffer_push\<close>, and is refused.\<close>

lemma refused_run: "\<exists>s'. sys_run shut_sys [Rejected] s'"
proof -
  let ?s1 = "shut_sys\<lparr>pcs := (wake_popper \<circ> pcs shut_sys)(0 := Shut_Wake_Push)\<rparr>"
  let ?s2 = "?s1\<lparr>pcs := (wake_pusher \<circ> pcs ?s1)(0 := Shut_Unlock)\<rparr>"
  let ?s3 = "goto ?s2 0 Idle\<lparr>owner := None\<rparr>"
  let ?s4 = "goto ?s3 1 (Push_Lock 7)"
  let ?s5 = "goto ?s4 1 (Push_Test 7)\<lparr>owner := Some 1\<rparr>"
  let ?s6 = "goto ?s5 1 (Push_Body 7)"
  have "sys_run shut_sys [] ?s1"
    by (rule quiet_step [OF sys_run.start thread_step.shut_wake_pop]) (simp add: shut_sys_def)
  then have "sys_run shut_sys [] ?s2"
    by (rule quiet_step [OF _ thread_step.shut_wake_push]) simp
  then have "sys_run shut_sys [] ?s3" by (rule quiet_step [OF _ thread_step.unlock]) simp
  then have "sys_run shut_sys [] ?s4"
    by (rule sys_run.env [OF _ env_step.call]) (simp_all add: shut_sys_def initial_sys_def)
  then have "sys_run shut_sys [] ?s5" by (rule quiet_step [OF _ thread_step.lock]) simp_all
  then have "sys_run shut_sys [] ?s6"
    by (rule quiet_step [OF _ thread_step.push_pass])
      (simp_all add: push_must_wait_def shut_sys_def buffer_signal_shutdown_def)
  moreover have "push_body (ring ?s6) 7 = Inr (ring ?s6, False)"
    by (simp add: push_body_def shut_sys_def buffer_signal_shutdown_def)
  ultimately show ?thesis
    using sys_run.thread [OF _ thread_step.push_reject [of ?s6 1 7], of shut_sys "[]" "ring ?s6"]
    by auto
qed

theorem ring_shutdown_final_witness:
  "\<exists>s'. sys_run shut_sys [Rejected] s' \<and> pushed_values ([Rejected] :: nat queue_event list) = [] \<and>
     Waits \<notin> set ([Rejected] :: nat queue_event list) \<and> rb_shutdown (ring s')"
proof -
  obtain s' where s': "sys_run shut_sys [Rejected] s'" using refused_run by blast
  have "rb_shutdown (ring shut_sys)" by (simp add: shut_sys_def buffer_signal_shutdown_def)
  from ring_shutdown_final [OF _ _ shut_run this s'] s' show ?thesis
    by (auto simp: INT_MAX_def)
qed

end
