(* ===== verification/Arena.thy ===== *)
theory Arena
  imports C_Layout Sample_Log Queue_Interface
begin

unbundle bit_operations_syntax

text \<open>
  The spatial arena (\<open>include/arena.h\<close>, \<open>include/storage.hpp\<close>,
  \<open>src/storage/storage.cpp\<close>): buckets with a spinlock, an H3 index and a rolling window
  of 60 samples, and \<open>SpatialArena::update\<close>. The H3 library is not part of the
  repository: \<open>degsToRads\<close> and \<open>latLngToCell\<close> are arguments of \<open>update\<close>; a nonzero
  error code of the latter is \<open>None\<close>.
\<close>

section \<open>Data\<close>

record time_window =
  win_timestamps :: "u32 list"
  win_speeds :: "float32 list"
  win_head :: u8

record hex_bucket =
  h3_index :: u64
  window :: time_window
  lock :: bool

type_synonym arena = "hex_bucket list"

definition BUCKET_COUNT :: nat where
  "BUCKET_COUNT = 131072"

definition H3_RESOLUTION :: int where
  "H3_RESOLUTION = 9"

text \<open>\<open>TimeWindow{}\<close> and \<open>HexBucket\<close>: every member has a zero initialiser.\<close>

definition new_window :: time_window where
  "new_window = \<lparr>win_timestamps = replicate 60 0, win_speeds = replicate 60 0, win_head = 0\<rparr>"

definition new_bucket :: hex_bucket where
  "new_bucket = \<lparr>h3_index = 0, window = new_window, lock = False\<rparr>"

definition new_arena :: arena where
  "new_arena = replicate BUCKET_COUNT new_bucket"

definition struct_TimeWindow :: "(string \<times> ctype) list" where
  "struct_TimeWindow =
    [(''timestamps'', C_Array C_U32 60), (''speeds'', C_Array C_Float 60),
     (''head'', C_U8), (''padding'', C_Array C_U8 3)]"

definition struct_HexBucket :: "(string \<times> ctype) list" where
  "struct_HexBucket =
    [(''h3_index'', C_U64), (''window'', C_Struct 1 struct_TimeWindow), (''lock'', C_Bool)]"

section \<open>Update\<close>

text \<open>The bucket of a cell: \<open>hex_id & (BUCKET_COUNT - 1)\<close>.\<close>

definition arena_index :: "u64 \<Rightarrow> nat" where
  "arena_index hex_id = unat (hex_id AND (word_of_nat BUCKET_COUNT - 1))"

text \<open>\<open>(head + 1) % 60\<close>, computed in \<open>int\<close> and stored in a \<open>uint8_t\<close>.\<close>

definition next_head :: "u8 \<Rightarrow> u8" where
  "next_head h = word_of_int ((uint h + 1) mod 60)"

definition window_write :: "time_window \<Rightarrow> u32 \<times> float32 \<Rightarrow> ub + time_window" where
  "window_write w s =
     (let h = win_head w
      in if unat h < length (win_speeds w) \<and> unat h < length (win_timestamps w)
         then Inr (w\<lparr>win_speeds := (win_speeds w)[unat h := snd s],
                     win_timestamps := (win_timestamps w)[unat h := fst s],
                     win_head := next_head h\<rparr>)
         else Inl Index_Out_Of_Range)"

text \<open>The statements between the acquisition and the release of the bucket's lock.\<close>

definition reset_on_collision :: "hex_bucket \<Rightarrow> u64 \<Rightarrow> hex_bucket" where
  "reset_on_collision b hex_id =
     (if h3_index b \<noteq> 0 \<and> h3_index b \<noteq> hex_id then b\<lparr>window := new_window\<rparr> else b)"

definition bucket_store :: "hex_bucket \<Rightarrow> u64 \<Rightarrow> float32 \<Rightarrow> u64 \<Rightarrow> ub + hex_bucket" where
  "bucket_store b hex_id speed ts =
     (let b1 = (reset_on_collision b hex_id)\<lparr>h3_index := hex_id\<rparr>
      in sum_bind (window_write (window b1) (ucast ts, speed)) (\<lambda>w. Inr (b1\<lparr>window := w\<rparr>)))"

text \<open>
  A call spins for ever on a bucket whose lock is held (\<open>Blocks\<close>); it takes and releases
  the lock otherwise.
\<close>

definition update ::
  "(float64 \<Rightarrow> float64) \<Rightarrow> (float64 \<times> float64 \<Rightarrow> int \<Rightarrow> u64 option)
   \<Rightarrow> arena \<Rightarrow> float64 \<Rightarrow> float64 \<Rightarrow> float32 \<Rightarrow> u64 \<Rightarrow> ub + (arena \<times> bool) call"
where
  "update degsToRads latLngToCell arena lat lon speed ts =
     (case latLngToCell (degsToRads lat, degsToRads lon) H3_RESOLUTION of
        None \<Rightarrow> Inr (Returns (arena, False))
      | Some hex_id \<Rightarrow>
          (let i = arena_index hex_id
           in if length arena \<le> i then Inl Index_Out_Of_Range
              else if lock (arena ! i) then Inr Blocks
              else sum_bind (bucket_store ((arena ! i)\<lparr>lock := True\<rparr>) hex_id speed ts) (\<lambda>b.
                     Inr (Returns (arena[i := b\<lparr>lock := False\<rparr>], True)))))"

section \<open>Layout\<close>

text \<open>The three \<open>static_assert\<close>s of \<open>storage.cpp\<close>.\<close>

definition storage_static_asserts :: bool where
  "storage_static_asserts \<longleftrightarrow>
     size_of (C_Struct 1 struct_TimeWindow) = 484 \<and>
     align_of (C_Struct 64 struct_HexBucket) = 64 \<and>
     size_of (C_Struct 64 struct_HexBucket) = 512"

lemma storage_static_asserts: storage_static_asserts
  by (simp add: storage_static_asserts_def struct_HexBucket_def struct_TimeWindow_def align_up_def)

lemma sizeof_HexBucket: "size_of (C_Struct 64 struct_HexBucket) = 512"
  using storage_static_asserts by (simp only: storage_static_asserts_def)

section \<open>Index arithmetic\<close>

lemma arena_index_mod: "arena_index hex_id = unat hex_id mod 131072"
proof -
  have "(word_of_nat BUCKET_COUNT - 1 :: u64) = mask 17"
    by (simp add: BUCKET_COUNT_def mask_eq_exp_minus_1)
  then have "arena_index hex_id = take_bit 17 (unat hex_id)"
    by (simp only: arena_index_def unsigned_take_bit_eq flip: take_bit_eq_mask)
  then show ?thesis by (simp add: take_bit_eq_mod)
qed

lemma arena_index_less: "arena_index hex_id < BUCKET_COUNT"
  by (simp add: arena_index_mod BUCKET_COUNT_def)

lemma unat_next_head: "unat (next_head h) = Suc (unat h) mod 60"
proof -
  let ?n = "Suc (unat h) mod 60"
  have "(uint h + 1) mod 60 = int ?n"
    by (simp only: uint_nat zmod_int of_nat_Suc) (simp add: ac_simps)
  then have "next_head h = word_of_nat ?n" by (simp only: next_head_def of_int_of_nat_eq)
  moreover have "?n < 256" by (rule less_trans [of _ 60]) simp_all
  ultimately show ?thesis by (simp add: unat_of_nat)
qed

section \<open>The window as a log of recent samples\<close>

definition window_inv :: "time_window \<Rightarrow> bool" where
  "window_inv w \<longleftrightarrow> length (win_timestamps w) = 60 \<and> length (win_speeds w) = 60 \<and>
     unat (win_head w) < 60"

text \<open>The samples from the newest to the oldest: backwards from the slot before \<open>head\<close>.\<close>

definition window_samples :: "time_window \<Rightarrow> (u32 \<times> float32) list" where
  "window_samples w =
     map (\<lambda>k. let i = (unat (win_head w) + (59 - k)) mod 60
              in (win_timestamps w ! i, win_speeds w ! i)) [0..<60]"

lemma length_window_samples [simp]: "length (window_samples w) = 60"
  by (simp add: window_samples_def)

lemma new_window_inv [simp]: "window_inv new_window"
  by (simp add: window_inv_def new_window_def)

lemma new_window_samples [simp]: "window_samples new_window = replicate 60 (0, 0)"
  by (rule nth_equalityI) (simp_all add: window_samples_def new_window_def Let_def)

lemma window_samples_nth:
  "k < 60 \<Longrightarrow> window_samples w ! k =
     (win_timestamps w ! ((unat (win_head w) + (59 - k)) mod 60),
      win_speeds w ! ((unat (win_head w) + (59 - k)) mod 60))"
  by (simp add: window_samples_def Let_def)

lemma window_write_samples:
  assumes "window_inv w" "window_write w s = Inr w'"
  shows "window_samples w' = take 60 (s # window_samples w)"
proof (rule nth_equalityI)
  fix k assume "k < length (window_samples w')"
  then have k: "k < 60" by simp
  let ?h = "unat (win_head w)"
  from assms have h: "?h < 60" and w': "win_timestamps w' = (win_timestamps w)[?h := fst s]"
    "win_speeds w' = (win_speeds w)[?h := snd s]" "unat (win_head w') = Suc ?h mod 60"
    and len: "length (win_timestamps w) = 60" "length (win_speeds w) = 60"
    by (auto simp: window_inv_def window_write_def Let_def unat_next_head split: if_splits)
  have slot: "(Suc ?h mod 60 + (59 - k)) mod 60 = (?h + (60 - k)) mod 60"
  proof -
    have "Suc ?h + (59 - k) = ?h + (60 - k)" using k by simp
    then show ?thesis by (simp only: mod_add_left_eq)
  qed
  show "window_samples w' ! k = take 60 (s # window_samples w) ! k"
  proof (cases k)
    case 0
    with h len slot show ?thesis by (simp add: window_samples_nth w')
  next
    case (Suc j)
    have "(?h + (60 - k)) mod 60 \<noteq> ?h"
      using circ_inj [of "60 - k" 60 0 ?h] k h Suc by simp
    moreover have "60 - k = 59 - j" using Suc by simp
    ultimately show ?thesis
      using k Suc slot by (simp add: window_samples_nth w' nth_Cons')
  qed
qed simp

lemma window_write_ok:
  assumes "window_inv w"
  shows "\<exists>w'. window_write w s = Inr w' \<and> window_inv w' \<and>
    window_samples w' = take 60 (s # window_samples w)"
proof -
  from assms obtain w' where "window_write w s = Inr w'"
    by (auto simp: window_inv_def window_write_def Let_def)
  moreover from this assms have "window_inv w'"
    by (auto simp: window_inv_def window_write_def Let_def unat_next_head split: if_splits)
  ultimately show ?thesis using window_write_samples [OF assms] by auto
qed

interpretation win: recent_log window_write window_samples 60 window_inv
  by unfold_locales (rule window_write_ok, simp_all)

section \<open>The arena invariant\<close>

text \<open>Between calls every window is well formed and every lock is free.\<close>

definition bucket_inv :: "hex_bucket \<Rightarrow> bool" where
  "bucket_inv b \<longleftrightarrow> window_inv (window b) \<and> \<not> lock b"

definition arena_inv :: "arena \<Rightarrow> bool" where
  "arena_inv a \<longleftrightarrow> length a = BUCKET_COUNT \<and> (\<forall>b \<in> set a. bucket_inv b)"

lemma new_bucket_inv [simp]: "bucket_inv new_bucket"
  by (simp add: bucket_inv_def new_bucket_def)

lemma new_arena_inv: "arena_inv new_arena"
  by (auto simp: arena_inv_def new_arena_def)

lemma bucket_store_ok:
  assumes "window_inv (window b)"
  shows "\<exists>b'. bucket_store b hex_id speed ts = Inr b' \<and> h3_index b' = hex_id \<and> lock b' = lock b \<and>
     window_inv (window b') \<and>
     window_samples (window b') = take 60 ((ucast ts, speed) #
       (if h3_index b \<noteq> 0 \<and> h3_index b \<noteq> hex_id then replicate 60 (0, 0)
        else window_samples (window b)))"
proof -
  let ?w = "window (reset_on_collision b hex_id)"
  have "window_inv ?w" and
    "window_samples ?w = (if h3_index b \<noteq> 0 \<and> h3_index b \<noteq> hex_id then replicate 60 (0, 0)
        else window_samples (window b))"
    using assms by (auto simp: reset_on_collision_def)
  with win.put_law [of ?w "(ucast ts, speed)"] show ?thesis
    by (auto simp: bucket_store_def reset_on_collision_def Let_def)
qed

text \<open>What a successful update does: one bucket changes, the others are as they were.\<close>

definition updated_arena :: "arena \<Rightarrow> u64 \<Rightarrow> u32 \<times> float32 \<Rightarrow> arena \<Rightarrow> bool" where
  "updated_arena a hex_id s a' \<longleftrightarrow>
     (let i = arena_index hex_id in
       length a' = length a \<and> (\<forall>j. j \<noteq> i \<longrightarrow> a' ! j = a ! j) \<and>
       h3_index (a' ! i) = hex_id \<and>
       window_samples (window (a' ! i)) = take 60 (s #
         (if h3_index (a ! i) \<noteq> 0 \<and> h3_index (a ! i) \<noteq> hex_id then replicate 60 (0, 0)
          else window_samples (window (a ! i)))))"

lemma update_accepted:
  assumes "arena_inv a" "lltc (d lat, d lon) H3_RESOLUTION = Some hex_id"
  shows "\<exists>a'. update d lltc a lat lon speed ts = Inr (Returns (a', True)) \<and> arena_inv a' \<and>
     updated_arena a hex_id (ucast ts, speed) a'"
proof -
  let ?i = "arena_index hex_id"
  have i: "?i < length a" using assms(1) arena_index_less by (simp add: arena_inv_def)
  with assms(1) have b: "bucket_inv (a ! ?i)" by (simp add: arena_inv_def)
  then obtain b' where b': "bucket_store ((a ! ?i)\<lparr>lock := True\<rparr>) hex_id speed ts = Inr b'"
    "h3_index b' = hex_id" "window_inv (window b')"
    "window_samples (window b') = take 60 ((ucast ts, speed) #
       (if h3_index (a ! ?i) \<noteq> 0 \<and> h3_index (a ! ?i) \<noteq> hex_id then replicate 60 (0, 0)
        else window_samples (window (a ! ?i))))"
    using bucket_store_ok [of "(a ! ?i)\<lparr>lock := True\<rparr>" hex_id speed ts]
    by (auto simp: bucket_inv_def)
  let ?a = "a[?i := b'\<lparr>lock := False\<rparr>]"
  have "update d lltc a lat lon speed ts = Inr (Returns (?a, True))"
    using assms(2) i b b'(1) by (simp add: update_def Let_def bucket_inv_def)
  moreover have "arena_inv ?a"
    using assms(1) b'(3) by (auto simp: arena_inv_def bucket_inv_def dest!: set_update_subset_insert [THEN subsetD])
  moreover have "updated_arena a hex_id (ucast ts, speed) ?a"
    using i b' by (simp add: updated_arena_def Let_def)
  ultimately show ?thesis by blast
qed

lemma update_rejected:
  "lltc (d lat, d lon) H3_RESOLUTION = None \<Longrightarrow>
   update d lltc a lat lon speed ts = Inr (Returns (a, False))"
  by (simp add: update_def)

text \<open>On an arena in order, an update always returns.\<close>

lemma update_returns:
  assumes "arena_inv a"
  obtains a' ok where "update d lltc a lat lon speed ts = Inr (Returns (a', ok))" "arena_inv a'"
    "ok \<longleftrightarrow> lltc (d lat, d lon) H3_RESOLUTION \<noteq> None"
proof (cases "lltc (d lat, d lon) H3_RESOLUTION")
  case None
  with assms update_rejected [of lltc d lat lon a speed ts] that show thesis by blast
next
  case (Some h)
  with update_accepted [of a lltc d lat lon h speed ts] assms that show thesis by blast
qed

section \<open>Sequences of updates\<close>

type_synonym update_args = "float64 \<times> float64 \<times> float32 \<times> u64"

fun run_updates ::
  "(float64 \<Rightarrow> float64) \<Rightarrow> (float64 \<times> float64 \<Rightarrow> int \<Rightarrow> u64 option)
   \<Rightarrow> arena \<Rightarrow> update_args list \<Rightarrow> ub + arena call"
where
  "run_updates d lltc a [] = Inr (Returns a)"
| "run_updates d lltc a ((lat, lon, speed, ts) # us) =
     sum_bind (update d lltc a lat lon speed ts) (\<lambda>c.
       case c of Blocks \<Rightarrow> Inr Blocks | Returns (a', _) \<Rightarrow> run_updates d lltc a' us)"

text \<open>The accepted updates, as cells with samples, newest first.\<close>

fun located ::
  "(float64 \<Rightarrow> float64) \<Rightarrow> (float64 \<times> float64 \<Rightarrow> int \<Rightarrow> u64 option)
   \<Rightarrow> update_args \<Rightarrow> (u64 \<times> u32 \<times> float32) list"
where
  "located d lltc (lat, lon, speed, ts) =
     (case lltc (d lat, d lon) H3_RESOLUTION of
        None \<Rightarrow> [] | Some h \<Rightarrow> [(h, ucast ts, speed)])"

definition newest_first ::
  "(float64 \<Rightarrow> float64) \<Rightarrow> (float64 \<times> float64 \<Rightarrow> int \<Rightarrow> u64 option)
   \<Rightarrow> update_args list \<Rightarrow> (u64 \<times> u32 \<times> float32) list"
where
  "newest_first d lltc us = rev (concat (map (located d lltc) us))"

text \<open>
  What a bucket keeps of the accepted updates that map to it, newest first: the cell of the
  newest, and the last 60 samples of the uninterrupted run of that cell, over zeros.
\<close>

definition last_cell :: "(u64 \<times> 'a) list \<Rightarrow> u64" where
  "last_cell xs = (case xs of [] \<Rightarrow> 0 | x # _ \<Rightarrow> fst x)"

definition last_samples :: "(u64 \<times> u32 \<times> float32) list \<Rightarrow> (u32 \<times> float32) list" where
  "last_samples xs =
     take 60 (map snd (takeWhile (\<lambda>x. fst x = last_cell xs) xs) @ replicate 60 (0, 0))"

definition at_bucket :: "nat \<Rightarrow> (u64 \<times> 'a) list \<Rightarrow> (u64 \<times> 'a) list" where
  "at_bucket i xs = filter (\<lambda>x. arena_index (fst x) = i) xs"

definition holds_history :: "arena \<Rightarrow> (u64 \<times> u32 \<times> float32) list \<Rightarrow> bool" where
  "holds_history a xs \<longleftrightarrow>
     (\<forall>i < BUCKET_COUNT. h3_index (a ! i) = last_cell (at_bucket i xs) \<and>
        window_samples (window (a ! i)) = last_samples (at_bucket i xs))"

lemma last_samples_step:
  assumes "\<forall>x \<in> set xs. fst x \<noteq> 0" "h \<noteq> 0"
  shows "take 60 (s # (if last_cell xs \<noteq> 0 \<and> last_cell xs \<noteq> h then replicate 60 (0, 0)
            else last_samples xs)) = last_samples ((h, s) # xs)"
proof (cases xs)
  case Nil
  then show ?thesis by (simp add: last_cell_def last_samples_def)
next
  case (Cons y ys)
  with assms show ?thesis
    by (cases "fst y = h") (auto simp: last_cell_def last_samples_def take_Cons' min_def)
qed

lemma holds_history_step:
  assumes "holds_history a xs" "\<forall>x \<in> set xs. fst x \<noteq> 0" "h \<noteq> 0" "length a = BUCKET_COUNT"
    and "updated_arena a h s a'"
  shows "holds_history a' ((h, s) # xs)"
  unfolding holds_history_def
proof (intro allI impI)
  fix i assume i: "i < BUCKET_COUNT"
  show "h3_index (a' ! i) = last_cell (at_bucket i ((h, s) # xs)) \<and>
      window_samples (window (a' ! i)) = last_samples (at_bucket i ((h, s) # xs))"
  proof (cases "i = arena_index h")
    case True
    have "\<forall>x \<in> set (at_bucket i xs). fst x \<noteq> 0" using assms(2) by (simp add: at_bucket_def)
    note step = last_samples_step [OF this assms(3), of s]
    have cons: "at_bucket i ((h, s) # xs) = (h, s) # at_bucket i xs"
      using True by (simp add: at_bucket_def)
    have "h3_index (a ! i) = last_cell (at_bucket i xs)"
      "window_samples (window (a ! i)) = last_samples (at_bucket i xs)"
      using assms(1) i by (simp_all add: holds_history_def)
    with assms(5) True step show ?thesis
      unfolding cons updated_arena_def Let_def by (simp only: last_cell_def list.case fst_conv)
  next
    case False
    then have "at_bucket i ((h, s) # xs) = at_bucket i xs" by (simp add: at_bucket_def)
    with False assms(1,5) i show ?thesis by (simp add: holds_history_def updated_arena_def Let_def)
  qed
qed

lemma newest_first_Cons:
  "newest_first d lltc (u # us) = newest_first d lltc us @ located d lltc u"
  by (cases "located d lltc u" rule: rev_cases; cases u)
    (auto simp: newest_first_def split: option.splits)

lemma run_updates_history:
  assumes "arena_inv a" "holds_history a xs" "\<forall>x \<in> set xs. fst x \<noteq> 0"
    and "\<forall>x h. lltc x H3_RESOLUTION = Some h \<longrightarrow> h \<noteq> 0"
  shows "\<exists>a'. run_updates d lltc a us = Inr (Returns a') \<and> arena_inv a' \<and>
     holds_history a' (newest_first d lltc us @ xs)"
  using assms(1-3)
proof (induction us arbitrary: a xs)
  case Nil
  then show ?case by (simp add: newest_first_def)
next
  case (Cons u us)
  obtain lat lon speed ts where u: "u = (lat, lon, speed, ts)" by (cases u)
  show ?case
  proof (cases "lltc (d lat, d lon) H3_RESOLUTION")
    case None
    with Cons.IH [OF Cons.prems] show ?thesis
      by (simp add: u update_rejected newest_first_Cons)
  next
    case (Some h)
    with assms(4) have h: "h \<noteq> 0" by blast
    obtain a' where a': "update d lltc a lat lon speed ts = Inr (Returns (a', True))"
      "arena_inv a'" "updated_arena a h (ucast ts, speed) a'"
      using update_accepted [OF Cons.prems(1), of lltc d lat lon h speed ts] Some by blast
    have "length a = BUCKET_COUNT" using Cons.prems(1) by (simp add: arena_inv_def)
    from holds_history_step [OF Cons.prems(2,3) h this a'(3)]
    have "holds_history a' ((h, ucast ts, speed) # xs)" .
    with Cons.IH [OF a'(2), of "(h, ucast ts, speed) # xs"] Cons.prems(3) h Some a'(1)
    show ?thesis by (simp add: u newest_first_Cons)
  qed
qed

lemma new_arena_history: "holds_history new_arena []"
  by (simp add: holds_history_def new_arena_def new_bucket_def last_cell_def last_samples_def
      at_bucket_def)

section \<open>The H3 index layout\<close>

text \<open>
  The documented bit layout of an H3 cell index: fifteen digits of three bits, digit 15 in
  the lowest bits; every digit finer than the cell's resolution is 7.
\<close>

definition h3_digit :: "u64 \<Rightarrow> nat \<Rightarrow> u64" where
  "h3_digit h i = drop_bit (3 * (15 - i)) h AND 7"

definition h3_layout :: "(float64 \<times> float64 \<Rightarrow> int \<Rightarrow> u64 option) \<Rightarrow> bool" where
  "h3_layout lltc \<longleftrightarrow>
     (\<forall>x r h. lltc x r = Some h \<longrightarrow> (\<forall>i. r < int i \<and> i \<le> 15 \<longrightarrow> h3_digit h i = 7))"

lemma low_bits_set:
  assumes "\<forall>i. 9 < i \<and> i \<le> 15 \<longrightarrow> h3_digit h i = 7" "n < 18"
  shows "bit h n"
proof -
  let ?i = "15 - n div 3"
  have "9 < ?i \<and> ?i \<le> 15" using assms(2) by auto
  with assms(1) have "h3_digit h ?i = 7" by blast
  moreover have seven: "(7 :: u64) = mask 3" by (simp add: mask_eq_exp_minus_1)
  ultimately have "drop_bit (3 * (n div 3)) h AND 7 = mask 3"
    using assms(2) by (simp add: h3_digit_def)
  then have "bit (drop_bit (3 * (n div 3)) h AND 7) (n mod 3)"
    by (simp only:) (simp add: bit_mask_iff)
  then have "bit h (3 * (n div 3) + n mod 3)" by (simp add: bit_and_iff bit_drop_bit_eq)
  then show ?thesis by (simp only: mult_div_mod_eq)
qed

lemma h3_arena_index:
  assumes "h3_layout lltc" "lltc x H3_RESOLUTION = Some h"
  shows "arena_index h = BUCKET_COUNT - 1"
proof -
  have digits: "\<forall>i. 9 < i \<and> i \<le> 15 \<longrightarrow> h3_digit h i = 7"
  proof -
    from assms have "\<forall>i. H3_RESOLUTION < int i \<and> i \<le> 15 \<longrightarrow> h3_digit h i = 7"
      unfolding h3_layout_def by blast
    then show ?thesis by (simp add: H3_RESOLUTION_def)
  qed
  have "take_bit 17 h = mask 17"
    by (rule bit_eqI) (auto simp: bit_take_bit_iff bit_mask_iff intro: low_bits_set [OF digits])
  then have "take_bit 17 (unat h) = unat (mask 17 :: u64)"
    by (simp only: flip: unsigned_take_bit_eq)
  then show ?thesis
    by (simp add: arena_index_mod BUCKET_COUNT_def take_bit_eq_mod mask_eq_exp_minus_1)
qed

lemma updated_arena_list:
  assumes "updated_arena a h s a'" "arena_index h < length a"
  shows "a' = a[arena_index h := a' ! arena_index h]"
  using assms by (intro nth_equalityI) (auto simp: updated_arena_def Let_def nth_list_update)

lemma run_updates_one_bucket:
  assumes "h3_layout lltc" "arena_inv a"
  shows "\<exists>a'. run_updates d lltc a us = Inr (Returns a') \<and> arena_inv a' \<and>
     take (BUCKET_COUNT - 1) a' = take (BUCKET_COUNT - 1) a"
  using assms(2)
proof (induction us arbitrary: a)
  case (Cons u us)
  obtain lat lon speed ts where u: "u = (lat, lon, speed, ts)" by (cases u)
  show ?case
  proof (cases "lltc (d lat, d lon) H3_RESOLUTION")
    case None
    with Cons.IH [OF Cons.prems] show ?thesis by (simp add: u update_rejected)
  next
    case (Some h)
    obtain a' where a': "update d lltc a lat lon speed ts = Inr (Returns (a', True))"
      "arena_inv a'" "updated_arena a h (ucast ts, speed) a'"
      using update_accepted [OF Cons.prems, of lltc d lat lon h speed ts] Some by blast
    have "arena_index h = BUCKET_COUNT - 1" by (rule h3_arena_index [OF assms(1) Some])
    moreover have "arena_index h < length a"
      using Cons.prems arena_index_less by (simp add: arena_inv_def)
    ultimately have "take (BUCKET_COUNT - 1) a' = take (BUCKET_COUNT - 1) a"
      using updated_arena_list [OF a'(3)] by (metis order_refl take_update_cancel)
    with Cons.IH [OF a'(2)] a'(1) show ?thesis by (simp add: u)
  qed
qed simp

section \<open>Properties\<close>

text \<open>A cell of resolution 9, as the H3 documentation prints one, and a library that locates
  every point in it.\<close>

definition sample_cell :: u64 where
  "sample_cell = 0x8928308280FFFFF"

definition sample_h3 :: "float64 \<times> float64 \<Rightarrow> int \<Rightarrow> u64 option" where
  "sample_h3 x r = (if r = 9 then Some sample_cell else None)"

text \<open>
  C9: An update whose coordinates H3 rejects returns false and changes nothing; any other
  returns true without undefined behaviour and changes exactly the bucket of its cell: the
  bucket holds the cell, and its 60 newest samples are the new one in front of the earlier
  ones, or of zeros when the bucket held another cell. The arena invariant is kept.
\<close>

theorem update_correct:
  assumes "arena_inv a"
  shows "case latLngToCell (degsToRads lat, degsToRads lon) H3_RESOLUTION of
      None \<Rightarrow> update degsToRads latLngToCell a lat lon speed ts = Inr (Returns (a, False))
    | Some h \<Rightarrow> \<exists>b. update degsToRads latLngToCell a lat lon speed ts
          = Inr (Returns (a[arena_index h := b], True)) \<and>
        arena_inv (a[arena_index h := b]) \<and> h3_index b = h \<and>
        window_samples (window b) = take 60 ((ucast ts, speed) #
          (if h3_index (a ! arena_index h) \<noteq> 0 \<and> h3_index (a ! arena_index h) \<noteq> h
           then replicate 60 (0, 0) else window_samples (window (a ! arena_index h))))"
proof (cases "latLngToCell (degsToRads lat, degsToRads lon) H3_RESOLUTION")
  case None
  then show ?thesis by (simp add: update_rejected)
next
  case (Some h)
  obtain a' where a': "update degsToRads latLngToCell a lat lon speed ts = Inr (Returns (a', True))"
    "arena_inv a'" "updated_arena a h (ucast ts, speed) a'"
    using update_accepted [of a latLngToCell degsToRads lat lon h speed ts] assms Some by blast
  have "arena_index h < length a" using assms arena_index_less by (simp add: arena_inv_def)
  from updated_arena_list [OF a'(3) this] a' Some show ?thesis
    by (auto intro!: exI [of _ "a' ! arena_index h"] simp: updated_arena_def Let_def
        simp del: take_Suc_Cons)
qed

theorem update_correct_witness:
  "case sample_h3 (0, 0) H3_RESOLUTION of
      None \<Rightarrow> update id sample_h3 new_arena 0 0 42 1700000000 = Inr (Returns (new_arena, False))
    | Some h \<Rightarrow> \<exists>b. update id sample_h3 new_arena 0 0 42 1700000000
          = Inr (Returns (new_arena[arena_index h := b], True)) \<and>
        arena_inv (new_arena[arena_index h := b]) \<and> h3_index b = h \<and>
        window_samples (window b) = take 60 ((ucast (1700000000 :: u64), 42) #
          (if h3_index (new_arena ! arena_index h) \<noteq> 0 \<and> h3_index (new_arena ! arena_index h) \<noteq> h
           then replicate 60 (0, 0) else window_samples (window (new_arena ! arena_index h))))"
  using update_correct [OF new_arena_inv, where latLngToCell = sample_h3 and degsToRads = id
      and lat = 0 and lon = 0 and speed = 42 and ts = 1700000000]
  by (simp only: id_apply)

text \<open>
  C21: With a library that keeps H3's documented index layout, at resolution 9 the low 18
  bits of every cell are ones, so \<open>hex_id & (BUCKET_COUNT - 1)\<close> is the last bucket for
  every cell: whatever is stored, all buckets but the last keep their initial content.
\<close>

theorem arena_uses_one_bucket:
  assumes "h3_layout latLngToCell"
  shows "\<exists>a. run_updates degsToRads latLngToCell new_arena us = Inr (Returns a) \<and>
     take (BUCKET_COUNT - 1) a = replicate (BUCKET_COUNT - 1) new_bucket"
  using run_updates_one_bucket [OF assms new_arena_inv, of degsToRads us]
  by (auto simp: new_arena_def)

lemma sample_h3_layout: "h3_layout sample_h3"
proof -
  have "h3_digit sample_cell i = 7" if "9 < int i" "i \<le> 15" for i
  proof -
    from that have "i \<in> {10, 11, 12, 13, 14, 15}" by auto
    then show ?thesis by (auto simp: h3_digit_def sample_cell_def)
  qed
  then show ?thesis by (auto simp: h3_layout_def sample_h3_def)
qed

theorem arena_uses_one_bucket_witness:
  "\<exists>a. run_updates id sample_h3 new_arena [(0, 0, 42, 1), (1, 1, 43, 2)] = Inr (Returns a) \<and>
     take (BUCKET_COUNT - 1) a = replicate (BUCKET_COUNT - 1) new_bucket"
  by (rule arena_uses_one_bucket [OF sample_h3_layout])

text \<open>
  C13: After any sequence of updates of a new arena, each bucket holds the cell of the last
  accepted update that maps to it, and its window reads back the last 60 samples of the
  uninterrupted run of that cell, newest first, over zeros: samples of different cells are
  never mixed. It is assumed that H3 does not return the null index 0 for a point.
\<close>

theorem arena_history:
  assumes "\<forall>x h. latLngToCell x H3_RESOLUTION = Some h \<longrightarrow> h \<noteq> 0"
  shows "\<exists>a. run_updates degsToRads latLngToCell new_arena us = Inr (Returns a) \<and> arena_inv a \<and>
     holds_history a (newest_first degsToRads latLngToCell us)"
  using run_updates_history [of new_arena "[]" latLngToCell degsToRads us] assms
    new_arena_inv new_arena_history by simp

theorem arena_history_witness:
  "\<exists>a. run_updates id sample_h3 new_arena [(0, 0, 42, 1), (1, 1, 43, 2)] = Inr (Returns a) \<and>
     arena_inv a \<and> holds_history a (newest_first id sample_h3 [(0, 0, 42, 1), (1, 1, 43, 2)])"
  by (rule arena_history) (simp add: sample_h3_def sample_cell_def)

end
