(* ===== verification/Arena_Threads.thy ===== *)
theory Arena_Threads
  imports Arena
begin

text \<open>
  \<open>SpatialArena::update\<close> (\<open>src/storage/storage.cpp\<close>) called by any number of threads: a call
  spins on the \<open>atomic_flag\<close> of its bucket until \<open>test_and_set\<close> finds it clear, then
  executes the statements of the critical section one by one and clears the flag. Threads
  interleave between any two of these actions. Memory is sequentially consistent here; with
  acquire and release on the flag and the mutual exclusion proved below this is what the
  C++ memory model promises.
\<close>

section \<open>The statements of a call\<close>

datatype upoint =
    Spin | Check | Clear | Set_Index | Read_Head
  | Write_Speed u8 | Write_Time u8 | Advance u8 | Release

text \<open>A call that H3 located, with the cell, and the result of its next statement.\<close>

type_synonym call_args = "u64 \<times> update_args"

definition collides :: "hex_bucket \<Rightarrow> u64 \<Rightarrow> bool" where
  "collides b hex_id \<longleftrightarrow> h3_index b \<noteq> 0 \<and> h3_index b \<noteq> hex_id"

fun statement :: "call_args \<Rightarrow> upoint \<Rightarrow> hex_bucket \<Rightarrow> ub + hex_bucket \<times> upoint option" where
  "statement x Spin b = Inr (b\<lparr>lock := True\<rparr>, Some (if lock b then Spin else Check))"
| "statement (hex_id, _) Check b = Inr (b, Some (if collides b hex_id then Clear else Set_Index))"
| "statement x Clear b = Inr (b\<lparr>window := new_window\<rparr>, Some Set_Index)"
| "statement (hex_id, _) Set_Index b = Inr (b\<lparr>h3_index := hex_id\<rparr>, Some Read_Head)"
| "statement x Read_Head b = Inr (b, Some (Write_Speed (win_head (window b))))"
| "statement (_, _, _, speed, _) (Write_Speed head) b =
     (let w = window b
      in if unat head < length (win_speeds w)
         then Inr (b\<lparr>window := w\<lparr>win_speeds := (win_speeds w)[unat head := speed]\<rparr>\<rparr>, Some (Write_Time head))
         else Inl Index_Out_Of_Range)"
| "statement (_, _, _, _, timestamp) (Write_Time head) b =
     (let w = window b
      in if unat head < length (win_timestamps w)
         then Inr (b\<lparr>window := w\<lparr>win_timestamps := (win_timestamps w)[unat head := ucast timestamp]\<rparr>\<rparr>,
                   Some (Advance head))
         else Inl Index_Out_Of_Range)"
| "statement x (Advance head) b = Inr (b\<lparr>window := (window b)\<lparr>win_head := next_head head\<rparr>\<rparr>, Some Release)"
| "statement x Release b = Inr (b\<lparr>lock := False\<rparr>, None)"

section \<open>Threads\<close>

record arena_sys =
  as_arena :: arena
  as_calls :: "nat \<Rightarrow> (call_args \<times> upoint) option"
  as_fault :: "ub option"

abbreviation bucket_of :: "call_args \<Rightarrow> nat" where
  "bucket_of x \<equiv> arena_index (fst x)"

text \<open>
  A step of thread \<open>t\<close>; the label is the call that it completes, if any. A call that H3 does
  not locate returns at once.
\<close>

inductive arena_step ::
  "(float64 \<Rightarrow> float64) \<Rightarrow> (float64 \<times> float64 \<Rightarrow> int \<Rightarrow> u64 option)
   \<Rightarrow> arena_sys \<Rightarrow> nat \<Rightarrow> update_args option \<Rightarrow> arena_sys \<Rightarrow> bool"
for degsToRads latLngToCell
where
  begin_call: "as_calls s t = None \<Longrightarrow> latLngToCell (degsToRads lat, degsToRads lon) H3_RESOLUTION = Some h \<Longrightarrow>
    arena_step degsToRads latLngToCell s t None
      (s\<lparr>as_calls := (as_calls s)(t \<mapsto> ((h, lat, lon, speed, ts), Spin))\<rparr>)"
| reject: "as_calls s t = None \<Longrightarrow> latLngToCell (degsToRads lat, degsToRads lon) H3_RESOLUTION = None \<Longrightarrow>
    arena_step degsToRads latLngToCell s t (Some (lat, lon, speed, ts)) s"
| act: "as_calls s t = Some (x, p) \<Longrightarrow> bucket_of x < length (as_arena s) \<Longrightarrow>
    statement x p (as_arena s ! bucket_of x) = Inr (b, q) \<Longrightarrow>
    arena_step degsToRads latLngToCell s t (if q = None then Some (snd x) else None)
      (s\<lparr>as_arena := (as_arena s)[bucket_of x := b],
         as_calls := (as_calls s)(t := map_option (Pair x) q)\<rparr>)"
| act_fault: "as_calls s t = Some (x, p) \<Longrightarrow> bucket_of x < length (as_arena s) \<Longrightarrow>
    statement x p (as_arena s ! bucket_of x) = Inl e \<Longrightarrow>
    arena_step degsToRads latLngToCell s t None (s\<lparr>as_fault := Some e\<rparr>)"
| bucket_fault: "as_calls s t = Some (x, p) \<Longrightarrow> length (as_arena s) \<le> bucket_of x \<Longrightarrow>
    arena_step degsToRads latLngToCell s t None (s\<lparr>as_fault := Some Index_Out_Of_Range\<rparr>)"

definition quiet_arena :: arena_sys where
  "quiet_arena = \<lparr>as_arena = new_arena, as_calls = (\<lambda>_. None), as_fault = None\<rparr>"

text \<open>The runs from a new arena, with the calls they complete in order.\<close>

inductive arena_run ::
  "(float64 \<Rightarrow> float64) \<Rightarrow> (float64 \<times> float64 \<Rightarrow> int \<Rightarrow> u64 option)
   \<Rightarrow> update_args list \<Rightarrow> arena_sys \<Rightarrow> bool"
for degsToRads latLngToCell
where
  quiet: "arena_run degsToRads latLngToCell [] quiet_arena"
| step: "arena_run degsToRads latLngToCell us s \<Longrightarrow> arena_step degsToRads latLngToCell s t ev s' \<Longrightarrow>
    arena_run degsToRads latLngToCell (us @ (case ev of None \<Rightarrow> [] | Some u \<Rightarrow> [u])) s'"

section \<open>The critical section, statement by statement\<close>

text \<open>
  The content \<open>b\<close> of a bucket when its lock's holder is at a point, if \<open>b0\<close> was its content
  when the lock was acquired.
\<close>

definition opened :: "hex_bucket \<Rightarrow> u64 \<Rightarrow> hex_bucket" where
  "opened b0 hex_id = (reset_on_collision (b0\<lparr>lock := True\<rparr>) hex_id)\<lparr>h3_index := hex_id\<rparr>"

fun reached :: "call_args \<Rightarrow> upoint \<Rightarrow> hex_bucket \<Rightarrow> hex_bucket \<Rightarrow> bool" where
  "reached x Spin b0 b \<longleftrightarrow> False"
| "reached x Check b0 b \<longleftrightarrow> b = b0\<lparr>lock := True\<rparr>"
| "reached (h, _) Clear b0 b \<longleftrightarrow> b = b0\<lparr>lock := True\<rparr> \<and> collides b0 h"
| "reached (h, _) Set_Index b0 b \<longleftrightarrow> b = reset_on_collision (b0\<lparr>lock := True\<rparr>) h"
| "reached (h, _) Read_Head b0 b \<longleftrightarrow> b = opened b0 h"
| "reached (h, _) (Write_Speed head) b0 b \<longleftrightarrow> b = opened b0 h \<and> head = win_head (window b)"
| "reached (h, _, _, speed, _) (Write_Time head) b0 b \<longleftrightarrow>
     (let w = window (opened b0 h)
      in head = win_head w \<and>
         b = (opened b0 h)\<lparr>window := w\<lparr>win_speeds := (win_speeds w)[unat head := speed]\<rparr>\<rparr>)"
| "reached (h, _, _, speed, ts) (Advance head) b0 b \<longleftrightarrow>
     (let w = window (opened b0 h)
      in head = win_head w \<and>
         b = (opened b0 h)\<lparr>window := w\<lparr>win_speeds := (win_speeds w)[unat head := speed],
                win_timestamps := (win_timestamps w)[unat head := ucast ts]\<rparr>\<rparr>)"
| "reached (h, _, _, speed, ts) Release b0 b \<longleftrightarrow>
     bucket_store (b0\<lparr>lock := True\<rparr>) h speed ts = Inr b"

lemma opened_window:
  assumes "window_inv (window b0)"
  shows "window_inv (window (opened b0 h))"
  using assms by (simp add: opened_def reset_on_collision_def)

lemma opened_lock: "lock (opened b0 h)"
  by (simp add: opened_def reset_on_collision_def)

lemma bucket_store_opened:
  assumes "window_inv (window b0)"
  shows "bucket_store (b0\<lparr>lock := True\<rparr>) h speed ts =
    (let w = window (opened b0 h); i = unat (win_head w)
     in Inr ((opened b0 h)\<lparr>window := w\<lparr>win_speeds := (win_speeds w)[i := speed],
          win_timestamps := (win_timestamps w)[i := ucast ts], win_head := next_head (win_head w)\<rparr>\<rparr>))"
  using opened_window [OF assms, of h]
  by (simp add: bucket_store_def opened_def [symmetric] window_write_def window_inv_def Let_def)

lemma reached_locked:
  assumes "reached x p b0 b" "window_inv (window b0)"
  shows "lock b"
  using assms opened_lock [of b0 "fst x"]
  by (cases "(x, p, b0, b)" rule: reached.cases)
    (auto simp: Let_def bucket_store_opened reset_on_collision_def)

text \<open>How many statements of the critical section are left.\<close>

fun statements_left :: "upoint \<Rightarrow> nat" where
  "statements_left Spin = 9"
| "statements_left Check = 8"
| "statements_left Clear = 7"
| "statements_left Set_Index = 6"
| "statements_left Read_Head = 5"
| "statements_left (Write_Speed _) = 4"
| "statements_left (Write_Time _) = 3"
| "statements_left (Advance _) = 2"
| "statements_left Release = 1"

text \<open>The next statement of the holder: no undefined behaviour, and the next point is reached.\<close>

lemma statement_reached:
  assumes "reached x p b0 b" "window_inv (window b0)"
  shows "\<exists>b' q. statement x p b = Inr (b', q) \<and>
    (case q of
       Some q' \<Rightarrow> reached x q' b0 b' \<and> statements_left q' < statements_left p
     | None \<Rightarrow> p = Release \<and> b' = b\<lparr>lock := False\<rparr>)"
proof -
  obtain h lat lon speed ts where x: "x = (h, lat, lon, speed, ts)" by (cases x)
  have w: "length (win_speeds (window (opened b0 h))) = 60"
    "length (win_timestamps (window (opened b0 h))) = 60" "unat (win_head (window (opened b0 h))) < 60"
    using opened_window [OF assms(2), of h] by (simp_all add: window_inv_def)
  show ?thesis
  proof (cases p)
    case Set_Index
    with assms(1) show ?thesis by (simp add: x opened_def)
  next
    case (Advance head)
    with assms show ?thesis by (simp add: x bucket_store_opened Let_def)
  qed (use assms(1) w in \<open>auto simp: x collides_def reset_on_collision_def Let_def\<close>)
qed

section \<open>The invariant\<close>

definition holds_lock :: "arena_sys \<Rightarrow> nat \<Rightarrow> nat \<Rightarrow> bool" where
  "holds_lock s i t \<longleftrightarrow> (\<exists>x p. as_calls s t = Some (x, p) \<and> p \<noteq> Spin \<and> bucket_of x = i)"

text \<open>
  \<open>a\<close> is the arena after the completed calls, made one after the other: a bucket that nobody
  holds is that of \<open>a\<close>, and a held one is on its way from it.
\<close>

definition follows ::
  "(float64 \<Rightarrow> float64) \<Rightarrow> (float64 \<times> float64 \<Rightarrow> int \<Rightarrow> u64 option) \<Rightarrow> arena \<Rightarrow> arena_sys \<Rightarrow> bool"
where
  "follows d lltc a s \<longleftrightarrow>
     arena_inv a \<and> length (as_arena s) = BUCKET_COUNT \<and> as_fault s = None \<and>
     (\<forall>t h lat lon speed ts p. as_calls s t = Some ((h, lat, lon, speed, ts), p) \<longrightarrow>
        lltc (d lat, d lon) H3_RESOLUTION = Some h) \<and>
     (\<forall>t x p. as_calls s t = Some (x, p) \<longrightarrow> p \<noteq> Spin \<longrightarrow>
        reached x p (a ! bucket_of x) (as_arena s ! bucket_of x)) \<and>
     (\<forall>i t u. holds_lock s i t \<longrightarrow> holds_lock s i u \<longrightarrow> t = u) \<and>
     (\<forall>i < BUCKET_COUNT. (\<nexists>t. holds_lock s i t) \<longrightarrow> as_arena s ! i = a ! i)"

lemma followsD:
  assumes "follows d lltc a s"
  shows "arena_inv a" "length (as_arena s) = BUCKET_COUNT" "as_fault s = None"
    and "as_calls s t = Some ((h, lat, lon, speed, ts), p) \<Longrightarrow>
      lltc (d lat, d lon) H3_RESOLUTION = Some h"
    and "as_calls s t = Some (x, p) \<Longrightarrow> p \<noteq> Spin \<Longrightarrow>
      reached x p (a ! bucket_of x) (as_arena s ! bucket_of x)"
    and "holds_lock s i t \<Longrightarrow> holds_lock s i u \<Longrightarrow> t = u"
    and "i < BUCKET_COUNT \<Longrightarrow> \<nexists>t. holds_lock s i t \<Longrightarrow> as_arena s ! i = a ! i"
  using assms unfolding follows_def by blast+

lemma bucket_in_range: "arena_inv a \<Longrightarrow> bucket_inv (a ! arena_index h)"
  using arena_index_less [of h] by (simp add: arena_inv_def)

lemma lock_iff_held:
  assumes "follows d lltc a s" "i < BUCKET_COUNT"
  shows "lock (as_arena s ! i) \<longleftrightarrow> (\<exists>t. holds_lock s i t)"
proof (cases "\<exists>t. holds_lock s i t")
  case True
  then obtain t x p where t: "as_calls s t = Some (x, p)" "p \<noteq> Spin" "bucket_of x = i"
    by (auto simp: holds_lock_def)
  from followsD(5) [OF assms(1) t(1,2)] bucket_in_range [OF followsD(1) [OF assms(1)], of "fst x"] t(3)
  have "lock (as_arena s ! i)" by (auto simp: bucket_inv_def intro: reached_locked)
  with True show ?thesis by simp
next
  case False
  with followsD(1,7) [OF assms(1)] assms(2) show ?thesis
    by (auto simp: arena_inv_def bucket_inv_def)
qed

section \<open>Every step keeps it\<close>

text \<open>A thread that holds a bucket, or takes a free one, changes it and moves on.\<close>

lemma follows_update:
  assumes "follows d lltc a s" "arena_inv a'" "\<And>j. j \<noteq> i \<Longrightarrow> a' ! j = a ! j" "i < BUCKET_COUNT"
    and "\<And>u. holds_lock s i u \<Longrightarrow> u = t" "as_calls s t = Some (x, p)" "bucket_of x = i"
    and "case q of Some q' \<Rightarrow> q' \<noteq> Spin \<and> reached x q' (a' ! i) b | None \<Rightarrow> b = a' ! i"
  shows "follows d lltc a' (s\<lparr>as_arena := (as_arena s)[i := b],
     as_calls := (as_calls s)(t := map_option (Pair x) q)\<rparr>)" (is "follows d lltc a' ?s")
proof -
  note old = followsD [OF assms(1)]
  have calls: "as_calls ?s u = (if u = t then map_option (Pair x) q else as_calls s u)" for u
    by simp
  have arena: "as_arena ?s ! j = (if j = i then b else as_arena s ! j)" for j
    using assms(4) old(2) by simp
  have held: "holds_lock ?s j u \<longleftrightarrow> (if u = t then j = i \<and> q \<noteq> None else holds_lock s j u)" for j u
    using assms(7,8) by (cases q; cases x) (auto simp: holds_lock_def calls)
  have other: "\<not> holds_lock s j t" if "j \<noteq> i" for j
    using that assms(6,7) by (auto simp: holds_lock_def)
  show ?thesis
    unfolding follows_def
  proof (intro conjI allI impI)
    show "arena_inv a'" "length (as_arena ?s) = BUCKET_COUNT" "as_fault ?s = None"
      using assms(2) old(2,3) by simp_all
  next
    fix u h lat lon speed ts p'
    assume "as_calls ?s u = Some ((h, lat, lon, speed, ts), p')"
    then show "lltc (d lat, d lon) H3_RESOLUTION = Some h"
      using old(4) assms(6) by (auto simp: calls split: if_splits)
  next
    fix u y r
    assume u: "as_calls ?s u = Some (y, r)" "r \<noteq> Spin"
    show "reached y r (a' ! bucket_of y) (as_arena ?s ! bucket_of y)"
    proof (cases "u = t")
      case True
      with u assms(4,7,8) old(2) show ?thesis by (auto simp: calls)
    next
      case False
      with u have *: "as_calls s u = Some (y, r)" by (simp add: calls)
      with u(2) have "holds_lock s (bucket_of y) u" by (auto simp: holds_lock_def)
      with False assms(5) have "bucket_of y \<noteq> i" by blast
      with old(5) [OF * u(2)] assms(3) show ?thesis by (simp add: arena)
    qed
  next
    fix j u v
    assume "holds_lock ?s j u" "holds_lock ?s j v"
    then have "u = t \<and> j = i \<or> holds_lock s j u" "v = t \<and> j = i \<or> holds_lock s j v"
      by (simp_all add: held split: if_splits)
    with old(6) [of j u v] assms(5) show "u = v" by blast
  next
    fix j
    assume j: "j < BUCKET_COUNT" "\<nexists>u. holds_lock ?s j u"
    show "as_arena ?s ! j = a' ! j"
    proof (cases "j = i")
      case True
      with j(2) held [of i t] have "q = None" by auto
      with True assms(4,8) old(2) show ?thesis by simp
    next
      case False
      with j other [of j] have "\<nexists>u. holds_lock s j u" by (auto simp: held split: if_splits)
      with old(7) [OF j(1)] False assms(3) show ?thesis by (simp add: arena)
    qed
  qed
qed

lemma follows_call:
  assumes "follows d lltc a s" "as_calls s t = None" "lltc (d lat, d lon) H3_RESOLUTION = Some h"
  shows "follows d lltc a (s\<lparr>as_calls := (as_calls s)(t \<mapsto> ((h, lat, lon, speed, ts), Spin))\<rparr>)"
    (is "follows d lltc a ?s")
proof -
  have held: "holds_lock ?s = holds_lock s"
    using assms(2) by (auto simp: holds_lock_def fun_eq_iff)
  show ?thesis
    using assms(1,3) unfolding follows_def held by auto
qed

lemma update_stored:
  assumes "arena_inv a" "lltc (d lat, d lon) H3_RESOLUTION = Some h"
    and "bucket_store ((a ! arena_index h)\<lparr>lock := True\<rparr>) h speed ts = Inr b"
  shows "update d lltc a lat lon speed ts =
    Inr (Returns (a[arena_index h := b\<lparr>lock := False\<rparr>], True))"
  using assms bucket_in_range [OF assms(1), of h] arena_index_less [of h]
  by (simp add: update_def Let_def arena_inv_def bucket_inv_def)

abbreviation after_statement :: "arena_sys \<Rightarrow> nat \<Rightarrow> call_args \<Rightarrow> hex_bucket \<Rightarrow> upoint option \<Rightarrow> arena_sys" where
  "after_statement s t x b q \<equiv> s\<lparr>as_arena := (as_arena s)[bucket_of x := b],
     as_calls := (as_calls s)(t := map_option (Pair x) q)\<rparr>"

lemma follows_spin:
  assumes "follows d lltc a s" "as_calls s t = Some (x, Spin)"
    and "statement x Spin (as_arena s ! bucket_of x) = Inr (b, q)"
  shows "follows d lltc a (after_statement s t x b q) \<and> q \<noteq> None"
proof -
  let ?i = "bucket_of x"
  have i: "?i < BUCKET_COUNT" by (rule arena_index_less)
  show ?thesis
  proof (cases "lock (as_arena s ! ?i)")
    case True
    then have "(as_arena s ! ?i)\<lparr>lock := True\<rparr> = as_arena s ! ?i" by simp
    with True assms(2,3) have "after_statement s t x b q = s" "q = Some Spin"
      by (auto simp: fun_upd_idem intro!: arena_sys.equality)
    with assms(1) show ?thesis by auto
  next
    case False
    then have free: "\<nexists>u. holds_lock s ?i u" using lock_iff_held [OF assms(1) i] by blast
    with followsD(7) [OF assms(1) i] have "as_arena s ! ?i = a ! ?i" by blast
    with False assms(3) have "b = (a ! ?i)\<lparr>lock := True\<rparr>" "q = Some Check" by auto
    with follows_update [OF assms(1) followsD(1) [OF assms(1)] refl i _ assms(2) refl,
        where q = q and b = b] free
    show ?thesis by auto
  qed
qed

text \<open>A statement of the critical section; the last one completes the call.\<close>

lemma follows_inside:
  assumes "follows d lltc a s" "as_calls s t = Some (x, p)" "p \<noteq> Spin"
    and "statement x p (as_arena s ! bucket_of x) = Inr (b, q)"
  shows "\<exists>a'. follows d lltc a' (after_statement s t x b q) \<and>
    run_updates d lltc a (if q = None then [snd x] else []) = Inr (Returns a')"
proof -
  let ?i = "bucket_of x"
  have i: "?i < BUCKET_COUNT" by (rule arena_index_less)
  note a = followsD(1) [OF assms(1)] and here = followsD(5) [OF assms(1-3)]
  have only: "u = t" if "holds_lock s ?i u" for u
    using followsD(6) [OF assms(1) that, of t] assms(2,3) by (auto simp: holds_lock_def)
  have "window_inv (window (a ! ?i))" using bucket_in_range [OF a] by (simp add: bucket_inv_def)
  from statement_reached [OF here this] assms(4)
  have next_point: "case q of Some q' \<Rightarrow> reached x q' (a ! ?i) b
      | None \<Rightarrow> p = Release \<and> b = (as_arena s ! ?i)\<lparr>lock := False\<rparr>" by (cases q) auto
  show ?thesis
  proof (cases q)
    case (Some q')
    with next_point have "q' \<noteq> Spin" by auto
    with follows_update [OF assms(1) a refl i only assms(2) refl, where q = q and b = b]
      next_point Some show ?thesis by auto
  next
    case None
    obtain h lat lon speed ts where x: "x = (h, lat, lon, speed, ts)" by (cases x)
    let ?a = "a[?i := b]"
    from None next_point here
    have "bucket_store ((a ! ?i)\<lparr>lock := True\<rparr>) h speed ts = Inr (as_arena s ! ?i)"
      by (simp add: x)
    then have u: "update d lltc a lat lon speed ts = Inr (Returns (?a, True))"
      using update_stored [OF a, where lltc = lltc and d = d] followsD(4) [OF assms(1)] assms(2)
        None next_point by (auto simp: x)
    obtain a' ok where "update d lltc a lat lon speed ts = Inr (Returns (a', ok))" "arena_inv a'"
      using update_returns [OF a] by blast
    with u have "arena_inv ?a" by simp
    with follows_update [OF assms(1) this _ i only assms(2) refl, where q = q and b = b] u None a i
    show ?thesis by (auto simp: x arena_inv_def)
  qed
qed

lemma follows_no_fault:
  assumes "follows d lltc a s" "as_calls s t = Some (x, p)"
  shows "bucket_of x < length (as_arena s) \<and> statement x p (as_arena s ! bucket_of x) \<noteq> Inl e"
proof (cases "p = Spin")
  case False
  have "window_inv (window (a ! bucket_of x))"
    using bucket_in_range [OF followsD(1) [OF assms(1)]] by (simp add: bucket_inv_def)
  from statement_reached [OF followsD(5) [OF assms False] this] show ?thesis
    using followsD(2) [OF assms(1)] arena_index_less by auto
qed (use followsD(2) [OF assms(1)] arena_index_less in simp)

lemma follows_step:
  assumes "follows d lltc a s" "arena_step d lltc s t ev s'"
  shows "\<exists>a'. follows d lltc a' s' \<and>
    run_updates d lltc a (case ev of None \<Rightarrow> [] | Some u \<Rightarrow> [u]) = Inr (Returns a')"
  using assms(2)
proof (cases rule: arena_step.cases)
  case (begin_call lat lon h speed ts)
  with follows_call [OF assms(1) begin_call(3,4), of speed ts] show ?thesis by simp
next
  case (reject lat lon speed ts)
  with assms(1) show ?thesis by (auto simp: update_rejected)
next
  case (act x p b q)
  show ?thesis
  proof (cases "p = Spin")
    case True
    with follows_spin [OF assms(1), of t x b q] act show ?thesis by auto
  next
    case False
    from follows_inside [OF assms(1) act(3) False act(5)] act(1,2) show ?thesis
      by (cases q) auto
  qed
next
  case (act_fault x p e)
  with follows_no_fault [OF assms(1) act_fault(3)] show ?thesis by blast
next
  case (bucket_fault x p)
  with follows_no_fault [OF assms(1) bucket_fault(3)] show ?thesis by simp
qed

section \<open>Runs\<close>

lemma run_updates_append:
  "run_updates d lltc a us = Inr (Returns a') \<Longrightarrow>
   run_updates d lltc a (us @ vs) = run_updates d lltc a' vs"
proof (induction us arbitrary: a)
  case (Cons u us)
  obtain lat lon speed ts where u: "u = (lat, lon, speed, ts)" by (cases u)
  show ?case
  proof (cases "update d lltc a lat lon speed ts" rule: call_cases)
    case (returns r)
    with Cons show ?thesis by (cases r) (simp add: u)
  qed (use Cons.prems in \<open>simp_all add: u\<close>)
qed simp

lemma quiet_follows: "follows d lltc new_arena quiet_arena"
  using new_arena_inv by (auto simp: follows_def quiet_arena_def holds_lock_def arena_inv_def)

lemma run_follows:
  "arena_run d lltc us s \<Longrightarrow>
   \<exists>a. follows d lltc a s \<and> run_updates d lltc new_arena us = Inr (Returns a)"
proof (induction rule: arena_run.induct)
  case quiet
  show ?case using quiet_follows by (intro exI [of _ new_arena]) simp
next
  case (step us s t ev s')
  then obtain a where a: "follows d lltc a s" "run_updates d lltc new_arena us = Inr (Returns a)"
    by blast
  from follows_step [OF a(1) step(2)] run_updates_append [OF a(2)] show ?case by auto
qed

text \<open>A thread that holds a bucket completes its call even if no other thread moves.\<close>

lemma holder_completes:
  assumes "arena_run d lltc us s" "as_calls s t = Some (x, p)" "p \<noteq> Spin"
  shows "\<exists>s'. arena_run d lltc (us @ [snd x]) s' \<and> as_calls s' = (as_calls s)(t := None)"
  using assms
proof (induction "statements_left p" arbitrary: p s rule: less_induct)
  case less
  from run_follows [OF less(2)] obtain a where a: "follows d lltc a s" by blast
  let ?i = "bucket_of x"
  have "window_inv (window (a ! ?i))"
    using bucket_in_range [OF followsD(1) [OF a]] by (simp add: bucket_inv_def)
  from statement_reached [OF followsD(5) [OF a less(3,4)] this] obtain b q where
    b: "statement x p (as_arena s ! ?i) = Inr (b, q)"
      "case q of Some q' \<Rightarrow> reached x q' (a ! ?i) b \<and> statements_left q' < statements_left p
       | None \<Rightarrow> p = Release \<and> b = (as_arena s ! ?i)\<lparr>lock := False\<rparr>" by blast
  let ?s = "s\<lparr>as_arena := (as_arena s)[?i := b], as_calls := (as_calls s)(t := map_option (Pair x) q)\<rparr>"
  have "?i < length (as_arena s)" using followsD(2) [OF a] arena_index_less by simp
  from arena_run.step [OF less(2) arena_step.act [OF less(3) this b(1)]]
  have run: "arena_run d lltc (us @ (if q = None then [snd x] else [])) ?s"
    by (cases q) auto
  show ?case
  proof (cases q)
    case None
    with run show ?thesis by (intro exI [of _ ?s]) simp
  next
    case (Some q')
    with b(2) have "statements_left q' < statements_left p" "q' \<noteq> Spin" by auto
    from less(1) [OF this(1) _ _ this(2), of ?s] run Some show ?thesis by simp
  qed
qed

section \<open>Properties\<close>

text \<open>
  C4: threads that call \<open>update\<close> in any interleaving never run into undefined behaviour, and
  act as the calls made one after the other in the order of their completion: every bucket
  whose lock is free is that of this sequential arena. A bucket whose lock is taken is held by
  exactly one thread, which completes its call even if no other thread moves: no update is
  lost, and nobody spins for ever on a lock that nobody holds.
\<close>

theorem update_linearisable:
  assumes "arena_run degsToRads latLngToCell us s"
  shows "as_fault s = None \<and>
    (\<exists>a. run_updates degsToRads latLngToCell new_arena us = Inr (Returns a) \<and>
       (\<forall>i < BUCKET_COUNT. if lock (as_arena s ! i) then \<exists>!t. holds_lock s i t
          else (\<nexists>t. holds_lock s i t) \<and> as_arena s ! i = a ! i)) \<and>
    (\<forall>t x p. as_calls s t = Some (x, p) \<and> p \<noteq> Spin \<longrightarrow>
       (\<exists>s'. arena_run degsToRads latLngToCell (us @ [snd x]) s' \<and>
          as_calls s' = (as_calls s)(t := None)))"
proof -
  from run_follows [OF assms] obtain a where
    a: "follows degsToRads latLngToCell a s"
       "run_updates degsToRads latLngToCell new_arena us = Inr (Returns a)" by blast
  have "if lock (as_arena s ! i) then \<exists>!t. holds_lock s i t
      else (\<nexists>t. holds_lock s i t) \<and> as_arena s ! i = a ! i" if "i < BUCKET_COUNT" for i
    using lock_iff_held [OF a(1) that] followsD(6,7) [OF a(1)] that by (metis (full_types))
  with a(2) followsD(3) [OF a(1)] holder_completes [OF assms] show ?thesis by blast
qed

text \<open>Thread 0 has taken the lock of the sample cell's bucket; thread 1 spins on it.\<close>

definition sample_call :: call_args where
  "sample_call = (sample_cell, 0, 0, 42, 1700000000)"

definition contended :: arena_sys where
  "contended = \<lparr>as_arena = new_arena[arena_index sample_cell := new_bucket\<lparr>lock := True\<rparr>],
     as_calls = [0 \<mapsto> (sample_call, Check), 1 \<mapsto> (sample_call, Spin)], as_fault = None\<rparr>"

lemma contended_run: "arena_run id sample_h3 [] contended"
proof -
  let ?s1 = "quiet_arena\<lparr>as_calls := [0 \<mapsto> (sample_call, Spin)]\<rparr>"
  let ?s2 = "quiet_arena\<lparr>as_calls := [0 \<mapsto> (sample_call, Spin), 1 \<mapsto> (sample_call, Spin)]\<rparr>"
  have h: "sample_h3 (id 0, id 0) H3_RESOLUTION = Some sample_cell"
    by (simp add: sample_h3_def H3_RESOLUTION_def)
  have i: "arena_index sample_cell < length (as_arena ?s2)"
    "as_arena ?s2 ! arena_index sample_cell = new_bucket"
    using arena_index_less [of sample_cell] by (simp_all add: quiet_arena_def new_arena_def)
  have "arena_run id sample_h3 [] ?s1"
    using arena_run.step [OF arena_run.quiet arena_step.begin_call [where s = quiet_arena and t = 0 and
        latLngToCell = sample_h3 and degsToRads = id and lat = 0 and lon = 0, OF _ h]]
    by (simp add: quiet_arena_def sample_call_def)
  from arena_run.step [OF this arena_step.begin_call [where s = ?s1 and t = 1 and
        latLngToCell = sample_h3 and degsToRads = id and lat = 0 and lon = 0, OF _ h]]
  have "arena_run id sample_h3 [] ?s2" by (simp add: sample_call_def)
  from arena_run.step [OF this arena_step.act [where s = ?s2 and t = 0 and x = sample_call and p = Spin]] i
  show ?thesis
    by (simp add: contended_def quiet_arena_def sample_call_def new_bucket_def fun_upd_twist)
qed

theorem update_linearisable_witness:
  "as_fault contended = None \<and> (\<exists>!t. holds_lock contended (arena_index sample_cell) t) \<and>
   (\<exists>s'. arena_run id sample_h3 [(0, 0, 42, 1700000000)] s' \<and>
      as_calls s' = [1 \<mapsto> (sample_call, Spin)])"
proof -
  have "lock (as_arena contended ! arena_index sample_cell)"
    using arena_index_less [of sample_cell] by (simp add: contended_def new_arena_def)
  moreover have "as_calls contended 0 = Some (sample_call, Check)" by (simp add: contended_def)
  moreover have "(as_calls contended)(0 := None) = [1 \<mapsto> (sample_call, Spin)]"
    by (auto simp: contended_def)
  moreover note update_linearisable [OF contended_run, THEN conjunct2, THEN conjunct2, rule_format,
      of 0 sample_call Check]
  ultimately show ?thesis
    using update_linearisable [OF contended_run, THEN conjunct1]
      update_linearisable [OF contended_run, THEN conjunct2, THEN conjunct1]
      arena_index_less [of sample_cell] by (auto simp: sample_call_def)
qed

end
