(* ===== verification/C_Strings.thy ===== *)
theory C_Strings
  imports Prelude
begin

text \<open>
  C strings: character arrays and the objects that a \<open>char *\<close> points to are lists of
  characters; reading past the end of an object is an error. The library functions the
  program calls on them, and the contents of an array they leave behind.
\<close>

abbreviation NUL :: char where
  "NUL \<equiv> CHR 0x00"

definition c_string :: "string \<Rightarrow> string" where
  "c_string s = takeWhile (\<lambda>c. c \<noteq> NUL) s"

definition terminated :: "string \<Rightarrow> bool" where
  "terminated s \<longleftrightarrow> NUL \<in> set s"

definition c_literal :: "string \<Rightarrow> string" where
  "c_literal s = s @ [NUL]"

lemma terminated_c_literal [simp]: "terminated (c_literal s)"
  by (simp add: terminated_def c_literal_def)

lemma c_string_Nil [simp]: "c_string [] = []"
  and c_string_Cons [simp]: "c_string (c # s) = (if c = NUL then [] else c # c_string s)"
  by (simp_all add: c_string_def)

lemma c_string_append: "NUL \<notin> set s \<Longrightarrow> c_string (s @ t) = s @ c_string t"
  by (induction s) auto

lemma c_string_c_literal: "NUL \<notin> set s \<Longrightarrow> c_string (c_literal s) = s"
  by (simp add: c_literal_def c_string_append)

lemma NUL_notin_c_string [simp]: "NUL \<notin> set (c_string s)"
  by (induction s) auto

lemma terminated_Cons [simp]: "terminated (c # s) \<longleftrightarrow> c = NUL \<or> terminated s"
  by (auto simp: terminated_def)

lemma not_terminated_Nil [simp]: "\<not> terminated []"
  by (simp add: terminated_def)

section \<open>\<open>strncpy\<close>\<close>

text \<open>The \<open>n\<close> bytes that \<open>strncpy\<close> writes: the string, cut at \<open>n\<close> or padded with zeros.\<close>

fun strncpy_bytes :: "string \<Rightarrow> nat \<Rightarrow> ub + string" where
  "strncpy_bytes src 0 = Inr []"
| "strncpy_bytes [] (Suc n) = Inl Index_Out_Of_Range"
| "strncpy_bytes (c # cs) (Suc n) =
     (if c = NUL then Inr (replicate (Suc n) NUL)
      else sum_bind (strncpy_bytes cs n) (\<lambda>bs. Inr (c # bs)))"

definition strncpy :: "string \<Rightarrow> string \<Rightarrow> nat \<Rightarrow> ub + string" where
  "strncpy dst src n =
     (if n \<le> length dst then sum_bind (strncpy_bytes src n) (\<lambda>bs. Inr (bs @ drop n dst))
      else Inl Index_Out_Of_Range)"

definition char_write :: "string \<Rightarrow> nat \<Rightarrow> char \<Rightarrow> ub + string" where
  "char_write s i c = (if i < length s then Inr (s[i := c]) else Inl Index_Out_Of_Range)"

text \<open>A string in an array of \<open>n\<close> bytes: cut to leave room for the terminator, zero-padded.\<close>

definition char_array :: "nat \<Rightarrow> string \<Rightarrow> string" where
  "char_array n s = take (n - 1) s @ replicate (n - min (length s) (n - 1)) NUL"

lemma length_char_array [simp]: "0 < n \<Longrightarrow> length (char_array n s) = n"
  by (simp add: char_array_def)

lemma terminated_char_array [simp]: "0 < n \<Longrightarrow> terminated (char_array n s)"
  by (cases n) (simp_all add: char_array_def terminated_def min_def)

lemma c_string_replicate_NUL [simp]: "c_string (replicate n NUL) = []"
  by (cases n) auto

lemma c_string_char_array [simp]:
  assumes "NUL \<notin> set s"
  shows "c_string (char_array n s) = take (n - 1) s"
proof -
  have "NUL \<notin> set (take (n - 1) s)" using assms by (auto dest: in_set_takeD)
  then show ?thesis by (simp add: char_array_def c_string_append)
qed

lemma strncpy_bytes_ok:
  assumes "terminated src \<or> n \<le> length src"
  shows "strncpy_bytes src n =
    Inr (take n (c_string src) @ replicate (n - length (c_string src)) NUL)"
  using assms by (induction src n rule: strncpy_bytes.induct) auto

text \<open>The program's idiom: \<open>strncpy\<close> to all but the last byte, and a terminator there.\<close>

definition copy_field :: "string \<Rightarrow> string \<Rightarrow> ub + string" where
  "copy_field dst src =
     sum_bind (strncpy dst src (length dst - 1)) (\<lambda>d. char_write d (length dst - 1) NUL)"

lemma copy_field_ok:
  assumes "dst \<noteq> []" "terminated src"
  shows "copy_field dst src = Inr (char_array (length dst) (c_string src))"
proof -
  let ?n = "length dst - 1" and ?s = "c_string src"
  have n: "?n < length dst" using assms(1) by simp
  have len: "length (take ?n ?s @ replicate (?n - length ?s) NUL) = ?n" by simp
  have last: "drop ?n dst = [last dst]"
    using assms(1) by (metis append_butlast_last_id append_eq_conv_conj length_butlast)
  have "strncpy dst src ?n = Inr ((take ?n ?s @ replicate (?n - length ?s) NUL) @ [last dst])"
    using assms(2) by (simp add: strncpy_def strncpy_bytes_ok last [simplified])
  moreover have "((take ?n ?s @ replicate (?n - length ?s) NUL) @ [last dst])[?n := NUL] =
      (take ?n ?s @ replicate (?n - length ?s) NUL) @ [NUL]"
    using len by (metis list_update_length)
  moreover have "(take ?n ?s @ replicate (?n - length ?s) NUL) @ [NUL] = char_array (length dst) ?s"
  proof -
    have "length dst - min (length ?s) ?n = Suc (?n - length ?s)"
      using n by linarith
    then show ?thesis by (simp add: char_array_def replicate_append_same)
  qed
  ultimately show ?thesis using n len by (simp add: copy_field_def char_write_def)
qed

section \<open>\<open>strncmp\<close>\<close>

text \<open>The difference of the first bytes that differ among the first \<open>n\<close>, or 0.\<close>

fun strncmp :: "string \<Rightarrow> string \<Rightarrow> nat \<Rightarrow> ub + int" where
  "strncmp s t 0 = Inr 0"
| "strncmp (c # cs) (d # ds) (Suc n) =
     (if c \<noteq> d then Inr (int (of_char c) - int (of_char d))
      else if c = NUL then Inr 0
      else strncmp cs ds n)"
| "strncmp _ _ (Suc n) = Inl Index_Out_Of_Range"

lemma strncmp_equal:
  assumes "terminated s" "terminated t"
  shows "\<exists>d. strncmp s t n = Inr d \<and> (d = 0 \<longleftrightarrow> take n (c_string s) = take n (c_string t))"
  using assms
proof (induction s t n rule: strncmp.induct)
  case (2 c cs d ds n)
  have "int (of_char c) - int (of_char d) \<noteq> 0" if "c \<noteq> d"
    using that by (simp add: of_char_eq_iff)
  with 2 show ?case by (auto)
qed auto

end
