(* ===== verification/Float_Bits.thy ===== *)
theory Float_Bits
  imports Prelude
begin

text \<open>
  Conversions between \<open>float\<close> and \<open>double\<close> on IEEE 754 bit patterns, as the hardware does
  them: every \<open>float\<close> is a \<open>double\<close> of the same value, and a conversion makes a signalling
  NaN quiet.
\<close>

section \<open>Fields\<close>

definition f32_sign :: "float32 \<Rightarrow> nat" where
  "f32_sign w = unat w div 2 ^ 31"

definition f32_exponent :: "float32 \<Rightarrow> nat" where
  "f32_exponent w = unat w div 2 ^ 23 mod 2 ^ 8"

definition f32_fraction :: "float32 \<Rightarrow> nat" where
  "f32_fraction w = unat w mod 2 ^ 23"

definition f64_sign :: "float64 \<Rightarrow> nat" where
  "f64_sign w = unat w div 2 ^ 63"

definition f64_exponent :: "float64 \<Rightarrow> nat" where
  "f64_exponent w = unat w div 2 ^ 52 mod 2 ^ 11"

definition f64_fraction :: "float64 \<Rightarrow> nat" where
  "f64_fraction w = unat w mod 2 ^ 52"

definition f64_bits :: "nat \<Rightarrow> nat \<Rightarrow> nat \<Rightarrow> float64" where
  "f64_bits s e f = word_of_nat (s * 2 ^ 63 + e * 2 ^ 52 + f)"

definition f32_is_nan :: "float32 \<Rightarrow> bool" where
  "f32_is_nan w \<longleftrightarrow> f32_exponent w = 255 \<and> f32_fraction w \<noteq> 0"

section \<open>Values\<close>

text \<open>
  The value of a finite pattern, in units of the least positive \<open>float\<close> (2 to the power
  -149) and \<open>double\<close> (2 to the power -1074).
\<close>

definition f32_value :: "float32 \<Rightarrow> int option" where
  "f32_value w =
     (let e = f32_exponent w; f = f32_fraction w; s = (if f32_sign w = 0 then 1 else -1)
      in if e = 255 then None
         else if e = 0 then Some (s * int f)
         else Some (s * int ((2 ^ 23 + f) * 2 ^ (e - 1))))"

definition f64_value :: "float64 \<Rightarrow> int option" where
  "f64_value w =
     (let e = f64_exponent w; f = f64_fraction w; s = (if f64_sign w = 0 then 1 else -1)
      in if e = 2047 then None
         else if e = 0 then Some (s * int f)
         else Some (s * int ((2 ^ 52 + f) * 2 ^ (e - 1))))"

section \<open>Conversions\<close>

text \<open>The position of the leading bit.\<close>

fun leading_bit :: "nat \<Rightarrow> nat" where
  "leading_bit n = (if n < 2 then 0 else Suc (leading_bit (n div 2)))"

declare leading_bit.simps [simp del]

lemma leading_bit_bounds: "0 < n \<Longrightarrow> 2 ^ leading_bit n \<le> n \<and> n < 2 ^ Suc (leading_bit n)"
proof (induction n rule: leading_bit.induct)
  case (1 n)
  show ?case
  proof (cases "n < 2")
    case True
    with 1 show ?thesis by (simp add: leading_bit.simps)
  next
    case False
    with 1 have "2 ^ leading_bit (n div 2) \<le> n div 2 \<and> n div 2 < 2 ^ Suc (leading_bit (n div 2))"
      by simp
    then have "2 * 2 ^ leading_bit (n div 2) \<le> n \<and> n < 2 * 2 ^ Suc (leading_bit (n div 2))"
      by linarith
    with False show ?thesis by (simp add: leading_bit.simps [of n])
  qed
qed

text \<open>\<open>float\<close> to \<open>double\<close>: special values, zeros, subnormals (normalised), normal numbers.\<close>

definition widen :: "float32 \<Rightarrow> float64" where
  "widen w =
     (let s = f32_sign w; e = f32_exponent w; f = f32_fraction w; k = leading_bit f
      in if e = 255 then
           f64_bits s 2047 (if f = 0 then 0 else if f < 2 ^ 22 then (f + 2 ^ 22) * 2 ^ 29 else f * 2 ^ 29)
         else if e = 0 \<and> f = 0 then f64_bits s 0 0
         else if e = 0 then f64_bits s (k + 874) ((f - 2 ^ k) * 2 ^ (52 - k))
         else f64_bits s (e + 896) (f * 2 ^ 29))"

text \<open>
  \<open>double\<close> to \<open>float\<close>, to nearest and to even on a tie. \<open>t\<close> is the exponent field of the
  result, 1 for a subnormal one, and \<open>shift\<close> the number of bits of the significand below the
  grid of that exponent; a carry out of the fraction runs into the exponent, and what gets too
  large is infinite.
\<close>

definition round_half_even :: "nat \<Rightarrow> nat \<Rightarrow> nat" where
  "round_half_even m k =
     (let q = m div 2 ^ k; r = m mod 2 ^ k
      in if 2 ^ k < 2 * r \<or> 2 * r = 2 ^ k \<and> odd q then q + 1 else q)"

definition f32_bits :: "nat \<Rightarrow> nat \<Rightarrow> nat \<Rightarrow> float32" where
  "f32_bits s e f = word_of_nat (s * 2 ^ 31 + e * 2 ^ 23 + f)"

definition narrow :: "float64 \<Rightarrow> float32" where
  "narrow w =
     (let s = f64_sign w; e = f64_exponent w; f = f64_fraction w
      in if e = 2047 then
           f32_bits s 255 (if f = 0 then 0
             else let g = f div 2 ^ 29 in if g < 2 ^ 22 then g + 2 ^ 22 else g)
         else
           let m = (if e = 0 then f else 2 ^ 52 + f);
               t = (if 897 \<le> e then e - 896 else 1);
               shift = (if 897 \<le> e then 29 else 926 - max 1 e)
           in f32_bits s 0 (min (255 * 2 ^ 23) ((t - 1) * 2 ^ 23 + round_half_even m shift)))"

text \<open>
  A \<open>float\<close> that becomes a \<open>double\<close> and a \<open>float\<close> again, converted as IEEE 754 says. C11 does
  not fix what becomes of a signalling NaN: a compiler that leaves both conversions out keeps
  its bits. On every other pattern this makes no difference.
\<close>

definition via_double :: "float32 \<Rightarrow> float32" where
  "via_double w = narrow (widen w)"

section \<open>Widening is exact\<close>

lemma f32_bounds: "f32_sign w < 2" "f32_exponent w < 256" "f32_fraction w < 2 ^ 23"
proof -
  have "unat w < 2 ^ 32" using unsigned_less [of w] by simp
  then show "f32_sign w < 2" by (simp add: f32_sign_def less_mult_imp_div_less)
qed (simp_all add: f32_exponent_def f32_fraction_def)

lemma f64_bits_fields:
  assumes "s < 2" "e < 2 ^ 11" "f < 2 ^ 52"
  shows "f64_sign (f64_bits s e f) = s" "f64_exponent (f64_bits s e f) = e"
    "f64_fraction (f64_bits s e f) = f"
proof -
  have ef: "e * 2 ^ 52 + f < 2 ^ 63" using assms(2,3) by simp
  have "s * 2 ^ 63 + e * 2 ^ 52 + f < 2 ^ 64" using assms by simp
  then have unat: "unat (f64_bits s e f) = s * 2 ^ 63 + (e * 2 ^ 52 + f)"
    by (simp add: f64_bits_def unsigned_of_nat take_bit_nat_eq_self del: of_nat_add of_nat_mult)
  show "f64_sign (f64_bits s e f) = s"
    unfolding f64_sign_def unat using ef by simp
  have "s * 2 ^ 63 + (e * 2 ^ 52 + f) = f + (s * 2 ^ 11 + e) * 2 ^ 52" by simp
  then have *: "unat (f64_bits s e f) = f + (s * 2 ^ 11 + e) * 2 ^ 52" using unat by simp
  show "f64_fraction (f64_bits s e f) = f"
    unfolding f64_fraction_def * using assms(3) by (simp only: mod_mult_self1 mod_less)
  show "f64_exponent (f64_bits s e f) = e"
  proof -
    have "(f + (s * 2 ^ 11 + e) * 2 ^ 52) div 2 ^ 52 = s * 2 ^ 11 + e"
      using assms(3) by (simp only: div_mult_self1 div_less power_not_zero simp_thms)
    then show ?thesis unfolding f64_exponent_def * using assms(2) by simp
  qed
qed

lemma widen_subnormal:
  assumes "0 < f" "f < 2 ^ 23" and k: "k = leading_bit f"
  shows "k < 23" "(f - 2 ^ k) * 2 ^ (52 - k) < 2 ^ 52"
    "2 ^ 52 + (f - 2 ^ k) * 2 ^ (52 - k) = f * 2 ^ (52 - k)"
    "(2 ^ 52 + (f - 2 ^ k) * 2 ^ (52 - k)) * 2 ^ (k + 873) = f * 2 ^ 925"
proof -
  have b: "2 ^ k \<le> f" "f < 2 ^ Suc k" using leading_bit_bounds [OF assms(1)] k by auto
  then have "(2::nat) ^ k < 2 ^ 23" using assms(2) by linarith
  from power_less_imp_less_exp [OF _ this] show "k < 23" by simp
  then have split: "(2::nat) ^ 52 = 2 ^ k * 2 ^ (52 - k)" by (simp flip: power_add)
  have "f - 2 ^ k < 2 ^ k" using b by simp
  then show "(f - 2 ^ k) * 2 ^ (52 - k) < 2 ^ 52" unfolding split by simp
  show "2 ^ 52 + (f - 2 ^ k) * 2 ^ (52 - k) = f * 2 ^ (52 - k)"
    unfolding split using b(1) by (metis add_diff_inverse_nat add_mult_distrib not_less)
  then have "(2 ^ 52 + (f - 2 ^ k) * 2 ^ (52 - k)) * 2 ^ (k + 873) = f * (2 ^ (52 - k) * 2 ^ (k + 873))"
    by simp
  also have "\<dots> = f * 2 ^ 925" using \<open>k < 23\<close> by (simp flip: power_add)
  finally show "(2 ^ 52 + (f - 2 ^ k) * 2 ^ (52 - k)) * 2 ^ (k + 873) = f * 2 ^ 925" .
qed

lemma widen_value: "f64_value (widen w) = map_option (\<lambda>v. v * 2 ^ 925) (f32_value w)"
proof -
  define s e f k where "s = f32_sign w" and "e = f32_exponent w" and "f = f32_fraction w"
    and "k = leading_bit f"
  note defs = s_def [symmetric] e_def [symmetric] f_def [symmetric]
  have b: "s < 2" "e < 256" "f < 2 ^ 23" using f32_bounds by (simp_all add: s_def e_def f_def)
  consider "e = 255" | "e = 0" "f = 0" | "e = 0" "0 < f" | "0 < e" "e < 255" using b by linarith
  then show ?thesis
  proof cases
    case 1
    have "(if f = 0 then 0 else if f < 2 ^ 22 then (f + 2 ^ 22) * 2 ^ 29 else f * 2 ^ 29) < (2::nat) ^ 52"
      using b(3) by simp
    with 1 show ?thesis
      by (simp add: widen_def f32_value_def f64_value_def Let_def defs f64_bits_fields b)
  next
    case 2
    then show ?thesis
      by (simp add: widen_def f32_value_def f64_value_def Let_def defs f64_bits_fields b)
  next
    case 3
    note sub = widen_subnormal [OF 3(2) b(3) k_def]
    have "k + 874 < 2 ^ 11" using sub(1) by simp
    note fields = f64_bits_fields [OF b(1) this sub(2)]
    have w: "widen w = f64_bits s (k + 874) ((f - 2 ^ k) * 2 ^ (52 - k))"
      using 3 by (simp add: widen_def Let_def defs k_def)
    have eq: "f64_value (widen w) =
        Some ((if s = 0 then 1 else -1) *
          int ((2 ^ 52 + (f - 2 ^ k) * 2 ^ (52 - k)) * 2 ^ (k + 873)))"
      using sub(1) unfolding w f64_value_def fields Let_def by simp
    show ?thesis
      unfolding eq sub(4) using 3 by (simp add: f32_value_def Let_def defs)
  next
    case 4
    have "f * 2 ^ 29 < 2 ^ 52" "e + 896 < 2 ^ 11" using b by simp_all
    note fields = f64_bits_fields [OF b(1) this(2,1)]
    have w: "widen w = f64_bits s (e + 896) (f * 2 ^ 29)"
      using 4 by (simp add: widen_def Let_def defs)
    have "(2 ^ 52 + f * 2 ^ 29) * 2 ^ (e + 895) = (2 ^ 23 + f) * (2 ^ 29 * 2 ^ (e + 895))"
      by (simp add: add_mult_distrib)
    also have "(2::nat) ^ 29 * 2 ^ (e + 895) = 2 ^ (e - 1) * 2 ^ 925"
      unfolding power_add [symmetric] using 4 by (intro arg_cong [where f = "power 2"]) simp
    finally have pow: "(2 ^ 52 + f * 2 ^ 29) * 2 ^ (e + 895) = (2 ^ 23 + f) * 2 ^ (e - 1) * 2 ^ 925"
      by (simp only: mult.assoc)
    have eq: "f64_value (widen w) =
        Some ((if s = 0 then 1 else -1) * int ((2 ^ 52 + f * 2 ^ 29) * 2 ^ (e + 895)))"
      using 4 unfolding w f64_value_def fields Let_def by simp
    show ?thesis
      unfolding eq pow using 4 by (simp add: f32_value_def Let_def defs)
  qed
qed


section \<open>There and back\<close>

lemma f32_fields: "w = f32_bits (f32_sign w) (f32_exponent w) (f32_fraction w)"
proof -
  have "f32_sign w * 2 ^ 31 + f32_exponent w * 2 ^ 23 + f32_fraction w = unat w"
  proof -
    have "unat w div 2 ^ 23 = unat w div 2 ^ 23 div 2 ^ 8 * 2 ^ 8 + unat w div 2 ^ 23 mod 2 ^ 8"
      by (rule div_mod_decomp)
    also have "unat w div 2 ^ 23 div 2 ^ 8 = f32_sign w"
      by (simp only: f32_sign_def div_mult2_eq [symmetric]) simp
    finally have "unat w div 2 ^ 23 = f32_sign w * 2 ^ 8 + f32_exponent w"
      by (simp only: f32_exponent_def)
    moreover have "unat w = unat w div 2 ^ 23 * 2 ^ 23 + f32_fraction w"
      unfolding f32_fraction_def by (rule div_mod_decomp)
    ultimately show ?thesis by simp
  qed
  then show ?thesis unfolding f32_bits_def by simp
qed

lemma round_exact: "round_half_even (q * 2 ^ k) k = q"
  by (simp add: round_half_even_def)

lemma round_scaled: "m = q * 2 ^ k \<Longrightarrow> round_half_even m k = q"
  by (simp only: round_exact)

lemma f32_bits_carry: "f32_bits s 0 (e * 2 ^ 23 + f) = f32_bits s e f"
  by (simp add: f32_bits_def)

text \<open>Narrowing a number whose significand lies on the grid of the result.\<close>

lemma narrow_number:
  assumes "s < 2" "e < 2047" "f < 2 ^ 52"
    and "t = (if 897 \<le> e then e - 896 else 1)" "shift = (if 897 \<le> e then 29 else 926 - max 1 e)"
    and "(if e = 0 then f else 2 ^ 52 + f) = q * 2 ^ shift"
    and "(t - 1) * 2 ^ 23 + q < 255 * 2 ^ 23"
  shows "narrow (f64_bits s e f) = f32_bits s 0 ((t - 1) * 2 ^ 23 + q)"
proof -
  have "e < 2 ^ 11" using assms(2) by simp
  note fields = f64_bits_fields [OF assms(1) this assms(3)]
  note round = round_scaled [OF assms(6)]
  show ?thesis
    unfolding narrow_def fields Let_def assms(4,5) [symmetric] round
    using assms(2,7) by (simp add: min_def)
qed

lemma widen_narrow:
  "narrow (widen w) = (if f32_is_nan w \<and> f32_fraction w < 2 ^ 22
     then f32_bits (f32_sign w) 255 (f32_fraction w + 2 ^ 22) else w)"
proof -
  define s e f k where "s = f32_sign w" and "e = f32_exponent w" and "f = f32_fraction w"
    and "k = leading_bit f"
  note defs = s_def [symmetric] e_def [symmetric] f_def [symmetric]
  have b: "s < 2" "e < 256" "f < 2 ^ 23" using f32_bounds by (simp_all add: s_def e_def f_def)
  have w: "f32_bits s e f = w" unfolding s_def e_def f_def by (rule f32_fields [symmetric])
  consider "e = 255" | "e = 0" "f = 0" | "e = 0" "0 < f" | "0 < e" "e < 255" using b by linarith
  then show ?thesis
  proof cases
    case 1
    let ?f = "if f = 0 then 0 else if f < 2 ^ 22 then (f + 2 ^ 22) * 2 ^ 29 else f * 2 ^ 29"
    have "?f < (2::nat) ^ 52" using b(3) by simp
    note fields = f64_bits_fields [OF b(1) _ this, of 2047]
    have "narrow (widen w) = f32_bits s 255 (if f = 0 then 0 else if f < 2 ^ 22 then f + 2 ^ 22 else f)"
      using 1 by (simp add: widen_def narrow_def Let_def defs fields)
    with 1 w show ?thesis unfolding f32_is_nan_def defs by auto
  next
    case 2
    have "narrow (f64_bits s 0 0) = f32_bits s 0 ((1 - 1) * 2 ^ 23 + 0)"
      by (rule narrow_number) (use b in simp_all)
    with 2 w show ?thesis unfolding f32_is_nan_def defs by (simp add: widen_def Let_def defs)
  next
    case 3
    note sub = widen_subnormal [OF 3(2) b(3) k_def]
    have "narrow (f64_bits s (k + 874) ((f - 2 ^ k) * 2 ^ (52 - k))) = f32_bits s 0 ((1 - 1) * 2 ^ 23 + f)"
      by (rule narrow_number [where q = f and t = 1 and shift = "52 - k", OF b(1) _ sub(2)]) (use sub(1,3) b(3) in simp_all)
    with 3 w show ?thesis
      unfolding f32_is_nan_def defs by (simp add: widen_def Let_def defs k_def)
  next
    case 4
    have "narrow (f64_bits s (e + 896) (f * 2 ^ 29)) = f32_bits s 0 ((e - 1) * 2 ^ 23 + (2 ^ 23 + f))"
      by (rule narrow_number [where q = "2 ^ 23 + f" and t = e and shift = 29, OF b(1)]) (use 4 b(3) in simp_all)
    also have "(e - 1) * 2 ^ 23 + (2 ^ 23 + f) = e * 2 ^ 23 + f" using 4 by (cases e) simp_all
    finally show ?thesis
      using 4 w f32_bits_carry [of s e f] unfolding f32_is_nan_def defs
      by (simp add: widen_def Let_def defs)
  qed
qed

text \<open>A number survives the detour; so does a NaN, but for its quiet bit.\<close>

lemma via_double_number: "\<not> f32_is_nan w \<Longrightarrow> via_double w = w"
  by (simp add: via_double_def widen_narrow)

lemma via_double_eq:
  "via_double w = (if f32_is_nan w \<and> f32_fraction w < 2 ^ 22
     then f32_bits (f32_sign w) 255 (f32_fraction w + 2 ^ 22) else w)"
  unfolding via_double_def by (rule widen_narrow)

section \<open>The speed in km/h\<close>

text \<open>
  The product with the constant \<open>3.6f\<close>, which is 15099494 units of 2 to the power -22, rounded
  to nearest and to even on a tie.
\<close>

definition kmh :: "float32 \<Rightarrow> float32" where
  "kmh w =
     (let s = f32_sign w; e = f32_exponent w; f = f32_fraction w
      in if e = 255 then f32_bits s 255 (if f \<noteq> 0 \<and> f < 2 ^ 22 then f + 2 ^ 22 else f)
         else
           let e' = max 1 e; p = (if e = 0 then f else 2 ^ 23 + f) * 15099494; k = leading_bit p;
               t = (if 46 \<le> k + e' then k + e' - 45 else 1);
               shift = t + 22 - e'
           in f32_bits s 0 (min (255 * 2 ^ 23) ((t - 1) * 2 ^ 23 + round_half_even p shift)))"

lemma f32_bits_fields:
  assumes "s < 2" "n < 2 ^ 31"
  shows "f32_sign (f32_bits s 0 n) = s" "f32_exponent (f32_bits s 0 n) = n div 2 ^ 23"
    "f32_fraction (f32_bits s 0 n) = n mod 2 ^ 23"
proof -
  have "s * 2 ^ 31 + n < 2 ^ 32" using assms by simp
  then have unat: "unat (f32_bits s 0 n) = n + s * 2 ^ 31"
    by (simp add: f32_bits_def unsigned_of_nat take_bit_nat_eq_self del: of_nat_add of_nat_mult)
  show "f32_sign (f32_bits s 0 n) = s"
    unfolding f32_sign_def unat using assms(2) by simp
  have *: "unat (f32_bits s 0 n) = n + s * 2 ^ 8 * 2 ^ 23" using unat by simp
  show "f32_fraction (f32_bits s 0 n) = n mod 2 ^ 23"
    unfolding f32_fraction_def * by (rule mod_mult_self1)
  have "(n + s * 2 ^ 8 * 2 ^ 23) div 2 ^ 23 = s * 2 ^ 8 + n div 2 ^ 23"
    by (rule div_mult_self1) simp
  moreover have "n div 2 ^ 23 < 2 ^ 8" using assms(2) by (simp add: less_mult_imp_div_less)
  ultimately show "f32_exponent (f32_bits s 0 n) = n div 2 ^ 23"
    unfolding f32_exponent_def * by simp
qed

text \<open>The value of a significand on the grid of an exponent, with a carry into the next.\<close>

lemma f32_value_fields:
  assumes "f32_sign w = s" "f32_exponent w = e" "f32_fraction w = f" "e \<noteq> 255"
  shows "f32_value w = Some ((if s = 0 then 1 else -1) *
    int (if e = 0 then f else (2 ^ 23 + f) * 2 ^ (e - 1)))"
  using assms by (simp add: f32_value_def Let_def)

lemma f32_value_pattern:
  assumes "s < 2" "0 < t" "q \<le> 2 ^ 24" "t = 1 \<or> 2 ^ 23 \<le> q" "(t - 1) * 2 ^ 23 + q < 255 * 2 ^ 23"
  shows "f32_value (f32_bits s 0 ((t - 1) * 2 ^ 23 + q)) =
      Some ((if s = 0 then 1 else -1) * int (q * 2 ^ (t - 1)))"
    "t \<le> max 1 (f32_exponent (f32_bits s 0 ((t - 1) * 2 ^ 23 + q)))"
proof -
  define n w where "n = (t - 1) * 2 ^ 23 + q" and "w = f32_bits s 0 n"
  have n255: "n < 255 * 2 ^ 23" using assms(5) by (simp only: n_def)
  then have "n < 2 ^ 31" by simp
  note fields = f32_bits_fields [OF assms(1) this, folded w_def]
  consider "q < 2 ^ 23" "t = 1" | r where "q = 2 ^ 23 + r" "r < 2 ^ 23" | "q = 2 ^ 24"
  proof -
    have "q - 2 ^ 23 < 2 ^ 23" "q = 2 ^ 23 + (q - 2 ^ 23)" if "\<not> q < 2 ^ 23" "q \<noteq> 2 ^ 24"
      using that assms(3) by simp_all
    moreover have "q < 2 ^ 23 \<Longrightarrow> t = 1" using assms(4) by auto
    ultimately show thesis using that by blast
  qed
  then have "f32_value w = Some ((if s = 0 then 1 else -1) * int (q * 2 ^ (t - 1))) \<and>
      t \<le> max 1 (f32_exponent w)"
  proof cases
    case 1
    then have "n div 2 ^ 23 = 0" "n mod 2 ^ 23 = q" by (simp_all add: n_def)
    note fields = fields [unfolded this]
    from f32_value_fields [OF fields] fields(2) 1(2) show ?thesis by simp
  next
    case 2
    have n: "n = r + t * 2 ^ 23" using assms(2) 2(1) by (cases t) (simp_all add: n_def)
    then have e: "n div 2 ^ 23 = t" "n mod 2 ^ 23 = r" using 2(2) by simp_all
    have t: "t \<noteq> 255" using n n255 by auto
    note fields = fields [unfolded e]
    from f32_value_fields [OF fields t] fields(2) 2(1) assms(2) show ?thesis by simp
  next
    case 3
    have n: "n = 0 + Suc t * 2 ^ 23" using assms(2) 3 by (cases t) (simp_all add: n_def)
    then have e: "n div 2 ^ 23 = Suc t" "n mod 2 ^ 23 = 0" by simp_all
    have "Suc t \<noteq> 255" using n n255 by auto
    note fields = fields [unfolded e]
    from f32_value_fields [OF fields \<open>Suc t \<noteq> 255\<close>] fields(2) 3 assms(2) show ?thesis
      by (cases t) simp_all
  qed
  then show "f32_value (f32_bits s 0 ((t - 1) * 2 ^ 23 + q)) =
      Some ((if s = 0 then 1 else -1) * int (q * 2 ^ (t - 1)))"
    "t \<le> max 1 (f32_exponent (f32_bits s 0 ((t - 1) * 2 ^ 23 + q)))"
    by (simp_all only: n_def w_def)
qed

lemma round_nearest: "2 * \<bar>int (round_half_even p k) * 2 ^ k - int p\<bar> \<le> 2 ^ k"
proof -
  define q r where "q = p div 2 ^ k" and "r = p mod 2 ^ k"
  have p: "p = q * 2 ^ k + r" unfolding q_def r_def by (rule div_mod_decomp)
  have r: "r < 2 ^ k" by (simp add: r_def)
  have round: "round_half_even p k = (if 2 ^ k < 2 * r \<or> 2 * r = 2 ^ k \<and> odd q then q + 1 else q)"
    by (simp add: round_half_even_def q_def r_def Let_def)
  have "int (round_half_even p k) * 2 ^ k - int p =
      (if 2 ^ k < 2 * r \<or> 2 * r = 2 ^ k \<and> odd q then 2 ^ k - int r else - int r)"
    unfolding round by (simp add: p algebra_simps)
  moreover have "int r < 2 ^ k" using r by (metis of_nat_less_iff of_nat_numeral of_nat_power)
  moreover have "2 ^ k < 2 * r \<longleftrightarrow> 2 ^ k < 2 * int r" "2 * r = 2 ^ k \<longleftrightarrow> 2 * int r = 2 ^ k"
    using of_nat_less_iff [of "2 ^ k" "2 * r", where 'a = int] of_nat_eq_iff [of "2 * r" "2 ^ k", where 'a = int]
    by simp_all
  ultimately show ?thesis by auto
qed

lemma round_le: "p < a * 2 ^ k \<Longrightarrow> round_half_even p k \<le> a"
  by (simp add: round_half_even_def Let_def less_mult_imp_div_less Suc_leI less_imp_le)

lemma round_le_half:
  assumes "2 * p < (2 * a + 1) * 2 ^ k"
  shows "round_half_even p k \<le> a"
proof -
  define q r where "q = p div 2 ^ k" and "r = p mod 2 ^ k"
  have p: "2 * p = 2 * q * 2 ^ k + 2 * r" unfolding q_def r_def using div_mod_decomp [of p "2 ^ k"] by simp
  then have "2 * q * 2 ^ k < (2 * a + 1) * 2 ^ k" using assms by linarith
  then have "2 * q < 2 * a + 1" by (simp only: mult_less_cancel2)
  then have "q \<le> a" by simp
  moreover have "2 * r < 2 ^ k" if "q = a" using assms p that by (simp add: algebra_simps)
  ultimately show ?thesis
    by (cases "q = a") (auto simp: round_half_even_def q_def [symmetric] r_def [symmetric] Let_def)
qed

lemma round_ge: "a * 2 ^ k \<le> p \<Longrightarrow> a \<le> round_half_even p k"
  by (simp add: round_half_even_def Let_def less_eq_div_iff_mult_less_eq le_Suc_eq)

text \<open>The exponent that \<open>kmh\<close> chooses puts the rounded significand on its grid.\<close>

lemma kmh_grid:
  assumes "e = 0 \<longrightarrow> m < 2 ^ 23" "0 < e \<longrightarrow> 2 ^ 23 \<le> m" "m < 2 ^ 24" "p = m * 15099494"
    and "e' = max 1 e" "k = leading_bit p"
    and "t = (if 46 \<le> k + e' then k + e' - 45 else 1)" "shift = t + 22 - e'"
  shows "0 < t" "e' \<le> t + 22" "round_half_even p shift \<le> 2 ^ 24"
    "t = 1 \<or> 2 ^ 23 \<le> round_half_even p shift"
proof -
  have bits: "2 ^ k \<le> p \<and> p < 2 ^ Suc k" if "0 < m"
    using leading_bit_bounds [of p] that assms(4,6) by simp
  have k: "23 \<le> k" if "0 < m"
  proof -
    have "2 ^ 23 \<le> p" using that assms(4) by simp
    then have "(2::nat) ^ 23 < 2 ^ Suc k" using bits [OF that] by linarith
    then show ?thesis using power_less_imp_less_exp [of "2::nat" 23 "Suc k"] by simp
  qed
  show "0 < t" using assms(7) by simp
  consider "m = 0" "e' = 1" "k = 0" | "0 < m" "46 \<le> k + e'" | "0 < m" "k + e' < 46"
  proof -
    have "leading_bit 0 = 0" by (simp add: leading_bit.simps)
    then have "m = 0 \<Longrightarrow> e' = 1 \<and> k = 0" using assms(2,4,5,6) by (cases "e = 0") auto
    then show thesis using that by (cases "m = 0"; cases "46 \<le> k + e'") auto
  qed
  then have "e' \<le> t + 22 \<and> round_half_even p shift \<le> 2 ^ 24 \<and>
      (t = 1 \<or> 2 ^ 23 \<le> round_half_even p shift)"
  proof cases
    case 1
    with assms(4,7,8) round_le [of p "2 ^ 24" shift] show ?thesis by simp
  next
    case 2
    then have shift: "k = 23 + shift" "e' \<le> t + 22" using k assms(7,8) by simp_all
    have "2 ^ 23 * 2 ^ shift \<le> p" "p < 2 ^ 24 * 2 ^ shift"
      using bits [OF 2(1)] unfolding shift(1) power_Suc power_add by simp_all
    with round_le round_ge shift(2) show ?thesis by blast
  next
    case 3
    then have shift: "Suc k \<le> 23 + shift" "e' \<le> t + 22" "t = 1" using k assms(7,8) by simp_all
    have "(2::nat) ^ Suc k \<le> 2 ^ 24 * 2 ^ shift"
      unfolding power_add [symmetric] using shift(1) by (intro power_increasing) simp_all
    with bits [OF 3(1)] have "p < 2 ^ 24 * 2 ^ shift" by linarith
    with round_le shift(2,3) show ?thesis by blast
  qed
  then show "e' \<le> t + 22" "round_half_even p shift \<le> 2 ^ 24"
    "t = 1 \<or> 2 ^ 23 \<le> round_half_even p shift" by simp_all
qed

text \<open>
  The fields of the result. The product of the values \<open>v\<close> and 15099494 is in units that are
  2 to the power 22 smaller.
\<close>

lemma kmh_parts:
  assumes "f32_value w = Some v"
  obtains g p e' t q shift s where "\<bar>g\<bar> = 1" "v * 15099494 = g * (int p * 2 ^ (e' - 1))"
    "kmh w = f32_bits s 0 (min (255 * 2 ^ 23) ((t - 1) * 2 ^ 23 + q))"
    "s < 2" "g = (if s = 0 then 1 else -1)" "0 < e'" "0 < t" "t + 22 = shift + e'"
    "q = round_half_even p shift" "q \<le> 2 ^ 24" "t = 1 \<or> 2 ^ 23 \<le> q"
    "t = 1 \<or> 2 ^ (t + 44) \<le> p * 2 ^ (e' - 1)"
proof -
  define s e f where "s = f32_sign w" and "e = f32_exponent w" and "f = f32_fraction w"
  define m where "m = (if e = 0 then f else 2 ^ 23 + f)"
  define p e' k where "p = m * 15099494" and "e' = max 1 e" and "k = leading_bit p"
  define t where "t = (if 46 \<le> k + e' then k + e' - 45 else 1)"
  define shift where "shift = t + 22 - e'"
  define q where "q = round_half_even p shift"
  note defs = s_def [symmetric] e_def [symmetric] f_def [symmetric]
  have b: "s < 2" "f < 2 ^ 23" using f32_bounds by (simp_all add: s_def f_def)
  have e: "e \<noteq> 255" using assms(1) by (auto simp: f32_value_def Let_def defs split: if_splits)
  let ?g = "if s = 0 then 1 else -1 :: int"
  have v: "v = ?g * int (m * 2 ^ (e' - 1))"
    using assms(1) e by (auto simp: f32_value_def Let_def defs m_def e'_def split: if_splits)
  then have product: "v * 15099494 = ?g * (int p * 2 ^ (e' - 1))" by (simp add: p_def)
  have result: "kmh w = f32_bits s 0 (min (255 * 2 ^ 23) ((t - 1) * 2 ^ 23 + q))"
    using e by (simp only: kmh_def Let_def defs q_def shift_def t_def k_def p_def m_def e'_def if_False)
  note grid = kmh_grid [of e m p e' k t shift, folded q_def]
  have g: "0 < t" "e' \<le> t + 22" "q \<le> 2 ^ 24" "t = 1 \<or> 2 ^ 23 \<le> q"
    using grid b(2) by (simp_all add: m_def p_def e'_def k_def t_def shift_def)
  have "2 ^ (t + 44) \<le> p * 2 ^ (e' - 1)" if "t \<noteq> 1"
  proof -
    have k: "46 \<le> k + e'" "t = k + e' - 45" using that by (auto simp: t_def split: if_splits)
    have "p \<noteq> 0"
    proof
      assume "p = 0"
      then have "k = 0" "e' \<le> 1" by (auto simp: k_def leading_bit.simps p_def m_def e'_def split: if_splits)
      with k(1) show False by simp
    qed
    then have "2 ^ k * 2 ^ (e' - 1) \<le> p * 2 ^ (e' - 1)"
      using leading_bit_bounds [of p] by (simp add: k_def)
    moreover have "t + 44 = k + (e' - 1)" using k by (simp add: e'_def)
    ultimately show ?thesis by (simp only: power_add)
  qed
  with g b(1) result product show thesis
    by (intro that [of ?g p e' s t q shift]) (auto simp: shift_def q_def e'_def)
qed

text \<open>
  A finite result is the exact product up to half a unit in its last place, and the result is
  finite below the number that lies half a unit above the greatest one.
\<close>

lemma kmh_value:
  assumes "f32_value w = Some v" "f32_value (kmh w) = Some r"
  shows "2 * \<bar>r * 2 ^ 22 - v * 15099494\<bar> \<le> 2 ^ 22 * 2 ^ (max 1 (f32_exponent (kmh w)) - 1)"
proof -
  obtain g p e' t q shift s where k: "\<bar>g\<bar> = 1" "v * 15099494 = g * (int p * 2 ^ (e' - 1))"
    "kmh w = f32_bits s 0 (min (255 * 2 ^ 23) ((t - 1) * 2 ^ 23 + q))"
    "s < 2" "g = (if s = 0 then 1 else -1)" "0 < e'" "0 < t" "t + 22 = shift + e'"
    "q = round_half_even p shift" "q \<le> 2 ^ 24" "t = 1 \<or> 2 ^ 23 \<le> q"
    using assms(1) by (rule kmh_parts)
  have n: "(t - 1) * 2 ^ 23 + q < 255 * 2 ^ 23"
  proof (rule ccontr)
    assume "\<not> ?thesis"
    then have "kmh w = f32_bits s 0 (255 * 2 ^ 23)" unfolding k(3) by (simp add: min_def)
    with assms(2) f32_bits_fields [OF k(4), of "255 * 2 ^ 23"] show False
      by (simp add: f32_value_def Let_def)
  qed
  then have w': "kmh w = f32_bits s 0 ((t - 1) * 2 ^ 23 + q)" unfolding k(3) by (simp add: min_def)
  note pattern = f32_value_pattern [OF k(4,7,10,11) n, folded w']
  have r: "r = g * int (q * 2 ^ (t - 1))" using pattern(1) assms(2) k(5) by simp
  have split: "t - 1 + 22 = shift + (e' - 1)" using k(6-8) by simp
  have "r * 2 ^ 22 = g * (int q * 2 ^ (t - 1 + 22))" by (simp add: r power_add)
  then have "r * 2 ^ 22 - v * 15099494 = g * ((int q * 2 ^ shift - int p) * 2 ^ (e' - 1))"
    unfolding split power_add k(2) by (simp add: algebra_simps)
  then have "2 * \<bar>r * 2 ^ 22 - v * 15099494\<bar> = 2 * \<bar>int q * 2 ^ shift - int p\<bar> * 2 ^ (e' - 1)"
    by (simp add: abs_mult k(1))
  also have "\<dots> \<le> 2 ^ shift * 2 ^ (e' - 1)"
    unfolding k(9) by (intro mult_right_mono round_nearest) simp
  also have "\<dots> = 2 ^ 22 * (2 :: int) ^ (t - 1)"
    unfolding power_add [symmetric] split [symmetric] by (simp add: add.commute)
  also have "\<dots> \<le> 2 ^ 22 * 2 ^ (max 1 (f32_exponent (kmh w)) - 1)"
    using pattern(2) by (intro mult_left_mono power_increasing) auto
  finally show ?thesis .
qed

lemma kmh_finite:
  assumes "f32_value w = Some v" "\<bar>v\<bar> * 15099494 < (2 ^ 25 - 1) * 2 ^ 274"
  shows "f32_value (kmh w) \<noteq> None"
proof -
  obtain g p e' t q shift s where k: "\<bar>g\<bar> = 1" "v * 15099494 = g * (int p * 2 ^ (e' - 1))"
    "kmh w = f32_bits s 0 (min (255 * 2 ^ 23) ((t - 1) * 2 ^ 23 + q))"
    "s < 2" "g = (if s = 0 then 1 else -1)" "0 < e'" "0 < t" "t + 22 = shift + e'"
    "q = round_half_even p shift" "q \<le> 2 ^ 24" "t = 1 \<or> 2 ^ 23 \<le> q"
    "t = 1 \<or> 2 ^ (t + 44) \<le> p * 2 ^ (e' - 1)"
    using assms(1) by (rule kmh_parts)
  have "\<bar>v\<bar> * 15099494 = \<bar>v * 15099494\<bar>" by (simp add: abs_mult)
  also have "\<dots> = int (p * 2 ^ (e' - 1))" by (simp add: k(2) abs_mult k(1))
  finally have "int (p * 2 ^ (e' - 1)) < int ((2 ^ 25 - 1) * 2 ^ 274)" using assms(2) by simp
  then have small: "p * 2 ^ (e' - 1) < (2 ^ 25 - 1) * 2 ^ 274" by (simp only: of_nat_less_iff)
  have n: "(t - 1) * 2 ^ 23 + q < 255 * 2 ^ 23"
  proof (cases "t = 1")
    case True
    with k(10) show ?thesis by simp
  next
    case False
    with k(12) small have "2 ^ (t + 44) < (2 ^ 25 :: nat) * 2 ^ 274" by simp
    then have "(2 :: nat) ^ (t + 44) < 2 ^ 299" by (simp only: power_add [symmetric]) simp
    then have "t + 44 < 299" by (rule power_less_imp_less_exp [rotated]) simp
    then consider "t \<le> 253" | "t = 254" by linarith
    then show ?thesis
    proof cases
      case 1
      then have "(t - 1) * 2 ^ 23 \<le> 252 * (2 ^ 23 :: nat)" by (intro mult_right_mono) simp_all
      with k(10) show ?thesis by simp
    next
      case 2
      have "2 * p * 2 ^ (e' - 1) < (2 ^ 25 - 1) * (2 ^ 1 * 2 ^ 274)" using small by simp
      also have "2 ^ 1 * 2 ^ 274 = (2 :: nat) ^ (shift + (e' - 1))"
        unfolding power_add [symmetric] using 2 k(6,8) by (intro arg_cong [where f = "power 2"]) simp
      finally have "2 * p * 2 ^ (e' - 1) < (2 * (2 ^ 24 - 1) + 1) * 2 ^ shift * 2 ^ (e' - 1)"
        by (simp add: power_add)
      then have "2 * p < (2 * (2 ^ 24 - 1) + 1) * 2 ^ shift" by (simp only: mult_less_cancel2)
      then have "q \<le> 2 ^ 24 - 1" unfolding k(9) by (rule round_le_half)
      with 2 show ?thesis by simp
    qed
  qed
  then have w': "kmh w = f32_bits s 0 ((t - 1) * 2 ^ 23 + q)" unfolding k(3) by (simp add: min_def)
  show ?thesis unfolding w' f32_value_pattern(1) [OF k(4,7,10,11) n] by simp
qed

lemma kmh_not_finite:
  assumes "f32_value w = None"
  shows "f32_value (kmh w) = None"
proof -
  have e: "f32_exponent w = 255" using assms by (auto simp: f32_value_def Let_def split: if_splits)
  let ?f = "if f32_fraction w \<noteq> 0 \<and> f32_fraction w < 2 ^ 22 then f32_fraction w + 2 ^ 22
    else f32_fraction w"
  have f: "?f < 2 ^ 23" using f32_bounds(3) [of w] by simp
  then have n: "255 * 2 ^ 23 + ?f < 2 ^ 31" "(255 * 2 ^ 23 + ?f) div 2 ^ 23 = 255" by simp_all
  have "kmh w = f32_bits (f32_sign w) 0 (255 * 2 ^ 23 + ?f)"
    by (simp only: kmh_def Let_def f32_bits_carry e if_True simp_thms)
  then have "f32_exponent (kmh w) = 255"
    using f32_bits_fields(2) [OF f32_bounds(1) n(1)] n(2) by simp
  then show ?thesis by (simp add: f32_value_def)
qed

end
