(* ===== verification/Sink_Interface.thy ===== *)
theory Sink_Interface
  imports Queue_Interface
begin

text \<open>
  What a producer relies on: a sink that takes values one at a time, may make the producer
  wait, and refuses once it is closed. Proved once: what offering a list of values does.
\<close>

text \<open>Offers the values in order until one is refused; the result has how many were taken.\<close>

fun offer_all ::
  "('s \<Rightarrow> 'v \<Rightarrow> 'e + ('s \<times> bool) call) \<Rightarrow> 's \<Rightarrow> 'v list \<Rightarrow> 'e + ('s \<times> nat) call"
where
  "offer_all push s [] = Inr (Returns (s, 0))"
| "offer_all push s (v # vs) =
     call_bind (push s v) (\<lambda>(s', ok).
       if ok then call_bind (offer_all push s' vs) (\<lambda>(s'', n). Inr (Returns (s'', Suc n)))
       else Inr (Returns (s', 0)))"

locale sink =
  fixes push :: "'s \<Rightarrow> 'v \<Rightarrow> 'e + ('s \<times> bool) call"
    and accepted :: "'s \<Rightarrow> 'v list"
    and closed :: "'s \<Rightarrow> bool"
    and invar :: "'s \<Rightarrow> bool"
  assumes push_law:
    "invar s \<Longrightarrow> \<exists>c. push s v = Inr c \<and>
       (\<forall>s' ok. c = Returns (s', ok) \<longrightarrow> invar s' \<and>
          accepted s' = accepted s @ (if ok then [v] else []) \<and> (\<not> ok \<longrightarrow> closed s'))"
begin

lemma offer_cases:
  assumes "invar s"
  obtains (waits) "push s v = Inr Blocks"
    | (taken) s' where "push s v = Inr (Returns (s', True))" "invar s'"
        "accepted s' = accepted s @ [v]"
    | (refused) s' where "push s v = Inr (Returns (s', False))" "invar s'"
        "accepted s' = accepted s" "closed s'"
proof -
  from push_law [OF assms, of v] obtain c where c: "push s v = Inr c"
    "\<And>s' ok. c = Returns (s', ok) \<Longrightarrow> invar s' \<and>
       accepted s' = accepted s @ (if ok then [v] else []) \<and> (\<not> ok \<longrightarrow> closed s')" by blast
  show thesis
  proof (cases c)
    case Blocks
    with c(1) waits show ?thesis by simp
  next
    case (Returns r)
    obtain s' ok where "r = (s', ok)" by (cases r)
    with Returns c(1) c(2) [of s' ok] taken [of s'] refused [of s'] show ?thesis
      by (cases ok) simp_all
  qed
qed

lemma offer_all_prefix:
  assumes "invar s"
  shows "\<exists>c. offer_all push s vs = Inr c \<and>
     (\<forall>s' n. c = Returns (s', n) \<longrightarrow> invar s' \<and> n \<le> length vs \<and>
        accepted s' = accepted s @ take n vs \<and> (n < length vs \<longrightarrow> closed s'))"
  using assms
proof (induction vs arbitrary: s)
  case (Cons v vs)
  from Cons.prems show ?case
  proof (cases rule: offer_cases [where v = v])
    case (taken s')
    from Cons.IH [OF taken(2)] obtain c where c: "offer_all push s' vs = Inr c"
      "\<And>s'' n. c = Returns (s'', n) \<Longrightarrow> invar s'' \<and> n \<le> length vs \<and>
        accepted s'' = accepted s' @ take n vs \<and> (n < length vs \<longrightarrow> closed s'')" by blast
    show ?thesis
    proof (cases c)
      case (Returns r)
      obtain s'' n where "r = (s'', n)" by (cases r)
      with Returns c taken show ?thesis by simp
    qed (use c(1) taken in simp)
  qed simp_all
qed simp

end

text \<open>
  A sink with a credit does not make the producer wait for ever as long as the credit lasts;
  a value costs at most one.
\<close>

locale credited_sink = sink +
  fixes credit :: "'a \<Rightarrow> nat"
  assumes credit_law:
    "invar s \<Longrightarrow> 0 < credit s \<Longrightarrow>
       \<exists>s' ok. push s v = Inr (Returns (s', ok)) \<and> credit s \<le> Suc (credit s')"
begin

lemma offer_all_credit:
  assumes "invar s" "offer_all push s vs = Inr c"
  shows "(c = Blocks \<longrightarrow> credit s < length vs) \<and>
     (\<forall>s' n. c = Returns (s', n) \<longrightarrow> credit s \<le> length vs + credit s')"
proof (cases "credit s")
  case (Suc k)
  with assms show ?thesis
  proof (induction vs arbitrary: s c k)
    case (Cons v vs)
    from credit_law [OF Cons.prems(1), of v] Cons.prems(3) obtain s' ok where
      p: "push s v = Inr (Returns (s', ok))" "credit s \<le> Suc (credit s')" by auto
    show ?case
    proof (cases ok)
      case True
      from push_law [OF Cons.prems(1), of v] p(1) have s': "invar s'" by auto
      from offer_all_prefix [OF s', of vs] obtain c' where
        c': "offer_all push s' vs = Inr c'" by blast
      have "(c' = Blocks \<longrightarrow> credit s' < length vs) \<and>
          (\<forall>s'' n. c' = Returns (s'', n) \<longrightarrow> credit s' \<le> length vs + credit s'')"
        using Cons.IH [OF s' c'] c' by (cases "credit s'"; cases vs) auto
      with p c' True Cons.prems(2) show ?thesis
        by (cases c') auto
    qed (use p Cons.prems(2) in auto)
  qed auto
qed (use assms in \<open>cases vs; auto\<close>)

lemma offer_all_returns:
  assumes "invar s" "length vs \<le> credit s"
  shows "\<exists>s' n. offer_all push s vs = Inr (Returns (s', n))"
proof -
  from offer_all_prefix [OF assms(1), of vs] obtain c where c: "offer_all push s vs = Inr c" by blast
  with offer_all_credit [OF assms(1) c] assms(2) show ?thesis by (cases c) auto
qed

end

end
