(* ===== verification/Parser.thy ===== *)
theory Parser
  imports Vehicle_Data C_Strings Float_Bits Sink_Interface
begin

text \<open>
  The parser (\<open>src/ingestion/parser.c\<close>): from a decoded feed message to the records that are
  pushed into the ring buffer. Decoding and freeing the message are the protobuf-c library's,
  and arguments here; so is the push, which may wait. A decoded struct is the record of the
  members the parser reads (\<open>include/gtfs-realtime.pb-c.h\<close>); the records can be extended by
  the others. A pointer is an option, \<open>None\<close> for \<open>NULL\<close>; a \<open>char *\<close> points to a list of
  characters; an enum and an unsigned member are the 32 bits of their object.
\<close>

section \<open>Decoded messages\<close>

record position =
  pos_latitude :: float32
  pos_longitude :: float32
  pos_has_bearing :: bool
  pos_bearing :: float32
  pos_has_speed :: bool
  pos_speed :: float32

record trip_descriptor =
  td_route_id :: "string option"

record vehicle_descriptor =
  vd_id :: "string option"
  vd_label :: "string option"

record vehicle_position =
  vp_trip :: "trip_descriptor option"
  vp_vehicle :: "vehicle_descriptor option"
  vp_position :: "position option"
  vp_stop_id :: "string option"
  vp_has_current_status :: bool
  vp_current_status :: u32
  vp_has_timestamp :: bool
  vp_timestamp :: u64
  vp_has_congestion_level :: bool
  vp_congestion_level :: u32
  vp_has_occupancy_status :: bool
  vp_occupancy_status :: u32
  vp_has_occupancy_percentage :: bool
  vp_occupancy_percentage :: u32

record feed_entity =
  fe_id :: "string option"
  fe_vehicle :: "vehicle_position option"

record feed_message =
  fm_n_entity :: nat
  fm_entity :: "feed_entity option list"

section \<open>One vehicle\<close>

text \<open>\<open>(p && p->m) ? p->m : d\<close>\<close>

definition member_or :: "'p option \<Rightarrow> ('p \<Rightarrow> 'a option) \<Rightarrow> 'a \<Rightarrow> 'a" where
  "member_or p m d = (case p of None \<Rightarrow> d | Some x \<Rightarrow> (case m x of None \<Rightarrow> d | Some a \<Rightarrow> a))"

definition raw_fleet :: "feed_entity \<Rightarrow> vehicle_position \<Rightarrow> string" where
  "raw_fleet entity vp =
     member_or (vp_vehicle vp) vd_label
       (case fe_id entity of Some i \<Rightarrow> i | None \<Rightarrow> c_literal ''UNKNOWN'')"

definition raw_internal_id :: "vehicle_position \<Rightarrow> string" where
  "raw_internal_id vp = member_or (vp_vehicle vp) vd_id (c_literal ''UNKNOWN'')"

definition raw_route :: "vehicle_position \<Rightarrow> string" where
  "raw_route vp = member_or (vp_trip vp) td_route_id (c_literal ''UNKNOWN'')"

definition raw_stop :: "vehicle_position \<Rightarrow> string" where
  "raw_stop vp = (case vp_stop_id vp of Some s \<Rightarrow> s | None \<Rightarrow> c_literal ''UNKNOWN'')"

text \<open>
  The numeric members. A conditional with a \<open>float\<close> and the constant \<open>0.0\<close> is a \<open>double\<close>;
  one with an unsigned and an \<open>int\<close> operand is unsigned, so its value reaches the \<open>int\<close>
  member through 32 bits.
\<close>

definition float_or_zero :: "bool \<Rightarrow> float32 \<Rightarrow> float32" where
  "float_or_zero has x = (if has then via_double x else 0)"

definition unsigned_or :: "bool \<Rightarrow> u32 \<Rightarrow> u32 \<Rightarrow> int" where
  "unsigned_or has x d = int_of_u32 (if has then x else d)"

text \<open>
  \<open>item\<close> is the uninitialised local variable; its members are assigned in the order of the
  code.
\<close>

definition fill_item ::
  "vehicle_data \<Rightarrow> feed_entity \<Rightarrow> vehicle_position \<Rightarrow> position \<Rightarrow> ub + vehicle_data"
where
  "fill_item item entity vp pos =
     sum_bind (copy_field (fleet_number item) (raw_fleet entity vp)) (\<lambda>fleet.
     sum_bind (copy_field (internal_id item) (raw_internal_id vp)) (\<lambda>internal.
     sum_bind (copy_field (route_id item) (raw_route vp)) (\<lambda>route.
       let item = item\<lparr>fleet_number := fleet, internal_id := internal, route_id := route\<rparr>;
           item = item\<lparr>lat := pos_latitude pos, lon := pos_longitude pos\<rparr>;
           item = item\<lparr>speed := float_or_zero (pos_has_speed pos) (pos_speed pos)\<rparr>;
           item = item\<lparr>occupancy_status :=
             unsigned_or (vp_has_occupancy_status vp) (vp_occupancy_status vp) 7\<rparr>;
           item = item\<lparr>occupancy_percentage :=
             unsigned_or (vp_has_occupancy_percentage vp) (vp_occupancy_percentage vp) (-1)\<rparr>;
           item = item\<lparr>bearing := float_or_zero (pos_has_bearing pos) (pos_bearing pos)\<rparr>;
           item = item\<lparr>timestamp := (if vp_has_timestamp vp then vp_timestamp vp else 0)\<rparr>;
           item = item\<lparr>current_status :=
             unsigned_or (vp_has_current_status vp) (vp_current_status vp) 2\<rparr>;
           item = item\<lparr>congestion_level :=
             unsigned_or (vp_has_congestion_level vp) (vp_congestion_level vp) 0\<rparr>
       in sum_bind (copy_field (stop_id item) (raw_stop vp)) (\<lambda>stop.
            Inr (item\<lparr>stop_id := stop\<rparr>)))))"

section \<open>The feed\<close>

definition entity_at :: "feed_message \<Rightarrow> nat \<Rightarrow> ub + feed_entity" where
  "entity_at msg i =
     (if i < length (fm_entity msg)
      then (case fm_entity msg ! i of None \<Rightarrow> Inl Null_Dereference | Some e \<Rightarrow> Inr e)
      else Inl Index_Out_Of_Range)"

text \<open>
  The loop over the entities from index \<open>i\<close>, with the count so far and the state that \<open>push\<close>
  works on; \<open>garbage i\<close> is what the local variable holds at the start of the iteration.
\<close>

function parse_loop ::
  "('s \<Rightarrow> vehicle_data \<Rightarrow> ub + ('s \<times> bool) call) \<Rightarrow> (nat \<Rightarrow> vehicle_data) \<Rightarrow> feed_message
   \<Rightarrow> nat \<Rightarrow> int \<Rightarrow> 's \<Rightarrow> ub + ('s \<times> int) call"
where
  "parse_loop push garbage msg i pushed_count s =
     (if i < fm_n_entity msg then
        sum_bind (entity_at msg i) (\<lambda>entity.
          case fe_vehicle entity of
            None \<Rightarrow> parse_loop push garbage msg (i + 1) pushed_count s
          | Some vp \<Rightarrow>
              (case vp_position vp of
                 None \<Rightarrow> parse_loop push garbage msg (i + 1) pushed_count s
               | Some pos \<Rightarrow>
                   sum_bind (fill_item (garbage i) entity vp pos) (\<lambda>item.
                   call_bind (push s item) (\<lambda>(s', ok).
                     if ok then
                       sum_bind (c_add pushed_count 1) (\<lambda>n.
                         parse_loop push garbage msg (i + 1) n s')
                     else Inr (Returns (s', pushed_count))))))
      else Inr (Returns (s, pushed_count)))"
  by pat_completeness auto
termination
  by (relation "measure (\<lambda>(push, g, msg, i, n, s). fm_n_entity msg - i)") auto

declare parse_loop.simps [simp del]

text \<open>
  \<open>unpack\<close> decodes the first \<open>len\<close> bytes, or fails; \<open>free_unpacked\<close> releases the message;
  \<open>lib\<close> is the library's state. The result has the count that is reported, if any.
\<close>

definition parse_and_queue ::
  "('l \<Rightarrow> u8 list \<Rightarrow> feed_message option \<times> 'l) \<Rightarrow> (feed_message \<Rightarrow> 'l \<Rightarrow> 'l)
   \<Rightarrow> ('s \<Rightarrow> vehicle_data \<Rightarrow> ub + ('s \<times> bool) call) \<Rightarrow> (nat \<Rightarrow> vehicle_data)
   \<Rightarrow> u8 list \<Rightarrow> nat \<Rightarrow> 'l \<Rightarrow> 's \<Rightarrow> ub + ('l \<times> 's \<times> int option) call"
where
  "parse_and_queue unpack free_unpacked push garbage buffer len lib s =
     (case unpack lib (take len buffer) of
        (None, lib') \<Rightarrow> Inr (Returns (lib', s, None))
      | (Some msg, lib') \<Rightarrow>
          call_bind (parse_loop push garbage msg 0 0 s) (\<lambda>(s', pushed_count).
            Inr (Returns (free_unpacked msg lib', s', Some pushed_count))))"

section \<open>What a decoded message satisfies\<close>

text \<open>
  What protobuf-c promises of a message it decoded: the array has \<open>n_entity\<close> elements, none
  is \<open>NULL\<close>, and every string is terminated.
\<close>

definition string_ok :: "string option \<Rightarrow> bool" where
  "string_ok s \<longleftrightarrow> pred_option terminated s"

definition vehicle_ok :: "vehicle_position \<Rightarrow> bool" where
  "vehicle_ok vp \<longleftrightarrow>
     pred_option (\<lambda>t. string_ok (td_route_id t)) (vp_trip vp) \<and>
     pred_option (\<lambda>d. string_ok (vd_id d) \<and> string_ok (vd_label d)) (vp_vehicle vp) \<and>
     string_ok (vp_stop_id vp)"

definition entity_ok :: "feed_entity \<Rightarrow> bool" where
  "entity_ok e \<longleftrightarrow> string_ok (fe_id e) \<and> pred_option vehicle_ok (fe_vehicle e)"

definition message_ok :: "feed_message \<Rightarrow> bool" where
  "message_ok msg \<longleftrightarrow>
     length (fm_entity msg) = fm_n_entity msg \<and> int (fm_n_entity msg) \<le> INT_MAX \<and>
     list_all (pred_option entity_ok) (fm_entity msg) \<and> None \<notin> set (fm_entity msg)"

section \<open>What a feed means\<close>

text \<open>The string a decoded member stands for, and the record of a vehicle.\<close>

definition string_or :: "string option \<Rightarrow> string \<Rightarrow> string" where
  "string_or s d = (case s of None \<Rightarrow> d | Some t \<Rightarrow> c_string t)"

definition scalar_or :: "bool \<Rightarrow> u32 \<Rightarrow> int \<Rightarrow> int" where
  "scalar_or has x d = (if has then sint x else d)"

definition vehicle_record :: "feed_entity \<Rightarrow> vehicle_position \<Rightarrow> position \<Rightarrow> vehicle_data" where
  "vehicle_record e vp pos =
     \<lparr>fleet_number = char_array 16
        (string_or (Option.bind (vp_vehicle vp) vd_label) (string_or (fe_id e) ''UNKNOWN'')),
      internal_id = char_array 16 (string_or (Option.bind (vp_vehicle vp) vd_id) ''UNKNOWN''),
      route_id = char_array 16 (string_or (Option.bind (vp_trip vp) td_route_id) ''UNKNOWN''),
      lat = pos_latitude pos, lon = pos_longitude pos,
      speed = float_or_zero (pos_has_speed pos) (pos_speed pos),
      occupancy_status = scalar_or (vp_has_occupancy_status vp) (vp_occupancy_status vp) 7,
      occupancy_percentage =
        scalar_or (vp_has_occupancy_percentage vp) (vp_occupancy_percentage vp) (-1),
      bearing = float_or_zero (pos_has_bearing pos) (pos_bearing pos),
      timestamp = (if vp_has_timestamp vp then vp_timestamp vp else 0),
      current_status = scalar_or (vp_has_current_status vp) (vp_current_status vp) 2,
      congestion_level = scalar_or (vp_has_congestion_level vp) (vp_congestion_level vp) 0,
      stop_id = char_array 32 (string_or (vp_stop_id vp) ''UNKNOWN'')\<rparr>"

definition entity_records :: "feed_entity \<Rightarrow> vehicle_data list" where
  "entity_records e =
     (case fe_vehicle e of
        None \<Rightarrow> []
      | Some vp \<Rightarrow> (case vp_position vp of None \<Rightarrow> [] | Some pos \<Rightarrow> [vehicle_record e vp pos]))"

text \<open>The vehicles of a feed: one for each entity with a vehicle position, in order.\<close>

definition feed_vehicles :: "feed_message \<Rightarrow> vehicle_data list" where
  "feed_vehicles msg = concat (map (entity_records \<circ> the) (fm_entity msg))"


section \<open>Correctness of one vehicle\<close>

lemma c_string_UNKNOWN [simp]: "c_string (c_literal ''UNKNOWN'') = ''UNKNOWN''"
  by (rule c_string_c_literal) simp

lemma member_or_string:
  assumes "pred_option (\<lambda>x. string_ok (m x)) p"  "terminated d"
  shows "terminated (member_or p m d) \<and> c_string (member_or p m d) = string_or (Option.bind p m) (c_string d)"
  using assms by (auto simp: member_or_def string_or_def string_ok_def split: option.splits)

lemma unsigned_or_scalar: "unsigned_or has x d = scalar_or has x (sint d)"
  by (simp add: unsigned_or_def scalar_or_def int_of_u32_def)

lemma raw_strings:
  assumes "string_ok (fe_id e)" "vehicle_ok vp"
  shows "terminated (raw_fleet e vp)" "terminated (raw_internal_id vp)"
    "terminated (raw_route vp)" "terminated (raw_stop vp)"
    "c_string (raw_fleet e vp) =
       string_or (Option.bind (vp_vehicle vp) vd_label) (string_or (fe_id e) ''UNKNOWN'')"
    "c_string (raw_internal_id vp) = string_or (Option.bind (vp_vehicle vp) vd_id) ''UNKNOWN''"
    "c_string (raw_route vp) = string_or (Option.bind (vp_trip vp) td_route_id) ''UNKNOWN''"
    "c_string (raw_stop vp) = string_or (vp_stop_id vp) ''UNKNOWN''"
proof -
  have vehicle: "pred_option (\<lambda>d. string_ok (vd_label d)) (vp_vehicle vp)"
    "pred_option (\<lambda>d. string_ok (vd_id d)) (vp_vehicle vp)"
    and trip: "pred_option (\<lambda>t. string_ok (td_route_id t)) (vp_trip vp)"
    and stop: "string_ok (vp_stop_id vp)"
    using assms(2) by (auto simp: vehicle_ok_def pred_option_def)
  let ?id = "case fe_id e of Some i \<Rightarrow> i | None \<Rightarrow> c_literal ''UNKNOWN''"
  have id: "terminated ?id" "c_string ?id = string_or (fe_id e) ''UNKNOWN''"
    using assms(1) by (auto simp: string_ok_def string_or_def split: option.splits)
  note unknown = terminated_c_literal [of "''UNKNOWN''"]
  show "terminated (raw_fleet e vp)"
    "c_string (raw_fleet e vp) =
       string_or (Option.bind (vp_vehicle vp) vd_label) (string_or (fe_id e) ''UNKNOWN'')"
    using member_or_string [OF vehicle(1) id(1)] id(2) by (simp_all add: raw_fleet_def)
  show "terminated (raw_internal_id vp)"
    "c_string (raw_internal_id vp) = string_or (Option.bind (vp_vehicle vp) vd_id) ''UNKNOWN''"
    using member_or_string [OF vehicle(2) unknown] by (simp_all add: raw_internal_id_def)
  show "terminated (raw_route vp)"
    "c_string (raw_route vp) = string_or (Option.bind (vp_trip vp) td_route_id) ''UNKNOWN''"
    using member_or_string [OF trip unknown] by (simp_all add: raw_route_def)
  show "terminated (raw_stop vp)" "c_string (raw_stop vp) = string_or (vp_stop_id vp) ''UNKNOWN''"
    using stop by (auto simp: raw_stop_def string_ok_def string_or_def split: option.splits)
qed

text \<open>The arrays of an uninitialised record have their declared lengths.\<close>

definition item_shape :: "vehicle_data \<Rightarrow> bool" where
  "item_shape v \<longleftrightarrow> length (fleet_number v) = 16 \<and> length (internal_id v) = 16 \<and>
     length (route_id v) = 16 \<and> length (stop_id v) = 32"

lemma fill_item_record:
  assumes "item_shape item" "string_ok (fe_id e)" "vehicle_ok vp"
  shows "fill_item item e vp pos = Inr (vehicle_record e vp pos)"
proof -
  note raw = raw_strings [OF assms(2,3)]
  have len: "length (fleet_number item) = 16" "length (internal_id item) = 16"
    "length (route_id item) = 16" "length (stop_id item) = 32"
    using assms(1) by (simp_all add: item_shape_def)
  then have nonempty: "fleet_number item \<noteq> []" "internal_id item \<noteq> []"
    "route_id item \<noteq> []" "stop_id item \<noteq> []" by auto
  show ?thesis
    by (simp add: fill_item_def vehicle_record_def Let_def copy_field_ok raw nonempty len
        unsigned_or_scalar)
qed

lemma vehicle_record_ok: "vehicle_data_ok (vehicle_record e vp pos)"
proof -
  have "c_int_ok (scalar_or has x d)" if "c_int_ok d" for has x d
    using that c_int_ok_int_of_u32 [of x] by (simp add: scalar_or_def int_of_u32_def)
  then show ?thesis
    by (simp add: vehicle_data_ok_def vehicle_record_def c_int_ok_def INT_MIN_def INT_MAX_def)
qed

section \<open>Correctness of the loop\<close>

lemma entity_at_ok:
  assumes "message_ok msg" "i < fm_n_entity msg"
  obtains e where "entity_at msg i = Inr e" "fm_entity msg ! i = Some e" "entity_ok e"
proof -
  have i: "i < length (fm_entity msg)" using assms by (simp add: message_ok_def)
  then have "fm_entity msg ! i \<noteq> None" using assms(1) by (metis message_ok_def nth_mem)
  then obtain e where e: "fm_entity msg ! i = Some e" by blast
  moreover have "pred_option entity_ok (fm_entity msg ! i)"
    using assms(1) i by (simp add: message_ok_def list_all_length)
  ultimately show thesis using i that by (simp add: entity_at_def)
qed

lemma parse_loop_offers:
  assumes "message_ok msg" "\<And>i. item_shape (garbage i)" "0 \<le> n" "n \<le> int i"
  shows "parse_loop push garbage msg i n s =
    call_bind (offer_all push s (concat (map (entity_records \<circ> the) (drop i (fm_entity msg)))))
      (\<lambda>(s', k). Inr (Returns (s', n + int k)))"
  using assms(3,4)
proof (induction "fm_n_entity msg - i" arbitrary: i n s)
  case 0
  with assms(1) show ?case by (simp add: parse_loop.simps message_ok_def)
next
  case (Suc m)
  then have i: "i < fm_n_entity msg" by simp
  from entity_at_ok [OF assms(1) this] obtain e where
    e: "entity_at msg i = Inr e" "fm_entity msg ! i = Some e" "entity_ok e" .
  have drop: "drop i (fm_entity msg) = Some e # drop (Suc i) (fm_entity msg)"
    using e(2) i assms(1) by (metis Cons_nth_drop_Suc message_ok_def)
  have step: "parse_loop push garbage msg (Suc i) n' s' =
    call_bind (offer_all push s' (concat (map (entity_records \<circ> the) (drop (Suc i) (fm_entity msg)))))
      (\<lambda>(s', k). Inr (Returns (s', n' + int k)))" if "0 \<le> n'" "n' \<le> int (Suc i)" for n' s'
    using Suc.hyps(2) that by (intro Suc.hyps(1)) simp_all
  show ?case
  proof (cases "entity_records e")
    case Nil
    with step [of n s] Suc.prems e i drop show ?thesis
      by (simp add: parse_loop.simps [of _ _ _ i] entity_records_def split: option.splits)
  next
    case (Cons v vs)
    then obtain vp pos where vp: "fe_vehicle e = Some vp" "vp_position vp = Some pos"
      "v = vehicle_record e vp pos" "vs = []"
      by (auto simp: entity_records_def split: option.splits)
    have "string_ok (fe_id e)" "vehicle_ok vp" using e(3) vp(1) by (simp_all add: entity_ok_def)
    from fill_item_record [OF assms(2) this]
    have item: "fill_item (garbage i) e vp pos = Inr v" by (simp add: vp(3))
    have add: "c_add n 1 = Inr (n + 1)"
      using Suc.prems i assms(1) by (intro c_add_ok c_int_okI) (simp_all add: message_ok_def)
    have rest: "parse_loop push garbage msg (Suc i) (n + 1) s' =
      call_bind (offer_all push s' (concat (map (entity_records \<circ> the) (drop (Suc i) (fm_entity msg)))))
        (\<lambda>(s', k). Inr (Returns (s', n + 1 + int k)))" for s'
      using step [of "n + 1"] Suc.prems by simp
    have assoc: "call_bind (call_bind c (\<lambda>(s'', k). Inr (Returns (s'', Suc k))))
        (\<lambda>(s', k). Inr (Returns (s', n + int k))) =
      call_bind c (\<lambda>(s', k). Inr (Returns (s', n + 1 + int k)))" for c :: "ub + ('a \<times> nat) call"
      by (cases c rule: call_cases) auto
    let ?next = "\<lambda>(s', ok). if ok
      then call_bind (offer_all push s' (concat (map (entity_records \<circ> the) (drop (Suc i) (fm_entity msg)))))
        (\<lambda>(s', k). Inr (Returns (s', n + 1 + int k)))
      else Inr (Returns (s', n))"
    have "parse_loop push garbage msg i n s = call_bind (push s v) ?next"
      by (simp add: parse_loop.simps [of _ _ _ i] i e(1) vp(1,2) item add rest
          cong: if_cong call_bind_cong split: prod.splits)
    also have "\<dots> = call_bind (offer_all push s (v # concat (map (entity_records \<circ> the)
        (drop (Suc i) (fm_entity msg))))) (\<lambda>(s', k). Inr (Returns (s', n + int k)))"
      by (cases "push s v" rule: call_cases) (auto simp: assoc)
    finally show ?thesis using Cons vp(4) by (simp add: drop)
  qed
qed


lemma parse_loop_feed:
  assumes "message_ok msg" "\<And>i. item_shape (garbage i)"
  shows "parse_loop push garbage msg 0 0 s =
    call_bind (offer_all push s (feed_vehicles msg)) (\<lambda>(s', k). Inr (Returns (s', int k)))"
  using parse_loop_offers [OF assms, where i = 0 and n = 0] by (simp add: feed_vehicles_def)

lemma parse_and_queue_feed:
  assumes "pred_option message_ok (fst (unpack lib (take len buffer)))"
    and "\<And>i. item_shape (garbage i)"
  shows "parse_and_queue unpack free_unpacked push garbage buffer len lib s =
    (case unpack lib (take len buffer) of
       (None, lib') \<Rightarrow> Inr (Returns (lib', s, None))
     | (Some msg, lib') \<Rightarrow> call_bind (offer_all push s (feed_vehicles msg))
         (\<lambda>(s', k). Inr (Returns (free_unpacked msg lib', s', Some (int k)))))"
proof (cases "unpack lib (take len buffer)")
  case (Pair m lib')
  show ?thesis
  proof (cases m)
    case (Some msg)
    with assms(1) Pair have "message_ok msg" by simp
    note loop = parse_loop_feed [OF this assms(2), where push = push and s = s]
    show ?thesis
      using Pair Some
      by (cases "offer_all push s (feed_vehicles msg)" rule: call_cases)
        (auto simp: parse_and_queue_def loop)
  qed (use Pair in \<open>simp add: parse_and_queue_def\<close>)
qed

section \<open>Properties\<close>

text \<open>
  C7: parsing a payload is: decode it; if that fails do nothing; otherwise offer, in order,
  the record of every entity that has a vehicle position, up to the first one the ring buffer
  refuses, report the number taken, and free the message once. This holds for any push, any
  content of the uninitialised local variable, and without undefined behaviour of the
  parser's own.
\<close>

theorem parse_refines:
  assumes "pred_option message_ok (fst (unpack lib (take len buffer)))"
    and "\<And>i. item_shape (garbage i)"
  shows "parse_and_queue unpack free_unpacked push garbage buffer len lib s =
    (case unpack lib (take len buffer) of
       (None, lib') \<Rightarrow> Inr (Returns (lib', s, None))
     | (Some msg, lib') \<Rightarrow> call_bind (offer_all push s (feed_vehicles msg))
         (\<lambda>(s', k). Inr (Returns (free_unpacked msg lib', s', Some (int k)))))"
  using assms by (rule parse_and_queue_feed)

definition sample_position :: position where
  "sample_position = \<lparr>pos_latitude = 0x422E0000, pos_longitude = 0xC29F0000,
     pos_has_bearing = False, pos_bearing = 0, pos_has_speed = True, pos_speed = 0x41200000\<rparr>"

definition sample_vehicle :: vehicle_position where
  "sample_vehicle = \<lparr>vp_trip = Some \<lparr>td_route_id = Some (c_literal ''60'')\<rparr>,
     vp_vehicle = Some \<lparr>vd_id = Some (c_literal ''8123''), vd_label = None\<rparr>,
     vp_position = Some sample_position, vp_stop_id = None,
     vp_has_current_status = True, vp_current_status = 1,
     vp_has_timestamp = True, vp_timestamp = 1700000000,
     vp_has_congestion_level = False, vp_congestion_level = 0,
     vp_has_occupancy_status = False, vp_occupancy_status = 0,
     vp_has_occupancy_percentage = True, vp_occupancy_percentage = 40\<rparr>"

definition sample_feed :: feed_message where
  "sample_feed = \<lparr>fm_n_entity = 2,
     fm_entity = [Some \<lparr>fe_id = Some (c_literal ''no vehicle''), fe_vehicle = None\<rparr>,
       Some \<lparr>fe_id = Some (c_literal ''an entity with a long id''), fe_vehicle = Some sample_vehicle\<rparr>]\<rparr>"

definition sample_unpack :: "nat \<Rightarrow> u8 list \<Rightarrow> feed_message option \<times> nat" where
  "sample_unpack n bytes = (if bytes = [] then (None, n) else (Some sample_feed, n + 1))"

definition sample_garbage :: vehicle_data where
  "sample_garbage = \<lparr>fleet_number = replicate 16 CHR ''x'', internal_id = replicate 16 CHR ''x'',
     route_id = replicate 16 CHR ''x'', lat = 1, lon = 1, speed = 1, occupancy_status = 1,
     occupancy_percentage = 1, bearing = 1, timestamp = 1, current_status = 1,
     congestion_level = 1, stop_id = replicate 32 CHR ''x''\<rparr>"

definition list_push :: "vehicle_data list \<Rightarrow> vehicle_data \<Rightarrow> ub + (vehicle_data list \<times> bool) call" where
  "list_push vs v = Inr (Returns (vs @ [v], True))"

lemma sample_feed_ok: "message_ok sample_feed"
  by (simp add: sample_feed_def message_ok_def entity_ok_def vehicle_ok_def sample_vehicle_def
      string_ok_def INT_MAX_def)

lemma sample_garbage_shape: "item_shape sample_garbage"
  by (simp add: item_shape_def sample_garbage_def)

lemma sample_feed_vehicles:
  "feed_vehicles sample_feed =
     [vehicle_record (the (fm_entity sample_feed ! 1)) sample_vehicle sample_position]"
  by (simp add: feed_vehicles_def sample_feed_def entity_records_def sample_vehicle_def)

theorem parse_refines_witness:
  "parse_and_queue sample_unpack (\<lambda>_ n. n - 1) list_push (\<lambda>_. sample_garbage) [8, 1] 2 0 [] =
     Inr (Returns (0, feed_vehicles sample_feed, Some 1)) \<and> length (feed_vehicles sample_feed) = 1"
  using parse_refines [of sample_unpack 0 2 "[8, 1]" "\<lambda>_. sample_garbage" "\<lambda>_ n. n - 1" list_push "[]"]
  by (simp add: sample_unpack_def sample_feed_ok sample_garbage_shape sample_feed_vehicles
      list_push_def)

text \<open>
  C16: the character arrays of a pushed record are terminated whatever the length of the
  decoded strings, and hold the string cut to 15 or, for the stop, 31 characters; a label
  goes before the entity's id, and what is absent reads UNKNOWN. The record satisfies the
  ranges of its C type and does not depend on what the local variable held.
\<close>

theorem item_strings:
  assumes "item_shape item" "string_ok (fe_id e)" "vehicle_ok vp"
  shows "\<exists>v. fill_item item e vp pos = Inr v \<and> fill_item sample_garbage e vp pos = Inr v \<and>
    vehicle_data_ok v \<and>
    list_all terminated [fleet_number v, internal_id v, route_id v, stop_id v] \<and>
    c_string (fleet_number v) = take 15
      (string_or (Option.bind (vp_vehicle vp) vd_label) (string_or (fe_id e) ''UNKNOWN'')) \<and>
    c_string (internal_id v) = take 15 (string_or (Option.bind (vp_vehicle vp) vd_id) ''UNKNOWN'') \<and>
    c_string (route_id v) = take 15 (string_or (Option.bind (vp_trip vp) td_route_id) ''UNKNOWN'') \<and>
    c_string (stop_id v) = take 31 (string_or (vp_stop_id vp) ''UNKNOWN'')"
proof -
  have no_nul: "NUL \<notin> set (string_or s d)" if "NUL \<notin> set d" for s d
    using that by (simp add: string_or_def split: option.splits)
  have "NUL \<notin> set ''UNKNOWN''" by simp
  note no_nul = this no_nul [OF this] no_nul [OF no_nul [OF this]]
  show ?thesis
    using fill_item_record [OF assms] fill_item_record [OF sample_garbage_shape assms(2,3)]
      vehicle_record_ok [of e vp pos]
    by (simp add: vehicle_record_def no_nul del: take_eq_Nil)
qed

theorem item_strings_witness:
  "\<exists>v. fill_item sample_garbage \<lparr>fe_id = Some (c_literal ''an entity with a long id''), fe_vehicle = None\<rparr>
      sample_vehicle sample_position = Inr v \<and>
    c_string (fleet_number v) = ''an entity with '' \<and> c_string (internal_id v) = ''8123'' \<and>
    c_string (route_id v) = ''60'' \<and> c_string (stop_id v) = ''UNKNOWN''"
  using item_strings [of sample_garbage
      "\<lparr>fe_id = Some (c_literal ''an entity with a long id''), fe_vehicle = None\<rparr>"
      sample_vehicle sample_position]
  by (auto simp: sample_garbage_shape string_ok_def vehicle_ok_def sample_vehicle_def string_or_def
      c_literal_def)

text \<open>
  C19: a numeric member of a pushed record is the decoded value when it is present, and
  otherwise the sentinel of the code. An occupancy percentage is nonnegative exactly when it
  is present and below 2^31, and then is the decoded number; the sentinel -1 stands for an
  absent percentage but also for the decoded value 2^32 - 1.
\<close>

theorem item_numbers:
  assumes "item_shape item" "string_ok (fe_id e)" "vehicle_ok vp"
  shows "\<exists>v. fill_item item e vp pos = Inr v \<and>
    lat v = pos_latitude pos \<and> lon v = pos_longitude pos \<and>
    timestamp v = (if vp_has_timestamp vp then vp_timestamp vp else 0) \<and>
    occupancy_status v = (if vp_has_occupancy_status vp then sint (vp_occupancy_status vp) else 7) \<and>
    current_status v = (if vp_has_current_status vp then sint (vp_current_status vp) else 2) \<and>
    congestion_level v = (if vp_has_congestion_level vp then sint (vp_congestion_level vp) else 0) \<and>
    speed v = (if pos_has_speed pos then via_double (pos_speed pos) else 0) \<and>
    bearing v = (if pos_has_bearing pos then via_double (pos_bearing pos) else 0) \<and>
    (0 \<le> occupancy_percentage v \<longleftrightarrow>
       vp_has_occupancy_percentage vp \<and> uint (vp_occupancy_percentage vp) < 2 ^ 31) \<and>
    (occupancy_percentage v = uint (vp_occupancy_percentage vp) \<longleftrightarrow>
       vp_has_occupancy_percentage vp \<and> uint (vp_occupancy_percentage vp) < 2 ^ 31) \<and>
    (occupancy_percentage v = -1 \<longleftrightarrow>
       \<not> vp_has_occupancy_percentage vp \<or> uint (vp_occupancy_percentage vp) = 2 ^ 32 - 1)"
proof -
  let ?x = "vp_occupancy_percentage vp"
  have range: "0 \<le> uint ?x" "uint ?x < 2 ^ 32"
    using unsigned_less [of ?x, where 'a = int] by simp_all
  have nonneg: "uint ?x \<noteq> -1" "-1 \<noteq> uint ?x" using range(1) by linarith+
  show ?thesis
    using fill_item_record [OF assms, of pos] range
    by (simp add: nonneg vehicle_record_def scalar_or_def float_or_zero_def sint_u32 [of ?x])
qed

theorem item_numbers_witness:
  "\<exists>v. fill_item sample_garbage \<lparr>fe_id = None, fe_vehicle = None\<rparr> sample_vehicle sample_position = Inr v \<and>
    occupancy_percentage v = 40 \<and> occupancy_status v = 7 \<and> current_status v = 1 \<and>
    congestion_level v = 0 \<and> timestamp v = 1700000000 \<and> lat v = 0x422E0000"
  using item_numbers [of sample_garbage "\<lparr>fe_id = None, fe_vehicle = None\<rparr>"
      sample_vehicle sample_position]
  by (auto simp: sample_garbage_shape string_ok_def vehicle_ok_def sample_vehicle_def
      sample_position_def)

text \<open>
  C26: an optional \<open>float\<close> takes a detour through \<open>double\<close>, because the alternative is the
  \<open>double\<close> constant 0.0: every number, infinity and quiet NaN comes back bit by bit, zeros keep
  their sign, subnormals their value; a signalling NaN comes back quiet.
\<close>

theorem optional_float_roundtrip:
  "float_or_zero has x =
     (if \<not> has then 0
      else if f32_is_nan x \<and> f32_fraction x < 2 ^ 22
      then f32_bits (f32_sign x) 255 (f32_fraction x + 2 ^ 22)
      else x)"
  by (simp add: float_or_zero_def via_double_eq)

end
