(* ===== verification/Pipeline.thy ===== *)
theory Pipeline
  imports Ring_Buffer Parser
begin

text \<open>
  The parser in front of the ring buffer. While the parser makes a push, the other threads
  make calls of their own: the consumer takes items and somebody may shut the buffer down. A
  turn is what they do before the next attempt of a push; a push that would wait gets another
  turn, and waits for ever when no turn is left.
\<close>

section \<open>Pushing while others take\<close>

datatype other_op = Take | Shut

fun as_queue_op :: "other_op \<Rightarrow> 'v queue_op" where
  "as_queue_op Take = Pop"
| "as_queue_op Shut = Close"

record 'v ring_feed =
  rf_ring :: "'v ring_buffer"
  rf_events :: "'v queue_event list"
  rf_turns :: "other_op list list"

abbreviation ring_calls :: "'v ring_buffer \<Rightarrow> 'v queue_op list \<Rightarrow> ub + ('v ring_buffer \<times> 'v queue_event list)" where
  "ring_calls \<equiv> run_ops buffer_push buffer_pop buffer_signal_shutdown"

fun push_turn ::
  "'v ring_buffer \<Rightarrow> 'v queue_event list \<Rightarrow> other_op list list \<Rightarrow> 'v \<Rightarrow> ub + ('v ring_feed \<times> bool) call"
where
  "push_turn rb evs [] v =
     call_bind (buffer_push rb v) (\<lambda>(rb', ok).
       Inr (Returns (\<lparr>rf_ring = rb', rf_events = evs @ [if ok then Pushed v else Rejected],
                      rf_turns = []\<rparr>, ok)))"
| "push_turn rb evs (ops # turns) v =
     sum_bind (ring_calls rb (map as_queue_op ops)) (\<lambda>(rb1, evs1).
     sum_bind (buffer_push rb1 v) (\<lambda>c.
       case c of
         Blocks \<Rightarrow> push_turn rb1 (evs @ evs1) turns v
       | Returns (rb', ok) \<Rightarrow>
           Inr (Returns (\<lparr>rf_ring = rb', rf_events = evs @ evs1 @ [if ok then Pushed v else Rejected],
                          rf_turns = turns\<rparr>, ok))))"

definition feed_push :: "'v ring_feed \<Rightarrow> 'v \<Rightarrow> ub + ('v ring_feed \<times> bool) call" where
  "feed_push rf v = push_turn (rf_ring rf) (rf_events rf) (rf_turns rf) v"

section \<open>The ring is a sink\<close>

definition ring_bound :: "'v ring_buffer \<Rightarrow> nat" where
  "ring_bound rb = nat (rb_capacity rb)"

lemma ring_abs_bound [simp]: "bq_bound (rb_abs rb) = ring_bound rb"
  by (simp add: ring_bound_def)

declare length_rb_contents [simp del] rb_abs_sel(2) [simp del]

lemma rb_abs_eqD:
  assumes "rb_abs rb = q"
  shows "rb_contents rb = bq_items q" "ring_bound rb = bq_bound q" "rb_shutdown rb = bq_closed q"
  using assms by auto

definition feed_inv :: "'v ring_feed \<Rightarrow> bool" where
  "feed_inv rf \<longleftrightarrow> rb_inv (rf_ring rf) \<and> 0 < ring_bound (rf_ring rf) \<and>
     pushed_values (rf_events rf) = popped_values (rf_events rf) @ rb_contents (rf_ring rf)"

text \<open>A feed whose ring is open and stays open.\<close>

definition never_shut :: "'v ring_feed \<Rightarrow> bool" where
  "never_shut rf \<longleftrightarrow> \<not> rb_shutdown (rf_ring rf) \<and> list_all (\<lambda>ops. Shut \<notin> set ops) (rf_turns rf)"

definition feed_credit :: "'v ring_feed \<Rightarrow> nat" where
  "feed_credit rf = length (takeWhile (\<lambda>ops. Take \<in> set ops) (rf_turns rf))"

lemma pushed_values_append [simp]:
  "pushed_values (xs @ ys) = pushed_values xs @ pushed_values ys"
  by (induction xs rule: pushed_values.induct) simp_all

lemma popped_values_append [simp]:
  "popped_values (xs @ ys) = popped_values xs @ popped_values ys"
  by (induction xs rule: popped_values.induct) simp_all

text \<open>One call of another thread, and a turn of them.\<close>

lemma other_call:
  assumes "rb_inv rb" "0 < ring_bound rb"
  shows "\<exists>rb1 ev. op_step buffer_push buffer_pop buffer_signal_shutdown rb (as_queue_op op) = Inr (rb1, ev) \<and>
    rb_inv rb1 \<and> ring_bound rb1 = ring_bound rb \<and> pushed_values [ev] = [] \<and>
    rb_contents rb = popped_values [ev] @ rb_contents rb1 \<and>
    (op = Take \<longrightarrow> length (rb_contents rb1) < ring_bound rb \<and> rb_shutdown rb1 = rb_shutdown rb)"
proof (cases op)
  case Take
  note bound = rbq.bound_law [OF assms(1)]
  from assms(1) show ?thesis
  proof (cases rule: rbq.pop_cases)
    case blocks
    with Take assms show ?thesis by simp
  next
    case (drained q')
    with rb_abs_eqD [OF drained(3)] Take assms show ?thesis by simp
  next
    case (popped q' v vs)
    with rb_abs_eqD [OF popped(4)] Take bound show ?thesis by simp
  qed
next
  case Shut
  from rbq.close_law [OF assms(1)]
  have "rb_inv (buffer_signal_shutdown rb)" "rb_abs (buffer_signal_shutdown rb) = bq_close (rb_abs rb)"
    by simp_all
  from this(1) rb_abs_eqD [OF this(2)] Shut show ?thesis by (simp add: bq_close_def)
qed

lemma other_calls:
  assumes "rb_inv rb" "0 < ring_bound rb"
  shows "\<exists>rb1 evs. ring_calls rb (map as_queue_op ops) = Inr (rb1, evs) \<and> rb_inv rb1 \<and>
    ring_bound rb1 = ring_bound rb \<and> pushed_values evs = [] \<and>
    rb_contents rb = popped_values evs @ rb_contents rb1 \<and>
    (Take \<in> set ops \<longrightarrow> length (rb_contents rb1) < ring_bound rb) \<and>
    (Shut \<notin> set ops \<longrightarrow> rb_shutdown rb1 = rb_shutdown rb)"
  using assms
proof (induction ops arbitrary: rb)
  case (Cons op ops)
  from other_call [OF Cons.prems, of op] obtain rb1 ev where
    1: "op_step buffer_push buffer_pop buffer_signal_shutdown rb (as_queue_op op) = Inr (rb1, ev)"
      "rb_inv rb1" "ring_bound rb1 = ring_bound rb" "pushed_values [ev] = []"
      "rb_contents rb = popped_values [ev] @ rb_contents rb1"
      "op = Take \<Longrightarrow> length (rb_contents rb1) < ring_bound rb"
      "op = Take \<Longrightarrow> rb_shutdown rb1 = rb_shutdown rb" by blast
  from Cons.IH [OF 1(2)] 1(3) Cons.prems(2) obtain rb2 evs where
    2: "ring_calls rb1 (map as_queue_op ops) = Inr (rb2, evs)" "rb_inv rb2"
      "ring_bound rb2 = ring_bound rb" "pushed_values evs = []"
      "rb_contents rb1 = popped_values evs @ rb_contents rb2"
      "Take \<in> set ops \<Longrightarrow> length (rb_contents rb2) < ring_bound rb"
      "Shut \<notin> set ops \<Longrightarrow> rb_shutdown rb2 = rb_shutdown rb1" by auto
  have "ring_calls rb (map as_queue_op (op # ops)) = Inr (rb2, [ev] @ evs)"
    using 1(1) 2(1) by simp
  moreover have "length (rb_contents rb2) \<le> length (rb_contents rb1)"
    unfolding 2(5) by simp
  moreover have "rb_shutdown rb2 = rb_shutdown rb" if "Shut \<notin> set (op # ops)"
    using that 1(7) 2(7) by (cases op) auto
  ultimately show ?case
    using 1 2 by (intro exI [of _ rb2] exI [of _ "[ev] @ evs"])
      (auto simp del: append_Cons append_Nil)
qed (simp add: rb_inv_def)

text \<open>A push, with what the ring then holds.\<close>

lemma ring_push:
  assumes "rb_inv rb"
  shows "\<exists>c. buffer_push rb v = Inr c \<and>
    (c = Blocks \<longrightarrow> length (rb_contents rb) = ring_bound rb) \<and>
    (\<forall>rb' ok. c = Returns (rb', ok) \<longrightarrow> rb_inv rb' \<and> ring_bound rb' = ring_bound rb \<and>
       rb_contents rb' = rb_contents rb @ (if ok then [v] else []) \<and>
       rb_shutdown rb' = rb_shutdown rb \<and> (\<not> ok \<longrightarrow> rb_shutdown rb'))"
  using assms
proof (cases rule: rbq.push_cases [where v = v])
  case blocks
  then show ?thesis by simp
next
  case (rejected q')
  with rb_abs_eqD [OF rejected(3)] show ?thesis by simp
next
  case (accepted q')
  with rb_abs_eqD [OF accepted(3)] show ?thesis by simp
qed

lemma push_turn_law:
  assumes "rb_inv rb" "0 < ring_bound rb"
    and "pushed_values evs = popped_values evs @ rb_contents rb"
  shows "\<exists>c. push_turn rb evs turns v = Inr c \<and>
    (\<forall>rf ok. c = Returns (rf, ok) \<longrightarrow> feed_inv rf \<and>
       pushed_values (rf_events rf) = pushed_values evs @ (if ok then [v] else []) \<and>
       (\<not> ok \<longrightarrow> rb_shutdown (rf_ring rf)) \<and>
       (\<not> rb_shutdown rb \<and> list_all (\<lambda>ops. Shut \<notin> set ops) turns \<longrightarrow> never_shut rf))"
  using assms
proof (induction turns arbitrary: rb evs)
  case Nil
  from ring_push [OF Nil.prems(1), of v] obtain c where c: "buffer_push rb v = Inr c"
    "\<forall>rb' ok. c = Returns (rb', ok) \<longrightarrow> rb_inv rb' \<and> ring_bound rb' = ring_bound rb \<and>
       rb_contents rb' = rb_contents rb @ (if ok then [v] else []) \<and>
       rb_shutdown rb' = rb_shutdown rb \<and> (\<not> ok \<longrightarrow> rb_shutdown rb')"
    by blast
  show ?case
  proof (cases c)
    case (Returns r)
    with c Nil.prems show ?thesis by (cases r) (auto simp: feed_inv_def never_shut_def)
  qed (use c(1) in simp)
next
  case (Cons ops turns)
  from other_calls [OF Cons.prems(1,2), of ops] obtain rb1 evs1 where
    1: "ring_calls rb (map as_queue_op ops) = Inr (rb1, evs1)" "rb_inv rb1"
      "ring_bound rb1 = ring_bound rb" "pushed_values evs1 = []"
      "rb_contents rb = popped_values evs1 @ rb_contents rb1"
      "Shut \<notin> set ops \<Longrightarrow> rb_shutdown rb1 = rb_shutdown rb" by blast
  then have evs: "pushed_values (evs @ evs1) = popped_values (evs @ evs1) @ rb_contents rb1"
    using Cons.prems(3) by simp
  from ring_push [OF 1(2), of v] obtain c where c: "buffer_push rb1 v = Inr c"
    "\<forall>rb' ok. c = Returns (rb', ok) \<longrightarrow> rb_inv rb' \<and> ring_bound rb' = ring_bound rb1 \<and>
       rb_contents rb' = rb_contents rb1 @ (if ok then [v] else []) \<and>
       rb_shutdown rb' = rb_shutdown rb1 \<and> (\<not> ok \<longrightarrow> rb_shutdown rb')"
    by blast
  show ?case
  proof (cases c)
    case Blocks
    have "0 < ring_bound rb1" using 1(3) Cons.prems(2) by simp
    from Cons.IH [OF 1(2) this evs] obtain c' where "push_turn rb1 (evs @ evs1) turns v = Inr c'"
      "\<forall>rf ok. c' = Returns (rf, ok) \<longrightarrow> feed_inv rf \<and>
         pushed_values (rf_events rf) = pushed_values evs @ (if ok then [v] else []) \<and>
         (\<not> ok \<longrightarrow> rb_shutdown (rf_ring rf)) \<and>
         (\<not> rb_shutdown rb1 \<and> list_all (\<lambda>ops. Shut \<notin> set ops) turns \<longrightarrow> never_shut rf)"
      using 1(4) by auto
    with 1(1,6) c(1) Blocks show ?thesis by (intro exI [of _ c']) simp
  next
    case (Returns r)
    with c 1 Cons.prems show ?thesis by (cases r) (auto simp: feed_inv_def never_shut_def)
  qed
qed

interpretation ring_sink: credited_sink feed_push "\<lambda>rf. pushed_values (rf_events rf)"
  "\<lambda>rf. rb_shutdown (rf_ring rf)" feed_inv feed_credit
proof unfold_locales
  fix rf :: "'v ring_feed" and v
  assume inv: "feed_inv rf"
  then have rb: "rb_inv (rf_ring rf)" "0 < ring_bound (rf_ring rf)"
    "pushed_values (rf_events rf) = popped_values (rf_events rf) @ rb_contents (rf_ring rf)"
    by (simp_all add: feed_inv_def)
  show "\<exists>c. feed_push rf v = Inr c \<and>
     (\<forall>s' ok. c = Returns (s', ok) \<longrightarrow> feed_inv s' \<and>
        pushed_values (rf_events s') = pushed_values (rf_events rf) @ (if ok then [v] else []) \<and>
        (\<not> ok \<longrightarrow> rb_shutdown (rf_ring s')))"
    using push_turn_law [OF rb, of "rf_turns rf" v] unfolding feed_push_def by blast
  assume "0 < feed_credit rf"
  then obtain ops turns where turns: "rf_turns rf = ops # turns" "Take \<in> set ops"
    by (cases "rf_turns rf") (auto simp: feed_credit_def split: if_splits)
  from other_calls [OF rb(1,2), of ops] turns(2) obtain rb1 evs1 where
    1: "ring_calls (rf_ring rf) (map as_queue_op ops) = Inr (rb1, evs1)" "rb_inv rb1"
      "length (rb_contents rb1) < ring_bound rb1" by auto
  from ring_push [OF 1(2), of v] 1(3) obtain r where "buffer_push rb1 v = Inr (Returns r)"
    by (metis call.exhaust less_irrefl)
  with 1(1) turns show "\<exists>s' ok. feed_push rf v = Inr (Returns (s', ok)) \<and>
      feed_credit rf \<le> Suc (feed_credit s')"
    by (cases r) (auto simp: feed_push_def feed_credit_def)
qed

text \<open>As long as nobody shuts the ring down, it refuses nothing.\<close>

interpretation open_sink: credited_sink feed_push "\<lambda>rf. pushed_values (rf_events rf)"
  "\<lambda>_. False" "\<lambda>rf. feed_inv rf \<and> never_shut rf" feed_credit
proof unfold_locales
  fix rf :: "'v ring_feed" and v
  assume inv: "feed_inv rf \<and> never_shut rf"
  then have rb: "rb_inv (rf_ring rf)" "0 < ring_bound (rf_ring rf)"
    "pushed_values (rf_events rf) = popped_values (rf_events rf) @ rb_contents (rf_ring rf)"
    by (simp_all add: feed_inv_def)
  have "\<not> rb_shutdown (rf_ring rf) \<and> list_all (\<lambda>ops. Shut \<notin> set ops) (rf_turns rf)"
    using inv by (simp add: never_shut_def)
  with push_turn_law [OF rb, of "rf_turns rf" v]
  show "\<exists>c. feed_push rf v = Inr c \<and>
     (\<forall>s' ok. c = Returns (s', ok) \<longrightarrow> (feed_inv s' \<and> never_shut s') \<and>
        pushed_values (rf_events s') = pushed_values (rf_events rf) @ (if ok then [v] else []) \<and>
        (\<not> ok \<longrightarrow> False))"
    unfolding feed_push_def by (fastforce simp: never_shut_def)
  assume "0 < feed_credit rf"
  with inv show "\<exists>s' ok. feed_push rf v = Inr (Returns (s', ok)) \<and> feed_credit rf \<le> Suc (feed_credit s')"
    by (intro ring_sink.credit_law) simp_all
qed

text \<open>The consumer takes what is left.\<close>

lemma drain_feed:
  assumes "feed_inv rf"
  shows "\<exists>rb. ring_calls (rf_ring rf) (replicate (length (rb_contents (rf_ring rf))) Pop) =
      Inr (rb, map Popped (rb_contents (rf_ring rf))) \<and> rb_contents rb = []"
  using rbq.run_ops_drain [of "rf_ring rf"] assms by (auto simp: feed_inv_def)

section \<open>A feed into a fresh ring\<close>

definition fresh_feed :: "int \<Rightarrow> other_op list list \<Rightarrow> 'v ring_feed" where
  "fresh_feed capacity turns = \<lparr>rf_ring = fresh_ring capacity, rf_events = [], rf_turns = turns\<rparr>"

lemma fresh_feed_inv: "0 < capacity \<Longrightarrow> capacity \<le> INT_MAX \<Longrightarrow> feed_inv (fresh_feed capacity turns)"
  by (simp add: feed_inv_def fresh_feed_def fresh_ring_inv rb_abs_eqD [OF fresh_ring_abs])

lemma fresh_feed_never_shut:
  "list_all (\<lambda>ops. Shut \<notin> set ops) turns \<Longrightarrow> never_shut (fresh_feed capacity turns)"
  by (simp add: never_shut_def fresh_feed_def rb_abs_eqD [OF fresh_ring_abs])

text \<open>A consumer that takes in every turn gives a credit of as many values as there are turns.\<close>

lemma fresh_feed_credit:
  "list_all (\<lambda>ops. Take \<in> set ops) turns \<Longrightarrow> feed_credit (fresh_feed capacity turns) = length turns"
  by (simp add: feed_credit_def fresh_feed_def list_all_iff takeWhile_eq_all_conv [THEN iffD2])

lemma parse_through_ring:
  assumes "unpack lib (take len buffer) = (Some msg, lib')" "message_ok msg"
    and "\<And>i. item_shape (garbage i)" and "0 < capacity" "capacity \<le> INT_MAX"
  shows "\<exists>c. parse_and_queue unpack free_unpacked feed_push garbage buffer len lib
        (fresh_feed capacity turns) = Inr c \<and>
     (\<forall>l rf n. c = Returns (l, rf, n) \<longrightarrow>
        (let k = length (pushed_values (rf_events rf))
         in l = free_unpacked msg lib' \<and> n = Some (int k) \<and>
            popped_values (rf_events rf) @ rb_contents (rf_ring rf) = take k (feed_vehicles msg) \<and>
            (k < length (feed_vehicles msg) \<longrightarrow> rb_shutdown (rf_ring rf)))) \<and>
     (length (feed_vehicles msg) \<le> length turns \<and> list_all (\<lambda>ops. Take \<in> set ops) turns \<longrightarrow>
        c \<noteq> Blocks)"
proof -
  note start = fresh_feed_inv [OF assms(4,5), of turns]
  from ring_sink.offer_all_prefix [OF start, of "feed_vehicles msg"] obtain c where
    c: "offer_all feed_push (fresh_feed capacity turns) (feed_vehicles msg) = Inr c"
      "\<And>rf k. c = Returns (rf, k) \<Longrightarrow> feed_inv rf \<and> k \<le> length (feed_vehicles msg) \<and>
         pushed_values (rf_events rf) = take k (feed_vehicles msg) \<and>
         (k < length (feed_vehicles msg) \<longrightarrow> rb_shutdown (rf_ring rf))"
    by (auto simp: fresh_feed_def)
  have parsed: "parse_and_queue unpack free_unpacked feed_push garbage buffer len lib
        (fresh_feed capacity turns) =
      call_bind (Inr c) (\<lambda>(rf, k). Inr (Returns (free_unpacked msg lib', rf, Some (int k))))"
    by (subst parse_and_queue_feed) (simp_all add: assms(1-3) c(1) del: call_bind.simps)
  have credit: "c \<noteq> Blocks"
    if "length (feed_vehicles msg) \<le> length turns" "list_all (\<lambda>ops. Take \<in> set ops) turns"
  proof -
    have "length (feed_vehicles msg) \<le> feed_credit (fresh_feed capacity turns :: vehicle_data ring_feed)"
      using that by (simp add: fresh_feed_credit)
    with ring_sink.offer_all_returns [OF start, of "feed_vehicles msg"] c(1)
    show ?thesis by auto
  qed
  show ?thesis
  proof (cases c)
    case (Returns r)
    obtain rf k where r: "r = (rf, k)" by (cases r)
    have facts: "feed_inv rf" "k \<le> length (feed_vehicles msg)"
      "pushed_values (rf_events rf) = take k (feed_vehicles msg)"
      "k < length (feed_vehicles msg) \<Longrightarrow> rb_shutdown (rf_ring rf)"
      using c(2) [of rf k] Returns r by blast+
    have k: "length (pushed_values (rf_events rf)) = k" using facts(2,3) by simp
    have split: "popped_values (rf_events rf) @ rb_contents (rf_ring rf) = take k (feed_vehicles msg)"
      using facts(1,3) unfolding feed_inv_def by metis
    show ?thesis
      using Returns r facts(4) by (simp add: parsed Let_def k split)
  qed (use parsed credit in auto)
qed

section \<open>Properties\<close>

text \<open>
  C5: a payload parsed in front of the ring buffer, whatever the consumer takes meanwhile and
  whenever the buffer is shut down: what was taken out and what is still in the ring are
  together the first vehicles of the feed, in order, as many as are reported; vehicles are
  missing at the end only after a shutdown; the message is freed. If the consumer takes at
  least one item between any two pushes, the parser does not wait for ever.
\<close>

theorem feed_through_ring:
  assumes "unpack lib (take len buffer) = (Some msg, lib')" "message_ok msg"
    and "\<And>i. item_shape (garbage i)" and "0 < capacity" "capacity \<le> INT_MAX"
  shows "\<exists>c. parse_and_queue unpack free_unpacked feed_push garbage buffer len lib
        (fresh_feed capacity turns) = Inr c \<and>
     (\<forall>l rf n. c = Returns (l, rf, n) \<longrightarrow>
        (let k = length (pushed_values (rf_events rf))
         in l = free_unpacked msg lib' \<and> n = Some (int k) \<and>
            popped_values (rf_events rf) @ rb_contents (rf_ring rf) = take k (feed_vehicles msg) \<and>
            (k < length (feed_vehicles msg) \<longrightarrow> rb_shutdown (rf_ring rf)))) \<and>
     (length (feed_vehicles msg) \<le> length turns \<and> list_all (\<lambda>ops. Take \<in> set ops) turns \<longrightarrow>
        c \<noteq> Blocks)"
  using assms by (rule parse_through_ring)

text \<open>The sample feed has one vehicle; the ring has one slot, and nobody else acts.\<close>

theorem feed_through_ring_witness:
  "\<exists>l rf n. parse_and_queue sample_unpack (\<lambda>_ n. n - 1) feed_push (\<lambda>_. sample_garbage) [8, 1] 2 0
        (fresh_feed 1 [[Take]]) = Inr (Returns (l, rf, n)) \<and>
     l = 0 \<and> popped_values (rf_events rf) @ rb_contents (rf_ring rf) =
       take (length (pushed_values (rf_events rf))) (feed_vehicles sample_feed)"
proof -
  have unpack: "sample_unpack 0 (take 2 [8, 1]) = (Some sample_feed, 1)"
    by (simp add: sample_unpack_def)
  from feed_through_ring [where unpack = sample_unpack and lib = 0 and len = 2 and buffer = "[8, 1]"
      and garbage = "\<lambda>_. sample_garbage" and capacity = 1 and free_unpacked = "\<lambda>_ n. n - 1"
      and turns = "[[Take]]", OF unpack sample_feed_ok]
  obtain c where c: "parse_and_queue sample_unpack (\<lambda>_ n. n - 1) feed_push (\<lambda>_. sample_garbage) [8, 1] 2 0
        (fresh_feed 1 [[Take]]) = Inr c" "c \<noteq> Blocks"
    "\<forall>l rf n. c = Returns (l, rf, n) \<longrightarrow> l = 0 \<and>
      popped_values (rf_events rf) @ rb_contents (rf_ring rf) =
       take (length (pushed_values (rf_events rf))) (feed_vehicles sample_feed)"
    by (auto simp: sample_garbage_shape sample_feed_vehicles Let_def INT_MAX_def)
  then show ?thesis by (cases c) auto
qed

end
