(* ===== verification/Fetcher.thy ===== *)
theory Fetcher
  imports Heap
begin

text \<open>
  The network fetcher (\<open>src/ingestion/fetcher.c\<close>): the growing download buffer behind
  libcurl's write callback, and \<open>fetch_gtfs_data\<close>. libcurl is an argument:
  \<open>curl_easy_init\<close> is whether a handle was obtained, \<open>curl_easy_perform\<close> runs a transfer
  with a write callback over a state and returns its code. \<open>curl_contract\<close> states what
  libcurl documents of a transfer.
\<close>

record memory_struct =
  ms_memory :: ptr
  ms_size :: u64

type_synonym 's write_callback = "'s \<Rightarrow> u8 list \<Rightarrow> u64 \<Rightarrow> u64 \<Rightarrow> ub + ('s \<times> u64)"

type_synonym download = "heap \<times> memory_struct"

definition CURLE_OK :: int where
  "CURLE_OK = 0"

definition CURLE_WRITE_ERROR :: int where
  "CURLE_WRITE_ERROR = 23"

text \<open>
  \<open>contents\<close> is the bytes that libcurl's pointer points to; reading past them is an error.
\<close>

definition WriteMemoryCallback :: "download write_callback" where
  "WriteMemoryCallback st contents sz nmemb =
     (let (h, mem) = st; realsize = sz * nmemb
      in sum_bind (realloc h (ms_memory mem) (unat (ms_size mem + realsize + 1))) (\<lambda>(h1, p).
         if p = None then Inr ((h1, mem), 0)
         else if length contents < unat realsize then Inl Index_Out_Of_Range
         else
           let mem1 = mem\<lparr>ms_memory := p\<rparr>
           in sum_bind (store_bytes h1 p (unat (ms_size mem1)) (take (unat realsize) contents)) (\<lambda>h2.
              let mem2 = mem1\<lparr>ms_size := ms_size mem1 + realsize\<rparr>
              in sum_bind (store_bytes h2 p (unat (ms_size mem2)) [0]) (\<lambda>h3.
                   Inr ((h3, mem2), realsize)))))"

text \<open>The result: the heap, the returned pointer, and what was written to \<open>*out_size\<close>.\<close>

definition fetch_gtfs_data ::
  "bool \<Rightarrow> (download write_callback \<Rightarrow> download \<Rightarrow> ub + (download \<times> int)) \<Rightarrow> heap
   \<Rightarrow> ub + (heap \<times> ptr \<times> u64 option)"
where
  "fetch_gtfs_data curl_easy_init curl_easy_perform h =
     (let (h1, p) = malloc h 1; chunk = \<lparr>ms_memory = p, ms_size = 0\<rparr>
      in if \<not> curl_easy_init
         then sum_bind (free h1 (ms_memory chunk)) (\<lambda>h2. Inr (h2, None, None))
         else sum_bind (curl_easy_perform WriteMemoryCallback (h1, chunk)) (\<lambda>((h2, chunk'), res).
           if res \<noteq> CURLE_OK
           then sum_bind (free h2 (ms_memory chunk')) (\<lambda>h3. Inr (h3, None, None))
           else Inr (h2, ms_memory chunk', Some (ms_size chunk'))))"

section \<open>The contract of a transfer\<close>

text \<open>
  libcurl hands the body to the callback chunk by chunk, in order, with an element size of
  one; a callback that returns another number than it was given ends the transfer with
  \<open>CURLE_WRITE_ERROR\<close>; otherwise the transfer ends with its own code.
\<close>

fun deliver :: "'s write_callback \<Rightarrow> u8 list list \<Rightarrow> int \<Rightarrow> 's \<Rightarrow> ub + ('s \<times> int)" where
  "deliver cb [] code s = Inr (s, code)"
| "deliver cb (c # cs) code s =
     sum_bind (cb s c 1 (word_of_nat (length c))) (\<lambda>(s', n).
       if n = word_of_nat (length c) then deliver cb cs code s'
       else Inr (s', CURLE_WRITE_ERROR))"

definition curl_contract ::
  "(download write_callback \<Rightarrow> download \<Rightarrow> ub + (download \<times> int)) \<Rightarrow> u8 list list \<Rightarrow> int \<Rightarrow> bool"
where
  "curl_contract perform chunks code \<longleftrightarrow> (\<forall>cb s. perform cb s = deliver cb chunks code s)"

section \<open>The download buffer\<close>

text \<open>
  Over the blocks that were there before (\<open>base\<close>), the download owns at most one block; it
  holds the bytes received so far and a terminating zero, or is the initial unwritten byte.
\<close>

definition holds :: "(nat \<rightharpoonup> u8 option list) \<Rightarrow> download \<Rightarrow> u8 list \<Rightarrow> bool" where
  "holds base st bytes \<longleftrightarrow>
     heap_ok (fst st) \<and> ms_size (snd st) = word_of_nat (length bytes) \<and>
     (case ms_memory (snd st) of
        None \<Rightarrow> bytes = [] \<and> blocks (fst st) = base
      | Some p \<Rightarrow> base p = None \<and>
          (\<exists>bs. blocks (fst st) = base(p \<mapsto> bs) \<and>
             (bs = map Some (bytes @ [0]) \<or> bytes = [] \<and> bs = [None])))"

lemma unat_length: "n < 2 ^ 64 \<Longrightarrow> unat (word_of_nat n :: u64) = n"
  by (simp add: unat_of_nat)

lemma store_bytes_block:
  assumes "blocks h p = Some bs" "off + length src \<le> length bs"
  shows "store_bytes h (Some p) off src =
    Inr (h\<lparr>blocks := (blocks h)(p \<mapsto> take off bs @ map Some src @ drop (off + length src) bs)\<rparr>)"
  using assms by (simp add: store_bytes_def)

text \<open>Growing the buffer: refused, or a block of its own with the old bytes in front.\<close>

lemma realloc_holds:
  assumes "holds base (h, mem) bytes" "length bytes < n"
  shows "\<exists>h' q. realloc h (ms_memory mem) n = Inr (h', q) \<and> heap_ok h' \<and>
     (case q of
        None \<Rightarrow> holds base (h', mem) bytes
      | Some p \<Rightarrow> base p = None \<and> (\<exists>bs. blocks h' = base(p \<mapsto> bs) \<and> length bs = n \<and>
          take (length bytes) bs = map Some bytes))"
proof -
  from assms(1) have ok: "heap_ok h" by (simp add: holds_def)
  have fresh: "blocks h (next_id h) = None" by (rule heap_ok_fresh [OF ok order_refl])
  show ?thesis
  proof (cases "ms_memory mem")
    case None
    with assms(1) fresh malloc_heap_ok [OF ok, of n] show ?thesis
      by (cases "refuses h (next_id h) n")
        (auto simp: realloc_def malloc_def Let_def holds_def heap_ok_def less_Suc_eq)
  next
    case (Some i)
    with assms(1) obtain bs where bs: "blocks h = base(i \<mapsto> bs)" "base i = None"
      "bs = map Some (bytes @ [0]) \<or> bytes = [] \<and> bs = [None]"
      by (auto simp: holds_def)
    with fresh have free: "base (next_id h) = None" by (auto split: if_splits)
    let ?new = "take n (bs @ replicate (n - length bs) None)"
    have content: "length ?new = n" "take (length bytes) ?new = map Some bytes"
      using bs(3) assms(2) by auto
    have base: "base(i := None) = base" using bs(2) by (simp add: fun_upd_idem)
    show ?thesis
    proof (cases "refuses h (next_id h) n")
      case True
      let ?h = "h\<lparr>next_id := Suc (next_id h)\<rparr>"
      have "realloc h (ms_memory mem) n = Inr (?h, None)"
        using True Some bs(1) by (simp add: realloc_def)
      moreover from this have "heap_ok ?h" by (rule realloc_heap_ok [OF ok])
      ultimately show ?thesis using assms(1) Some by (simp add: holds_def)
    next
      case False
      let ?h = "h\<lparr>next_id := Suc (next_id h), blocks := base(next_id h \<mapsto> ?new)\<rparr>"
      have "realloc h (ms_memory mem) n = Inr (?h, Some (next_id h))"
        using False Some bs(1) base by (simp add: realloc_def Let_def)
      moreover from this have "heap_ok ?h" by (rule realloc_heap_ok [OF ok])
      ultimately show ?thesis using free content by auto
    qed
  qed
qed

text \<open>
  One call of the callback: the chunk is appended and its size returned, unless the allocator
  refuses the request; then the bytes received so far are kept and 0 is returned.
\<close>

definition same_allocator :: "heap \<Rightarrow> heap \<Rightarrow> nat \<Rightarrow> bool" where
  "same_allocator h h' n \<longleftrightarrow> refuses h' = refuses h \<and> next_id h' = next_id h + n"

lemma realloc_request:
  assumes "realloc h p n = Inr (h', q)"
  shows "same_allocator h h' 1 \<and> (q = None \<longleftrightarrow> refuses h (next_id h) n)"
  using assms
  by (auto simp: realloc_def malloc_def same_allocator_def Let_def split: option.splits if_splits)

lemma store_bytes_allocator:
  "store_bytes h p off src = Inr h' \<Longrightarrow> same_allocator h h' 0"
  by (auto simp: store_bytes_def same_allocator_def split: option.splits if_splits)

lemma free_allocator: "free h p = Inr h' \<Longrightarrow> same_allocator h h' 0"
  by (auto simp: free_def same_allocator_def split: option.splits if_splits)

lemma malloc_request:
  "malloc h n = (h', p) \<Longrightarrow> same_allocator h h' 1 \<and> (p = None \<longleftrightarrow> refuses h (next_id h) n)"
  by (auto simp: malloc_def same_allocator_def Let_def split: if_splits)

lemma callback_holds:
  assumes "holds base st bytes" "length bytes + length c + 1 < 2 ^ 64"
  shows "\<exists>st' n. WriteMemoryCallback st c 1 (word_of_nat (length c)) = Inr (st', n) \<and>
     same_allocator (fst st) (fst st') 1 \<and>
     (ms_memory (snd st') = None \<longrightarrow> ms_memory (snd st) = None) \<and>
     (if refuses (fst st) (next_id (fst st)) (length bytes + length c + 1)
      then n = 0 \<and> holds base st' bytes
      else n = word_of_nat (length c) \<and> holds base st' (bytes @ c))"
proof -
  obtain h mem where st: "st = (h, mem)" by (cases st)
  let ?len = "length bytes" and ?n = "length bytes + length c + 1"
  have size: "ms_size mem = word_of_nat ?len" using assms(1) by (simp add: st holds_def)
  then have total: "unat (ms_size mem + word_of_nat (length c) + 1) = ?n"
  proof -
    have "ms_size mem + word_of_nat (length c) + 1 = word_of_nat ?n" by (simp add: size)
    with assms(2) show ?thesis by (simp only: unat_length)
  qed
  have lens: "unat (word_of_nat (length c) :: u64) = length c" "unat (word_of_nat ?len :: u64) = ?len"
    "unat (word_of_nat ?len + word_of_nat (length c) :: u64) = ?len + length c"
    using assms(2) by (simp_all add: unat_length flip: of_nat_add)
  obtain h1 q where h1: "realloc h (ms_memory mem) ?n = Inr (h1, q)" "heap_ok h1"
    "case q of None \<Rightarrow> holds base (h1, mem) bytes
       | Some p \<Rightarrow> base p = None \<and> (\<exists>bs. blocks h1 = base(p \<mapsto> bs) \<and> length bs = ?n \<and>
          take ?len bs = map Some bytes)"
    using realloc_holds [OF assms(1) [unfolded st], of ?n] by auto
  note request = realloc_request [OF h1(1)]
  show ?thesis
  proof (cases q)
    case None
    with h1 total request show ?thesis by (simp add: st WriteMemoryCallback_def)
  next
    case (Some p)
    with h1(3) obtain bs where bs: "base p = None" "blocks h1 = base(p \<mapsto> bs)" "length bs = ?n"
      "take ?len bs = map Some bytes" by auto
    let ?b2 = "map Some (bytes @ c) @ drop (?len + length c) bs"
    let ?h2 = "h1\<lparr>blocks := base(p \<mapsto> ?b2)\<rparr>"
    have s2: "store_bytes h1 (Some p) ?len c = Inr ?h2"
      using bs by (simp add: store_bytes_block)
    have len2: "length ?b2 = ?n" using bs(3) by simp
    let ?h3 = "h1\<lparr>blocks := base(p \<mapsto> map Some (bytes @ c @ [0]))\<rparr>"
    have s3: "store_bytes ?h2 (Some p) (?len + length c) [0] = Inr ?h3"
      using len2 bs(3) by (simp add: store_bytes_block)
    have "heap_ok ?h3"
      using store_bytes_heap_ok [OF store_bytes_heap_ok [OF h1(2) s2] s3] .
    moreover have "same_allocator h ?h3 1" "\<not> refuses h (next_id h) ?n"
      using request Some by (simp_all add: same_allocator_def)
    ultimately show ?thesis
      using h1(1) Some total lens size bs(1) s2 s3
      by (auto simp: st WriteMemoryCallback_def Let_def holds_def)
  qed
qed

text \<open>
  Which transfers are taken in full: no request to hold a nonempty chunk is refused. \<open>i\<close> is the
  number of the next request and \<open>n\<close> the length received so far; \<open>requests\<close> counts the requests
  that are made, up to the refusal that ends the transfer.
\<close>

fun granted :: "(nat \<Rightarrow> nat \<Rightarrow> bool) \<Rightarrow> nat \<Rightarrow> nat \<Rightarrow> u8 list list \<Rightarrow> bool" where
  "granted refused i n [] \<longleftrightarrow> True"
| "granted refused i n (c # cs) \<longleftrightarrow>
     (c = [] \<or> \<not> refused i (n + length c + 1)) \<and> granted refused (i + 1) (n + length c) cs"

fun requests :: "(nat \<Rightarrow> nat \<Rightarrow> bool) \<Rightarrow> nat \<Rightarrow> nat \<Rightarrow> u8 list list \<Rightarrow> nat" where
  "requests refused i n [] = 0"
| "requests refused i n (c # cs) =
     (if c = [] \<or> \<not> refused i (n + length c + 1) then Suc (requests refused (i + 1) (n + length c) cs)
      else 1)"

lemma deliver_holds:
  assumes "holds base st bytes" "length bytes + length (concat cs) + 1 < 2 ^ 64"
    and "r = refuses (fst st)" "i = next_id (fst st)"
  shows "\<exists>st' res bytes'. deliver WriteMemoryCallback cs code st = Inr (st', res) \<and>
     same_allocator (fst st) (fst st') (requests r i (length bytes) cs) \<and>
     (ms_memory (snd st') = None \<longrightarrow> ms_memory (snd st) = None) \<and> holds base st' bytes' \<and>
     (if granted r i (length bytes) cs then res = code \<and> bytes' = bytes @ concat cs
      else res = CURLE_WRITE_ERROR)"
  using assms
proof (induction cs arbitrary: st bytes i)
  case (Cons c cs)
  have len: "length bytes + length c + 1 < 2 ^ 64" using Cons.prems(2) by simp
  from callback_holds [OF Cons.prems(1) this] obtain st1 n where
    cb: "WriteMemoryCallback st c 1 (word_of_nat (length c)) = Inr (st1, n)"
      "same_allocator (fst st) (fst st1) 1" "ms_memory (snd st1) = None \<longrightarrow> ms_memory (snd st) = None"
      "if r i (length bytes + length c + 1) then n = 0 \<and> holds base st1 bytes
       else n = word_of_nat (length c) \<and> holds base st1 (bytes @ c)"
    using Cons.prems(3,4) by auto
  have zero: "(0 :: u64) = word_of_nat (length c) \<longleftrightarrow> c = []"
    using len unat_length [of "length c"] by (cases c) (auto simp flip: unat_eq_0)
  show ?case
  proof (cases "c = [] \<or> \<not> r i (length bytes + length c + 1)")
    case True
    with cb(4) zero have next_chunk: "n = word_of_nat (length c)" "holds base st1 (bytes @ c)"
      by (auto split: if_splits)
    from Cons.IH [OF this(2) _ _ refl] Cons.prems(2,3) cb(2) obtain st2 res bytes' where
      2: "deliver WriteMemoryCallback cs code st1 = Inr (st2, res)"
      "same_allocator (fst st1) (fst st2) (requests r (next_id (fst st1)) (length bytes + length c) cs)"
      "ms_memory (snd st2) = None \<longrightarrow> ms_memory (snd st1) = None" "holds base st2 bytes'"
      "if granted r (next_id (fst st1)) (length bytes + length c) cs
       then res = code \<and> bytes' = bytes @ c @ concat cs else res = CURLE_WRITE_ERROR"
      by (auto simp: same_allocator_def)
    have "next_id (fst st1) = i + 1" using cb(2) Cons.prems(4) by (simp add: same_allocator_def)
    with 2 cb(1-3) next_chunk True show ?thesis by (auto simp: same_allocator_def)
  next
    case False
    with cb zero show ?thesis by auto
  qed
qed (auto simp: same_allocator_def)

lemma holds_initial:
  assumes "heap_ok h" "malloc h n = (h1, p)" "n = 1"
  shows "holds (blocks h) (h1, \<lparr>ms_memory = p, ms_size = 0\<rparr>) []"
  using assms malloc_heap_ok [OF assms(1,2)] heap_ok_fresh [OF assms(1) order_refl]
  by (auto simp: holds_def malloc_def Let_def split: if_splits)

lemma holds_free:
  assumes "holds base (h, mem) bytes"
  shows "\<exists>h'. free h (ms_memory mem) = Inr h' \<and> heap_ok h' \<and> blocks h' = base"
proof -
  have ok: "heap_ok h" using assms by (simp add: holds_def)
  obtain h' where h': "free h (ms_memory mem) = Inr h'" "blocks h' = base"
    using assms by (auto simp: holds_def free_def fun_upd_idem split: option.splits)
  with free_heap_ok [OF ok h'(1)] show ?thesis by blast
qed

text \<open>
  A download that arrives: a handle was made, the transfer ended well and every nonempty chunk
  was stored. The first request is the initial byte.
\<close>

definition received ::
  "(nat \<Rightarrow> nat \<Rightarrow> bool) \<Rightarrow> nat \<Rightarrow> bool \<Rightarrow> u8 list list \<Rightarrow> int \<Rightarrow> bool"
where
  "received refused i init chunks code \<longleftrightarrow> init \<and> code = CURLE_OK \<and> granted refused (i + 1) 0 chunks"

definition fetch_requests :: "(nat \<Rightarrow> nat \<Rightarrow> bool) \<Rightarrow> nat \<Rightarrow> bool \<Rightarrow> u8 list list \<Rightarrow> nat" where
  "fetch_requests refused i init chunks = 1 + (if init then requests refused (i + 1) 0 chunks else 0)"

lemma fetch_result:
  assumes "heap_ok h" "curl_contract curl_easy_perform chunks code"
    and "length (concat chunks) + 1 < 2 ^ 64"
  shows "\<exists>h' p out. fetch_gtfs_data init curl_easy_perform h = Inr (h', p, out) \<and> heap_ok h' \<and>
     same_allocator h h' (fetch_requests (refuses h) (next_id h) init chunks) \<and>
     (if received (refuses h) (next_id h) init chunks code
      then out = Some (word_of_nat (length (concat chunks))) \<and>
        (case p of
           None \<Rightarrow> concat chunks = [] \<and> refuses h (next_id h) 1 \<and> blocks h' = blocks h
         | Some q \<Rightarrow> blocks h q = None \<and> (\<exists>bs. blocks h' = (blocks h)(q \<mapsto> bs) \<and>
             (bs = map Some (concat chunks @ [0]) \<or> concat chunks = [] \<and> bs = [None])))
      else p = None \<and> out = None \<and> blocks h' = blocks h)"
proof -
  obtain h1 p where m: "malloc h 1 = (h1, p)" by fastforce
  let ?st = "(h1, \<lparr>ms_memory = p, ms_size = 0\<rparr>)"
  have start: "holds (blocks h) ?st []" by (rule holds_initial [OF assms(1) m refl])
  note req = malloc_request [OF m]
  show ?thesis
  proof (cases init)
    case False
    obtain h2 where "free h1 p = Inr h2" "heap_ok h2" "blocks h2 = blocks h"
      using holds_free [OF start] by auto
    with m False req free_allocator [OF this(1)] show ?thesis
      by (auto simp: fetch_gtfs_data_def received_def fetch_requests_def same_allocator_def)
  next
    case True
    have "refuses h = refuses (fst ?st)" "next_id h + 1 = next_id (fst ?st)"
      using req by (simp_all add: same_allocator_def)
    from deliver_holds [OF start _ this, of chunks code] assms(2,3) obtain h2 mem res bytes where
      d: "curl_easy_perform WriteMemoryCallback ?st = Inr ((h2, mem), res)"
      "same_allocator h1 h2 (requests (refuses h) (next_id h + 1) 0 chunks)"
      "ms_memory mem = None \<longrightarrow> p = None" "holds (blocks h) (h2, mem) bytes"
      "if granted (refuses h) (next_id h + 1) 0 chunks then res = code \<and> bytes = concat chunks
       else res = CURLE_WRITE_ERROR"
      by (auto simp: curl_contract_def)
    from d(2) req True have alloc: "same_allocator h h2 (fetch_requests (refuses h) (next_id h) init chunks)"
      by (simp add: same_allocator_def fetch_requests_def)
    have arrived: "res = CURLE_OK \<longleftrightarrow> received (refuses h) (next_id h) init chunks code"
      using d(5) True by (auto simp: received_def CURLE_OK_def CURLE_WRITE_ERROR_def split: if_splits)
    show ?thesis
    proof (cases "res = CURLE_OK")
      case False
      obtain h3 where "free h2 (ms_memory mem) = Inr h3" "heap_ok h3" "blocks h3 = blocks h"
        using holds_free [OF d(4)] by auto
      with m True False d(1) arrived alloc free_allocator [OF this(1)] show ?thesis
        by (auto simp: fetch_gtfs_data_def same_allocator_def)
    next
      case ok: True
      with d(5) arrived have "bytes = concat chunks" by (simp add: received_def)
      with m True ok d(1,3,4) arrived alloc req show ?thesis
        by (cases "ms_memory mem") (auto simp: fetch_gtfs_data_def holds_def)
    qed
  qed
qed

section \<open>Properties\<close>

text \<open>
  C10: what \<open>fetch_gtfs_data\<close> returns is determined by the handle, the transfer and the
  allocator. If a handle was made, the transfer ended with \<open>CURLE_OK\<close> and no request for a
  nonempty chunk was refused, it returns a fresh block with the whole body in order and a
  terminating zero, and its length in \<open>*out_size\<close>; only an empty body may come as a block with
  nothing written, or as NULL when the initial byte was refused. In every other case it returns
  NULL, leaves \<open>*out_size\<close> alone, and has released everything it allocated. There is no
  undefined behaviour.
\<close>

theorem fetch_gtfs_data_correct:
  assumes "heap_ok h" "curl_contract curl_easy_perform chunks code"
    and "length (concat chunks) + 1 < 2 ^ 64"
  shows "\<exists>h' p out. fetch_gtfs_data init curl_easy_perform h = Inr (h', p, out) \<and> heap_ok h' \<and>
     (if init \<and> code = CURLE_OK \<and> granted (refuses h) (next_id h + 1) 0 chunks
      then out = Some (word_of_nat (length (concat chunks))) \<and>
        (case p of
           None \<Rightarrow> concat chunks = [] \<and> refuses h (next_id h) 1 \<and> blocks h' = blocks h
         | Some q \<Rightarrow> blocks h q = None \<and> (\<exists>bs. blocks h' = (blocks h)(q \<mapsto> bs) \<and>
             (bs = map Some (concat chunks @ [0]) \<or> concat chunks = [] \<and> bs = [None])))
      else p = None \<and> out = None \<and> blocks h' = blocks h)"
  using fetch_result [OF assms, of init] unfolding received_def by blast

definition two_chunks :: "download write_callback \<Rightarrow> download \<Rightarrow> ub + (download \<times> int)" where
  "two_chunks cb s = deliver cb [[10, 13], [8]] CURLE_OK s"

definition empty_heap :: heap where
  "empty_heap = \<lparr>next_id = 0, blocks = Map.empty, refuses = (\<lambda>_ _. False)\<rparr>"

theorem fetch_gtfs_data_correct_witness:
  "\<exists>h' q. fetch_gtfs_data True two_chunks empty_heap = Inr (h', Some q, Some 3) \<and>
     blocks h' = [q \<mapsto> [Some 10, Some 13, Some 8, Some 0]]"
proof -
  have "heap_ok empty_heap" "curl_contract two_chunks [[10, 13], [8]] CURLE_OK"
    by (simp_all add: empty_heap_def heap_ok_def curl_contract_def two_chunks_def)
  from fetch_gtfs_data_correct [OF this, of True] show ?thesis
    by (auto simp: empty_heap_def split: option.splits)
qed

end
