(* ===== verification/Ingestion.thy ===== *)
theory Ingestion
  imports Fetcher Parser
begin

text \<open>
  The ingestion thread (\<open>ingestion_thread\<close>, \<open>src/main.cpp\<close>): until the ring buffer is shut
  down it fetches a payload, parses it into the ring buffer and frees it, every 15 seconds.
  The fetcher and the parser are the models of their code; their libraries, the push and the
  test for shutdown are arguments.
\<close>

section \<open>One iteration\<close>

text \<open>The first \<open>n\<close> bytes of a block, as a callee reads them.\<close>

definition load_bytes :: "heap \<Rightarrow> ptr \<Rightarrow> nat \<Rightarrow> ub + u8 list" where
  "load_bytes h p n =
     (case p of
        None \<Rightarrow> Inl Null_Dereference
      | Some i \<Rightarrow>
          (case blocks h i of
             None \<Rightarrow> Inl Index_Out_Of_Range
           | Some bs \<Rightarrow>
               if length bs < n then Inl Index_Out_Of_Range
               else if None \<in> set (take n bs) then Inl Uninitialised_Read
               else Inr (map the (take n bs))))"

record ('l, 's) ingest =
  in_heap :: heap
  in_lib :: 'l
  in_sink :: 's

text \<open>What the network does in an iteration, and the content of uninitialised variables.\<close>

type_synonym tick =
  "bool \<times> (download write_callback \<Rightarrow> download \<Rightarrow> ub + (download \<times> int)) \<times> (nat \<Rightarrow> vehicle_data)"

definition ingestion_tick ::
  "('l \<Rightarrow> u8 list \<Rightarrow> feed_message option \<times> 'l) \<Rightarrow> (feed_message \<Rightarrow> 'l \<Rightarrow> 'l)
   \<Rightarrow> ('s \<Rightarrow> vehicle_data \<Rightarrow> ub + ('s \<times> bool) call) \<Rightarrow> tick
   \<Rightarrow> ('l, 's) ingest \<Rightarrow> ub + ('l, 's) ingest call"
where
  "ingestion_tick unpack free_unpacked push = (\<lambda>(curl_easy_init, curl_easy_perform, garbage) st.
     sum_bind (fetch_gtfs_data curl_easy_init curl_easy_perform (in_heap st)) (\<lambda>(h, raw_protobuf, out).
       let payload_size = (case out of None \<Rightarrow> 0 | Some n \<Rightarrow> n)
       in if raw_protobuf \<noteq> None \<and> 0 < payload_size then
            sum_bind (load_bytes h raw_protobuf (unat payload_size)) (\<lambda>bytes.
            call_bind (parse_and_queue unpack free_unpacked push garbage bytes (unat payload_size)
                (in_lib st) (in_sink st)) (\<lambda>(lib, s, count).
            sum_bind (free h raw_protobuf) (\<lambda>h'.
              Inr (Returns \<lparr>in_heap = h', in_lib = lib, in_sink = s\<rparr>))))
          else Inr (Returns (st\<lparr>in_heap := h\<rparr>))))"

text \<open>
  The thread over the iterations it gets to make; the flag tells whether it has ended.
\<close>

fun ingestion_thread ::
  "('l \<Rightarrow> u8 list \<Rightarrow> feed_message option \<times> 'l) \<Rightarrow> (feed_message \<Rightarrow> 'l \<Rightarrow> 'l)
   \<Rightarrow> ('s \<Rightarrow> vehicle_data \<Rightarrow> ub + ('s \<times> bool) call) \<Rightarrow> ('s \<Rightarrow> bool) \<Rightarrow> tick list
   \<Rightarrow> ('l, 's) ingest \<Rightarrow> ub + (('l, 's) ingest \<times> bool) call"
where
  "ingestion_thread unpack free_unpacked push is_shutdown ticks st =
     (if is_shutdown (in_sink st) then Inr (Returns (st, True))
      else case ticks of
        [] \<Rightarrow> Inr (Returns (st, False))
      | t # ts \<Rightarrow> call_bind (ingestion_tick unpack free_unpacked push t st)
          (\<lambda>st'. ingestion_thread unpack free_unpacked push is_shutdown ts st'))"

declare ingestion_thread.simps [simp del]

section \<open>Correctness of an iteration\<close>

lemma load_body:
  assumes "blocks h q = Some (map Some (body @ [0]))"
  shows "load_bytes h (Some q) (length body) = Inr body"
  using assms by (auto simp: load_bytes_def comp_def)

text \<open>The outcome of an iteration in which a body was received and decoded.\<close>

definition delivered ::
  "('l \<Rightarrow> u8 list \<Rightarrow> feed_message option \<times> 'l) \<Rightarrow> (feed_message \<Rightarrow> 'l \<Rightarrow> 'l)
   \<Rightarrow> ('s \<Rightarrow> vehicle_data \<Rightarrow> ub + ('s \<times> bool) call) \<Rightarrow> u8 list \<Rightarrow> heap
   \<Rightarrow> ('l, 's) ingest \<Rightarrow> ub + ('l, 's) ingest call"
where
  "delivered unpack free_unpacked push body h st =
     (case unpack (in_lib st) body of
        (None, lib) \<Rightarrow> Inr (Returns (st\<lparr>in_heap := h, in_lib := lib\<rparr>))
      | (Some msg, lib) \<Rightarrow>
          call_bind (offer_all push (in_sink st) (feed_vehicles msg)) (\<lambda>(s, k).
            Inr (Returns \<lparr>in_heap = h, in_lib = free_unpacked msg lib, in_sink = s\<rparr>)))"

lemma call_bind_ingest:
  fixes c :: "ub + ('b \<times> nat) call"
  shows "call_bind (call_bind c (\<lambda>(s', k). Inr (Returns (lib, s', Some (int k)))))
      (\<lambda>(lib, s, count). Inr (Returns \<lparr>in_heap = h, in_lib = lib, in_sink = s\<rparr>)) =
    call_bind c (\<lambda>(s, k). Inr (Returns \<lparr>in_heap = h, in_lib = lib, in_sink = s\<rparr>))"
  by (cases c rule: call_cases) auto

lemma tick_delivers:
  assumes fetch: "fetch_gtfs_data init perform (in_heap st) =
      Inr (h1, Some q, Some (word_of_nat (length body)))" "heap_ok h1"
    and block: "blocks (in_heap st) q = None" "blocks h1 = (blocks (in_heap st))(q \<mapsto> map Some (body @ [0]))"
    and body: "body \<noteq> []" "length body + 1 < 2 ^ 64"
    and unpack: "pred_option message_ok (fst (unpack (in_lib st) body))" "\<And>i. item_shape (garbage i)"
  shows "\<exists>h. heap_ok h \<and> blocks h = blocks (in_heap st) \<and> same_allocator h1 h 0 \<and>
    ingestion_tick unpack free_unpacked push (init, perform, garbage) st =
      delivered unpack free_unpacked push body h st"
proof -
  have len: "unat (word_of_nat (length body) :: u64) = length body"
    using body(2) by (intro unat_length) simp
  then have pos: "(0 :: u64) < word_of_nat (length body)"
    using body(1) by (metis length_0_conv unat_0 word_gt_0)
  have load: "load_bytes h1 (Some q) (length body) = Inr body"
    by (rule load_body) (simp add: block(2))
  obtain h2 where h2: "free h1 (Some q) = Inr h2" "blocks h2 = blocks (in_heap st)"
    using block by (auto simp: free_def fun_upd_idem)
  have parse: "parse_and_queue unpack free_unpacked push garbage body (length body) (in_lib st) (in_sink st) =
    (case unpack (in_lib st) body of
       (None, lib') \<Rightarrow> Inr (Returns (lib', in_sink st, None))
     | (Some msg, lib') \<Rightarrow> call_bind (offer_all push (in_sink st) (feed_vehicles msg))
         (\<lambda>(s', k). Inr (Returns (free_unpacked msg lib', s', Some (int k)))))"
    by (subst parse_and_queue_feed) (simp_all add: unpack)
  have "ingestion_tick unpack free_unpacked push (init, perform, garbage) st =
      delivered unpack free_unpacked push body h2 st"
    using fetch(1) pos load len parse h2(1)
    by (cases "unpack (in_lib st) body"; cases "fst (unpack (in_lib st) body)")
      (simp_all add: ingestion_tick_def Let_def delivered_def call_bind_ingest)
  with h2(2) free_heap_ok [OF fetch(2) h2(1)] free_allocator [OF h2(1)] show ?thesis by blast
qed

lemma tick_outcome:
  assumes "heap_ok (in_heap st)" "curl_contract curl_easy_perform chunks code"
    and "length (concat chunks) + 1 < 2 ^ 64"
    and "pred_option message_ok (fst (unpack (in_lib st) (concat chunks)))"
    and "\<And>i. item_shape (garbage i)"
    and got: "got \<longleftrightarrow> received (refuses (in_heap st)) (next_id (in_heap st)) init chunks code"
  shows "\<exists>h. heap_ok h \<and>
    same_allocator (in_heap st) h (fetch_requests (refuses (in_heap st)) (next_id (in_heap st)) init chunks) \<and>
    (if got \<and> concat chunks \<noteq> []
     then blocks h = blocks (in_heap st) \<and>
       ingestion_tick unpack free_unpacked push (init, curl_easy_perform, garbage) st =
         delivered unpack free_unpacked push (concat chunks) h st
     else (blocks h = blocks (in_heap st) \<or>
         got \<and> (\<exists>q bs. blocks (in_heap st) q = None \<and> blocks h = (blocks (in_heap st))(q \<mapsto> bs))) \<and>
       ingestion_tick unpack free_unpacked push (init, curl_easy_perform, garbage) st =
         Inr (Returns (st\<lparr>in_heap := h\<rparr>)))"
proof -
  let ?body = "concat chunks" and ?tick = "ingestion_tick unpack free_unpacked push (init, curl_easy_perform, garbage) st"
  obtain h1 p out where f: "fetch_gtfs_data init curl_easy_perform (in_heap st) = Inr (h1, p, out)"
    "heap_ok h1"
    "same_allocator (in_heap st) h1 (fetch_requests (refuses (in_heap st)) (next_id (in_heap st)) init chunks)"
    "if got then out = Some (word_of_nat (length ?body)) \<and>
        (case p of
           None \<Rightarrow> ?body = [] \<and> refuses (in_heap st) (next_id (in_heap st)) 1 \<and> blocks h1 = blocks (in_heap st)
         | Some q \<Rightarrow> blocks (in_heap st) q = None \<and> (\<exists>bs. blocks h1 = (blocks (in_heap st))(q \<mapsto> bs) \<and>
             (bs = map Some (?body @ [0]) \<or> ?body = [] \<and> bs = [None])))
      else p = None \<and> out = None \<and> blocks h1 = blocks (in_heap st)"
    using fetch_result [OF assms(1-3), of init] unfolding got by blast
  show ?thesis
  proof (cases "got \<and> ?body \<noteq> []")
    case True
    with f(4) obtain q where q: "p = Some q" "blocks (in_heap st) q = None"
      "blocks h1 = (blocks (in_heap st))(q \<mapsto> map Some (?body @ [0]))"
      "out = Some (word_of_nat (length ?body))" by (auto split: option.splits)
    from tick_delivers [where unpack = unpack and garbage = garbage and st = st and
        free_unpacked = free_unpacked and push = push and init = init and
        perform = curl_easy_perform, OF f(1) [unfolded q(1,4)] f(2) q(2,3) _ assms(3,4,5)] True
    obtain h2 where "heap_ok h2" "blocks h2 = blocks (in_heap st)" "same_allocator h1 h2 0"
      "?tick = delivered unpack free_unpacked push ?body h2 st" by blast
    with True f(3) show ?thesis
      unfolding if_P [OF True] by (intro exI [of _ h2]) (simp add: same_allocator_def)
  next
    case False
    have tick: "?tick = Inr (Returns (st\<lparr>in_heap := h1\<rparr>))"
    proof (cases got)
      case True
      with False have "length ?body = 0" by simp
      with True f(4) have "out = Some 0" by (simp del: length_concat length_0_conv)
      with f(1) show ?thesis by (simp add: ingestion_tick_def)
    next
      case False
      with f(1,4) show ?thesis by (simp add: ingestion_tick_def)
    qed
    have "blocks h1 = blocks (in_heap st) \<or>
        got \<and> (\<exists>q bs. blocks (in_heap st) q = None \<and> blocks h1 = (blocks (in_heap st))(q \<mapsto> bs))"
      using f(4) by (auto split: if_splits option.splits)
    with tick f(2,3) show ?thesis unfolding if_not_P [OF False] by blast
  qed
qed

section \<open>Empty payloads\<close>

lemma empty_tick:
  assumes "heap_ok (in_heap st)" "refuses (in_heap st) = (\<lambda>_ _. False)" "finite (dom (blocks (in_heap st)))"
    and "curl_contract perform [] CURLE_OK"
  shows "\<exists>h. ingestion_tick unpack free_unpacked push (True, perform, garbage) st =
      Inr (Returns (st\<lparr>in_heap := h\<rparr>)) \<and> heap_ok h \<and> refuses h = (\<lambda>_ _. False) \<and>
    finite (dom (blocks h)) \<and> card (dom (blocks h)) = Suc (card (dom (blocks (in_heap st))))"
proof -
  let ?h = "in_heap st"
  let ?i = "next_id ?h"
  let ?h1 = "?h\<lparr>next_id := Suc ?i, blocks := (blocks ?h)(?i \<mapsto> [None])\<rparr>"
  have m: "malloc ?h 1 = (?h1, Some ?i)" using assms(2) by (simp add: malloc_def Let_def)
  have new: "?i \<notin> dom (blocks ?h)" using heap_ok_fresh [OF assms(1) order_refl] by auto
  have "fetch_gtfs_data True perform ?h = Inr (?h1, Some ?i, Some 0)"
    using assms(4) m by (simp add: fetch_gtfs_data_def curl_contract_def)
  then have "ingestion_tick unpack free_unpacked push (True, perform, garbage) st =
      Inr (Returns (st\<lparr>in_heap := ?h1\<rparr>))" by (simp add: ingestion_tick_def)
  moreover have "heap_ok ?h1" by (rule malloc_heap_ok [OF assms(1) m])
  moreover have "card (dom (blocks ?h1)) = Suc (card (dom (blocks ?h)))"
    using assms(3) new by simp
  ultimately show ?thesis using assms(2,3) by (intro exI [of _ ?h1]) simp
qed

lemma empty_ticks:
  assumes "heap_ok (in_heap st)" "refuses (in_heap st) = (\<lambda>_ _. False)" "finite (dom (blocks (in_heap st)))"
    and "curl_contract perform [] CURLE_OK" "\<not> is_shutdown (in_sink st)"
  shows "\<exists>h. ingestion_thread unpack free_unpacked push is_shutdown
        (replicate n (True, perform, garbage)) st = Inr (Returns (st\<lparr>in_heap := h\<rparr>, False)) \<and>
     card (dom (blocks h)) = card (dom (blocks (in_heap st))) + n"
  using assms
proof (induction n arbitrary: st)
  case 0
  then show ?case by (intro exI [of _ "in_heap st"]) (simp add: ingestion_thread.simps)
next
  case (Suc n)
  from empty_tick [OF Suc.prems(1-4), of unpack free_unpacked push garbage] obtain h1 where
    1: "ingestion_tick unpack free_unpacked push (True, perform, garbage) st =
        Inr (Returns (st\<lparr>in_heap := h1\<rparr>))" "heap_ok h1" "refuses h1 = (\<lambda>_ _. False)"
      "finite (dom (blocks h1))" "card (dom (blocks h1)) = Suc (card (dom (blocks (in_heap st))))"
    by blast
  from Suc.IH [of "st\<lparr>in_heap := h1\<rparr>"] 1 Suc.prems(4,5) show ?case
    by (simp add: ingestion_thread.simps [of _ _ _ _ "_ # _"])
qed

section \<open>Properties\<close>

text \<open>
  C15: an iteration of the ingestion thread, for any network outcome and allocator. If a handle
  was made, the transfer ended with \<open>CURLE_OK\<close>, no request for a nonempty chunk was refused and
  the body is not empty, the whole body is decoded, once: a decoded message's vehicles are
  offered to the ring buffer in order until one is refused, and the message is released; the
  payload is released in any case, so the blocks of the heap are those of before. Otherwise
  neither the decoder nor the ring buffer is touched, and nothing stays allocated but the block
  of an empty body.
\<close>

theorem ingestion_tick_correct:
  assumes "heap_ok (in_heap st)" "curl_contract curl_easy_perform chunks code"
    and "length (concat chunks) + 1 < 2 ^ 64"
    and "pred_option message_ok (fst (unpack (in_lib st) (concat chunks)))"
    and "\<And>i. item_shape (garbage i)"
    and "got \<longleftrightarrow> init \<and> code = CURLE_OK \<and>
      granted (refuses (in_heap st)) (next_id (in_heap st) + 1) 0 chunks"
  shows "\<exists>h. heap_ok h \<and>
    (if got \<and> concat chunks \<noteq> []
     then blocks h = blocks (in_heap st) \<and>
       ingestion_tick unpack free_unpacked push (init, curl_easy_perform, garbage) st =
         (case unpack (in_lib st) (concat chunks) of
            (None, lib) \<Rightarrow> Inr (Returns (st\<lparr>in_heap := h, in_lib := lib\<rparr>))
          | (Some msg, lib) \<Rightarrow>
              call_bind (offer_all push (in_sink st) (feed_vehicles msg)) (\<lambda>(s, k).
                Inr (Returns \<lparr>in_heap = h, in_lib = free_unpacked msg lib, in_sink = s\<rparr>)))
     else (blocks h = blocks (in_heap st) \<or>
         got \<and> (\<exists>q bs. blocks (in_heap st) q = None \<and> blocks h = (blocks (in_heap st))(q \<mapsto> bs))) \<and>
       ingestion_tick unpack free_unpacked push (init, curl_easy_perform, garbage) st =
         Inr (Returns (st\<lparr>in_heap := h\<rparr>)))"
proof -
  have "got \<longleftrightarrow> received (refuses (in_heap st)) (next_id (in_heap st)) init chunks code"
    by (simp add: received_def assms(6))
  from tick_outcome [where unpack = unpack and garbage = garbage and st = st and
      free_unpacked = free_unpacked and push = push and init = init and got = got and
      curl_easy_perform = curl_easy_perform, OF assms(1-5) this, unfolded delivered_def]
  show ?thesis by (auto simp del: concat_eq_Nil_conv)
qed

definition sample_ingest :: "(nat, vehicle_data list) ingest" where
  "sample_ingest = \<lparr>in_heap = empty_heap, in_lib = 0, in_sink = []\<rparr>"

theorem ingestion_tick_correct_witness:
  "\<exists>h. heap_ok h \<and> blocks h = Map.empty \<and>
    ingestion_tick sample_unpack (\<lambda>_ n. n - 1) list_push (True, two_chunks, \<lambda>_. sample_garbage)
      sample_ingest = Inr (Returns \<lparr>in_heap = h, in_lib = 0, in_sink = feed_vehicles sample_feed\<rparr>) \<and>
    length (feed_vehicles sample_feed) = 1"
proof -
  have "curl_contract two_chunks [[10, 13], [8]] CURLE_OK"
    by (simp add: curl_contract_def two_chunks_def)
  from ingestion_tick_correct [of sample_ingest, OF _ this, of sample_unpack "\<lambda>_. sample_garbage"
      True True "\<lambda>_ n. n - 1" list_push]
  show ?thesis
    by (auto simp: sample_ingest_def empty_heap_def heap_ok_def sample_unpack_def sample_feed_ok
        sample_garbage_shape sample_feed_vehicles list_push_def)
qed

text \<open>
  C29: every iteration that receives an empty body leaks the block the fetcher returned: the
  thread frees the payload only when its size is positive, so after \<open>n\<close> such iterations
  \<open>n\<close> more blocks are allocated, and nothing was offered to the ring buffer.
\<close>

theorem empty_payloads_leak:
  assumes "heap_ok (in_heap st)" "refuses (in_heap st) = (\<lambda>_ _. False)" "finite (dom (blocks (in_heap st)))"
    and "curl_contract perform [] CURLE_OK" "\<not> is_shutdown (in_sink st)"
  shows "\<exists>h. ingestion_thread unpack free_unpacked push is_shutdown
        (replicate n (True, perform, garbage)) st = Inr (Returns (st\<lparr>in_heap := h\<rparr>, False)) \<and>
     card (dom (blocks h)) = card (dom (blocks (in_heap st))) + n"
  using assms by (rule empty_ticks)

theorem empty_payloads_leak_witness:
  "\<exists>h. ingestion_thread sample_unpack (\<lambda>_ n. n - 1) list_push (\<lambda>_. False)
        (replicate 4 (True, \<lambda>cb. deliver cb [] CURLE_OK, \<lambda>_. sample_garbage)) sample_ingest =
      Inr (Returns (sample_ingest\<lparr>in_heap := h\<rparr>, False)) \<and> card (dom (blocks h)) = 4"
  using empty_payloads_leak [of sample_ingest "\<lambda>cb. deliver cb [] CURLE_OK" "\<lambda>_. False"
      sample_unpack "\<lambda>_ n. n - 1" list_push 4 "\<lambda>_. sample_garbage"]
  by (simp add: sample_ingest_def empty_heap_def heap_ok_def curl_contract_def)

end
