(* ===== verification/Static_Gtfs.thy ===== *)
theory Static_Gtfs
  imports Prelude
begin

text \<open>
  The static dictionaries (\<open>load_static_gtfs\<close>, \<open>src/main.cpp\<close>): the lines of
  \<open>stops.txt\<close> and \<open>routes.txt\<close> are split at commas into maps from id to name. Streams are
  modelled with their state bits, because the code does not test the reads of the columns: a
  \<open>std::getline\<close> on a stream that has reached its end fails and leaves its string as it was.
\<close>

section \<open>Streams\<close>

record istream =
  is_rest :: string
  is_eof :: bool
  is_fail :: bool

definition open_stream :: "string \<Rightarrow> istream" where
  "open_stream s = \<lparr>is_rest = s, is_eof = False, is_fail = False\<rparr>"

text \<open>
  The characters up to the delimiter, which is dropped, and what follows; the flag tells
  whether the input ended first.
\<close>

fun split_at :: "char \<Rightarrow> string \<Rightarrow> string \<times> string \<times> bool" where
  "split_at d [] = ([], [], True)"
| "split_at d (c # cs) =
     (if c = d then ([], cs, False)
      else case split_at d cs of (a, rest, e) \<Rightarrow> (c # a, rest, e))"

text \<open>
  \<open>std::getline(is, str, d)\<close>: on a stream that is not good only the fail bit is set.
  Otherwise the string is replaced; the end of the input sets the eof bit, and the fail bit
  too if there was nothing to extract.
\<close>

definition getline :: "istream \<Rightarrow> string \<Rightarrow> char \<Rightarrow> istream \<times> string" where
  "getline is str d =
     (if is_eof is \<or> is_fail is then (is\<lparr>is_fail := True\<rparr>, str)
      else case split_at d (is_rest is) of
        (a, rest, e) \<Rightarrow> (\<lparr>is_rest = rest, is_eof = e, is_fail = e \<and> is_rest is = []\<rparr>, a))"

section \<open>Rows\<close>

definition strip_quotes :: "string \<Rightarrow> string" where
  "strip_quotes str =
     (if 2 \<le> length str \<and> hd str = CHR 0x22 \<and> last str = CHR 0x22
      then take (length str - 2) (drop 1 str) else str)"

text \<open>The local variables, shared by both files, and the two global maps.\<close>

record statics =
  st_line :: string
  st_id :: string
  st_name :: string
  st_ignore :: string
  stop_names :: "string \<rightharpoonup> string"
  route_names :: "string \<rightharpoonup> string"

definition stop_row :: "statics \<Rightarrow> statics" where
  "stop_row st =
     (let ss = open_stream (st_line st);
          (ss, id) = getline ss (st_id st) CHR '','';
          (ss, ignore) = getline ss (st_ignore st) CHR '','';
          (ss, name) = getline ss (st_name st) CHR '','';
          id = strip_quotes id;
          name = strip_quotes name
      in st\<lparr>st_id := id, st_name := name, st_ignore := ignore,
            stop_names := (stop_names st)(id \<mapsto> name)\<rparr>)"

definition route_row :: "statics \<Rightarrow> statics" where
  "route_row st =
     (let ss = open_stream (st_line st);
          (ss, id) = getline ss (st_id st) CHR '','';
          (ss, ignore) = getline ss (st_ignore st) CHR '','';
          (ss, ignore) = getline ss ignore CHR '','';
          (ss, name) = getline ss (st_name st) CHR '','';
          id = strip_quotes id;
          name = strip_quotes name
      in st\<lparr>st_id := id, st_name := name, st_ignore := ignore,
            route_names := (route_names st)(id \<mapsto> name)\<rparr>)"

section \<open>Files\<close>

lemma split_at_length: "split_at d s = (a, rest, e) \<Longrightarrow> length rest + (if e then 0 else 1) \<le> length s"
  by (induction s arbitrary: a) (auto split: if_splits prod.splits)

definition stream_size :: "istream \<Rightarrow> nat" where
  "stream_size is = (if is_eof is then 0 else Suc (length (is_rest is)))"

lemma getline_decreases:
  assumes "getline is str d = (is', str')" "\<not> is_fail is'"
  shows "stream_size is' < stream_size is"
proof -
  from assms have good: "\<not> is_eof is" "\<not> is_fail is" by (auto simp: getline_def split: if_splits)
  obtain a rest e where s: "split_at d (is_rest is) = (a, rest, e)" by (cases "split_at d (is_rest is)")
  from split_at_length [OF s] assms good s show ?thesis
    by (auto simp: getline_def stream_size_def split: if_splits)
qed

text \<open>The loop over the lines, with the operation for a row.\<close>

function each_row :: "(statics \<Rightarrow> statics) \<Rightarrow> istream \<Rightarrow> statics \<Rightarrow> statics" where
  "each_row row file st =
     (let (file', line) = getline file (st_line st) CHR 0x0A; st1 = st\<lparr>st_line := line\<rparr>
      in if is_fail file' then st1 else each_row row file' (row st1))"
  by pat_completeness auto
termination
  by (relation "measure (\<lambda>(row, file, st). stream_size file)") (auto intro: getline_decreases sym)

declare each_row.simps [simp del]

text \<open>One file: \<open>None\<close> when it cannot be opened; the header line is read and dropped.\<close>

definition load_file :: "(statics \<Rightarrow> statics) \<Rightarrow> string option \<Rightarrow> statics \<Rightarrow> statics" where
  "load_file row contents st =
     (case contents of
        None \<Rightarrow> st
      | Some s \<Rightarrow>
          (let (file, line) = getline (open_stream s) (st_line st) CHR 0x0A
           in each_row row file (st\<lparr>st_line := line\<rparr>)))"

definition no_statics :: statics where
  "no_statics = \<lparr>st_line = [], st_id = [], st_name = [], st_ignore = [],
     stop_names = Map.empty, route_names = Map.empty\<rparr>"

definition load_static_gtfs :: "string option \<Rightarrow> string option \<Rightarrow> statics" where
  "load_static_gtfs stops routes = load_file route_row routes (load_file stop_row stops no_statics)"


section \<open>What a file means\<close>

text \<open>The parts between delimiters: one more than there are delimiters.\<close>

fun split_on :: "char \<Rightarrow> string \<Rightarrow> string list" where
  "split_on d [] = [[]]"
| "split_on d (c # cs) =
     (if c = d then [] # split_on d cs
      else (case split_on d cs of [] \<Rightarrow> [[c]] | x # xs \<Rightarrow> (c # x) # xs))"

definition columns :: "string \<Rightarrow> string list" where
  "columns line = split_on CHR '','' line"

text \<open>The lines after the header; a last line without characters is none.\<close>

definition proper_lines :: "string list \<Rightarrow> string list" where
  "proper_lines ls = (if ls \<noteq> [] \<and> last ls = [] then butlast ls else ls)"

definition data_lines :: "string \<Rightarrow> string list" where
  "data_lines contents = proper_lines (tl (split_on CHR 0x0A contents))"

text \<open>
  The entries of a file in order, when the name is column \<open>k\<close>: a row without this column
  keeps the name of the row before.
\<close>

fun dictionary :: "nat \<Rightarrow> string \<Rightarrow> string list \<Rightarrow> (string \<times> string) list" where
  "dictionary k name [] = []"
| "dictionary k name (line # lines) =
     (let cs = columns line; name' = strip_quotes (if k < length cs then cs ! k else name)
      in (strip_quotes (hd cs), name') # dictionary k name' lines)"

definition last_name :: "string \<Rightarrow> (string \<times> string) list \<Rightarrow> string" where
  "last_name name entries = (if entries = [] then name else snd (last entries))"

lemma split_on_split_at:
  "split_on d s = (case split_at d s of (a, rest, e) \<Rightarrow> a # (if e then [] else split_on d rest))"
  by (induction s) (auto split: prod.splits list.splits)

lemma split_on_not_Nil [simp]: "split_on d s \<noteq> []"
  by (simp add: split_on_split_at split: prod.split)

text \<open>A stream that still holds the parts \<open>ps\<close>.\<close>

definition holds_parts :: "char \<Rightarrow> istream \<Rightarrow> string list \<Rightarrow> bool" where
  "holds_parts d is ps \<longleftrightarrow>
     (if ps = [] then is_eof is \<or> is_fail is
      else \<not> is_eof is \<and> \<not> is_fail is \<and> split_on d (is_rest is) = ps)"

lemma holds_parts_open [simp]: "holds_parts d (open_stream s) (split_on d s)"
  by (simp add: holds_parts_def open_stream_def)

lemma getline_part:
  assumes "holds_parts d is ps"
  obtains is' where "getline is str d = (is', if ps = [] then str else hd ps)"
    "holds_parts d is' (tl ps)" "is_fail is' \<longleftrightarrow> ps = [] \<or> ps = [[]]"
proof (cases "ps = []")
  case True
  with assms that show thesis by (auto simp: holds_parts_def getline_def)
next
  case False
  obtain a rest e where s: "split_at d (is_rest is) = (a, rest, e)" by (cases "split_at d (is_rest is)")
  have empty: "e \<and> is_rest is = [] \<longleftrightarrow> e \<and> a = []"
    using s by (cases "is_rest is") (auto split: if_splits prod.splits)
  have ps: "ps = a # (if e then [] else split_on d rest)"
    using assms False s by (simp add: holds_parts_def split_on_split_at [of d "is_rest is"])
  show thesis
  proof (rule that)
    show "getline is str d =
      (\<lparr>is_rest = rest, is_eof = e, is_fail = e \<and> is_rest is = []\<rparr>, if ps = [] then str else hd ps)"
      using assms False s ps by (simp add: holds_parts_def getline_def)
    show "holds_parts d \<lparr>is_rest = rest, is_eof = e, is_fail = e \<and> is_rest is = []\<rparr> (tl ps)"
      using ps by (simp add: holds_parts_def)
    show "is_fail \<lparr>is_rest = rest, is_eof = e, is_fail = e \<and> is_rest is = []\<rparr> \<longleftrightarrow> ps = [] \<or> ps = [[]]"
      using ps empty by auto
  qed
qed

section \<open>The rows read as columns\<close>

lemma hd_tl_nth: "k < length xs \<Longrightarrow> hd (drop k xs) = xs ! k"
  by (rule hd_drop_conv_nth)

lemma stop_row_columns:
  "\<exists>ign. stop_row st =
     (let cs = columns (st_line st); id = strip_quotes (hd cs);
          name = strip_quotes (if 2 < length cs then cs ! 2 else st_name st)
      in st\<lparr>st_id := id, st_name := name, st_ignore := ign,
            stop_names := (stop_names st)(id \<mapsto> name)\<rparr>)"
proof -
  let ?cs = "columns (st_line st)"
  have "holds_parts CHR '','' (open_stream (st_line st)) ?cs" by (simp add: columns_def)
  from getline_part [OF this, of "st_id st"] obtain s1 where
    1: "getline (open_stream (st_line st)) (st_id st) CHR '','' = (s1, hd ?cs)"
      "holds_parts CHR '','' s1 (tl ?cs)" by (auto simp: columns_def)
  from getline_part [OF 1(2), of "st_ignore st"] obtain s2 ign where
    2: "getline s1 (st_ignore st) CHR '','' = (s2, ign)" "holds_parts CHR '','' s2 (tl (tl ?cs))"
    by metis
  from getline_part [OF 2(2), of "st_name st"] obtain s3 where
    3: "getline s2 (st_name st) CHR '','' =
        (s3, if tl (tl ?cs) = [] then st_name st else hd (tl (tl ?cs)))" by metis
  have "(if tl (tl ?cs) = [] then st_name st else hd (tl (tl ?cs))) =
      (if 2 < length ?cs then ?cs ! 2 else st_name st)"
    using hd_drop_conv_nth [of 2 ?cs] by (auto simp: drop_Suc numeral_2_eq_2 simp flip: length_0_conv)
  with 1 2 3 show ?thesis by (auto simp: stop_row_def Let_def)
qed

lemma route_row_columns:
  "\<exists>ign. route_row st =
     (let cs = columns (st_line st); id = strip_quotes (hd cs);
          name = strip_quotes (if 3 < length cs then cs ! 3 else st_name st)
      in st\<lparr>st_id := id, st_name := name, st_ignore := ign,
            route_names := (route_names st)(id \<mapsto> name)\<rparr>)"
proof -
  let ?cs = "columns (st_line st)"
  have "holds_parts CHR '','' (open_stream (st_line st)) ?cs" by (simp add: columns_def)
  from getline_part [OF this, of "st_id st"] obtain s1 where
    1: "getline (open_stream (st_line st)) (st_id st) CHR '','' = (s1, hd ?cs)"
      "holds_parts CHR '','' s1 (tl ?cs)" by (auto simp: columns_def)
  from getline_part [OF 1(2), of "st_ignore st"] obtain s2 ign where
    2: "getline s1 (st_ignore st) CHR '','' = (s2, ign)" "holds_parts CHR '','' s2 (tl (tl ?cs))"
    by metis
  from getline_part [OF 2(2), of ign] obtain s3 ign' where
    3: "getline s2 ign CHR '','' = (s3, ign')" "holds_parts CHR '','' s3 (tl (tl (tl ?cs)))"
    by metis
  from getline_part [OF 3(2), of "st_name st"] obtain s4 where
    4: "getline s3 (st_name st) CHR '','' =
        (s4, if tl (tl (tl ?cs)) = [] then st_name st else hd (tl (tl (tl ?cs))))" by metis
  have "(if tl (tl (tl ?cs)) = [] then st_name st else hd (tl (tl (tl ?cs)))) =
      (if 3 < length ?cs then ?cs ! 3 else st_name st)"
    using hd_drop_conv_nth [of 3 ?cs] by (auto simp: drop_Suc numeral_3_eq_3 simp flip: length_0_conv)
  with 1 2 3 4 show ?thesis by (auto simp: route_row_def Let_def)
qed

section \<open>The loop over the lines\<close>

lemma each_row_fold:
  assumes "holds_parts CHR 0x0A inp ls"
  shows "\<exists>line. each_row row inp st =
     (fold (\<lambda>l st. row (st\<lparr>st_line := l\<rparr>)) (proper_lines ls) st)\<lparr>st_line := line\<rparr>"
  using assms
proof (induction ls arbitrary: inp st)
  case Nil
  from getline_part [OF Nil, of "st_line st"] obtain inp' where
    "getline inp (st_line st) CHR 0x0A = (inp', st_line st)" "is_fail inp'" by auto
  then show ?case
    by (auto simp: each_row.simps [of row inp] proper_lines_def intro!: exI [of _ "st_line st"])
next
  case (Cons l ls)
  from getline_part [OF Cons.prems, of "st_line st"] obtain inp' where
    g: "getline inp (st_line st) CHR 0x0A = (inp', l)" "holds_parts CHR 0x0A inp' ls"
      "is_fail inp' \<longleftrightarrow> l = [] \<and> ls = []" by auto
  show ?case
  proof (cases "is_fail inp'")
    case True
    with g show ?thesis by (auto simp: each_row.simps [of row inp] proper_lines_def)
  next
    case False
    then have "proper_lines (l # ls) = l # proper_lines ls"
      using g(3) by (auto simp: proper_lines_def)
    with Cons.IH [OF g(2), of "row (st\<lparr>st_line := l\<rparr>)"] False g(1) show ?thesis
      by (simp add: each_row.simps [of row inp])
  qed
qed

lemma load_file_fold:
  "\<exists>line line0. load_file row (Some s) st =
     (fold (\<lambda>l st. row (st\<lparr>st_line := l\<rparr>)) (data_lines s) (st\<lparr>st_line := line0\<rparr>))\<lparr>st_line := line\<rparr>"
proof -
  have "holds_parts CHR 0x0A (open_stream s) (split_on CHR 0x0A s)" by simp
  from getline_part [OF this, of "st_line st"] obtain inp' where
    g: "getline (open_stream s) (st_line st) CHR 0x0A = (inp', hd (split_on CHR 0x0A s))"
      "holds_parts CHR 0x0A inp' (tl (split_on CHR 0x0A s))" by auto
  from each_row_fold [OF g(2), of row "st\<lparr>st_line := hd (split_on CHR 0x0A s)\<rparr>"] g(1)
  show ?thesis by (auto simp: load_file_def data_lines_def)
qed

lemma fold_stop_rows:
  "let st' = fold (\<lambda>l st. stop_row (st\<lparr>st_line := l\<rparr>)) ls st; d = dictionary 2 (st_name st) ls
   in stop_names st' = stop_names st ++ map_of (rev d) \<and> route_names st' = route_names st \<and>
      st_name st' = last_name (st_name st) d"
proof (induction ls arbitrary: st)
  case (Cons l ls)
  have "\<exists>ign. stop_row (st\<lparr>st_line := l\<rparr>) =
     (let cs = columns l; id = strip_quotes (hd cs);
          name = strip_quotes (if 2 < length cs then cs ! 2 else st_name st)
      in st\<lparr>st_line := l, st_id := id, st_name := name, st_ignore := ign,
            stop_names := (stop_names st)(id \<mapsto> name)\<rparr>)"
    using stop_row_columns [of "st\<lparr>st_line := l\<rparr>"] by (simp add: Let_def cong: if_cong)
  then obtain ign where "stop_row (st\<lparr>st_line := l\<rparr>) =
     (let cs = columns l; id = strip_quotes (hd cs);
          name = strip_quotes (if 2 < length cs then cs ! 2 else st_name st)
      in st\<lparr>st_line := l, st_id := id, st_name := name, st_ignore := ign,
            stop_names := (stop_names st)(id \<mapsto> name)\<rparr>)" ..
  with Cons.IH [of "stop_row (st\<lparr>st_line := l\<rparr>)"] show ?case
    by (auto simp: Let_def last_name_def map_add_def split: option.splits)
qed (simp add: last_name_def)

lemma fold_route_rows:
  "let st' = fold (\<lambda>l st. route_row (st\<lparr>st_line := l\<rparr>)) ls st; d = dictionary 3 (st_name st) ls
   in route_names st' = route_names st ++ map_of (rev d) \<and> stop_names st' = stop_names st \<and>
      st_name st' = last_name (st_name st) d"
proof (induction ls arbitrary: st)
  case (Cons l ls)
  have "\<exists>ign. route_row (st\<lparr>st_line := l\<rparr>) =
     (let cs = columns l; id = strip_quotes (hd cs);
          name = strip_quotes (if 3 < length cs then cs ! 3 else st_name st)
      in st\<lparr>st_line := l, st_id := id, st_name := name, st_ignore := ign,
            route_names := (route_names st)(id \<mapsto> name)\<rparr>)"
    using route_row_columns [of "st\<lparr>st_line := l\<rparr>"] by (simp add: Let_def cong: if_cong)
  then obtain ign where "route_row (st\<lparr>st_line := l\<rparr>) =
     (let cs = columns l; id = strip_quotes (hd cs);
          name = strip_quotes (if 3 < length cs then cs ! 3 else st_name st)
      in st\<lparr>st_line := l, st_id := id, st_name := name, st_ignore := ign,
            route_names := (route_names st)(id \<mapsto> name)\<rparr>)" ..
  with Cons.IH [of "route_row (st\<lparr>st_line := l\<rparr>)"] show ?case
    by (auto simp: Let_def last_name_def map_add_def split: option.splits)
qed (simp add: last_name_def)


section \<open>Both files\<close>

lemma load_stops:
  "let st' = load_file stop_row (Some s) st; d = dictionary 2 (st_name st) (data_lines s)
   in stop_names st' = stop_names st ++ map_of (rev d) \<and> route_names st' = route_names st \<and>
      st_name st' = last_name (st_name st) d"
proof -
  obtain line line0 where "load_file stop_row (Some s) st =
     (fold (\<lambda>l st. stop_row (st\<lparr>st_line := l\<rparr>)) (data_lines s) (st\<lparr>st_line := line0\<rparr>))\<lparr>st_line := line\<rparr>"
    using load_file_fold [of stop_row s st] by blast
  with fold_stop_rows [of "data_lines s" "st\<lparr>st_line := line0\<rparr>"] show ?thesis
    by (simp add: Let_def)
qed

lemma load_routes:
  "let st' = load_file route_row (Some r) st; d = dictionary 3 (st_name st) (data_lines r)
   in route_names st' = route_names st ++ map_of (rev d) \<and> stop_names st' = stop_names st \<and>
      st_name st' = last_name (st_name st) d"
proof -
  obtain line line0 where "load_file route_row (Some r) st =
     (fold (\<lambda>l st. route_row (st\<lparr>st_line := l\<rparr>)) (data_lines r) (st\<lparr>st_line := line0\<rparr>))\<lparr>st_line := line\<rparr>"
    using load_file_fold [of route_row r st] by blast
  with fold_route_rows [of "data_lines r" "st\<lparr>st_line := line0\<rparr>"] show ?thesis
    by (simp add: Let_def)
qed

lemma load_file_None [simp]: "load_file row None st = st"
  by (simp add: load_file_def)

lemma no_statics_sel [simp]:
  "st_name no_statics = []" "stop_names no_statics = Map.empty" "route_names no_statics = Map.empty"
  by (simp_all add: no_statics_def)

definition entries_of :: "nat \<Rightarrow> string \<Rightarrow> string option \<Rightarrow> (string \<times> string) list" where
  "entries_of k name file = (case file of None \<Rightarrow> [] | Some s \<Rightarrow> dictionary k name (data_lines s))"

lemma load_static_gtfs_dictionary:
  "stop_names (load_static_gtfs stops routes) = map_of (rev (entries_of 2 [] stops))"
  "route_names (load_static_gtfs stops routes) =
     map_of (rev (entries_of 3 (last_name [] (entries_of 2 [] stops)) routes))"
proof -
  let ?st = "load_file stop_row stops no_statics"
  have st: "stop_names ?st = map_of (rev (entries_of 2 [] stops))" "route_names ?st = Map.empty"
    "st_name ?st = last_name [] (entries_of 2 [] stops)"
    using load_stops [of _ no_statics]
    by (cases stops; simp add: Let_def entries_of_def last_name_def)+
  show "stop_names (load_static_gtfs stops routes) = map_of (rev (entries_of 2 [] stops))"
    using load_routes [of _ ?st] st
    by (cases routes) (simp_all add: Let_def load_static_gtfs_def)
  show "route_names (load_static_gtfs stops routes) =
      map_of (rev (entries_of 3 (last_name [] (entries_of 2 [] stops)) routes))"
    using load_routes [of _ ?st] st
    by (cases routes) (simp_all add: Let_def load_static_gtfs_def entries_of_def)
qed

lemma dictionary_complete:
  assumes "list_all (\<lambda>l. k < length (columns l)) ls"
  shows "dictionary k name ls =
     map (\<lambda>l. (strip_quotes (hd (columns l)), strip_quotes (columns l ! k))) ls"
  using assms by (induction ls arbitrary: name) (simp_all add: Let_def)

text \<open>A line without the name column, after one that has it.\<close>

lemma dictionary_append:
  "dictionary k name (xs @ ys) =
     dictionary k name xs @ dictionary k (last_name name (dictionary k name xs)) ys"
  by (induction xs arbitrary: name) (simp_all add: Let_def last_name_def)

lemma dictionary_ids: "map fst (dictionary k name ls) = map (\<lambda>l. strip_quotes (hd (columns l))) ls"
  by (induction ls arbitrary: name) (simp_all add: Let_def)

lemma dictionary_short:
  assumes "data_lines s = before @ [l, r] @ after"
    and "k < length (columns l)" "length (columns r) \<le> k"
    and "list_all (\<lambda>x. strip_quotes (hd (columns x)) \<noteq> strip_quotes (hd (columns r))) after"
  shows "map_of (rev (dictionary k name (data_lines s))) (strip_quotes (hd (columns r))) =
    Some (strip_quotes (strip_quotes (columns l ! k)))"
proof -
  let ?id = "strip_quotes (hd (columns r))" and ?name = "strip_quotes (strip_quotes (columns l ! k))"
  let ?first = "(strip_quotes (hd (columns l)), strip_quotes (columns l ! k))"
  have d: "dictionary k name (data_lines s) =
      (dictionary k name before @ [?first]) @ (?id, ?name) # dictionary k ?name after"
    using assms(2,3) by (simp add: assms(1) dictionary_append Let_def)
  have "?id \<notin> set (map fst (dictionary k ?name after))"
    using assms(4) unfolding dictionary_ids by (auto simp: list_all_iff)
  then have "map_of (rev (dictionary k ?name after)) ?id = None"
    by (simp add: map_of_eq_None_iff)
  then show ?thesis by (simp add: d map_add_def)
qed

section \<open>Properties\<close>

text \<open>
  C22: after loading, each map holds what its file says: every line after the header binds its
  first column to its third (stops) or fourth (routes) column, both without enclosing quotes,
  and later lines go before earlier ones. A line that lacks the name column binds its id to
  the name of the line before it, across the two files; a missing file leaves its map empty.
\<close>

theorem load_static_gtfs_maps:
  "stop_names (load_static_gtfs stops routes) = map_of (rev (entries_of 2 [] stops)) \<and>
   route_names (load_static_gtfs stops routes) =
     map_of (rev (entries_of 3 (last_name [] (entries_of 2 [] stops)) routes))"
  by (intro conjI load_static_gtfs_dictionary)

text \<open>
  C30: when the name column is present on every line, each line binds its own id to its own
  name and nothing else, and an id that occurs once is found with its name.
\<close>

theorem load_static_gtfs_complete:
  assumes "list_all (\<lambda>l. 2 < length (columns l)) (data_lines s)"
    and "list_all (\<lambda>l. 3 < length (columns l)) (data_lines r)"
  shows "stop_names (load_static_gtfs (Some s) (Some r)) = map_of (rev (map
      (\<lambda>l. (strip_quotes (hd (columns l)), strip_quotes (columns l ! 2))) (data_lines s))) \<and>
    route_names (load_static_gtfs (Some s) (Some r)) = map_of (rev (map
      (\<lambda>l. (strip_quotes (hd (columns l)), strip_quotes (columns l ! 3))) (data_lines r)))"
  unfolding load_static_gtfs_dictionary
  by (simp add: entries_of_def dictionary_complete [OF assms(1)] dictionary_complete [OF assms(2)])

definition sample_stops :: string where
  "sample_stops = ''stop_id,stop_code,stop_name'' @ [CHR 0x0A] @ ''262,14,'' @ [CHR 0x22] @
     ''Main St'' @ [CHR 0x22] @ '',x'' @ [CHR 0x0A]"

definition sample_routes :: string where
  "sample_routes = ''route_id,agency,short,long'' @ [CHR 0x0A] @ ''60,1,60,Steeles West''"

theorem load_static_gtfs_complete_witness:
  "stop_names (load_static_gtfs (Some sample_stops) (Some sample_routes)) =
     [''262'' \<mapsto> ''Main St''] \<and>
   route_names (load_static_gtfs (Some sample_stops) (Some sample_routes)) =
     [''60'' \<mapsto> ''Steeles West'']"
proof -
  have lines: "data_lines sample_stops = [''262,14,'' @ [CHR 0x22] @ ''Main St'' @ [CHR 0x22] @ '',x'']"
    "data_lines sample_routes = [''60,1,60,Steeles West'']"
    by (simp_all add: data_lines_def proper_lines_def sample_stops_def sample_routes_def)
  show ?thesis
    using load_static_gtfs_complete [of sample_stops sample_routes]
    by (simp add: lines columns_def strip_quotes_def)
qed

text \<open>
  C31: a line with too few columns for a name is not skipped and does not get an empty name:
  the read of the name fails unnoticed, and the id of the line, unless a later line binds it
  again, is bound to the name of the previous line, whose quotes are stripped once more. This
  holds of any file, for the stops (name in column 2, from 0) and for the routes (column 3).
\<close>

theorem short_row_keeps_name:
  assumes "data_lines s = before @ [l, r] @ after"
    and "k < length (columns l)" "length (columns r) \<le> k"
    and "list_all (\<lambda>x. strip_quotes (hd (columns x)) \<noteq> strip_quotes (hd (columns r))) after"
  shows "(k = 2 \<longrightarrow> stop_names (load_static_gtfs (Some s) routes) (strip_quotes (hd (columns r))) =
      Some (strip_quotes (strip_quotes (columns l ! k)))) \<and>
    (k = 3 \<longrightarrow> route_names (load_static_gtfs stops (Some s)) (strip_quotes (hd (columns r))) =
      Some (strip_quotes (strip_quotes (columns l ! k))))"
  using dictionary_short [OF assms, of "[]"]
    dictionary_short [OF assms, of "last_name [] (entries_of 2 [] stops)"]
  by (auto simp: load_static_gtfs_dictionary entries_of_def [of _ _ "Some s"])

theorem short_row_keeps_name_witness:
  "stop_names (load_static_gtfs (Some (''h'' @ [CHR 0x0A] @ ''1,a,Main St'' @ [CHR 0x0A] @ ''2,b'')) None)
     ''2'' = Some ''Main St''"
proof -
  let ?s = "''h'' @ [CHR 0x0A] @ ''1,a,Main St'' @ [CHR 0x0A] @ ''2,b''"
  have "data_lines ?s = [] @ [''1,a,Main St'', ''2,b''] @ []"
    by (simp add: data_lines_def proper_lines_def)
  from short_row_keeps_name [OF this, of 2 None None] show ?thesis
    by (simp add: columns_def strip_quotes_def)
qed

end
