(* ===== verification/Engine.thy ===== *)
theory Engine
  imports Arena Vehicle_Data C_Strings Float_Bits Static_Gtfs
begin

text \<open>
  The main loop (\<open>main\<close>, \<open>src/main.cpp\<close>): it pops records from the ring buffer, drops the
  unidentified ones, stores the others in the spatial arena, and prints those with a passenger
  load. Printing appends to a list; the strings are those of the record and of the static
  dictionaries, and formatted numbers are kept as the values that are formatted.
\<close>

section \<open>Output\<close>

definition get_occupancy_string :: "int \<Rightarrow> string" where
  "get_occupancy_string status =
     (if status = 0 then ''EMPTY (0)''
      else if status = 1 then ''MANY SEATS (1)''
      else if status = 2 then ''FEW SEATS (2)''
      else if status = 3 then ''STANDING ROOM ONLY (3)''
      else if status = 4 then ''CRUSHED STANDING (4)''
      else if status = 5 then ''FULL (5)''
      else if status = 6 then ''NOT ACCEPTING PASSENGERS (6)''
      else if status = 7 then ''NO DATA (7)''
      else if status = 8 then ''NOT BOARDABLE (8)''
      else ''UNKNOWN'')"

record report =
  rp_bus :: string
  rp_route :: string
  rp_speed :: float32
  rp_load :: string
  rp_percent :: int
  rp_bearing :: float32
  rp_stop :: string

text \<open>A \<open>std::string\<close> or an output from a character array reads up to its terminator.\<close>

definition read_string :: "string \<Rightarrow> ub + string" where
  "read_string s = (if terminated s then Inr (c_string s) else Inl Index_Out_Of_Range)"

definition name_or_id :: "(string \<rightharpoonup> string) \<Rightarrow> string \<Rightarrow> string" where
  "name_or_id names i = (case names i of Some n \<Rightarrow> n | None \<Rightarrow> i)"

definition report_bus :: "statics \<Rightarrow> vehicle_data \<Rightarrow> ub + report" where
  "report_bus st bus =
     sum_bind (read_string (route_id bus)) (\<lambda>r_id.
     sum_bind (read_string (stop_id bus)) (\<lambda>s_id.
     sum_bind (read_string (fleet_number bus)) (\<lambda>fleet.
       Inr \<lparr>rp_bus = fleet, rp_route = name_or_id (route_names st) r_id, rp_speed = kmh (speed bus),
            rp_load = get_occupancy_string (occupancy_status bus),
            rp_percent = occupancy_percentage bus, rp_bearing = bearing bus,
            rp_stop = name_or_id (stop_names st) s_id\<rparr>)))"

section \<open>The loop\<close>

record engine =
  en_arena :: arena
  en_popped_bus :: vehicle_data
  en_total_processed :: u64
  en_output :: "report list"

text \<open>
  The body of the loop with the result of \<open>buffer_pop\<close>, which fills \<open>popped_bus\<close> only when
  it returns true.
\<close>

definition main_iteration ::
  "(float64 \<Rightarrow> float64) \<Rightarrow> (float64 \<times> float64 \<Rightarrow> int \<Rightarrow> u64 option) \<Rightarrow> statics
   \<Rightarrow> vehicle_data option \<Rightarrow> engine \<Rightarrow> ub + engine call"
where
  "main_iteration degsToRads latLngToCell st popped en =
     (case popped of
        None \<Rightarrow> Inr (Returns en)
      | Some bus \<Rightarrow>
          (let en = en\<lparr>en_popped_bus := bus\<rparr>
           in sum_bind (strncmp (internal_id bus) (c_literal ''UNKNOWN'') 16) (\<lambda>cmp.
             if cmp = 0 then Inr (Returns en)
             else
               call_bind (update degsToRads latLngToCell (en_arena en) (widen (lat bus))
                   (widen (lon bus)) (speed bus) (timestamp bus)) (\<lambda>(a, stored).
                 let en = en\<lparr>en_arena := a\<rparr>;
                     en = (if stored then en\<lparr>en_total_processed := en_total_processed en + 1\<rparr> else en)
                 in if occupancy_status bus > 1 \<and> occupancy_status bus < 6
                    then sum_bind (report_bus st bus) (\<lambda>r.
                           Inr (Returns (en\<lparr>en_output := en_output en @ [r]\<rparr>)))
                    else Inr (Returns en)))))"

text \<open>The loop does not end; this is its state after the given results of \<open>buffer_pop\<close>.\<close>

fun main_loop ::
  "(float64 \<Rightarrow> float64) \<Rightarrow> (float64 \<times> float64 \<Rightarrow> int \<Rightarrow> u64 option) \<Rightarrow> statics
   \<Rightarrow> vehicle_data option list \<Rightarrow> engine \<Rightarrow> ub + engine call"
where
  "main_loop d lltc st [] en = Inr (Returns en)"
| "main_loop d lltc st (p # ps) en = call_bind (main_iteration d lltc st p en) (main_loop d lltc st ps)"

text \<open>\<open>VehicleData popped_bus = {}\<close> and the variables before the loop.\<close>

definition no_vehicle :: vehicle_data where
  "no_vehicle = \<lparr>fleet_number = replicate 16 NUL, internal_id = replicate 16 NUL,
     route_id = replicate 16 NUL, lat = 0, lon = 0, speed = 0, occupancy_status = 0,
     occupancy_percentage = 0, bearing = 0, timestamp = 0, current_status = 0,
     congestion_level = 0, stop_id = replicate 32 NUL\<rparr>"

definition new_engine :: engine where
  "new_engine = \<lparr>en_arena = new_arena, en_popped_bus = no_vehicle, en_total_processed = 0,
     en_output = []\<rparr>"

section \<open>What the loop computes\<close>

definition strings_ok :: "vehicle_data \<Rightarrow> bool" where
  "strings_ok v \<longleftrightarrow>
     list_all terminated [fleet_number v, internal_id v, route_id v, stop_id v]"

definition identified :: "vehicle_data \<Rightarrow> bool" where
  "identified v \<longleftrightarrow> c_string (internal_id v) \<noteq> ''UNKNOWN''"

definition sample_of :: "vehicle_data \<Rightarrow> update_args" where
  "sample_of v = (widen (lat v), widen (lon v), speed v, timestamp v)"

definition carries_passengers :: "vehicle_data \<Rightarrow> bool" where
  "carries_passengers v \<longleftrightarrow> occupancy_status v \<in> {2..5}"

definition report_of :: "statics \<Rightarrow> vehicle_data \<Rightarrow> report" where
  "report_of st v =
     \<lparr>rp_bus = c_string (fleet_number v),
      rp_route = name_or_id (route_names st) (c_string (route_id v)), rp_speed = kmh (speed v),
      rp_load = get_occupancy_string (occupancy_status v), rp_percent = occupancy_percentage v,
      rp_bearing = bearing v, rp_stop = name_or_id (stop_names st) (c_string (stop_id v))\<rparr>"

text \<open>The records a list of results of \<open>buffer_pop\<close> has.\<close>

definition popped :: "vehicle_data option list \<Rightarrow> vehicle_data list" where
  "popped ps = concat (map (\<lambda>p. case p of None \<Rightarrow> [] | Some v \<Rightarrow> [v]) ps)"

lemma popped_simps [simp]:
  "popped [] = []" "popped (None # ps) = popped ps" "popped (Some v # ps) = v # popped ps"
  by (simp_all add: popped_def)

definition stored_samples ::
  "(float64 \<Rightarrow> float64) \<Rightarrow> (float64 \<times> float64 \<Rightarrow> int \<Rightarrow> u64 option)
   \<Rightarrow> vehicle_data list \<Rightarrow> (u64 \<times> u32 \<times> float32) list"
where
  "stored_samples d lltc vs = newest_first d lltc (map sample_of (filter identified vs))"

lemma strncmp_unknown:
  assumes "terminated s"
  obtains c where "strncmp s (c_literal ''UNKNOWN'') 16 = Inr c"
    "c = 0 \<longleftrightarrow> c_string s = ''UNKNOWN''"
proof -
  have unknown: "c_string (c_literal ''UNKNOWN'') = ''UNKNOWN''" by (rule c_string_c_literal) simp
  have "take 16 x = ''UNKNOWN'' \<longleftrightarrow> x = ''UNKNOWN''" for x
  proof
    assume x: "take 16 x = ''UNKNOWN''"
    then have "length (take 16 x) = 7" by simp
    then have "length x \<le> 16" by (auto simp: min_def split: if_splits)
    with x show "x = ''UNKNOWN''" by simp
  qed simp
  with unknown strncmp_equal [OF assms terminated_c_literal, of "''UNKNOWN''" 16] that show thesis by auto
qed

lemma report_bus_ok: "strings_ok v \<Longrightarrow> report_bus st v = Inr (report_of st v)"
  by (simp add: report_bus_def report_of_def read_string_def strings_ok_def)

lemma main_iteration_unidentified:
  assumes "strings_ok v" "\<not> identified v"
  shows "main_iteration d lltc st (Some v) en = Inr (Returns (en\<lparr>en_popped_bus := v\<rparr>))"
proof -
  from assms(1) have "terminated (internal_id v)" by (simp add: strings_ok_def)
  then obtain c where "strncmp (internal_id v) (c_literal ''UNKNOWN'') 16 = Inr c"
    "c = 0 \<longleftrightarrow> c_string (internal_id v) = ''UNKNOWN''" by (rule strncmp_unknown)
  with assms(2) show ?thesis by (simp add: main_iteration_def Let_def identified_def)
qed

lemma main_iteration_identified:
  assumes "strings_ok v" "identified v"
    and "update d lltc (en_arena en) (widen (lat v)) (widen (lon v)) (speed v) (timestamp v) =
      Inr (Returns (a, stored))"
  shows "main_iteration d lltc st (Some v) en = Inr (Returns (en\<lparr>en_popped_bus := v, en_arena := a,
    en_total_processed := en_total_processed en + (if stored then 1 else 0),
    en_output := en_output en @ (if carries_passengers v then [report_of st v] else [])\<rparr>))"
proof -
  from assms(1) have "terminated (internal_id v)" by (simp add: strings_ok_def)
  then obtain c where "strncmp (internal_id v) (c_literal ''UNKNOWN'') 16 = Inr c"
    "c = 0 \<longleftrightarrow> c_string (internal_id v) = ''UNKNOWN''" by (rule strncmp_unknown)
  moreover have "occupancy_status v > 1 \<and> occupancy_status v < 6 \<longleftrightarrow> carries_passengers v"
    by (auto simp: carries_passengers_def)
  ultimately show ?thesis
    using assms by (simp add: main_iteration_def Let_def identified_def report_bus_ok)
qed

lemma main_loop_runs:
  assumes "arena_inv (en_arena en)" "list_all strings_ok (popped ps)"
  shows "\<exists>en'. main_loop d lltc st ps en = Inr (Returns en') \<and>
    run_updates d lltc (en_arena en) (map sample_of (filter identified (popped ps))) =
      Inr (Returns (en_arena en')) \<and>
    en_total_processed en' = en_total_processed en +
      word_of_nat (length (stored_samples d lltc (popped ps))) \<and>
    en_output en' = en_output en @
      map (report_of st) (filter (\<lambda>v. identified v \<and> carries_passengers v) (popped ps))"
  using assms
proof (induction ps arbitrary: en)
  case Nil
  then show ?case by (simp add: popped_def stored_samples_def newest_first_def)
next
  case (Cons p ps)
  show ?case
  proof (cases p)
    case None
    have "main_iteration d lltc st p en = Inr (Returns en)" by (simp add: None main_iteration_def)
    then show ?thesis using Cons None by simp
  next
    case (Some v)
    then have ok: "strings_ok v" "list_all strings_ok (popped ps)" using Cons.prems(2) by simp_all
    show ?thesis
    proof (cases "identified v")
      case False
      with Cons.IH [of "en\<lparr>en_popped_bus := v\<rparr>"] Cons.prems(1) ok Some show ?thesis
        by (simp add: main_iteration_unidentified stored_samples_def)
    next
      case True
      obtain a stored where u: "update d lltc (en_arena en) (widen (lat v)) (widen (lon v)) (speed v)
          (timestamp v) = Inr (Returns (a, stored))" "arena_inv a"
        "stored \<longleftrightarrow> lltc (d (widen (lat v)), d (widen (lon v))) H3_RESOLUTION \<noteq> None"
        using Cons.prems(1) by (rule update_returns)
      have samples: "stored_samples d lltc (v # popped ps) =
          stored_samples d lltc (popped ps) @ located d lltc (sample_of v)"
        using True by (simp add: stored_samples_def newest_first_Cons)
      have "length (located d lltc (sample_of v)) = (if stored then 1 else 0)"
        using u(3) by (auto simp: sample_of_def split: option.splits)
      moreover
      let ?en = "en\<lparr>en_popped_bus := v, en_arena := a,
          en_total_processed := en_total_processed en + (if stored then 1 else 0),
          en_output := en_output en @ (if carries_passengers v then [report_of st v] else [])\<rparr>"
      obtain en' where en': "main_loop d lltc st ps ?en = Inr (Returns en')"
        "run_updates d lltc a (map sample_of (filter identified (popped ps))) = Inr (Returns (en_arena en'))"
        "en_total_processed en' = en_total_processed ?en +
          word_of_nat (length (stored_samples d lltc (popped ps)))"
        "en_output en' = en_output ?en @
          map (report_of st) (filter (\<lambda>v. identified v \<and> carries_passengers v) (popped ps))"
        using Cons.IH [of ?en] u(2) ok(2) by auto
      moreover have "main_loop d lltc st (Some v # ps) en = Inr (Returns en')"
        by (simp only: main_loop.simps main_iteration_identified [OF ok(1) True u(1)]
            call_bind.simps en'(1))
      moreover have "run_updates d lltc (en_arena en) (sample_of v # us) = run_updates d lltc a us" for us
        by (simp add: sample_of_def u(1))
      ultimately show ?thesis
        using True by (intro exI [of _ en']) (simp add: Some samples)
    qed
  qed
qed


text \<open>From the start of the program.\<close>

lemma main_loop_history:
  assumes "list_all strings_ok (popped ps)" "\<forall>x h. lltc x H3_RESOLUTION = Some h \<longrightarrow> h \<noteq> 0"
  shows "\<exists>en. main_loop d lltc st ps new_engine = Inr (Returns en) \<and> arena_inv (en_arena en) \<and>
    holds_history (en_arena en) (stored_samples d lltc (popped ps)) \<and>
    en_total_processed en = word_of_nat (length (stored_samples d lltc (popped ps))) \<and>
    en_output en =
      map (report_of st) (filter (\<lambda>v. identified v \<and> carries_passengers v) (popped ps))"
proof -
  have "arena_inv (en_arena new_engine)" by (simp add: new_engine_def new_arena_inv)
  from main_loop_runs [OF this assms(1), of d lltc st] obtain en where
    en: "main_loop d lltc st ps new_engine = Inr (Returns en)"
      "run_updates d lltc new_arena (map sample_of (filter identified (popped ps))) =
        Inr (Returns (en_arena en))"
      "en_total_processed en = word_of_nat (length (stored_samples d lltc (popped ps)))"
      "en_output en =
        map (report_of st) (filter (\<lambda>v. identified v \<and> carries_passengers v) (popped ps))"
    by (auto simp: new_engine_def)
  have "arena_inv (en_arena en)" "holds_history (en_arena en) (stored_samples d lltc (popped ps))"
    using run_updates_history [where lltc = lltc and d = d and
        us = "map sample_of (filter identified (popped ps))", OF new_arena_inv new_arena_history]
      assms(2) en(2)
    by (simp_all add: stored_samples_def)
  with en show ?thesis by blast
qed

text \<open>The speed that is printed.\<close>

lemma printed_speed:
  "case (f32_value w, f32_value (kmh w)) of
     (Some x, Some y) \<Rightarrow> 2 * \<bar>y * 2 ^ 22 - x * 15099494\<bar> \<le> 2 ^ 22 * 2 ^ (max 1 (f32_exponent (kmh w)) - 1)
   | (Some x, None) \<Rightarrow> (2 ^ 25 - 1) * 2 ^ 274 \<le> \<bar>x\<bar> * 15099494
   | (None, y) \<Rightarrow> y = None"
proof (cases "f32_value w")
  case None
  with kmh_not_finite [OF this] show ?thesis by simp
next
  case (Some x)
  have "(2 ^ 25 - 1) * 2 ^ 274 \<le> \<bar>x\<bar> * 15099494" if "f32_value (kmh w) = None"
  proof (rule ccontr)
    assume "\<not> ?thesis"
    then have "\<bar>x\<bar> * 15099494 < (2 ^ 25 - 1) * 2 ^ 274" by (simp only: not_le)
    with kmh_finite [OF Some] that show False by blast
  qed
  with kmh_value [OF Some] Some show ?thesis
    by (cases "f32_value (kmh w)") (simp_all only: prod.case option.case)
qed

section \<open>Properties\<close>

text \<open>
  C8: whatever the results of the pops, the main loop runs without undefined behaviour: the
  arena holds, bucket by bucket, the newest samples of the identified vehicles that H3
  locates, the counter counts them (modulo 2^64), and exactly the identified vehicles with an
  occupancy from 2 to 5 are reported, in order, under the names of the dictionaries or their
  ids.
\<close>

theorem main_loop_correct:
  assumes "list_all strings_ok (popped ps)" "\<forall>x h. lltc x H3_RESOLUTION = Some h \<longrightarrow> h \<noteq> 0"
  shows "\<exists>en. main_loop d lltc st ps new_engine = Inr (Returns en) \<and> arena_inv (en_arena en) \<and>
    holds_history (en_arena en) (stored_samples d lltc (popped ps)) \<and>
    en_total_processed en = word_of_nat (length (stored_samples d lltc (popped ps))) \<and>
    en_output en =
      map (report_of st) (filter (\<lambda>v. identified v \<and> carries_passengers v) (popped ps))"
  using assms by (rule main_loop_history)

definition sample_bus :: "string \<Rightarrow> int \<Rightarrow> vehicle_data" where
  "sample_bus i load = no_vehicle\<lparr>fleet_number := char_array 16 ''8123'',
     internal_id := char_array 16 i, route_id := char_array 16 ''60'',
     occupancy_status := load, timestamp := 1700000000, stop_id := char_array 32 ''262''\<rparr>"

lemma sample_bus_ok: "strings_ok (sample_bus i load)"
  by (simp add: strings_ok_def sample_bus_def)

theorem main_loop_correct_witness:
  "\<exists>en. main_loop id sample_h3 no_statics
        [Some (sample_bus ''UNKNOWN'' 3), None, Some (sample_bus ''8123'' 3), Some (sample_bus ''8124'' 7)]
        new_engine = Inr (Returns en) \<and>
     en_total_processed en = 2 \<and> map rp_load (en_output en) = [''STANDING ROOM ONLY (3)'']"
proof -
  have ids: "identified (sample_bus i load) \<longleftrightarrow> take 15 i \<noteq> ''UNKNOWN''" if "NUL \<notin> set i" for i load
    using that by (simp add: identified_def sample_bus_def)
  have load [simp]: "occupancy_status (sample_bus i load) = load" for i load
    by (simp add: sample_bus_def)
  have h3: "\<forall>x h. sample_h3 x H3_RESOLUTION = Some h \<longrightarrow> h \<noteq> 0"
    by (simp add: sample_h3_def sample_cell_def)
  have one: "located id sample_h3 (sample_of v) = [(sample_cell, ucast (timestamp v), speed v)]" for v
    by (simp add: sample_of_def sample_h3_def H3_RESOLUTION_def)
  let ?ps = "[Some (sample_bus ''UNKNOWN'' 3), None, Some (sample_bus ''8123'' 3),
      Some (sample_bus ''8124'' 7)]"
  have "list_all strings_ok (popped ?ps)" by (simp add: sample_bus_ok)
  from main_loop_correct [where d = id and st = no_statics and lltc = sample_h3, OF this h3] obtain en where
    en: "main_loop id sample_h3 no_statics ?ps new_engine = Inr (Returns en)"
      "en_total_processed en = word_of_nat (length (stored_samples id sample_h3 (popped ?ps)))"
      "en_output en = map (report_of no_statics)
        (filter (\<lambda>v. identified v \<and> carries_passengers v) (popped ?ps))" by blast
  have "filter identified (popped ?ps) = [sample_bus ''8123'' 3, sample_bus ''8124'' 7]"
    by (simp add: ids)
  then have "en_total_processed en = 2"
    by (simp add: en(2) stored_samples_def newest_first_def one)
  moreover have "filter (\<lambda>v. identified v \<and> carries_passengers v) (popped ?ps) =
      [sample_bus ''8123'' 3]"
    by (simp add: ids carries_passengers_def)
  then have "map rp_load (en_output en) = [''STANDING ROOM ONLY (3)'']"
    unfolding en(3) by (simp add: report_of_def get_occupancy_string_def)
  ultimately show ?thesis by (intro exI [of _ en] conjI en(1))
qed

text \<open>
  C34: for an identified vehicle the main loop updates the arena with coordinates as \<open>double\<close>
  that have exactly the value of the decoded \<open>float\<close>s (in the units of each format, which
  differ by 2 to the power 925), and are not finite only if those are not; speed and timestamp
  are passed on as they are. The speed it prints, if the vehicle carries passengers, is 3.6
  times the decoded one up to half a unit in its last place (the constant is 15099494 units of
  2 to the power -22); it is not finite only if the decoded speed is not, or the product is at
  least half a unit above the greatest \<open>float\<close>.
\<close>

theorem coordinates_exact:
  assumes "arena_inv (en_arena en)" "strings_ok v" "identified v"
  shows "\<exists>la lo a stored en' rs.
     f64_value la = map_option (\<lambda>x. x * 2 ^ 925) (f32_value (lat v)) \<and>
     f64_value lo = map_option (\<lambda>x. x * 2 ^ 925) (f32_value (lon v)) \<and>
     update d lltc (en_arena en) la lo (speed v) (timestamp v) = Inr (Returns (a, stored)) \<and>
     main_iteration d lltc st (Some v) en = Inr (Returns en') \<and> en_arena en' = a \<and>
     en_output en' = en_output en @ rs \<and> length rs = (if carries_passengers v then 1 else 0) \<and>
     list_all (\<lambda>r. case (f32_value (speed v), f32_value (rp_speed r)) of
         (Some x, Some y) \<Rightarrow>
           2 * \<bar>y * 2 ^ 22 - x * 15099494\<bar> \<le> 2 ^ 22 * 2 ^ (max 1 (f32_exponent (rp_speed r)) - 1)
       | (Some x, None) \<Rightarrow> (2 ^ 25 - 1) * 2 ^ 274 \<le> \<bar>x\<bar> * 15099494
       | (None, y) \<Rightarrow> y = None) rs"
proof -
  obtain a stored where u: "update d lltc (en_arena en) (widen (lat v)) (widen (lon v)) (speed v)
      (timestamp v) = Inr (Returns (a, stored))"
    using assms(1) by (rule update_returns)
  note run = main_iteration_identified [OF assms(2,3) u, of st]
  let ?rs = "if carries_passengers v then [report_of st v] else []"
  have speed: "rp_speed (report_of st v) = kmh (speed v)" by (simp add: report_of_def)
  have printed: "list_all (\<lambda>r. case (f32_value (speed v), f32_value (rp_speed r)) of
         (Some x, Some y) \<Rightarrow>
           2 * \<bar>y * 2 ^ 22 - x * 15099494\<bar> \<le> 2 ^ 22 * 2 ^ (max 1 (f32_exponent (rp_speed r)) - 1)
       | (Some x, None) \<Rightarrow> (2 ^ 25 - 1) * 2 ^ 274 \<le> \<bar>x\<bar> * 15099494
       | (None, y) \<Rightarrow> y = None) ?rs"
    using printed_speed [of "speed v"]
    by (simp only: list.pred_inject speed simp_thms split: if_split)
  let ?en = "en\<lparr>en_popped_bus := v, en_arena := a,
      en_total_processed := en_total_processed en + (if stored then 1 else 0),
      en_output := en_output en @ ?rs\<rparr>"
  show ?thesis
  proof (intro exI conjI)
    show "main_iteration d lltc st (Some v) en = Inr (Returns ?en)" by (rule run)
    show "en_output ?en = en_output en @ ?rs" by simp
  qed (rule widen_value u printed | simp)+
qed

text \<open>Latitude 43.5, longitude -79.5 and a speed of 10 m/s, which prints as 36 km/h.\<close>

theorem coordinates_exact_witness:
  "\<exists>la lo a stored en' r.
     f64_value la = Some (87 * 2 ^ 1073) \<and> f64_value lo = Some (- 159 * 2 ^ 1073) \<and>
     update id sample_h3 (en_arena new_engine) la lo 0x41200000 1700000000 = Inr (Returns (a, stored)) \<and>
     main_iteration id sample_h3 no_statics
       (Some (sample_bus ''8123'' 3\<lparr>lat := 0x422E0000, lon := 0xC29F0000, speed := 0x41200000\<rparr>)) new_engine =
       Inr (Returns en') \<and> en_arena en' = a \<and> en_output en' = [r] \<and>
     (case f32_value (rp_speed r) of
        Some y \<Rightarrow> 2 * \<bar>y * 2 ^ 22 - 5 * 2 ^ 150 * 15099494\<bar> \<le>
          2 ^ 22 * 2 ^ (max 1 (f32_exponent (rp_speed r)) - 1)
      | None \<Rightarrow> False)"
proof -
  let ?v = "sample_bus ''8123'' 3\<lparr>lat := 0x422E0000, lon := 0xC29F0000, speed := 0x41200000\<rparr>"
  have vals: "f32_value 0x422E0000 = Some (87 * 2 ^ 148)" "f32_value 0xC29F0000 = Some (- 159 * 2 ^ 148)"
    "f32_value 0x41200000 = Some (5 * 2 ^ 150)"
    by (simp_all add: f32_value_def f32_exponent_def f32_fraction_def f32_sign_def)
  have v: "arena_inv (en_arena new_engine)" "strings_ok ?v" "identified ?v" "carries_passengers ?v"
    "timestamp ?v = 1700000000" "en_output new_engine = []"
    by (simp_all add: new_engine_def new_arena_inv strings_ok_def sample_bus_def identified_def
        carries_passengers_def)
  from coordinates_exact [OF v(1-3), of id sample_h3 no_statics] obtain la lo a stored en' rs where
    w: "f64_value la = map_option (\<lambda>x. x * 2 ^ 925) (f32_value (lat ?v))"
      "f64_value lo = map_option (\<lambda>x. x * 2 ^ 925) (f32_value (lon ?v))"
      "update id sample_h3 (en_arena new_engine) la lo (speed ?v) (timestamp ?v) = Inr (Returns (a, stored))"
      "main_iteration id sample_h3 no_statics (Some ?v) new_engine = Inr (Returns en')" "en_arena en' = a"
      "en_output en' = en_output new_engine @ rs" "length rs = (if carries_passengers ?v then 1 else 0)"
    and shown: "list_all (\<lambda>r. case (f32_value (speed ?v), f32_value (rp_speed r)) of
         (Some x, Some y) \<Rightarrow>
           2 * \<bar>y * 2 ^ 22 - x * 15099494\<bar> \<le> 2 ^ 22 * 2 ^ (max 1 (f32_exponent (rp_speed r)) - 1)
       | (Some x, None) \<Rightarrow> (2 ^ 25 - 1) * 2 ^ 274 \<le> \<bar>x\<bar> * 15099494
       | (None, y) \<Rightarrow> y = None) rs"
    by (elim exE conjE) (rule that)
  from w(7) v(4) obtain r where r: "rs = [r]" by (auto simp: length_Suc_conv)
  have speed: "f32_value (speed ?v) = Some (5 * 2 ^ 150)" using vals(3) by simp
  have "case f32_value (rp_speed r) of
      Some y \<Rightarrow> 2 * \<bar>y * 2 ^ 22 - 5 * 2 ^ 150 * 15099494\<bar> \<le>
        2 ^ 22 * 2 ^ (max 1 (f32_exponent (rp_speed r)) - 1)
    | None \<Rightarrow> False"
    using shown unfolding r speed by (cases "f32_value (rp_speed r)") simp_all
  then show ?thesis
    using w(1-6) vals v(5,6) r by (intro exI [of _ la] exI [of _ lo] exI conjI) (assumption | simp)+
qed

end
