(* ===== verification/Program.thy ===== *)
theory Program
  imports Pipeline Ingestion Engine
begin

text \<open>
  The two threads together, over any number of payloads: the ingestion thread
  (\<open>ingestion_thread\<close>, \<open>src/main.cpp\<close>) pushes into the ring buffer while the main loop takes
  from it. The schedule is that of the theory of the parser in front of the ring; what is
  taken goes through the main loop in the same order.
\<close>

section \<open>Downloads\<close>

text \<open>
  What the network brings in an iteration: whether a handle could be made, the chunks of the
  body and the code of the transfer.
\<close>

type_synonym transfer = "bool \<times> u8 list list \<times> int"

definition tick_ok :: "tick \<Rightarrow> transfer \<Rightarrow> bool" where
  "tick_ok = (\<lambda>(curl_easy_init, curl_easy_perform, garbage) (init, chunks, code).
     curl_easy_init = init \<and> curl_contract curl_easy_perform chunks code \<and>
     length (concat chunks) + 1 < 2 ^ 64 \<and> (\<forall>i. item_shape (garbage i)))"

text \<open>
  The vehicles a transfer brings, and the state of the library after it: those of the decoded
  message, if the body arrives, is not empty and can be decoded. \<open>i\<close> is the number of the next
  request to the allocator.
\<close>

definition download ::
  "('l \<Rightarrow> u8 list \<Rightarrow> feed_message option \<times> 'l) \<Rightarrow> (feed_message \<Rightarrow> 'l \<Rightarrow> 'l)
   \<Rightarrow> (nat \<Rightarrow> nat \<Rightarrow> bool) \<Rightarrow> nat \<Rightarrow> 'l \<Rightarrow> transfer \<Rightarrow> vehicle_data list \<times> 'l"
where
  "download unpack free_unpacked refused i lib = (\<lambda>(init, chunks, code).
     if received refused i init chunks code \<and> concat chunks \<noteq> [] then
       (case unpack lib (concat chunks) of
          (None, lib') \<Rightarrow> ([], lib')
        | (Some msg, lib') \<Rightarrow> (feed_vehicles msg, free_unpacked msg lib'))
     else ([], lib))"

fun downloads ::
  "('l \<Rightarrow> u8 list \<Rightarrow> feed_message option \<times> 'l) \<Rightarrow> (feed_message \<Rightarrow> 'l \<Rightarrow> 'l)
   \<Rightarrow> (nat \<Rightarrow> nat \<Rightarrow> bool) \<Rightarrow> nat \<Rightarrow> 'l \<Rightarrow> transfer list \<Rightarrow> vehicle_data list"
where
  "downloads unpack free_unpacked refused i lib [] = []"
| "downloads unpack free_unpacked refused i lib (tr # trs) =
     fst (download unpack free_unpacked refused i lib tr) @
     downloads unpack free_unpacked refused
       (i + fetch_requests refused i (fst tr) (fst (snd tr)))
       (snd (download unpack free_unpacked refused i lib tr)) trs"

section \<open>What a thread that pushes does\<close>

text \<open>
  The values \<open>vs\<close> are offered between two states of a sink: the first of them are accepted, all
  unless the sink was shut down meanwhile, and at most so much credit is used up.
\<close>

definition takes ::
  "('s \<Rightarrow> 'v list) \<Rightarrow> ('s \<Rightarrow> bool) \<Rightarrow> ('s \<Rightarrow> nat) \<Rightarrow> ('s \<Rightarrow> bool) \<Rightarrow> 'v list \<Rightarrow> 's \<Rightarrow> 's \<Rightarrow> bool"
where
  "takes accepted invar credit is_shutdown vs s s' \<longleftrightarrow>
     invar s' \<and> credit s \<le> length vs + credit s' \<and>
     (\<exists>k \<le> length vs. accepted s' = accepted s @ take k vs \<and> (k < length vs \<longrightarrow> is_shutdown s'))"

lemma takes_nothing: "invar s \<Longrightarrow> takes accepted invar credit is_shutdown [] s s"
  by (simp add: takes_def)

lemma takes_closed: "invar s \<Longrightarrow> is_shutdown s \<Longrightarrow> takes accepted invar credit is_shutdown vs s s"
  by (auto simp: takes_def intro!: exI [of _ 0])

lemma takes_append:
  assumes "takes accepted invar credit is_shutdown vs s s1"
    and "takes accepted invar credit is_shutdown ws s1 s2" "is_shutdown s1 \<Longrightarrow> s2 = s1"
  shows "takes accepted invar credit is_shutdown (vs @ ws) s s2"
proof -
  from assms(1) obtain k where k: "k \<le> length vs" "accepted s1 = accepted s @ take k vs"
    "k < length vs \<Longrightarrow> is_shutdown s1" "credit s \<le> length vs + credit s1"
    by (auto simp: takes_def)
  from assms(2) obtain j where j: "invar s2" "j \<le> length ws" "accepted s2 = accepted s1 @ take j ws"
    "j < length ws \<Longrightarrow> is_shutdown s2" "credit s1 \<le> length ws + credit s2"
    by (auto simp: takes_def)
  show ?thesis
  proof (cases "k < length vs")
    case True
    then have "is_shutdown s1" "s2 = s1" using k(3) assms(3) by blast+
    with k j(1) show ?thesis by (auto simp: takes_def intro!: exI [of _ k])
  next
    case False
    then have all: "take k vs = vs" by simp
    have "credit s \<le> length (vs @ ws) + credit s2" using k(4) j(5) by simp
    moreover have "accepted s2 = accepted s @ take (length vs + j) (vs @ ws)"
      using k(2) j(3) all by simp
    moreover have "length vs + j < length (vs @ ws) \<Longrightarrow> is_shutdown s2" using j(4) by simp
    ultimately show ?thesis
      using j(1,2) unfolding takes_def by (intro conjI exI [of _ "length vs + j"]) simp_all
  qed
qed

text \<open>The sink of the ingestion thread, which it can ask whether it has been shut down.\<close>

locale vehicle_sink = credited_sink push accepted closed invar credit
  for push :: "'s \<Rightarrow> vehicle_data \<Rightarrow> ub + ('s \<times> bool) call"
    and accepted :: "'s \<Rightarrow> vehicle_data list"
    and closed :: "'s \<Rightarrow> bool"
    and invar :: "'s \<Rightarrow> bool"
    and credit :: "'s \<Rightarrow> nat" +
  fixes is_shutdown :: "'s \<Rightarrow> bool"
  assumes closed_law: "invar s \<Longrightarrow> closed s \<Longrightarrow> is_shutdown s"
begin

lemma offer_all_takes:
  assumes "invar s"
  shows "\<exists>c. offer_all push s vs = Inr c \<and> (c = Blocks \<longrightarrow> credit s < length vs) \<and>
     (\<forall>s' n. c = Returns (s', n) \<longrightarrow> takes accepted invar credit is_shutdown vs s s')"
proof -
  from offer_all_prefix [OF assms, of vs] obtain c where
    c: "offer_all push s vs = Inr c"
      "\<And>s' n. c = Returns (s', n) \<Longrightarrow> invar s' \<and> n \<le> length vs \<and>
        accepted s' = accepted s @ take n vs \<and> (n < length vs \<longrightarrow> closed s')" by blast
  with offer_all_credit [OF assms c(1)] closed_law show ?thesis
    unfolding takes_def by blast
qed

lemma tick_takes:
  assumes "heap_ok (in_heap st)" "invar (in_sink st)" "tick_ok t tr"
    and "\<forall>lib bytes. pred_option message_ok (fst (unpack lib bytes))"
    and got: "download unpack free_unpacked (refuses (in_heap st)) (next_id (in_heap st)) (in_lib st) tr =
      (vs, lib)"
  shows "\<exists>c. ingestion_tick unpack free_unpacked push t st = Inr c \<and>
     (c = Blocks \<longrightarrow> credit (in_sink st) < length vs) \<and>
     (\<forall>st'. c = Returns st' \<longrightarrow> heap_ok (in_heap st') \<and> in_lib st' = lib \<and>
        same_allocator (in_heap st) (in_heap st') (fetch_requests (refuses (in_heap st))
          (next_id (in_heap st)) (fst tr) (fst (snd tr))) \<and>
        takes accepted invar credit is_shutdown vs (in_sink st) (in_sink st'))"
proof -
  obtain init chunks code where tr: "tr = (init, chunks, code)" by (cases tr)
  obtain perform garbage where t: "t = (init, perform, garbage)" "curl_contract perform chunks code"
    "length (concat chunks) + 1 < 2 ^ 64" "\<And>i. item_shape (garbage i)"
    using assms(3) by (cases t) (auto simp: tick_ok_def tr)
  let ?got = "received (refuses (in_heap st)) (next_id (in_heap st)) init chunks code"
  let ?tick = "ingestion_tick unpack free_unpacked push t st" and ?body = "concat chunks"
  from tick_outcome [where unpack = unpack and garbage = garbage and st = st and
      free_unpacked = free_unpacked and push = push and init = init and got = ?got and
      curl_easy_perform = perform, OF assms(1) t(2,3) assms(4) [rule_format] t(4) refl]
  obtain h where h: "heap_ok h" "same_allocator (in_heap st) h
      (fetch_requests (refuses (in_heap st)) (next_id (in_heap st)) init chunks)"
    "?tick = (if ?got \<and> ?body \<noteq> [] then delivered unpack free_unpacked push ?body h st
      else Inr (Returns (st\<lparr>in_heap := h\<rparr>)))"
    unfolding t(1) by (auto split: if_splits simp del: concat_eq_Nil_conv)
  show ?thesis
  proof (cases "?got \<and> ?body \<noteq> []")
    case False
    with got h assms(2) show ?thesis
      by (simp add: tr download_def takes_nothing if_not_P [OF False] del: concat_eq_Nil_conv)
  next
    case True
    show ?thesis
    proof (cases "unpack (in_lib st) ?body")
      case (Pair m lib')
      show ?thesis
      proof (cases m)
        case None
        with True Pair got h assms(2) show ?thesis
          by (simp add: tr download_def delivered_def takes_nothing if_P [OF True]
              del: concat_eq_Nil_conv)
      next
        case (Some msg)
        with True Pair got have vs: "vs = feed_vehicles msg" "lib = free_unpacked msg lib'"
          by (simp_all add: tr download_def if_P [OF True] del: concat_eq_Nil_conv)
        from offer_all_takes [OF assms(2), of vs] obtain c where
          c: "offer_all push (in_sink st) vs = Inr c" "c = Blocks \<longrightarrow> credit (in_sink st) < length vs"
            "\<forall>s' n. c = Returns (s', n) \<longrightarrow> takes accepted invar credit is_shutdown vs (in_sink st) s'"
          by blast
        have "?tick = call_bind (Inr c) (\<lambda>(s, k).
            Inr (Returns \<lparr>in_heap = h, in_lib = lib, in_sink = s\<rparr>))"
          using h(3) True Pair Some c(1) vs
          by (simp add: delivered_def if_P [OF True] del: concat_eq_Nil_conv call_bind.simps)
        with c(2,3) h(1,2) show ?thesis by (cases c) (auto simp: tr)
      qed
    qed
  qed
qed

lemma thread_takes:
  assumes "list_all2 tick_ok ticks trs" "heap_ok (in_heap st)" "invar (in_sink st)"
    and "\<forall>lib bytes. pred_option message_ok (fst (unpack lib bytes))"
    and "vs = downloads unpack free_unpacked (refuses (in_heap st)) (next_id (in_heap st)) (in_lib st) trs"
  shows "\<exists>c. ingestion_thread unpack free_unpacked push is_shutdown ticks st = Inr c \<and>
     (c = Blocks \<longrightarrow> credit (in_sink st) < length vs) \<and>
     (\<forall>st' ended. c = Returns (st', ended) \<longrightarrow> (ended \<longleftrightarrow> is_shutdown (in_sink st')) \<and>
        takes accepted invar credit is_shutdown vs (in_sink st) (in_sink st'))"
  using assms(1-3,5)
proof (induction ticks trs arbitrary: st vs rule: list_all2_induct)
  case Nil
  then show ?case by (auto simp: ingestion_thread.simps takes_nothing)
next
  case (Cons t ts tr trs)
  show ?case
  proof (cases "is_shutdown (in_sink st)")
    case True
    with Cons.prems(2) show ?thesis by (simp add: ingestion_thread.simps takes_closed)
  next
    case False
    note thread = ingestion_thread.simps [of unpack free_unpacked push is_shutdown "t # ts" st]
    let ?r = "refuses (in_heap st)" and ?i = "next_id (in_heap st)"
    obtain us lib where got: "download unpack free_unpacked ?r ?i (in_lib st) tr = (us, lib)"
      by fastforce
    from tick_takes [OF Cons.prems(1,2) Cons.hyps(1) assms(4) this] obtain c where
      c: "ingestion_tick unpack free_unpacked push t st = Inr c"
        "c = Blocks \<longrightarrow> credit (in_sink st) < length us"
        "\<And>st'. c = Returns st' \<Longrightarrow> heap_ok (in_heap st') \<and> in_lib st' = lib \<and>
          same_allocator (in_heap st) (in_heap st') (fetch_requests ?r ?i (fst tr) (fst (snd tr))) \<and>
          takes accepted invar credit is_shutdown us (in_sink st) (in_sink st')" by blast
    show ?thesis
    proof (cases c)
      case Blocks
      with c(1,2) False got Cons.prems(3) show ?thesis by (simp add: thread)
    next
      case (Returns st1)
      note st1 = c(3) [OF Returns]
      define ws where
        "ws = downloads unpack free_unpacked (refuses (in_heap st1)) (next_id (in_heap st1)) (in_lib st1) trs"
      have vs: "vs = us @ ws"
        using Cons.prems(3) got st1 by (simp add: ws_def same_allocator_def)
      have inv: "invar (in_sink st1)" using st1 by (simp add: takes_def)
      from Cons.IH [OF _ inv ws_def] st1 obtain c' where
        c': "ingestion_thread unpack free_unpacked push is_shutdown ts st1 = Inr c'"
          "c' = Blocks \<longrightarrow> credit (in_sink st1) < length ws"
          "\<And>st' ended. c' = Returns (st', ended) \<Longrightarrow> (ended \<longleftrightarrow> is_shutdown (in_sink st')) \<and>
            takes accepted invar credit is_shutdown ws (in_sink st1) (in_sink st')" by blast
      have stop: "c' = Returns (st1, True)" if "is_shutdown (in_sink st1)"
        using c'(1) that by (simp add: ingestion_thread.simps)
      have result: "ingestion_thread unpack free_unpacked push is_shutdown (t # ts) st = Inr c'"
        using c(1) c'(1) Returns False by (simp add: thread)
      have "credit (in_sink st) < length vs" if "c' = Blocks"
        using c'(2) that st1 by (simp add: vs takes_def)
      moreover have "(ended \<longleftrightarrow> is_shutdown (in_sink st')) \<and>
          takes accepted invar credit is_shutdown vs (in_sink st) (in_sink st')"
        if "c' = Returns (st', ended)" for st' ended
      proof -
        have "in_sink st' = in_sink st1" if "is_shutdown (in_sink st1)"
          using stop [OF that] \<open>c' = Returns (st', ended)\<close> by simp
        with c'(3) [OF that] st1 show ?thesis unfolding vs by (blast intro: takes_append)
      qed
      ultimately show ?thesis using result by blast
    qed
  qed
qed

end

section \<open>The ring as the sink of the thread\<close>

definition ring_closed :: "'v ring_feed \<Rightarrow> bool" where
  "ring_closed rf = buffer_is_shutdown (rf_ring rf)"

interpretation ring_vehicles: vehicle_sink feed_push "\<lambda>rf. pushed_values (rf_events rf)"
  "\<lambda>rf. rb_shutdown (rf_ring rf)" feed_inv feed_credit ring_closed
  by unfold_locales (simp add: ring_closed_def buffer_is_shutdown_def)

interpretation open_vehicles: vehicle_sink feed_push "\<lambda>rf. pushed_values (rf_events rf)"
  "\<lambda>_. False" "\<lambda>rf. feed_inv rf \<and> never_shut rf" feed_credit ring_closed
  by unfold_locales simp

section \<open>The consumer's view\<close>

text \<open>The results of \<open>buffer_pop\<close> that the consumer gets in a run of the ring buffer.\<close>

fun pop_results :: "'v queue_event list \<Rightarrow> 'v option list" where
  "pop_results [] = []"
| "pop_results (Popped v # evs) = Some v # pop_results evs"
| "pop_results (Drained # evs) = None # pop_results evs"
| "pop_results (_ # evs) = pop_results evs"

lemma popped_pop_results [simp]: "popped (pop_results evs) = popped_values evs"
  by (induction evs rule: pop_results.induct) simp_all

lemma popped_values_Popped [simp]: "popped_values (map Popped vs) = vs"
  by (induction vs) simp_all

lemma feed_vehicles_strings_ok: "list_all strings_ok (feed_vehicles msg)"
proof -
  have "list_all strings_ok (entity_records e)" for e
    by (simp add: entity_records_def strings_ok_def vehicle_record_def split: option.split)
  then show ?thesis by (simp add: feed_vehicles_def list_all_iff)
qed

lemma downloads_strings_ok: "list_all strings_ok (downloads unpack free_unpacked refused i lib trs)"
proof -
  have "list_all strings_ok (fst (download unpack free_unpacked refused i lib tr))" for i lib tr
    using feed_vehicles_strings_ok by (simp add: download_def split: prod.split option.split)
  then show ?thesis by (induction trs arbitrary: i lib) simp_all
qed

text \<open>
  What the main loop makes of the vehicles \<open>vs\<close>: it takes the rest out of the ring, and has then
  got all of them in order; the arena and the output are those of exactly these vehicles.
\<close>

definition reaches_arena ::
  "(float64 \<Rightarrow> float64) \<Rightarrow> (float64 \<times> float64 \<Rightarrow> int \<Rightarrow> u64 option) \<Rightarrow> statics
   \<Rightarrow> vehicle_data list \<Rightarrow> vehicle_data ring_feed \<Rightarrow> bool"
where
  "reaches_arena d lltc st vs rf \<longleftrightarrow>
     (\<exists>rb evs en.
        run_ops buffer_push buffer_pop buffer_signal_shutdown (rf_ring rf)
          (replicate (length (rb_contents (rf_ring rf))) Pop) = Inr (rb, evs) \<and>
        rb_contents rb = [] \<and> popped_values (rf_events rf @ evs) = vs \<and>
        main_loop d lltc st (pop_results (rf_events rf @ evs)) new_engine = Inr (Returns en) \<and>
        arena_inv (en_arena en) \<and> holds_history (en_arena en) (stored_samples d lltc vs) \<and>
        en_total_processed en = word_of_nat (length (stored_samples d lltc vs)) \<and>
        en_output en = map (report_of st) (filter (\<lambda>v. identified v \<and> carries_passengers v) vs))"

lemma feed_reaches_arena:
  assumes "feed_inv rf" "pushed_values (rf_events rf) = vs" "list_all strings_ok vs"
    and "\<forall>x h. lltc x H3_RESOLUTION = Some h \<longrightarrow> h \<noteq> 0"
  shows "reaches_arena d lltc st vs rf"
proof -
  from drain_feed [OF assms(1)] obtain rb where
    rb: "ring_calls (rf_ring rf) (replicate (length (rb_contents (rf_ring rf))) Pop) =
      Inr (rb, map Popped (rb_contents (rf_ring rf)))" "rb_contents rb = []" by blast
  let ?evs = "rf_events rf @ map Popped (rb_contents (rf_ring rf))"
  have vs: "popped_values ?evs = vs" using assms(1,2) by (simp add: feed_inv_def)
  with assms(3) have "list_all strings_ok (popped (pop_results ?evs))" by simp
  from main_loop_history [where lltc = lltc and d = d and st = st, OF this assms(4)] rb vs
  show ?thesis unfolding reaches_arena_def by auto
qed

section \<open>Properties\<close>

text \<open>
  C1: the whole program over any number of downloads, for any schedule of the main loop, any
  outcome of the network and of the allocator, and any time of shutdown. \<open>vs\<close> are the vehicles
  of the downloads that arrive and can be decoded: those with a handle, a transfer that ends
  with \<open>CURLE_OK\<close> and no refused request. The ring buffer gets all of them, in order, unless it is
  shut down, and then the first \<open>k\<close>; once the main loop has taken what is left in the ring, the
  arena holds exactly the newest located samples of the identified ones of these, and exactly
  those that carry passengers have been reported. The thread has ended exactly if the ring is
  shut down, and it is not if nobody shuts it down. A main loop that takes an item between any
  two pushes never leaves the ingestion thread waiting.
\<close>

theorem run_reaches_arena:
  assumes "list_all2 tick_ok ticks transfers"
    and "\<forall>lib bytes. pred_option message_ok (fst (unpack lib bytes))"
    and "heap_ok h" "0 < capacity" "capacity \<le> INT_MAX"
    and "\<forall>x h. lltc x H3_RESOLUTION = Some h \<longrightarrow> h \<noteq> 0"
    and "vs = downloads unpack free_unpacked (refuses h) (next_id h) lib transfers"
  shows "\<exists>c. ingestion_thread unpack free_unpacked feed_push ring_closed ticks
        \<lparr>in_heap = h, in_lib = lib, in_sink = fresh_feed capacity turns\<rparr> = Inr c \<and>
     (\<forall>ing ended. c = Returns (ing, ended) \<longrightarrow> (ended \<longleftrightarrow> ring_closed (in_sink ing)) \<and>
        (\<exists>k \<le> length vs. reaches_arena d lltc st (take k vs) (in_sink ing) \<and>
           (k < length vs \<longrightarrow> ring_closed (in_sink ing))) \<and>
        (list_all (\<lambda>ops. Shut \<notin> set ops) turns \<longrightarrow> \<not> ring_closed (in_sink ing))) \<and>
     (length vs \<le> length turns \<and> list_all (\<lambda>ops. Take \<in> set ops) turns \<longrightarrow> c \<noteq> Blocks)"
proof -
  let ?ring = "fresh_feed capacity turns :: vehicle_data ring_feed"
  let ?st = "\<lparr>in_heap = h, in_lib = lib, in_sink = ?ring\<rparr>"
  have start: "heap_ok (in_heap ?st)" "feed_inv (in_sink ?st)"
    "pushed_values (rf_events (in_sink ?st)) = []"
    using assms(3) fresh_feed_inv [OF assms(4,5)] by (simp_all add: fresh_feed_def)
  have vs: "vs = downloads unpack free_unpacked (refuses (in_heap ?st)) (next_id (in_heap ?st)) (in_lib ?st)
      transfers" by (simp add: assms(7))
  from ring_vehicles.thread_takes [OF assms(1) start(1,2) assms(2) vs] obtain c where
    c: "ingestion_thread unpack free_unpacked feed_push ring_closed ticks ?st = Inr c"
    "c = Blocks \<longrightarrow> feed_credit ?ring < length vs"
    "\<And>ing ended. c = Returns (ing, ended) \<Longrightarrow> (ended \<longleftrightarrow> ring_closed (in_sink ing)) \<and>
       takes (\<lambda>rf. pushed_values (rf_events rf)) feed_inv feed_credit ring_closed vs ?ring (in_sink ing)"
    by auto
  have ok: "list_all strings_ok (take k vs)" for k
    using downloads_strings_ok [of unpack free_unpacked "refuses h" "next_id h" lib transfers]
    by (auto simp: assms(7) list_all_iff dest: in_set_takeD)
  show ?thesis
  proof (intro exI [of _ c] conjI allI impI)
    fix ing ended
    assume r: "c = Returns (ing, ended)"
    from c(3) [OF r] show "ended \<longleftrightarrow> ring_closed (in_sink ing)" by blast
    from c(3) [OF r] start(3) show "\<exists>k \<le> length vs. reaches_arena d lltc st (take k vs) (in_sink ing) \<and>
        (k < length vs \<longrightarrow> ring_closed (in_sink ing))"
      unfolding takes_def by (auto intro!: feed_reaches_arena ok assms(6))
    assume "list_all (\<lambda>ops. Shut \<notin> set ops) turns"
    with start(2) have "feed_inv (in_sink ?st) \<and> never_shut (in_sink ?st)"
      by (simp add: fresh_feed_never_shut)
    from open_vehicles.thread_takes [OF assms(1) start(1) this assms(2) vs] c(1) r
    show "\<not> ring_closed (in_sink ing)"
      by (auto simp: takes_def never_shut_def ring_closed_def buffer_is_shutdown_def)
  next
    assume "length vs \<le> length turns \<and> list_all (\<lambda>ops. Take \<in> set ops) turns"
    with c(2) show "c \<noteq> Blocks" by (auto simp: fresh_feed_credit)
  qed (rule c(1))
qed

text \<open>
  Two downloads of a feed with one vehicle, and between them one without a handle; a ring of
  one slot, and a main loop that takes. Both vehicles reach the arena.
\<close>

theorem run_reaches_arena_witness:
  "\<exists>ing. ingestion_thread sample_unpack (\<lambda>_ n. n - 1) feed_push ring_closed
        [(True, two_chunks, \<lambda>_. sample_garbage), (False, two_chunks, \<lambda>_. sample_garbage),
         (True, two_chunks, \<lambda>_. sample_garbage)]
        \<lparr>in_heap = empty_heap, in_lib = 0, in_sink = fresh_feed 1 [[Take], [Take]]\<rparr> =
      Inr (Returns (ing, False)) \<and>
     reaches_arena id sample_h3 no_statics (feed_vehicles sample_feed @ feed_vehicles sample_feed)
       (in_sink ing) \<and>
     length (feed_vehicles sample_feed) = 1"
proof -
  let ?ticks = "[(True, two_chunks, \<lambda>_. sample_garbage), (False, two_chunks, \<lambda>_. sample_garbage),
      (True, two_chunks, \<lambda>_. sample_garbage)] :: tick list"
  let ?body = "[[10, 13], [8]] :: u8 list list"
  let ?trs = "[(True, ?body, CURLE_OK), (False, ?body, CURLE_OK), (True, ?body, CURLE_OK)]"
  let ?vs = "feed_vehicles sample_feed @ feed_vehicles sample_feed"
  let ?st = "\<lparr>in_heap = empty_heap, in_lib = 0 :: nat,
      in_sink = fresh_feed 1 [[Take], [Take]] :: vehicle_data ring_feed\<rparr>"
  have ticks: "list_all2 tick_ok ?ticks ?trs"
    by (simp add: tick_ok_def curl_contract_def two_chunks_def sample_garbage_shape)
  have msgs: "\<forall>lib bytes. pred_option message_ok (fst (sample_unpack lib bytes))"
    by (simp add: sample_unpack_def sample_feed_ok)
  have h: "heap_ok empty_heap" by (simp add: empty_heap_def heap_ok_def)
  have h3: "\<forall>x h. sample_h3 x H3_RESOLUTION = Some h \<longrightarrow> h \<noteq> 0"
    by (simp add: sample_h3_def sample_cell_def)
  have vs: "?vs = downloads sample_unpack (\<lambda>_ n. n - 1) (refuses empty_heap) (next_id empty_heap) 0 ?trs"
    by (simp add: download_def received_def empty_heap_def sample_unpack_def)
  have len: "length (feed_vehicles sample_feed) = 1" by (simp add: sample_feed_vehicles)
  have "\<exists>ing. ingestion_thread sample_unpack (\<lambda>_ n. n - 1) feed_push ring_closed ?ticks ?st =
      Inr (Returns (ing, False)) \<and> reaches_arena id sample_h3 no_statics vs (in_sink ing)"
    if vs: "vs = downloads sample_unpack (\<lambda>_ n. n - 1) (refuses empty_heap) (next_id empty_heap) 0 ?trs"
      "length vs = 2" for vs
  proof -
    from run_reaches_arena [where capacity = 1 and turns = "[[Take], [Take]]" and lltc = sample_h3
        and d = id and st = no_statics, OF ticks msgs h _ _ h3 vs(1)] vs(2)
    obtain c where c: "ingestion_thread sample_unpack (\<lambda>_ n. n - 1) feed_push ring_closed ?ticks ?st = Inr c"
      "c \<noteq> Blocks"
      "\<And>ing ended. c = Returns (ing, ended) \<Longrightarrow> \<not> ended \<and>
         (\<exists>k. reaches_arena id sample_h3 no_statics (take k vs) (in_sink ing) \<and> \<not> k < length vs)"
      by (fastforce simp: INT_MAX_def)
    then show ?thesis by (cases c) fastforce+
  qed
  from this [OF vs] len show ?thesis by simp
qed

end
