(* ===== verification/Startup.thy ===== *)
theory Startup
  imports Ring_Buffer Arena Heap Static_Gtfs
begin

text \<open>
  The life of the program's resources: the constructor and destructor of \<open>SpatialArena\<close>
  (\<open>src/storage/storage.cpp\<close>), and \<open>main\<close> (\<open>src/main.cpp\<close>) before its loop and after it.
  The arena is one over-aligned block of the heap; an allocation the constructor does not get
  is an exception that nothing catches. The code after the loop is modelled although no path
  reaches it.
\<close>

section \<open>The arena on the heap\<close>

definition arena_bytes :: nat where
  "arena_bytes = BUCKET_COUNT * size_of (C_Struct 64 struct_HexBucket)"

record spatial_arena =
  arena_ptr :: ptr
  arena_buckets :: arena

text \<open>\<open>new (std::align_val_t(64)) HexBucket[BUCKET_COUNT]\<close>; \<open>None\<close> for \<open>std::bad_alloc\<close>.\<close>

definition SpatialArena :: "heap \<Rightarrow> heap \<times> spatial_arena option" where
  "SpatialArena h =
     (case malloc h arena_bytes of
        (h', None) \<Rightarrow> (h', None)
      | (h', Some p) \<Rightarrow> (h', Some \<lparr>arena_ptr = Some p, arena_buckets = new_arena\<rparr>))"

definition SpatialArena_destructor :: "heap \<Rightarrow> spatial_arena \<Rightarrow> ub + heap" where
  "SpatialArena_destructor h a = free h (arena_ptr a)"

section \<open>\<open>main\<close> around its loop\<close>

datatype ('v, 's) startup = Bad_Alloc | Exit int | Running 's spatial_arena "'v rb_handle"

text \<open>
  Up to the creation of the ingestion thread: the dictionaries, the arena, the ring buffer of
  1024 slots. \<open>return\<close> destroys the arena.
\<close>

definition main_start ::
  "nat \<Rightarrow> string option \<Rightarrow> string option \<Rightarrow> heap \<Rightarrow> ub + (heap \<times> ('v, statics) startup)"
where
  "main_start rb_size stops routes h =
     (let st = load_static_gtfs stops routes
      in case SpatialArena h of
           (h1, None) \<Rightarrow> Inr (h1, Bad_Alloc)
         | (h1, Some arena) \<Rightarrow>
             sum_bind (buffer_init rb_size h1 1024) (\<lambda>(h2, engine_buffer).
               case engine_buffer of
                 None \<Rightarrow> sum_bind (SpatialArena_destructor h2 arena) (\<lambda>h3. Inr (h3, Exit 1))
               | Some rb \<Rightarrow> Inr (h2, Running st arena rb)))"

text \<open>After the loop and the join; the ingestion thread owns no block any more.\<close>

definition main_finish :: "heap \<Rightarrow> spatial_arena \<Rightarrow> 'v rb_handle \<Rightarrow> ub + (heap \<times> int)" where
  "main_finish h arena rb =
     (let rb = rb\<lparr>hd_ring := buffer_signal_shutdown (hd_ring rb)\<rparr>
      in sum_bind (buffer_destroy h (Some rb)) (\<lambda>h1.
         sum_bind (SpatialArena_destructor h1 arena) (\<lambda>h2. Inr (h2, 0))))"

section \<open>Balance\<close>

lemma arena_bytes: "arena_bytes = 67108864"
  unfolding arena_bytes_def sizeof_HexBucket by (simp add: BUCKET_COUNT_def)

lemma SpatialArena_cases:
  assumes "heap_ok h"
  obtains (thrown) h1 where "SpatialArena h = (h1, None)" "blocks h1 = blocks h"
    | (built) h1 a p bs where "SpatialArena h = (h1, Some a)" "heap_ok h1" "refuses h1 = refuses h"
        "arena_ptr a = Some p" "arena_buckets a = new_arena" "blocks h p = None"
        "blocks h1 = (blocks h)(p \<mapsto> bs)"
proof (cases "malloc h arena_bytes")
  case (Pair h1 r)
  show thesis
  proof (cases r)
    case None
    with Pair thrown [of h1] show thesis
      by (auto simp: SpatialArena_def malloc_def Let_def split: if_splits)
  next
    case (Some p)
    have ok: "heap_ok h1" by (rule malloc_heap_ok [OF assms Pair])
    have "p = next_id h" "blocks h1 = (blocks h)(p \<mapsto> replicate arena_bytes None)"
      "refuses h1 = refuses h"
      using Pair Some by (auto simp: malloc_def Let_def split: if_splits)
    moreover from this(1) have "blocks h p = None" using heap_ok_fresh [OF assms] by simp
    ultimately show thesis
      using built [of h1 "\<lparr>arena_ptr = Some p, arena_buckets = new_arena\<rparr>" p] ok Pair Some
      by (simp add: SpatialArena_def)
  qed
qed

lemma SpatialArena_released:
  assumes "arena_ptr a = Some p" "blocks h0 p = None" "blocks h = (blocks h0)(p \<mapsto> bs)"
  shows "\<exists>h'. SpatialArena_destructor h a = Inr h' \<and> blocks h' = blocks h0"
  using assms by (auto simp: SpatialArena_destructor_def free_def fun_upd_idem)

lemma buffer_destroy_shutdown:
  "buffer_destroy h (Some (rb\<lparr>hd_ring := r\<rparr>)) = buffer_destroy h (Some rb)"
  by (simp add: buffer_destroy_def)

section \<open>Properties\<close>

text \<open>
  C14: \<open>main\<close> starts in one of three ways, for any allocator: an exception or an exit with
  status 1, both with nothing left allocated; or with an arena of empty buckets and an empty
  open ring buffer of capacity 1024. In the last case shutting down releases exactly what was
  allocated and the status is 0. A negative or overflowing request does not occur.
\<close>

theorem main_start_balanced:
  assumes "heap_ok h" "\<forall>i n. 2 ^ 63 \<le> n \<longrightarrow> refuses h i n"
  shows "\<exists>h' (r :: ('v, statics) startup). main_start rb_size stops routes h = Inr (h', r) \<and>
    (case r of
       Bad_Alloc \<Rightarrow> blocks h' = blocks h
     | Exit status \<Rightarrow> status = 1 \<and> blocks h' = blocks h
     | Running st arena rb \<Rightarrow>
         st = load_static_gtfs stops routes \<and> arena_buckets arena = new_arena \<and>
         rb_inv (hd_ring rb) \<and>
         rb_abs (hd_ring rb) = \<lparr>bq_items = [], bq_bound = 1024, bq_closed = False\<rparr> \<and>
         (\<exists>h''. main_finish h' arena rb = Inr (h'', 0) \<and> blocks h'' = blocks h))"
  using assms(1)
proof (cases rule: SpatialArena_cases)
  case (thrown h1)
  then show ?thesis by (simp add: main_start_def Let_def)
next
  case (built h1 a p bs)
  have "c_int_ok 1024" by (simp add: c_int_ok_def INT_MIN_def INT_MAX_def)
  moreover have "\<forall>i n. 2 ^ 63 \<le> n \<longrightarrow> refuses h1 i n" using assms(2) by (simp only: built(3))
  ultimately obtain h2 and r :: "'v rb_handle option" where init: "buffer_init rb_size h1 1024 = Inr (h2, r)"
    and balanced: "case r of None \<Rightarrow> blocks h2 = blocks h1
       | Some q \<Rightarrow> 0 \<le> (1024 :: int) \<and> rb_inv (hd_ring q) \<and>
           rb_abs (hd_ring q) = \<lparr>bq_items = [], bq_bound = nat 1024, bq_closed = False\<rparr> \<and>
           (\<exists>h''. buffer_destroy h2 (Some q) = Inr h'' \<and> blocks h'' = blocks h1)"
    using buffer_init_balanced [OF built(2), of 1024 rb_size] by blast
  show ?thesis
  proof (cases r)
    case None
    with balanced built(7) have "blocks h2 = (blocks h)(p \<mapsto> bs)" by simp
    from SpatialArena_released [OF built(4,6) this] obtain h3 where
      "SpatialArena_destructor h2 a = Inr h3" "blocks h3 = blocks h" by blast
    with None init built(1) show ?thesis by (simp add: main_start_def Let_def)
  next
    case (Some q)
    with Some balanced built(7) obtain h3 where h3: "buffer_destroy h2 (Some q) = Inr h3"
      "blocks h3 = (blocks h)(p \<mapsto> bs)" by auto
    from SpatialArena_released [OF built(4,6) h3(2)] obtain h4 where
      "SpatialArena_destructor h3 a = Inr h4" "blocks h4 = blocks h" by blast
    with h3(1) have "main_finish h2 a q = Inr (h4, 0)"
      by (simp add: main_finish_def buffer_destroy_shutdown)
    with Some init balanced built(1,5) \<open>blocks h4 = blocks h\<close> show ?thesis
      by (simp add: main_start_def Let_def)
  qed
qed

theorem main_start_balanced_witness:
  "\<exists>h' r. (main_start 200 None None sample_heap :: ub + (heap \<times> (nat, statics) startup)) = Inr (h', r) \<and>
    (case r of
       Bad_Alloc \<Rightarrow> blocks h' = Map.empty
     | Exit status \<Rightarrow> status = 1 \<and> blocks h' = Map.empty
     | Running st arena rb \<Rightarrow> rb_abs (hd_ring rb) = \<lparr>bq_items = [], bq_bound = 1024, bq_closed = False\<rparr> \<and>
         (\<exists>h''. main_finish h' arena rb = Inr (h'', 0) \<and> blocks h'' = Map.empty))"
proof -
  have "heap_ok sample_heap" "\<forall>i n. 2 ^ 63 \<le> n \<longrightarrow> refuses sample_heap i n"
    by (simp_all add: sample_heap_def heap_ok_def)
  from main_start_balanced [OF this, of 200 None None] obtain h' and r :: "(nat, statics) startup"
    where start: "main_start 200 None None sample_heap = Inr (h', r)"
    and r: "case r of
       Bad_Alloc \<Rightarrow> blocks h' = blocks sample_heap
     | Exit status \<Rightarrow> status = 1 \<and> blocks h' = blocks sample_heap
     | Running st arena rb \<Rightarrow>
         st = load_static_gtfs None None \<and> arena_buckets arena = new_arena \<and>
         rb_inv (hd_ring rb) \<and>
         rb_abs (hd_ring rb) = \<lparr>bq_items = [], bq_bound = 1024, bq_closed = False\<rparr> \<and>
         (\<exists>h''. main_finish h' arena rb = Inr (h'', 0) \<and> blocks h'' = blocks sample_heap)"
    by blast
  have "blocks sample_heap = Map.empty" by (simp add: sample_heap_def)
  with r show ?thesis by (intro exI [of _ h'] exI [of _ r] conjI start) (cases r; simp)
qed

end
