(* ===== verification/Pb_Types.thy ===== *)
theory Pb_Types
  imports C_Layout "HOL-Library.List_Lexorder" "HOL-Library.Char_ord"
begin

text \<open>
  The vocabulary of the generated protobuf code (\<open>include/gtfs-realtime.pb-c.h\<close>,
  \<open>src/ingestion/gtfs-realtime.pb-c.c\<close>): the tables that describe every message and enum
  to the protobuf-c library, positional as the C initialisers are; the struct members and
  initialisers of the header; the fields of the \<open>.proto\<close> schema. And what the tables have
  to satisfy: the meaning of the range and name indices, and the tables, members and
  initialisers a schema calls for. The tables themselves are in the theories that follow.
\<close>

section \<open>Names of the messages and enums\<close>

datatype msg_id =
    FeedMessage | FeedHeader | FeedEntity
  | TripUpdate | TripUpdate_StopTimeEvent | TripUpdate_StopTimeUpdate
  | TripUpdate_StopTimeUpdate_StopTimeProperties | TripUpdate_TripProperties
  | VehiclePosition | VehiclePosition_CarriageDetails
  | Alert | TimeRange | Position
  | TripDescriptor | TripDescriptor_ModifiedTripSelector | VehicleDescriptor
  | EntitySelector | TranslatedString | TranslatedString_Translation
  | TranslatedImage | TranslatedImage_LocalizedImage
  | Shape | Stop
  | TripModifications | TripModifications_Modification | TripModifications_SelectedTrips
  | StopSelector | ReplacementStop

datatype enum_id =
    FeedHeader_Incrementality
  | TripUpdate_StopTimeUpdate_ScheduleRelationship
  | TripUpdate_StopTimeUpdate_StopTimeProperties_DropOffPickupType
  | VehiclePosition_VehicleStopStatus | VehiclePosition_CongestionLevel
  | VehiclePosition_OccupancyStatus
  | Alert_Cause | Alert_Effect | Alert_SeverityLevel
  | TripDescriptor_ScheduleRelationship
  | VehicleDescriptor_WheelchairAccessible
  | Stop_WheelchairBoarding

section \<open>Descriptor tables\<close>

datatype pb_label = REQUIRED | OPTIONAL | REPEATED

datatype pb_type =
    T_INT32 | T_UINT32 | T_INT64 | T_UINT64 | T_FLOAT | T_DOUBLE | T_BOOL | T_STRING
  | T_ENUM | T_MESSAGE

text \<open>An \<open>offsetof(S, m)\<close> entry, by struct and member; 0 stands for no offset.\<close>

datatype offset = No_Offset | Offset_Of msg_id string

text \<open>The \<open>descriptor\<close> pointer of a field.\<close>

datatype desc_ref = Null_Descriptor | Message_Ref msg_id | Enum_Ref enum_id

text \<open>A default value; an enum constant is given by its enum and its name in the schema.\<close>

datatype scalar = Bool_Const bool | Int_Const int | Enum_Const enum_id string

datatype field_descriptor = Field
  (fd_name: string) (fd_id: nat) (fd_label: pb_label) (fd_type: pb_type)
  (fd_quantifier: offset) (fd_offset: offset) (fd_descriptor: desc_ref)
  (fd_default: "scalar option") (fd_flags: nat)

datatype int_range = Int_Range (start_value: int) (orig_index: nat)

datatype message_descriptor = Message_Descriptor
  (md_name: string) (md_short_name: string) (md_c_name: string) (md_package: string)
  (md_sizeof: msg_id) (md_n_fields: nat) (md_fields: "field_descriptor list")
  (md_fields_by_name: "nat list") (md_n_ranges: nat) (md_ranges: "int_range list")
  (md_init: msg_id)

datatype enum_value = Enum_Value (ev_name: string) (ev_c_name: string) (ev_value: int)

datatype enum_value_index = Enum_Value_Index (evi_name: string) (evi_index: nat)

datatype enum_descriptor = Enum_Descriptor
  (ed_name: string) (ed_short_name: string) (ed_c_name: string) (ed_package: string)
  (ed_n_values: nat) (ed_values: "enum_value list")
  (ed_n_names: nat) (ed_by_name: "enum_value_index list")
  (ed_n_ranges: nat) (ed_ranges: "int_range list")

section \<open>Struct members and initialisers of the header\<close>

datatype member_type =
    M_Base | M_Bool | M_Int32 | M_Uint32 | M_Int64 | M_Uint64 | M_Float | M_Double | M_Size
  | M_Enum enum_id | M_String | M_Message msg_id
  | M_String_Array | M_Message_Array msg_id

datatype init_value = Init_Base msg_id | Init_Null | Init_Scalar scalar

section \<open>Fields of the schema\<close>

datatype proto_type =
    P_int32 | P_uint32 | P_int64 | P_uint64 | P_float | P_double | P_bool | P_string
  | P_enum enum_id | P_message msg_id

datatype proto_field = Proto_Field
  (pf_label: pb_label) (pf_type: proto_type) (pf_name: string) (pf_number: nat)
  (pf_default: "scalar option")

section \<open>Meaning of the range index\<close>

text \<open>
  A range of keys starts at \<open>start_value\<close> and maps consecutive keys to consecutive indices
  from \<open>orig_index\<close>; the next entry's \<open>orig_index\<close> tells where it ends, and a last dummy
  entry holds the total.
\<close>

fun range_lookup :: "int_range list \<Rightarrow> int \<Rightarrow> nat option" where
  "range_lookup (Int_Range s i # Int_Range s' i' # rs) v =
     (if s \<le> v \<and> v < s + int (i' - i) then Some (i + nat (v - s))
      else range_lookup (Int_Range s' i' # rs) v)"
| "range_lookup _ v = None"

fun range_entries :: "int_range list \<Rightarrow> (int \<times> nat) list" where
  "range_entries (Int_Range s i # Int_Range s' i' # rs) =
     map (\<lambda>k. (s + int k, i + k)) [0..<i' - i] @ range_entries (Int_Range s' i' # rs)"
| "range_entries _ = []"

lemma map_of_consecutive:
  "map_of (map (\<lambda>k. (s + int k, i + k)) [0..<n]) v =
     (if s \<le> v \<and> v < s + int n then Some (i + nat (v - s)) else None)"
  by (induction n) (auto simp: map_add_def split: option.splits)

lemma range_lookup_map_of: "range_lookup rs v = map_of (range_entries rs) v"
  by (induction rs v rule: range_lookup.induct)
    (auto simp: map_of_consecutive map_add_def split: option.splits)

section \<open>Well-formed indices\<close>

text \<open>Byte-wise string order, as \<open>strcmp\<close> compares.\<close>

fun strcmp_less :: "string \<Rightarrow> string \<Rightarrow> bool" where
  "strcmp_less _ [] = False"
| "strcmp_less [] (_ # _) = True"
| "strcmp_less (c # cs) (d # ds) =
     ((of_char c :: nat) < of_char d \<or> c = d \<and> strcmp_less cs ds)"

fun strictly_ascending :: "string list \<Rightarrow> bool" where
  "strictly_ascending (x # y # zs) = (strcmp_less x y \<and> strictly_ascending (y # zs))"
| "strictly_ascending _ = True"

text \<open>This is the library's lexicographic order of strings.\<close>

lemma strcmp_less_iff: "strcmp_less s t \<longleftrightarrow> s < t"
  by (induction s t rule: strcmp_less.induct) (auto simp: less_char_def)

lemma strictly_ascending_sorted: "strictly_ascending xs \<longleftrightarrow> sorted_wrt (<) xs"
  by (induction xs rule: strictly_ascending.induct) (auto simp: strcmp_less_iff dest: order_less_trans)

text \<open>
  The message tables: the counts are the lengths; the range index maps exactly the field
  numbers, each to its field; the name index is a permutation of the fields in strictly
  ascending order of their names; the size and the initialiser are the message's own.
\<close>

definition message_tables_ok :: "msg_id \<Rightarrow> message_descriptor \<Rightarrow> bool" where
  "message_tables_ok m d \<longleftrightarrow>
     md_n_fields d = length (md_fields d) \<and>
     Suc (md_n_ranges d) = length (md_ranges d) \<and>
     range_entries (md_ranges d) =
       zip (map (int \<circ> fd_id) (md_fields d)) [0..<length (md_fields d)] \<and>
     sort (md_fields_by_name d) = [0..<length (md_fields d)] \<and>
     strictly_ascending (map (\<lambda>i. fd_name (md_fields d ! i)) (md_fields_by_name d)) \<and>
     md_sizeof d = m \<and> md_init d = m"

definition enum_tables_ok :: "enum_descriptor \<Rightarrow> bool" where
  "enum_tables_ok d \<longleftrightarrow>
     ed_n_values d = length (ed_values d) \<and>
     ed_n_names d = length (ed_by_name d) \<and>
     Suc (ed_n_ranges d) = length (ed_ranges d) \<and>
     range_entries (ed_ranges d) = zip (map ev_value (ed_values d)) [0..<length (ed_values d)] \<and>
     sort (map evi_index (ed_by_name d)) = [0..<length (ed_values d)] \<and>
     strictly_ascending (map evi_name (ed_by_name d)) \<and>
     map (\<lambda>v. ev_name (ed_values d ! evi_index v)) (ed_by_name d) = map evi_name (ed_by_name d)"

text \<open>What the indices then do: look up exactly the keys of the table.\<close>

lemma message_range_lookup:
  assumes "message_tables_ok m d"
  shows "range_lookup (md_ranges d) v =
    map_of (zip (map (int \<circ> fd_id) (md_fields d)) [0..<length (md_fields d)]) v"
  using assms by (simp add: message_tables_ok_def range_lookup_map_of)

lemma enum_range_lookup:
  assumes "enum_tables_ok d"
  shows "range_lookup (ed_ranges d) v =
    map_of (zip (map ev_value (ed_values d)) [0..<length (ed_values d)]) v"
  using assms by (simp add: enum_tables_ok_def range_lookup_map_of)

section \<open>What a schema calls for\<close>

text \<open>The schema field a table entry describes.\<close>

fun proto_type_of :: "pb_type \<Rightarrow> desc_ref \<Rightarrow> proto_type option" where
  "proto_type_of T_INT32 Null_Descriptor = Some P_int32"
| "proto_type_of T_UINT32 Null_Descriptor = Some P_uint32"
| "proto_type_of T_INT64 Null_Descriptor = Some P_int64"
| "proto_type_of T_UINT64 Null_Descriptor = Some P_uint64"
| "proto_type_of T_FLOAT Null_Descriptor = Some P_float"
| "proto_type_of T_DOUBLE Null_Descriptor = Some P_double"
| "proto_type_of T_BOOL Null_Descriptor = Some P_bool"
| "proto_type_of T_STRING Null_Descriptor = Some P_string"
| "proto_type_of T_ENUM (Enum_Ref e) = Some (P_enum e)"
| "proto_type_of T_MESSAGE (Message_Ref m) = Some (P_message m)"
| "proto_type_of _ _ = None"

definition described_field :: "field_descriptor \<Rightarrow> proto_field option" where
  "described_field f =
     map_option (\<lambda>t. Proto_Field (fd_label f) t (fd_name f) (fd_id f) (fd_default f))
       (proto_type_of (fd_type f) (fd_descriptor f))"

lemma described_ids:
  assumes "map described_field ds = map Some fs"
  shows "map fd_id ds = map pf_number fs"
  using assms by (induction ds arbitrary: fs) (auto simp: described_field_def)

lemma find_described:
  assumes "map described_field ds = map Some fs"
  shows "Option.bind (find (\<lambda>d. int (fd_id d) = v) ds) described_field =
    find (\<lambda>f. int (pf_number f) = v) fs"
  using assms
  by (induction ds arbitrary: fs) (auto simp: described_field_def)

definition by_number :: "proto_field list \<Rightarrow> proto_field list" where
  "by_number fs = sort_key pf_number fs"

text \<open>
  The members a schema field has in the C struct: a repeated field is a count and an array;
  a string or message is a pointer, \<open>NULL\<close> when absent; an optional scalar has a presence
  flag. The value member follows its quantifier.
\<close>

fun is_pointer :: "proto_type \<Rightarrow> bool" where
  "is_pointer P_string = True"
| "is_pointer (P_message _) = True"
| "is_pointer _ = False"

fun value_member :: "proto_type \<Rightarrow> member_type" where
  "value_member P_int32 = M_Int32"
| "value_member P_uint32 = M_Uint32"
| "value_member P_int64 = M_Int64"
| "value_member P_uint64 = M_Uint64"
| "value_member P_float = M_Float"
| "value_member P_double = M_Double"
| "value_member P_bool = M_Bool"
| "value_member P_string = M_String"
| "value_member (P_enum e) = M_Enum e"
| "value_member (P_message m) = M_Message m"

fun array_member :: "proto_type \<Rightarrow> member_type option" where
  "array_member P_string = Some M_String_Array"
| "array_member (P_message m) = Some (M_Message_Array m)"
| "array_member _ = None"

definition expected_members :: "proto_field \<Rightarrow> (string \<times> member_type) list option" where
  "expected_members f =
     (if pf_label f = REPEATED
      then map_option (\<lambda>a. [(''n_'' @ pf_name f, M_Size), (pf_name f, a)]) (array_member (pf_type f))
      else if pf_label f = OPTIONAL \<and> \<not> is_pointer (pf_type f)
      then Some [(''has_'' @ pf_name f, M_Bool), (pf_name f, value_member (pf_type f))]
      else Some [(pf_name f, value_member (pf_type f))])"

text \<open>The offsets the table entry of a schema field has to hold.\<close>

definition expected_offsets :: "msg_id \<Rightarrow> proto_field \<Rightarrow> offset \<times> offset" where
  "expected_offsets m f =
     ((if pf_label f = REPEATED then Offset_Of m (''n_'' @ pf_name f)
       else if pf_label f = OPTIONAL \<and> \<not> is_pointer (pf_type f)
       then Offset_Of m (''has_'' @ pf_name f)
       else No_Offset),
      Offset_Of m (pf_name f))"

definition conforms_fields :: "msg_id \<Rightarrow> proto_field list \<Rightarrow> field_descriptor list \<Rightarrow> bool" where
  "conforms_fields m fs ds \<longleftrightarrow>
     map described_field ds = map Some (by_number fs) \<and>
     map (\<lambda>d. (fd_quantifier d, fd_offset d)) ds = map (expected_offsets m) (by_number fs) \<and>
     list_all (\<lambda>d. fd_flags d = 0) ds"

text \<open>
  The static initialiser: the base for the message, then for each field no elements, \<open>NULL\<close>,
  or an unset presence flag and the default, which without a declaration is 0 and for an
  enum its first constant.
\<close>

fun default_scalar :: "(enum_id \<Rightarrow> (string \<times> int) list) \<Rightarrow> proto_field \<Rightarrow> scalar" where
  "default_scalar consts (Proto_Field l t n k (Some d)) = d"
| "default_scalar consts (Proto_Field l (P_enum e) n k None) = Enum_Const e (fst (consts e ! 0))"
| "default_scalar consts (Proto_Field l t n k None) = Int_Const 0"

fun c_scalar :: "scalar \<Rightarrow> scalar" where
  "c_scalar (Bool_Const b) = Int_Const (if b then 1 else 0)"
| "c_scalar s = s"

definition expected_init ::
  "(enum_id \<Rightarrow> (string \<times> int) list) \<Rightarrow> msg_id \<Rightarrow> proto_field list \<Rightarrow> init_value list" where
  "expected_init consts m fs =
     Init_Base m # concat (map (\<lambda>f.
       if pf_label f = REPEATED then [Init_Scalar (Int_Const 0), Init_Null]
       else if is_pointer (pf_type f) then [Init_Null]
       else (if pf_label f = OPTIONAL then [Init_Scalar (Int_Const 0)] else []) @
            [Init_Scalar (c_scalar (default_scalar consts f))]) fs)"

definition conforms_struct :: "proto_field list \<Rightarrow> (string \<times> member_type) list \<Rightarrow> bool" where
  "conforms_struct fs ms \<longleftrightarrow>
     ms = (''base'', M_Base) # concat (map (the \<circ> expected_members) fs) \<and>
     list_all (\<lambda>f. expected_members f \<noteq> None) fs \<and>
     distinct (map fst ms)"

end
