(* ===== verification/Pb_Structs.thy ===== *)
theory Pb_Structs
  imports Pb_Types
begin

text \<open>
  The enums, structs and static initialisers of \<open>include/gtfs-realtime.pb-c.h\<close>, and the
  \<open>__init\<close> functions of \<open>src/ingestion/gtfs-realtime.pb-c.c\<close>. An enum is the list of its
  constants, without the common prefix of their C names; a struct is the list of its
  members; an initialiser is positional, as in C.
\<close>

type_synonym struct_value = "init_value list"

section \<open>Enums\<close>

definition feed_header__incrementality__constants :: "(string \<times> int) list" where
  "feed_header__incrementality__constants =
    [(''FULL_DATASET'', 0),
     (''DIFFERENTIAL'', 1)]"

definition trip_update__stop_time_update__stop_time_properties__drop_off_pickup_type__constants :: "(string \<times> int) list" where
  "trip_update__stop_time_update__stop_time_properties__drop_off_pickup_type__constants =
    [(''REGULAR'', 0),
     (''NONE'', 1),
     (''PHONE_AGENCY'', 2),
     (''COORDINATE_WITH_DRIVER'', 3)]"

definition trip_update__stop_time_update__schedule_relationship__constants :: "(string \<times> int) list" where
  "trip_update__stop_time_update__schedule_relationship__constants =
    [(''SCHEDULED'', 0),
     (''SKIPPED'', 1),
     (''NO_DATA'', 2),
     (''UNSCHEDULED'', 3)]"

definition vehicle_position__vehicle_stop_status__constants :: "(string \<times> int) list" where
  "vehicle_position__vehicle_stop_status__constants =
    [(''INCOMING_AT'', 0),
     (''STOPPED_AT'', 1),
     (''IN_TRANSIT_TO'', 2)]"

definition vehicle_position__congestion_level__constants :: "(string \<times> int) list" where
  "vehicle_position__congestion_level__constants =
    [(''UNKNOWN_CONGESTION_LEVEL'', 0),
     (''RUNNING_SMOOTHLY'', 1),
     (''STOP_AND_GO'', 2),
     (''CONGESTION'', 3),
     (''SEVERE_CONGESTION'', 4)]"

definition vehicle_position__occupancy_status__constants :: "(string \<times> int) list" where
  "vehicle_position__occupancy_status__constants =
    [(''EMPTY'', 0),
     (''MANY_SEATS_AVAILABLE'', 1),
     (''FEW_SEATS_AVAILABLE'', 2),
     (''STANDING_ROOM_ONLY'', 3),
     (''CRUSHED_STANDING_ROOM_ONLY'', 4),
     (''FULL'', 5),
     (''NOT_ACCEPTING_PASSENGERS'', 6),
     (''NO_DATA_AVAILABLE'', 7),
     (''NOT_BOARDABLE'', 8)]"

definition alert__cause__constants :: "(string \<times> int) list" where
  "alert__cause__constants =
    [(''UNKNOWN_CAUSE'', 1),
     (''OTHER_CAUSE'', 2),
     (''TECHNICAL_PROBLEM'', 3),
     (''STRIKE'', 4),
     (''DEMONSTRATION'', 5),
     (''ACCIDENT'', 6),
     (''HOLIDAY'', 7),
     (''WEATHER'', 8),
     (''MAINTENANCE'', 9),
     (''CONSTRUCTION'', 10),
     (''POLICE_ACTIVITY'', 11),
     (''MEDICAL_EMERGENCY'', 12)]"

definition alert__effect__constants :: "(string \<times> int) list" where
  "alert__effect__constants =
    [(''NO_SERVICE'', 1),
     (''REDUCED_SERVICE'', 2),
     (''SIGNIFICANT_DELAYS'', 3),
     (''DETOUR'', 4),
     (''ADDITIONAL_SERVICE'', 5),
     (''MODIFIED_SERVICE'', 6),
     (''OTHER_EFFECT'', 7),
     (''UNKNOWN_EFFECT'', 8),
     (''STOP_MOVED'', 9),
     (''NO_EFFECT'', 10),
     (''ACCESSIBILITY_ISSUE'', 11)]"

definition alert__severity_level__constants :: "(string \<times> int) list" where
  "alert__severity_level__constants =
    [(''UNKNOWN_SEVERITY'', 1),
     (''INFO'', 2),
     (''WARNING'', 3),
     (''SEVERE'', 4)]"

definition trip_descriptor__schedule_relationship__constants :: "(string \<times> int) list" where
  "trip_descriptor__schedule_relationship__constants =
    [(''SCHEDULED'', 0),
     (''ADDED'', 1),
     (''UNSCHEDULED'', 2),
     (''CANCELED'', 3),
     (''REPLACEMENT'', 5),
     (''DUPLICATED'', 6),
     (''DELETED'', 7),
     (''NEW'', 8)]"

definition vehicle_descriptor__wheelchair_accessible__constants :: "(string \<times> int) list" where
  "vehicle_descriptor__wheelchair_accessible__constants =
    [(''NO_VALUE'', 0),
     (''UNKNOWN'', 1),
     (''WHEELCHAIR_ACCESSIBLE'', 2),
     (''WHEELCHAIR_INACCESSIBLE'', 3)]"

definition stop__wheelchair_boarding__constants :: "(string \<times> int) list" where
  "stop__wheelchair_boarding__constants =
    [(''UNKNOWN'', 0),
     (''AVAILABLE'', 1),
     (''NOT_AVAILABLE'', 2)]"

section \<open>Structs\<close>

definition struct_FeedMessage :: "(string \<times> member_type) list" where
  "struct_FeedMessage =
    [(''base'', M_Base),
     (''header'', M_Message FeedHeader),
     (''n_entity'', M_Size),
     (''entity'', M_Message_Array FeedEntity)]"

definition struct_FeedHeader :: "(string \<times> member_type) list" where
  "struct_FeedHeader =
    [(''base'', M_Base),
     (''gtfs_realtime_version'', M_String),
     (''has_incrementality'', M_Bool),
     (''incrementality'', M_Enum FeedHeader_Incrementality),
     (''has_timestamp'', M_Bool),
     (''timestamp'', M_Uint64),
     (''feed_version'', M_String)]"

definition struct_FeedEntity :: "(string \<times> member_type) list" where
  "struct_FeedEntity =
    [(''base'', M_Base),
     (''id'', M_String),
     (''has_is_deleted'', M_Bool),
     (''is_deleted'', M_Bool),
     (''trip_update'', M_Message TripUpdate),
     (''vehicle'', M_Message VehiclePosition),
     (''alert'', M_Message Alert),
     (''shape'', M_Message Shape),
     (''stop'', M_Message Stop),
     (''trip_modifications'', M_Message TripModifications)]"

definition struct_TripUpdate_StopTimeEvent :: "(string \<times> member_type) list" where
  "struct_TripUpdate_StopTimeEvent =
    [(''base'', M_Base),
     (''has_delay'', M_Bool),
     (''delay'', M_Int32),
     (''has_time'', M_Bool),
     (''time'', M_Int64),
     (''has_uncertainty'', M_Bool),
     (''uncertainty'', M_Int32),
     (''has_scheduled_time'', M_Bool),
     (''scheduled_time'', M_Int64)]"

definition struct_TripUpdate_StopTimeUpdate_StopTimeProperties :: "(string \<times> member_type) list" where
  "struct_TripUpdate_StopTimeUpdate_StopTimeProperties =
    [(''base'', M_Base),
     (''assigned_stop_id'', M_String),
     (''stop_headsign'', M_String),
     (''has_pickup_type'', M_Bool),
     (''pickup_type'', M_Enum TripUpdate_StopTimeUpdate_StopTimeProperties_DropOffPickupType),
     (''has_drop_off_type'', M_Bool),
     (''drop_off_type'', M_Enum TripUpdate_StopTimeUpdate_StopTimeProperties_DropOffPickupType)]"

definition struct_TripUpdate_StopTimeUpdate :: "(string \<times> member_type) list" where
  "struct_TripUpdate_StopTimeUpdate =
    [(''base'', M_Base),
     (''has_stop_sequence'', M_Bool),
     (''stop_sequence'', M_Uint32),
     (''stop_id'', M_String),
     (''arrival'', M_Message TripUpdate_StopTimeEvent),
     (''departure'', M_Message TripUpdate_StopTimeEvent),
     (''has_departure_occupancy_status'', M_Bool),
     (''departure_occupancy_status'', M_Enum VehiclePosition_OccupancyStatus),
     (''has_schedule_relationship'', M_Bool),
     (''schedule_relationship'', M_Enum TripUpdate_StopTimeUpdate_ScheduleRelationship),
     (''stop_time_properties'', M_Message TripUpdate_StopTimeUpdate_StopTimeProperties)]"

definition struct_TripUpdate_TripProperties :: "(string \<times> member_type) list" where
  "struct_TripUpdate_TripProperties =
    [(''base'', M_Base),
     (''trip_id'', M_String),
     (''start_date'', M_String),
     (''start_time'', M_String),
     (''shape_id'', M_String),
     (''trip_headsign'', M_String),
     (''trip_short_name'', M_String)]"

definition struct_TripUpdate :: "(string \<times> member_type) list" where
  "struct_TripUpdate =
    [(''base'', M_Base),
     (''trip'', M_Message TripDescriptor),
     (''vehicle'', M_Message VehicleDescriptor),
     (''n_stop_time_update'', M_Size),
     (''stop_time_update'', M_Message_Array TripUpdate_StopTimeUpdate),
     (''has_timestamp'', M_Bool),
     (''timestamp'', M_Uint64),
     (''has_delay'', M_Bool),
     (''delay'', M_Int32),
     (''trip_properties'', M_Message TripUpdate_TripProperties)]"

definition struct_VehiclePosition_CarriageDetails :: "(string \<times> member_type) list" where
  "struct_VehiclePosition_CarriageDetails =
    [(''base'', M_Base),
     (''id'', M_String),
     (''label'', M_String),
     (''has_occupancy_status'', M_Bool),
     (''occupancy_status'', M_Enum VehiclePosition_OccupancyStatus),
     (''has_occupancy_percentage'', M_Bool),
     (''occupancy_percentage'', M_Int32),
     (''has_carriage_sequence'', M_Bool),
     (''carriage_sequence'', M_Uint32)]"

definition struct_VehiclePosition :: "(string \<times> member_type) list" where
  "struct_VehiclePosition =
    [(''base'', M_Base),
     (''trip'', M_Message TripDescriptor),
     (''vehicle'', M_Message VehicleDescriptor),
     (''position'', M_Message Position),
     (''has_current_stop_sequence'', M_Bool),
     (''current_stop_sequence'', M_Uint32),
     (''stop_id'', M_String),
     (''has_current_status'', M_Bool),
     (''current_status'', M_Enum VehiclePosition_VehicleStopStatus),
     (''has_timestamp'', M_Bool),
     (''timestamp'', M_Uint64),
     (''has_congestion_level'', M_Bool),
     (''congestion_level'', M_Enum VehiclePosition_CongestionLevel),
     (''has_occupancy_status'', M_Bool),
     (''occupancy_status'', M_Enum VehiclePosition_OccupancyStatus),
     (''has_occupancy_percentage'', M_Bool),
     (''occupancy_percentage'', M_Uint32),
     (''n_multi_carriage_details'', M_Size),
     (''multi_carriage_details'', M_Message_Array VehiclePosition_CarriageDetails)]"

definition struct_Alert :: "(string \<times> member_type) list" where
  "struct_Alert =
    [(''base'', M_Base),
     (''n_active_period'', M_Size),
     (''active_period'', M_Message_Array TimeRange),
     (''n_informed_entity'', M_Size),
     (''informed_entity'', M_Message_Array EntitySelector),
     (''has_cause'', M_Bool),
     (''cause'', M_Enum Alert_Cause),
     (''has_effect'', M_Bool),
     (''effect'', M_Enum Alert_Effect),
     (''url'', M_Message TranslatedString),
     (''header_text'', M_Message TranslatedString),
     (''description_text'', M_Message TranslatedString),
     (''tts_header_text'', M_Message TranslatedString),
     (''tts_description_text'', M_Message TranslatedString),
     (''has_severity_level'', M_Bool),
     (''severity_level'', M_Enum Alert_SeverityLevel),
     (''image'', M_Message TranslatedImage),
     (''image_alternative_text'', M_Message TranslatedString),
     (''cause_detail'', M_Message TranslatedString),
     (''effect_detail'', M_Message TranslatedString)]"

definition struct_TimeRange :: "(string \<times> member_type) list" where
  "struct_TimeRange =
    [(''base'', M_Base),
     (''has_start'', M_Bool),
     (''start'', M_Uint64),
     (''has_end'', M_Bool),
     (''end'', M_Uint64)]"

definition struct_Position :: "(string \<times> member_type) list" where
  "struct_Position =
    [(''base'', M_Base),
     (''latitude'', M_Float),
     (''longitude'', M_Float),
     (''has_bearing'', M_Bool),
     (''bearing'', M_Float),
     (''has_odometer'', M_Bool),
     (''odometer'', M_Double),
     (''has_speed'', M_Bool),
     (''speed'', M_Float)]"

definition struct_TripDescriptor_ModifiedTripSelector :: "(string \<times> member_type) list" where
  "struct_TripDescriptor_ModifiedTripSelector =
    [(''base'', M_Base),
     (''modifications_id'', M_String),
     (''affected_trip_id'', M_String),
     (''start_time'', M_String),
     (''start_date'', M_String)]"

definition struct_TripDescriptor :: "(string \<times> member_type) list" where
  "struct_TripDescriptor =
    [(''base'', M_Base),
     (''trip_id'', M_String),
     (''route_id'', M_String),
     (''has_direction_id'', M_Bool),
     (''direction_id'', M_Uint32),
     (''start_time'', M_String),
     (''start_date'', M_String),
     (''has_schedule_relationship'', M_Bool),
     (''schedule_relationship'', M_Enum TripDescriptor_ScheduleRelationship),
     (''modified_trip'', M_Message TripDescriptor_ModifiedTripSelector)]"

definition struct_VehicleDescriptor :: "(string \<times> member_type) list" where
  "struct_VehicleDescriptor =
    [(''base'', M_Base),
     (''id'', M_String),
     (''label'', M_String),
     (''license_plate'', M_String),
     (''has_wheelchair_accessible'', M_Bool),
     (''wheelchair_accessible'', M_Enum VehicleDescriptor_WheelchairAccessible)]"

definition struct_EntitySelector :: "(string \<times> member_type) list" where
  "struct_EntitySelector =
    [(''base'', M_Base),
     (''agency_id'', M_String),
     (''route_id'', M_String),
     (''has_route_type'', M_Bool),
     (''route_type'', M_Int32),
     (''trip'', M_Message TripDescriptor),
     (''stop_id'', M_String),
     (''has_direction_id'', M_Bool),
     (''direction_id'', M_Uint32)]"

definition struct_TranslatedString_Translation :: "(string \<times> member_type) list" where
  "struct_TranslatedString_Translation =
    [(''base'', M_Base),
     (''text'', M_String),
     (''language'', M_String)]"

definition struct_TranslatedString :: "(string \<times> member_type) list" where
  "struct_TranslatedString =
    [(''base'', M_Base),
     (''n_translation'', M_Size),
     (''translation'', M_Message_Array TranslatedString_Translation)]"

definition struct_TranslatedImage_LocalizedImage :: "(string \<times> member_type) list" where
  "struct_TranslatedImage_LocalizedImage =
    [(''base'', M_Base),
     (''url'', M_String),
     (''media_type'', M_String),
     (''language'', M_String)]"

definition struct_TranslatedImage :: "(string \<times> member_type) list" where
  "struct_TranslatedImage =
    [(''base'', M_Base),
     (''n_localized_image'', M_Size),
     (''localized_image'', M_Message_Array TranslatedImage_LocalizedImage)]"

definition struct_Shape :: "(string \<times> member_type) list" where
  "struct_Shape =
    [(''base'', M_Base),
     (''shape_id'', M_String),
     (''encoded_polyline'', M_String)]"

definition struct_Stop :: "(string \<times> member_type) list" where
  "struct_Stop =
    [(''base'', M_Base),
     (''stop_id'', M_String),
     (''stop_code'', M_Message TranslatedString),
     (''stop_name'', M_Message TranslatedString),
     (''tts_stop_name'', M_Message TranslatedString),
     (''stop_desc'', M_Message TranslatedString),
     (''has_stop_lat'', M_Bool),
     (''stop_lat'', M_Float),
     (''has_stop_lon'', M_Bool),
     (''stop_lon'', M_Float),
     (''zone_id'', M_String),
     (''stop_url'', M_Message TranslatedString),
     (''parent_station'', M_String),
     (''stop_timezone'', M_String),
     (''has_wheelchair_boarding'', M_Bool),
     (''wheelchair_boarding'', M_Enum Stop_WheelchairBoarding),
     (''level_id'', M_String),
     (''platform_code'', M_Message TranslatedString)]"

definition struct_TripModifications_Modification :: "(string \<times> member_type) list" where
  "struct_TripModifications_Modification =
    [(''base'', M_Base),
     (''start_stop_selector'', M_Message StopSelector),
     (''end_stop_selector'', M_Message StopSelector),
     (''has_propagated_modification_delay'', M_Bool),
     (''propagated_modification_delay'', M_Int32),
     (''n_replacement_stops'', M_Size),
     (''replacement_stops'', M_Message_Array ReplacementStop),
     (''service_alert_id'', M_String),
     (''has_last_modified_time'', M_Bool),
     (''last_modified_time'', M_Uint64)]"

definition struct_TripModifications_SelectedTrips :: "(string \<times> member_type) list" where
  "struct_TripModifications_SelectedTrips =
    [(''base'', M_Base),
     (''n_trip_ids'', M_Size),
     (''trip_ids'', M_String_Array),
     (''shape_id'', M_String)]"

definition struct_TripModifications :: "(string \<times> member_type) list" where
  "struct_TripModifications =
    [(''base'', M_Base),
     (''n_selected_trips'', M_Size),
     (''selected_trips'', M_Message_Array TripModifications_SelectedTrips),
     (''n_start_times'', M_Size),
     (''start_times'', M_String_Array),
     (''n_service_dates'', M_Size),
     (''service_dates'', M_String_Array),
     (''n_modifications'', M_Size),
     (''modifications'', M_Message_Array TripModifications_Modification)]"

definition struct_StopSelector :: "(string \<times> member_type) list" where
  "struct_StopSelector =
    [(''base'', M_Base),
     (''has_stop_sequence'', M_Bool),
     (''stop_sequence'', M_Uint32),
     (''stop_id'', M_String)]"

definition struct_ReplacementStop :: "(string \<times> member_type) list" where
  "struct_ReplacementStop =
    [(''base'', M_Base),
     (''has_travel_time_to_stop'', M_Bool),
     (''travel_time_to_stop'', M_Int32),
     (''stop_id'', M_String)]"

section \<open>Initialisers\<close>

definition FEED_MESSAGE__INIT :: struct_value where
  "FEED_MESSAGE__INIT =
    [Init_Base FeedMessage,
     Init_Null,
     Init_Scalar (Int_Const 0),
     Init_Null]"

definition FEED_HEADER__INIT :: struct_value where
  "FEED_HEADER__INIT =
    [Init_Base FeedHeader,
     Init_Null,
     Init_Scalar (Int_Const 0),
     Init_Scalar (Enum_Const FeedHeader_Incrementality ''FULL_DATASET''),
     Init_Scalar (Int_Const 0),
     Init_Scalar (Int_Const 0),
     Init_Null]"

definition FEED_ENTITY__INIT :: struct_value where
  "FEED_ENTITY__INIT =
    [Init_Base FeedEntity,
     Init_Null,
     Init_Scalar (Int_Const 0),
     Init_Scalar (Int_Const 0),
     Init_Null,
     Init_Null,
     Init_Null,
     Init_Null,
     Init_Null,
     Init_Null]"

definition TRIP_UPDATE__STOP_TIME_EVENT__INIT :: struct_value where
  "TRIP_UPDATE__STOP_TIME_EVENT__INIT =
    [Init_Base TripUpdate_StopTimeEvent,
     Init_Scalar (Int_Const 0),
     Init_Scalar (Int_Const 0),
     Init_Scalar (Int_Const 0),
     Init_Scalar (Int_Const 0),
     Init_Scalar (Int_Const 0),
     Init_Scalar (Int_Const 0),
     Init_Scalar (Int_Const 0),
     Init_Scalar (Int_Const 0)]"

definition TRIP_UPDATE__STOP_TIME_UPDATE__STOP_TIME_PROPERTIES__INIT :: struct_value where
  "TRIP_UPDATE__STOP_TIME_UPDATE__STOP_TIME_PROPERTIES__INIT =
    [Init_Base TripUpdate_StopTimeUpdate_StopTimeProperties,
     Init_Null,
     Init_Null,
     Init_Scalar (Int_Const 0),
     Init_Scalar (Enum_Const TripUpdate_StopTimeUpdate_StopTimeProperties_DropOffPickupType ''REGULAR''),
     Init_Scalar (Int_Const 0),
     Init_Scalar (Enum_Const TripUpdate_StopTimeUpdate_StopTimeProperties_DropOffPickupType ''REGULAR'')]"

definition TRIP_UPDATE__STOP_TIME_UPDATE__INIT :: struct_value where
  "TRIP_UPDATE__STOP_TIME_UPDATE__INIT =
    [Init_Base TripUpdate_StopTimeUpdate,
     Init_Scalar (Int_Const 0),
     Init_Scalar (Int_Const 0),
     Init_Null,
     Init_Null,
     Init_Null,
     Init_Scalar (Int_Const 0),
     Init_Scalar (Enum_Const VehiclePosition_OccupancyStatus ''EMPTY''),
     Init_Scalar (Int_Const 0),
     Init_Scalar (Enum_Const TripUpdate_StopTimeUpdate_ScheduleRelationship ''SCHEDULED''),
     Init_Null]"

definition TRIP_UPDATE__TRIP_PROPERTIES__INIT :: struct_value where
  "TRIP_UPDATE__TRIP_PROPERTIES__INIT =
    [Init_Base TripUpdate_TripProperties,
     Init_Null,
     Init_Null,
     Init_Null,
     Init_Null,
     Init_Null,
     Init_Null]"

definition TRIP_UPDATE__INIT :: struct_value where
  "TRIP_UPDATE__INIT =
    [Init_Base TripUpdate,
     Init_Null,
     Init_Null,
     Init_Scalar (Int_Const 0),
     Init_Null,
     Init_Scalar (Int_Const 0),
     Init_Scalar (Int_Const 0),
     Init_Scalar (Int_Const 0),
     Init_Scalar (Int_Const 0),
     Init_Null]"

definition VEHICLE_POSITION__CARRIAGE_DETAILS__INIT :: struct_value where
  "VEHICLE_POSITION__CARRIAGE_DETAILS__INIT =
    [Init_Base VehiclePosition_CarriageDetails,
     Init_Null,
     Init_Null,
     Init_Scalar (Int_Const 0),
     Init_Scalar (Enum_Const VehiclePosition_OccupancyStatus ''NO_DATA_AVAILABLE''),
     Init_Scalar (Int_Const 0),
     Init_Scalar (Int_Const (-1)),
     Init_Scalar (Int_Const 0),
     Init_Scalar (Int_Const 0)]"

definition VEHICLE_POSITION__INIT :: struct_value where
  "VEHICLE_POSITION__INIT =
    [Init_Base VehiclePosition,
     Init_Null,
     Init_Null,
     Init_Null,
     Init_Scalar (Int_Const 0),
     Init_Scalar (Int_Const 0),
     Init_Null,
     Init_Scalar (Int_Const 0),
     Init_Scalar (Enum_Const VehiclePosition_VehicleStopStatus ''IN_TRANSIT_TO''),
     Init_Scalar (Int_Const 0),
     Init_Scalar (Int_Const 0),
     Init_Scalar (Int_Const 0),
     Init_Scalar (Enum_Const VehiclePosition_CongestionLevel ''UNKNOWN_CONGESTION_LEVEL''),
     Init_Scalar (Int_Const 0),
     Init_Scalar (Enum_Const VehiclePosition_OccupancyStatus ''EMPTY''),
     Init_Scalar (Int_Const 0),
     Init_Scalar (Int_Const 0),
     Init_Scalar (Int_Const 0),
     Init_Null]"

definition ALERT__INIT :: struct_value where
  "ALERT__INIT =
    [Init_Base Alert,
     Init_Scalar (Int_Const 0),
     Init_Null,
     Init_Scalar (Int_Const 0),
     Init_Null,
     Init_Scalar (Int_Const 0),
     Init_Scalar (Enum_Const Alert_Cause ''UNKNOWN_CAUSE''),
     Init_Scalar (Int_Const 0),
     Init_Scalar (Enum_Const Alert_Effect ''UNKNOWN_EFFECT''),
     Init_Null,
     Init_Null,
     Init_Null,
     Init_Null,
     Init_Null,
     Init_Scalar (Int_Const 0),
     Init_Scalar (Enum_Const Alert_SeverityLevel ''UNKNOWN_SEVERITY''),
     Init_Null,
     Init_Null,
     Init_Null,
     Init_Null]"

definition TIME_RANGE__INIT :: struct_value where
  "TIME_RANGE__INIT =
    [Init_Base TimeRange,
     Init_Scalar (Int_Const 0),
     Init_Scalar (Int_Const 0),
     Init_Scalar (Int_Const 0),
     Init_Scalar (Int_Const 0)]"

definition POSITION__INIT :: struct_value where
  "POSITION__INIT =
    [Init_Base Position,
     Init_Scalar (Int_Const 0),
     Init_Scalar (Int_Const 0),
     Init_Scalar (Int_Const 0),
     Init_Scalar (Int_Const 0),
     Init_Scalar (Int_Const 0),
     Init_Scalar (Int_Const 0),
     Init_Scalar (Int_Const 0),
     Init_Scalar (Int_Const 0)]"

definition TRIP_DESCRIPTOR__MODIFIED_TRIP_SELECTOR__INIT :: struct_value where
  "TRIP_DESCRIPTOR__MODIFIED_TRIP_SELECTOR__INIT =
    [Init_Base TripDescriptor_ModifiedTripSelector,
     Init_Null,
     Init_Null,
     Init_Null,
     Init_Null]"

definition TRIP_DESCRIPTOR__INIT :: struct_value where
  "TRIP_DESCRIPTOR__INIT =
    [Init_Base TripDescriptor,
     Init_Null,
     Init_Null,
     Init_Scalar (Int_Const 0),
     Init_Scalar (Int_Const 0),
     Init_Null,
     Init_Null,
     Init_Scalar (Int_Const 0),
     Init_Scalar (Enum_Const TripDescriptor_ScheduleRelationship ''SCHEDULED''),
     Init_Null]"

definition VEHICLE_DESCRIPTOR__INIT :: struct_value where
  "VEHICLE_DESCRIPTOR__INIT =
    [Init_Base VehicleDescriptor,
     Init_Null,
     Init_Null,
     Init_Null,
     Init_Scalar (Int_Const 0),
     Init_Scalar (Enum_Const VehicleDescriptor_WheelchairAccessible ''NO_VALUE'')]"

definition ENTITY_SELECTOR__INIT :: struct_value where
  "ENTITY_SELECTOR__INIT =
    [Init_Base EntitySelector,
     Init_Null,
     Init_Null,
     Init_Scalar (Int_Const 0),
     Init_Scalar (Int_Const 0),
     Init_Null,
     Init_Null,
     Init_Scalar (Int_Const 0),
     Init_Scalar (Int_Const 0)]"

definition TRANSLATED_STRING__TRANSLATION__INIT :: struct_value where
  "TRANSLATED_STRING__TRANSLATION__INIT =
    [Init_Base TranslatedString_Translation,
     Init_Null,
     Init_Null]"

definition TRANSLATED_STRING__INIT :: struct_value where
  "TRANSLATED_STRING__INIT =
    [Init_Base TranslatedString,
     Init_Scalar (Int_Const 0),
     Init_Null]"

definition TRANSLATED_IMAGE__LOCALIZED_IMAGE__INIT :: struct_value where
  "TRANSLATED_IMAGE__LOCALIZED_IMAGE__INIT =
    [Init_Base TranslatedImage_LocalizedImage,
     Init_Null,
     Init_Null,
     Init_Null]"

definition TRANSLATED_IMAGE__INIT :: struct_value where
  "TRANSLATED_IMAGE__INIT =
    [Init_Base TranslatedImage,
     Init_Scalar (Int_Const 0),
     Init_Null]"

definition SHAPE__INIT :: struct_value where
  "SHAPE__INIT =
    [Init_Base Shape,
     Init_Null,
     Init_Null]"

definition STOP__INIT :: struct_value where
  "STOP__INIT =
    [Init_Base Stop,
     Init_Null,
     Init_Null,
     Init_Null,
     Init_Null,
     Init_Null,
     Init_Scalar (Int_Const 0),
     Init_Scalar (Int_Const 0),
     Init_Scalar (Int_Const 0),
     Init_Scalar (Int_Const 0),
     Init_Null,
     Init_Null,
     Init_Null,
     Init_Null,
     Init_Scalar (Int_Const 0),
     Init_Scalar (Enum_Const Stop_WheelchairBoarding ''UNKNOWN''),
     Init_Null,
     Init_Null]"

definition TRIP_MODIFICATIONS__MODIFICATION__INIT :: struct_value where
  "TRIP_MODIFICATIONS__MODIFICATION__INIT =
    [Init_Base TripModifications_Modification,
     Init_Null,
     Init_Null,
     Init_Scalar (Int_Const 0),
     Init_Scalar (Int_Const 0),
     Init_Scalar (Int_Const 0),
     Init_Null,
     Init_Null,
     Init_Scalar (Int_Const 0),
     Init_Scalar (Int_Const 0)]"

definition TRIP_MODIFICATIONS__SELECTED_TRIPS__INIT :: struct_value where
  "TRIP_MODIFICATIONS__SELECTED_TRIPS__INIT =
    [Init_Base TripModifications_SelectedTrips,
     Init_Scalar (Int_Const 0),
     Init_Null,
     Init_Null]"

definition TRIP_MODIFICATIONS__INIT :: struct_value where
  "TRIP_MODIFICATIONS__INIT =
    [Init_Base TripModifications,
     Init_Scalar (Int_Const 0),
     Init_Null,
     Init_Scalar (Int_Const 0),
     Init_Null,
     Init_Scalar (Int_Const 0),
     Init_Null,
     Init_Scalar (Int_Const 0),
     Init_Null]"

definition STOP_SELECTOR__INIT :: struct_value where
  "STOP_SELECTOR__INIT =
    [Init_Base StopSelector,
     Init_Scalar (Int_Const 0),
     Init_Scalar (Int_Const 0),
     Init_Null]"

definition REPLACEMENT_STOP__INIT :: struct_value where
  "REPLACEMENT_STOP__INIT =
    [Init_Base ReplacementStop,
     Init_Scalar (Int_Const 0),
     Init_Scalar (Int_Const 0),
     Init_Null]"

section \<open>The init functions\<close>

definition feed_message__init :: "struct_value \<Rightarrow> struct_value" where
  "feed_message__init message = FEED_MESSAGE__INIT"

definition feed_header__init :: "struct_value \<Rightarrow> struct_value" where
  "feed_header__init message = FEED_HEADER__INIT"

definition feed_entity__init :: "struct_value \<Rightarrow> struct_value" where
  "feed_entity__init message = FEED_ENTITY__INIT"

definition trip_update__stop_time_event__init :: "struct_value \<Rightarrow> struct_value" where
  "trip_update__stop_time_event__init message = TRIP_UPDATE__STOP_TIME_EVENT__INIT"

definition trip_update__stop_time_update__stop_time_properties__init :: "struct_value \<Rightarrow> struct_value" where
  "trip_update__stop_time_update__stop_time_properties__init message = TRIP_UPDATE__STOP_TIME_UPDATE__STOP_TIME_PROPERTIES__INIT"

definition trip_update__stop_time_update__init :: "struct_value \<Rightarrow> struct_value" where
  "trip_update__stop_time_update__init message = TRIP_UPDATE__STOP_TIME_UPDATE__INIT"

definition trip_update__trip_properties__init :: "struct_value \<Rightarrow> struct_value" where
  "trip_update__trip_properties__init message = TRIP_UPDATE__TRIP_PROPERTIES__INIT"

definition trip_update__init :: "struct_value \<Rightarrow> struct_value" where
  "trip_update__init message = TRIP_UPDATE__INIT"

definition vehicle_position__carriage_details__init :: "struct_value \<Rightarrow> struct_value" where
  "vehicle_position__carriage_details__init message = VEHICLE_POSITION__CARRIAGE_DETAILS__INIT"

definition vehicle_position__init :: "struct_value \<Rightarrow> struct_value" where
  "vehicle_position__init message = VEHICLE_POSITION__INIT"

definition alert__init :: "struct_value \<Rightarrow> struct_value" where
  "alert__init message = ALERT__INIT"

definition time_range__init :: "struct_value \<Rightarrow> struct_value" where
  "time_range__init message = TIME_RANGE__INIT"

definition position__init :: "struct_value \<Rightarrow> struct_value" where
  "position__init message = POSITION__INIT"

definition trip_descriptor__modified_trip_selector__init :: "struct_value \<Rightarrow> struct_value" where
  "trip_descriptor__modified_trip_selector__init message = TRIP_DESCRIPTOR__MODIFIED_TRIP_SELECTOR__INIT"

definition trip_descriptor__init :: "struct_value \<Rightarrow> struct_value" where
  "trip_descriptor__init message = TRIP_DESCRIPTOR__INIT"

definition vehicle_descriptor__init :: "struct_value \<Rightarrow> struct_value" where
  "vehicle_descriptor__init message = VEHICLE_DESCRIPTOR__INIT"

definition entity_selector__init :: "struct_value \<Rightarrow> struct_value" where
  "entity_selector__init message = ENTITY_SELECTOR__INIT"

definition translated_string__translation__init :: "struct_value \<Rightarrow> struct_value" where
  "translated_string__translation__init message = TRANSLATED_STRING__TRANSLATION__INIT"

definition translated_string__init :: "struct_value \<Rightarrow> struct_value" where
  "translated_string__init message = TRANSLATED_STRING__INIT"

definition translated_image__localized_image__init :: "struct_value \<Rightarrow> struct_value" where
  "translated_image__localized_image__init message = TRANSLATED_IMAGE__LOCALIZED_IMAGE__INIT"

definition translated_image__init :: "struct_value \<Rightarrow> struct_value" where
  "translated_image__init message = TRANSLATED_IMAGE__INIT"

definition shape__init :: "struct_value \<Rightarrow> struct_value" where
  "shape__init message = SHAPE__INIT"

definition stop__init :: "struct_value \<Rightarrow> struct_value" where
  "stop__init message = STOP__INIT"

definition trip_modifications__modification__init :: "struct_value \<Rightarrow> struct_value" where
  "trip_modifications__modification__init message = TRIP_MODIFICATIONS__MODIFICATION__INIT"

definition trip_modifications__selected_trips__init :: "struct_value \<Rightarrow> struct_value" where
  "trip_modifications__selected_trips__init message = TRIP_MODIFICATIONS__SELECTED_TRIPS__INIT"

definition trip_modifications__init :: "struct_value \<Rightarrow> struct_value" where
  "trip_modifications__init message = TRIP_MODIFICATIONS__INIT"

definition stop_selector__init :: "struct_value \<Rightarrow> struct_value" where
  "stop_selector__init message = STOP_SELECTOR__INIT"

definition replacement_stop__init :: "struct_value \<Rightarrow> struct_value" where
  "replacement_stop__init message = REPLACEMENT_STOP__INIT"

section \<open>By name\<close>

fun struct_of :: "msg_id \<Rightarrow> (string \<times> member_type) list" where
  "struct_of FeedMessage = struct_FeedMessage"
| "struct_of FeedHeader = struct_FeedHeader"
| "struct_of FeedEntity = struct_FeedEntity"
| "struct_of TripUpdate_StopTimeEvent = struct_TripUpdate_StopTimeEvent"
| "struct_of TripUpdate_StopTimeUpdate_StopTimeProperties = struct_TripUpdate_StopTimeUpdate_StopTimeProperties"
| "struct_of TripUpdate_StopTimeUpdate = struct_TripUpdate_StopTimeUpdate"
| "struct_of TripUpdate_TripProperties = struct_TripUpdate_TripProperties"
| "struct_of TripUpdate = struct_TripUpdate"
| "struct_of VehiclePosition_CarriageDetails = struct_VehiclePosition_CarriageDetails"
| "struct_of VehiclePosition = struct_VehiclePosition"
| "struct_of Alert = struct_Alert"
| "struct_of TimeRange = struct_TimeRange"
| "struct_of Position = struct_Position"
| "struct_of TripDescriptor_ModifiedTripSelector = struct_TripDescriptor_ModifiedTripSelector"
| "struct_of TripDescriptor = struct_TripDescriptor"
| "struct_of VehicleDescriptor = struct_VehicleDescriptor"
| "struct_of EntitySelector = struct_EntitySelector"
| "struct_of TranslatedString_Translation = struct_TranslatedString_Translation"
| "struct_of TranslatedString = struct_TranslatedString"
| "struct_of TranslatedImage_LocalizedImage = struct_TranslatedImage_LocalizedImage"
| "struct_of TranslatedImage = struct_TranslatedImage"
| "struct_of Shape = struct_Shape"
| "struct_of Stop = struct_Stop"
| "struct_of TripModifications_Modification = struct_TripModifications_Modification"
| "struct_of TripModifications_SelectedTrips = struct_TripModifications_SelectedTrips"
| "struct_of TripModifications = struct_TripModifications"
| "struct_of StopSelector = struct_StopSelector"
| "struct_of ReplacementStop = struct_ReplacementStop"

fun message_init :: "msg_id \<Rightarrow> struct_value \<Rightarrow> struct_value" where
  "message_init FeedMessage = feed_message__init"
| "message_init FeedHeader = feed_header__init"
| "message_init FeedEntity = feed_entity__init"
| "message_init TripUpdate_StopTimeEvent = trip_update__stop_time_event__init"
| "message_init TripUpdate_StopTimeUpdate_StopTimeProperties = trip_update__stop_time_update__stop_time_properties__init"
| "message_init TripUpdate_StopTimeUpdate = trip_update__stop_time_update__init"
| "message_init TripUpdate_TripProperties = trip_update__trip_properties__init"
| "message_init TripUpdate = trip_update__init"
| "message_init VehiclePosition_CarriageDetails = vehicle_position__carriage_details__init"
| "message_init VehiclePosition = vehicle_position__init"
| "message_init Alert = alert__init"
| "message_init TimeRange = time_range__init"
| "message_init Position = position__init"
| "message_init TripDescriptor_ModifiedTripSelector = trip_descriptor__modified_trip_selector__init"
| "message_init TripDescriptor = trip_descriptor__init"
| "message_init VehicleDescriptor = vehicle_descriptor__init"
| "message_init EntitySelector = entity_selector__init"
| "message_init TranslatedString_Translation = translated_string__translation__init"
| "message_init TranslatedString = translated_string__init"
| "message_init TranslatedImage_LocalizedImage = translated_image__localized_image__init"
| "message_init TranslatedImage = translated_image__init"
| "message_init Shape = shape__init"
| "message_init Stop = stop__init"
| "message_init TripModifications_Modification = trip_modifications__modification__init"
| "message_init TripModifications_SelectedTrips = trip_modifications__selected_trips__init"
| "message_init TripModifications = trip_modifications__init"
| "message_init StopSelector = stop_selector__init"
| "message_init ReplacementStop = replacement_stop__init"

fun enum_constants :: "enum_id \<Rightarrow> (string \<times> int) list" where
  "enum_constants FeedHeader_Incrementality = feed_header__incrementality__constants"
| "enum_constants TripUpdate_StopTimeUpdate_StopTimeProperties_DropOffPickupType = trip_update__stop_time_update__stop_time_properties__drop_off_pickup_type__constants"
| "enum_constants TripUpdate_StopTimeUpdate_ScheduleRelationship = trip_update__stop_time_update__schedule_relationship__constants"
| "enum_constants VehiclePosition_VehicleStopStatus = vehicle_position__vehicle_stop_status__constants"
| "enum_constants VehiclePosition_CongestionLevel = vehicle_position__congestion_level__constants"
| "enum_constants VehiclePosition_OccupancyStatus = vehicle_position__occupancy_status__constants"
| "enum_constants Alert_Cause = alert__cause__constants"
| "enum_constants Alert_Effect = alert__effect__constants"
| "enum_constants Alert_SeverityLevel = alert__severity_level__constants"
| "enum_constants TripDescriptor_ScheduleRelationship = trip_descriptor__schedule_relationship__constants"
| "enum_constants VehicleDescriptor_WheelchairAccessible = vehicle_descriptor__wheelchair_accessible__constants"
| "enum_constants Stop_WheelchairBoarding = stop__wheelchair_boarding__constants"

fun enum_prefix :: "enum_id \<Rightarrow> string" where
  "enum_prefix FeedHeader_Incrementality = ''TRANSIT_REALTIME__FEED_HEADER__INCREMENTALITY__''"
| "enum_prefix TripUpdate_StopTimeUpdate_StopTimeProperties_DropOffPickupType = ''TRANSIT_REALTIME__TRIP_UPDATE__STOP_TIME_UPDATE__STOP_TIME_PROPERTIES__DROP_OFF_PICKUP_TYPE__''"
| "enum_prefix TripUpdate_StopTimeUpdate_ScheduleRelationship = ''TRANSIT_REALTIME__TRIP_UPDATE__STOP_TIME_UPDATE__SCHEDULE_RELATIONSHIP__''"
| "enum_prefix VehiclePosition_VehicleStopStatus = ''TRANSIT_REALTIME__VEHICLE_POSITION__VEHICLE_STOP_STATUS__''"
| "enum_prefix VehiclePosition_CongestionLevel = ''TRANSIT_REALTIME__VEHICLE_POSITION__CONGESTION_LEVEL__''"
| "enum_prefix VehiclePosition_OccupancyStatus = ''TRANSIT_REALTIME__VEHICLE_POSITION__OCCUPANCY_STATUS__''"
| "enum_prefix Alert_Cause = ''TRANSIT_REALTIME__ALERT__CAUSE__''"
| "enum_prefix Alert_Effect = ''TRANSIT_REALTIME__ALERT__EFFECT__''"
| "enum_prefix Alert_SeverityLevel = ''TRANSIT_REALTIME__ALERT__SEVERITY_LEVEL__''"
| "enum_prefix TripDescriptor_ScheduleRelationship = ''TRANSIT_REALTIME__TRIP_DESCRIPTOR__SCHEDULE_RELATIONSHIP__''"
| "enum_prefix VehicleDescriptor_WheelchairAccessible = ''TRANSIT_REALTIME__VEHICLE_DESCRIPTOR__WHEELCHAIR_ACCESSIBLE__''"
| "enum_prefix Stop_WheelchairBoarding = ''TRANSIT_REALTIME__STOP__WHEELCHAIR_BOARDING__''"

end
