(* ===== verification/Pb_Schema.thy ===== *)
theory Pb_Schema
  imports Pb_Types
begin

text \<open>
  The schema \<open>proto/gtfs-realtime.proto\<close>: each message's fields in the order of their
  declaration, each enum's values, and the nesting of their names. Extension ranges declare
  no field.
\<close>

section \<open>Messages\<close>

definition proto_FeedMessage :: "proto_field list" where
  "proto_FeedMessage =
    [Proto_Field REQUIRED (P_message FeedHeader) ''header'' 1 None,
     Proto_Field REPEATED (P_message FeedEntity) ''entity'' 2 None]"

definition proto_FeedHeader :: "proto_field list" where
  "proto_FeedHeader =
    [Proto_Field REQUIRED P_string ''gtfs_realtime_version'' 1 None,
     Proto_Field OPTIONAL (P_enum FeedHeader_Incrementality) ''incrementality'' 2 (Some (Enum_Const FeedHeader_Incrementality ''FULL_DATASET'')),
     Proto_Field OPTIONAL P_uint64 ''timestamp'' 3 None,
     Proto_Field OPTIONAL P_string ''feed_version'' 4 None]"

definition proto_FeedEntity :: "proto_field list" where
  "proto_FeedEntity =
    [Proto_Field REQUIRED P_string ''id'' 1 None,
     Proto_Field OPTIONAL P_bool ''is_deleted'' 2 (Some (Bool_Const False)),
     Proto_Field OPTIONAL (P_message TripUpdate) ''trip_update'' 3 None,
     Proto_Field OPTIONAL (P_message VehiclePosition) ''vehicle'' 4 None,
     Proto_Field OPTIONAL (P_message Alert) ''alert'' 5 None,
     Proto_Field OPTIONAL (P_message Shape) ''shape'' 6 None,
     Proto_Field OPTIONAL (P_message Stop) ''stop'' 7 None,
     Proto_Field OPTIONAL (P_message TripModifications) ''trip_modifications'' 8 None]"

definition proto_TripUpdate_StopTimeEvent :: "proto_field list" where
  "proto_TripUpdate_StopTimeEvent =
    [Proto_Field OPTIONAL P_int32 ''delay'' 1 None,
     Proto_Field OPTIONAL P_int64 ''time'' 2 None,
     Proto_Field OPTIONAL P_int32 ''uncertainty'' 3 None,
     Proto_Field OPTIONAL P_int64 ''scheduled_time'' 4 None]"

definition proto_TripUpdate_StopTimeUpdate_StopTimeProperties :: "proto_field list" where
  "proto_TripUpdate_StopTimeUpdate_StopTimeProperties =
    [Proto_Field OPTIONAL P_string ''assigned_stop_id'' 1 None,
     Proto_Field OPTIONAL P_string ''stop_headsign'' 2 None,
     Proto_Field OPTIONAL (P_enum TripUpdate_StopTimeUpdate_StopTimeProperties_DropOffPickupType) ''pickup_type'' 3 None,
     Proto_Field OPTIONAL (P_enum TripUpdate_StopTimeUpdate_StopTimeProperties_DropOffPickupType) ''drop_off_type'' 4 None]"

definition proto_TripUpdate_StopTimeUpdate :: "proto_field list" where
  "proto_TripUpdate_StopTimeUpdate =
    [Proto_Field OPTIONAL P_uint32 ''stop_sequence'' 1 None,
     Proto_Field OPTIONAL P_string ''stop_id'' 4 None,
     Proto_Field OPTIONAL (P_message TripUpdate_StopTimeEvent) ''arrival'' 2 None,
     Proto_Field OPTIONAL (P_message TripUpdate_StopTimeEvent) ''departure'' 3 None,
     Proto_Field OPTIONAL (P_enum VehiclePosition_OccupancyStatus) ''departure_occupancy_status'' 7 None,
     Proto_Field OPTIONAL (P_enum TripUpdate_StopTimeUpdate_ScheduleRelationship) ''schedule_relationship'' 5 (Some (Enum_Const TripUpdate_StopTimeUpdate_ScheduleRelationship ''SCHEDULED'')),
     Proto_Field OPTIONAL (P_message TripUpdate_StopTimeUpdate_StopTimeProperties) ''stop_time_properties'' 6 None]"

definition proto_TripUpdate_TripProperties :: "proto_field list" where
  "proto_TripUpdate_TripProperties =
    [Proto_Field OPTIONAL P_string ''trip_id'' 1 None,
     Proto_Field OPTIONAL P_string ''start_date'' 2 None,
     Proto_Field OPTIONAL P_string ''start_time'' 3 None,
     Proto_Field OPTIONAL P_string ''shape_id'' 4 None,
     Proto_Field OPTIONAL P_string ''trip_headsign'' 5 None,
     Proto_Field OPTIONAL P_string ''trip_short_name'' 6 None]"

definition proto_TripUpdate :: "proto_field list" where
  "proto_TripUpdate =
    [Proto_Field REQUIRED (P_message TripDescriptor) ''trip'' 1 None,
     Proto_Field OPTIONAL (P_message VehicleDescriptor) ''vehicle'' 3 None,
     Proto_Field REPEATED (P_message TripUpdate_StopTimeUpdate) ''stop_time_update'' 2 None,
     Proto_Field OPTIONAL P_uint64 ''timestamp'' 4 None,
     Proto_Field OPTIONAL P_int32 ''delay'' 5 None,
     Proto_Field OPTIONAL (P_message TripUpdate_TripProperties) ''trip_properties'' 6 None]"

definition proto_VehiclePosition_CarriageDetails :: "proto_field list" where
  "proto_VehiclePosition_CarriageDetails =
    [Proto_Field OPTIONAL P_string ''id'' 1 None,
     Proto_Field OPTIONAL P_string ''label'' 2 None,
     Proto_Field OPTIONAL (P_enum VehiclePosition_OccupancyStatus) ''occupancy_status'' 3 (Some (Enum_Const VehiclePosition_OccupancyStatus ''NO_DATA_AVAILABLE'')),
     Proto_Field OPTIONAL P_int32 ''occupancy_percentage'' 4 (Some (Int_Const (-1))),
     Proto_Field OPTIONAL P_uint32 ''carriage_sequence'' 5 None]"

definition proto_VehiclePosition :: "proto_field list" where
  "proto_VehiclePosition =
    [Proto_Field OPTIONAL (P_message TripDescriptor) ''trip'' 1 None,
     Proto_Field OPTIONAL (P_message VehicleDescriptor) ''vehicle'' 8 None,
     Proto_Field OPTIONAL (P_message Position) ''position'' 2 None,
     Proto_Field OPTIONAL P_uint32 ''current_stop_sequence'' 3 None,
     Proto_Field OPTIONAL P_string ''stop_id'' 7 None,
     Proto_Field OPTIONAL (P_enum VehiclePosition_VehicleStopStatus) ''current_status'' 4 (Some (Enum_Const VehiclePosition_VehicleStopStatus ''IN_TRANSIT_TO'')),
     Proto_Field OPTIONAL P_uint64 ''timestamp'' 5 None,
     Proto_Field OPTIONAL (P_enum VehiclePosition_CongestionLevel) ''congestion_level'' 6 None,
     Proto_Field OPTIONAL (P_enum VehiclePosition_OccupancyStatus) ''occupancy_status'' 9 None,
     Proto_Field OPTIONAL P_uint32 ''occupancy_percentage'' 10 None,
     Proto_Field REPEATED (P_message VehiclePosition_CarriageDetails) ''multi_carriage_details'' 11 None]"

definition proto_Alert :: "proto_field list" where
  "proto_Alert =
    [Proto_Field REPEATED (P_message TimeRange) ''active_period'' 1 None,
     Proto_Field REPEATED (P_message EntitySelector) ''informed_entity'' 5 None,
     Proto_Field OPTIONAL (P_enum Alert_Cause) ''cause'' 6 (Some (Enum_Const Alert_Cause ''UNKNOWN_CAUSE'')),
     Proto_Field OPTIONAL (P_enum Alert_Effect) ''effect'' 7 (Some (Enum_Const Alert_Effect ''UNKNOWN_EFFECT'')),
     Proto_Field OPTIONAL (P_message TranslatedString) ''url'' 8 None,
     Proto_Field OPTIONAL (P_message TranslatedString) ''header_text'' 10 None,
     Proto_Field OPTIONAL (P_message TranslatedString) ''description_text'' 11 None,
     Proto_Field OPTIONAL (P_message TranslatedString) ''tts_header_text'' 12 None,
     Proto_Field OPTIONAL (P_message TranslatedString) ''tts_description_text'' 13 None,
     Proto_Field OPTIONAL (P_enum Alert_SeverityLevel) ''severity_level'' 14 (Some (Enum_Const Alert_SeverityLevel ''UNKNOWN_SEVERITY'')),
     Proto_Field OPTIONAL (P_message TranslatedImage) ''image'' 15 None,
     Proto_Field OPTIONAL (P_message TranslatedString) ''image_alternative_text'' 16 None,
     Proto_Field OPTIONAL (P_message TranslatedString) ''cause_detail'' 17 None,
     Proto_Field OPTIONAL (P_message TranslatedString) ''effect_detail'' 18 None]"

definition proto_TimeRange :: "proto_field list" where
  "proto_TimeRange =
    [Proto_Field OPTIONAL P_uint64 ''start'' 1 None,
     Proto_Field OPTIONAL P_uint64 ''end'' 2 None]"

definition proto_Position :: "proto_field list" where
  "proto_Position =
    [Proto_Field REQUIRED P_float ''latitude'' 1 None,
     Proto_Field REQUIRED P_float ''longitude'' 2 None,
     Proto_Field OPTIONAL P_float ''bearing'' 3 None,
     Proto_Field OPTIONAL P_double ''odometer'' 4 None,
     Proto_Field OPTIONAL P_float ''speed'' 5 None]"

definition proto_TripDescriptor_ModifiedTripSelector :: "proto_field list" where
  "proto_TripDescriptor_ModifiedTripSelector =
    [Proto_Field OPTIONAL P_string ''modifications_id'' 1 None,
     Proto_Field OPTIONAL P_string ''affected_trip_id'' 2 None,
     Proto_Field OPTIONAL P_string ''start_time'' 3 None,
     Proto_Field OPTIONAL P_string ''start_date'' 4 None]"

definition proto_TripDescriptor :: "proto_field list" where
  "proto_TripDescriptor =
    [Proto_Field OPTIONAL P_string ''trip_id'' 1 None,
     Proto_Field OPTIONAL P_string ''route_id'' 5 None,
     Proto_Field OPTIONAL P_uint32 ''direction_id'' 6 None,
     Proto_Field OPTIONAL P_string ''start_time'' 2 None,
     Proto_Field OPTIONAL P_string ''start_date'' 3 None,
     Proto_Field OPTIONAL (P_enum TripDescriptor_ScheduleRelationship) ''schedule_relationship'' 4 None,
     Proto_Field OPTIONAL (P_message TripDescriptor_ModifiedTripSelector) ''modified_trip'' 7 None]"

definition proto_VehicleDescriptor :: "proto_field list" where
  "proto_VehicleDescriptor =
    [Proto_Field OPTIONAL P_string ''id'' 1 None,
     Proto_Field OPTIONAL P_string ''label'' 2 None,
     Proto_Field OPTIONAL P_string ''license_plate'' 3 None,
     Proto_Field OPTIONAL (P_enum VehicleDescriptor_WheelchairAccessible) ''wheelchair_accessible'' 4 (Some (Enum_Const VehicleDescriptor_WheelchairAccessible ''NO_VALUE''))]"

definition proto_EntitySelector :: "proto_field list" where
  "proto_EntitySelector =
    [Proto_Field OPTIONAL P_string ''agency_id'' 1 None,
     Proto_Field OPTIONAL P_string ''route_id'' 2 None,
     Proto_Field OPTIONAL P_int32 ''route_type'' 3 None,
     Proto_Field OPTIONAL (P_message TripDescriptor) ''trip'' 4 None,
     Proto_Field OPTIONAL P_string ''stop_id'' 5 None,
     Proto_Field OPTIONAL P_uint32 ''direction_id'' 6 None]"

definition proto_TranslatedString_Translation :: "proto_field list" where
  "proto_TranslatedString_Translation =
    [Proto_Field REQUIRED P_string ''text'' 1 None,
     Proto_Field OPTIONAL P_string ''language'' 2 None]"

definition proto_TranslatedString :: "proto_field list" where
  "proto_TranslatedString =
    [Proto_Field REPEATED (P_message TranslatedString_Translation) ''translation'' 1 None]"

definition proto_TranslatedImage_LocalizedImage :: "proto_field list" where
  "proto_TranslatedImage_LocalizedImage =
    [Proto_Field REQUIRED P_string ''url'' 1 None,
     Proto_Field REQUIRED P_string ''media_type'' 2 None,
     Proto_Field OPTIONAL P_string ''language'' 3 None]"

definition proto_TranslatedImage :: "proto_field list" where
  "proto_TranslatedImage =
    [Proto_Field REPEATED (P_message TranslatedImage_LocalizedImage) ''localized_image'' 1 None]"

definition proto_Shape :: "proto_field list" where
  "proto_Shape =
    [Proto_Field OPTIONAL P_string ''shape_id'' 1 None,
     Proto_Field OPTIONAL P_string ''encoded_polyline'' 2 None]"

definition proto_Stop :: "proto_field list" where
  "proto_Stop =
    [Proto_Field OPTIONAL P_string ''stop_id'' 1 None,
     Proto_Field OPTIONAL (P_message TranslatedString) ''stop_code'' 2 None,
     Proto_Field OPTIONAL (P_message TranslatedString) ''stop_name'' 3 None,
     Proto_Field OPTIONAL (P_message TranslatedString) ''tts_stop_name'' 4 None,
     Proto_Field OPTIONAL (P_message TranslatedString) ''stop_desc'' 5 None,
     Proto_Field OPTIONAL P_float ''stop_lat'' 6 None,
     Proto_Field OPTIONAL P_float ''stop_lon'' 7 None,
     Proto_Field OPTIONAL P_string ''zone_id'' 8 None,
     Proto_Field OPTIONAL (P_message TranslatedString) ''stop_url'' 9 None,
     Proto_Field OPTIONAL P_string ''parent_station'' 11 None,
     Proto_Field OPTIONAL P_string ''stop_timezone'' 12 None,
     Proto_Field OPTIONAL (P_enum Stop_WheelchairBoarding) ''wheelchair_boarding'' 13 (Some (Enum_Const Stop_WheelchairBoarding ''UNKNOWN'')),
     Proto_Field OPTIONAL P_string ''level_id'' 14 None,
     Proto_Field OPTIONAL (P_message TranslatedString) ''platform_code'' 15 None]"

definition proto_TripModifications_Modification :: "proto_field list" where
  "proto_TripModifications_Modification =
    [Proto_Field OPTIONAL (P_message StopSelector) ''start_stop_selector'' 1 None,
     Proto_Field OPTIONAL (P_message StopSelector) ''end_stop_selector'' 2 None,
     Proto_Field OPTIONAL P_int32 ''propagated_modification_delay'' 3 (Some (Int_Const 0)),
     Proto_Field REPEATED (P_message ReplacementStop) ''replacement_stops'' 4 None,
     Proto_Field OPTIONAL P_string ''service_alert_id'' 5 None,
     Proto_Field OPTIONAL P_uint64 ''last_modified_time'' 6 None]"

definition proto_TripModifications_SelectedTrips :: "proto_field list" where
  "proto_TripModifications_SelectedTrips =
    [Proto_Field REPEATED P_string ''trip_ids'' 1 None,
     Proto_Field OPTIONAL P_string ''shape_id'' 2 None]"

definition proto_TripModifications :: "proto_field list" where
  "proto_TripModifications =
    [Proto_Field REPEATED (P_message TripModifications_SelectedTrips) ''selected_trips'' 1 None,
     Proto_Field REPEATED P_string ''start_times'' 2 None,
     Proto_Field REPEATED P_string ''service_dates'' 3 None,
     Proto_Field REPEATED (P_message TripModifications_Modification) ''modifications'' 4 None]"

definition proto_StopSelector :: "proto_field list" where
  "proto_StopSelector =
    [Proto_Field OPTIONAL P_uint32 ''stop_sequence'' 1 None,
     Proto_Field OPTIONAL P_string ''stop_id'' 2 None]"

definition proto_ReplacementStop :: "proto_field list" where
  "proto_ReplacementStop =
    [Proto_Field OPTIONAL P_int32 ''travel_time_to_stop'' 1 None,
     Proto_Field OPTIONAL P_string ''stop_id'' 2 None]"

section \<open>Enums\<close>

definition proto_enum_FeedHeader_Incrementality :: "(string \<times> int) list" where
  "proto_enum_FeedHeader_Incrementality =
    [(''FULL_DATASET'', 0),
     (''DIFFERENTIAL'', 1)]"

definition proto_enum_TripUpdate_StopTimeUpdate_StopTimeProperties_DropOffPickupType :: "(string \<times> int) list" where
  "proto_enum_TripUpdate_StopTimeUpdate_StopTimeProperties_DropOffPickupType =
    [(''REGULAR'', 0),
     (''NONE'', 1),
     (''PHONE_AGENCY'', 2),
     (''COORDINATE_WITH_DRIVER'', 3)]"

definition proto_enum_TripUpdate_StopTimeUpdate_ScheduleRelationship :: "(string \<times> int) list" where
  "proto_enum_TripUpdate_StopTimeUpdate_ScheduleRelationship =
    [(''SCHEDULED'', 0),
     (''SKIPPED'', 1),
     (''NO_DATA'', 2),
     (''UNSCHEDULED'', 3)]"

definition proto_enum_VehiclePosition_VehicleStopStatus :: "(string \<times> int) list" where
  "proto_enum_VehiclePosition_VehicleStopStatus =
    [(''INCOMING_AT'', 0),
     (''STOPPED_AT'', 1),
     (''IN_TRANSIT_TO'', 2)]"

definition proto_enum_VehiclePosition_CongestionLevel :: "(string \<times> int) list" where
  "proto_enum_VehiclePosition_CongestionLevel =
    [(''UNKNOWN_CONGESTION_LEVEL'', 0),
     (''RUNNING_SMOOTHLY'', 1),
     (''STOP_AND_GO'', 2),
     (''CONGESTION'', 3),
     (''SEVERE_CONGESTION'', 4)]"

definition proto_enum_VehiclePosition_OccupancyStatus :: "(string \<times> int) list" where
  "proto_enum_VehiclePosition_OccupancyStatus =
    [(''EMPTY'', 0),
     (''MANY_SEATS_AVAILABLE'', 1),
     (''FEW_SEATS_AVAILABLE'', 2),
     (''STANDING_ROOM_ONLY'', 3),
     (''CRUSHED_STANDING_ROOM_ONLY'', 4),
     (''FULL'', 5),
     (''NOT_ACCEPTING_PASSENGERS'', 6),
     (''NO_DATA_AVAILABLE'', 7),
     (''NOT_BOARDABLE'', 8)]"

definition proto_enum_Alert_Cause :: "(string \<times> int) list" where
  "proto_enum_Alert_Cause =
    [(''UNKNOWN_CAUSE'', 1),
     (''OTHER_CAUSE'', 2),
     (''TECHNICAL_PROBLEM'', 3),
     (''STRIKE'', 4),
     (''DEMONSTRATION'', 5),
     (''ACCIDENT'', 6),
     (''HOLIDAY'', 7),
     (''WEATHER'', 8),
     (''MAINTENANCE'', 9),
     (''CONSTRUCTION'', 10),
     (''POLICE_ACTIVITY'', 11),
     (''MEDICAL_EMERGENCY'', 12)]"

definition proto_enum_Alert_Effect :: "(string \<times> int) list" where
  "proto_enum_Alert_Effect =
    [(''NO_SERVICE'', 1),
     (''REDUCED_SERVICE'', 2),
     (''SIGNIFICANT_DELAYS'', 3),
     (''DETOUR'', 4),
     (''ADDITIONAL_SERVICE'', 5),
     (''MODIFIED_SERVICE'', 6),
     (''OTHER_EFFECT'', 7),
     (''UNKNOWN_EFFECT'', 8),
     (''STOP_MOVED'', 9),
     (''NO_EFFECT'', 10),
     (''ACCESSIBILITY_ISSUE'', 11)]"

definition proto_enum_Alert_SeverityLevel :: "(string \<times> int) list" where
  "proto_enum_Alert_SeverityLevel =
    [(''UNKNOWN_SEVERITY'', 1),
     (''INFO'', 2),
     (''WARNING'', 3),
     (''SEVERE'', 4)]"

definition proto_enum_TripDescriptor_ScheduleRelationship :: "(string \<times> int) list" where
  "proto_enum_TripDescriptor_ScheduleRelationship =
    [(''SCHEDULED'', 0),
     (''ADDED'', 1),
     (''UNSCHEDULED'', 2),
     (''CANCELED'', 3),
     (''REPLACEMENT'', 5),
     (''DUPLICATED'', 6),
     (''DELETED'', 7),
     (''NEW'', 8)]"

definition proto_enum_VehicleDescriptor_WheelchairAccessible :: "(string \<times> int) list" where
  "proto_enum_VehicleDescriptor_WheelchairAccessible =
    [(''NO_VALUE'', 0),
     (''UNKNOWN'', 1),
     (''WHEELCHAIR_ACCESSIBLE'', 2),
     (''WHEELCHAIR_INACCESSIBLE'', 3)]"

definition proto_enum_Stop_WheelchairBoarding :: "(string \<times> int) list" where
  "proto_enum_Stop_WheelchairBoarding =
    [(''UNKNOWN'', 0),
     (''AVAILABLE'', 1),
     (''NOT_AVAILABLE'', 2)]"

section \<open>By name\<close>

fun proto_of :: "msg_id \<Rightarrow> proto_field list" where
  "proto_of FeedMessage = proto_FeedMessage"
| "proto_of FeedHeader = proto_FeedHeader"
| "proto_of FeedEntity = proto_FeedEntity"
| "proto_of TripUpdate_StopTimeEvent = proto_TripUpdate_StopTimeEvent"
| "proto_of TripUpdate_StopTimeUpdate_StopTimeProperties = proto_TripUpdate_StopTimeUpdate_StopTimeProperties"
| "proto_of TripUpdate_StopTimeUpdate = proto_TripUpdate_StopTimeUpdate"
| "proto_of TripUpdate_TripProperties = proto_TripUpdate_TripProperties"
| "proto_of TripUpdate = proto_TripUpdate"
| "proto_of VehiclePosition_CarriageDetails = proto_VehiclePosition_CarriageDetails"
| "proto_of VehiclePosition = proto_VehiclePosition"
| "proto_of Alert = proto_Alert"
| "proto_of TimeRange = proto_TimeRange"
| "proto_of Position = proto_Position"
| "proto_of TripDescriptor_ModifiedTripSelector = proto_TripDescriptor_ModifiedTripSelector"
| "proto_of TripDescriptor = proto_TripDescriptor"
| "proto_of VehicleDescriptor = proto_VehicleDescriptor"
| "proto_of EntitySelector = proto_EntitySelector"
| "proto_of TranslatedString_Translation = proto_TranslatedString_Translation"
| "proto_of TranslatedString = proto_TranslatedString"
| "proto_of TranslatedImage_LocalizedImage = proto_TranslatedImage_LocalizedImage"
| "proto_of TranslatedImage = proto_TranslatedImage"
| "proto_of Shape = proto_Shape"
| "proto_of Stop = proto_Stop"
| "proto_of TripModifications_Modification = proto_TripModifications_Modification"
| "proto_of TripModifications_SelectedTrips = proto_TripModifications_SelectedTrips"
| "proto_of TripModifications = proto_TripModifications"
| "proto_of StopSelector = proto_StopSelector"
| "proto_of ReplacementStop = proto_ReplacementStop"

fun proto_enum_of :: "enum_id \<Rightarrow> (string \<times> int) list" where
  "proto_enum_of FeedHeader_Incrementality = proto_enum_FeedHeader_Incrementality"
| "proto_enum_of TripUpdate_StopTimeUpdate_StopTimeProperties_DropOffPickupType = proto_enum_TripUpdate_StopTimeUpdate_StopTimeProperties_DropOffPickupType"
| "proto_enum_of TripUpdate_StopTimeUpdate_ScheduleRelationship = proto_enum_TripUpdate_StopTimeUpdate_ScheduleRelationship"
| "proto_enum_of VehiclePosition_VehicleStopStatus = proto_enum_VehiclePosition_VehicleStopStatus"
| "proto_enum_of VehiclePosition_CongestionLevel = proto_enum_VehiclePosition_CongestionLevel"
| "proto_enum_of VehiclePosition_OccupancyStatus = proto_enum_VehiclePosition_OccupancyStatus"
| "proto_enum_of Alert_Cause = proto_enum_Alert_Cause"
| "proto_enum_of Alert_Effect = proto_enum_Alert_Effect"
| "proto_enum_of Alert_SeverityLevel = proto_enum_Alert_SeverityLevel"
| "proto_enum_of TripDescriptor_ScheduleRelationship = proto_enum_TripDescriptor_ScheduleRelationship"
| "proto_enum_of VehicleDescriptor_WheelchairAccessible = proto_enum_VehicleDescriptor_WheelchairAccessible"
| "proto_enum_of Stop_WheelchairBoarding = proto_enum_Stop_WheelchairBoarding"

fun message_path :: "msg_id \<Rightarrow> string list" where
  "message_path FeedMessage = [''FeedMessage'']"
| "message_path FeedHeader = [''FeedHeader'']"
| "message_path FeedEntity = [''FeedEntity'']"
| "message_path TripUpdate_StopTimeEvent = [''TripUpdate'', ''StopTimeEvent'']"
| "message_path TripUpdate_StopTimeUpdate_StopTimeProperties = [''TripUpdate'', ''StopTimeUpdate'', ''StopTimeProperties'']"
| "message_path TripUpdate_StopTimeUpdate = [''TripUpdate'', ''StopTimeUpdate'']"
| "message_path TripUpdate_TripProperties = [''TripUpdate'', ''TripProperties'']"
| "message_path TripUpdate = [''TripUpdate'']"
| "message_path VehiclePosition_CarriageDetails = [''VehiclePosition'', ''CarriageDetails'']"
| "message_path VehiclePosition = [''VehiclePosition'']"
| "message_path Alert = [''Alert'']"
| "message_path TimeRange = [''TimeRange'']"
| "message_path Position = [''Position'']"
| "message_path TripDescriptor_ModifiedTripSelector = [''TripDescriptor'', ''ModifiedTripSelector'']"
| "message_path TripDescriptor = [''TripDescriptor'']"
| "message_path VehicleDescriptor = [''VehicleDescriptor'']"
| "message_path EntitySelector = [''EntitySelector'']"
| "message_path TranslatedString_Translation = [''TranslatedString'', ''Translation'']"
| "message_path TranslatedString = [''TranslatedString'']"
| "message_path TranslatedImage_LocalizedImage = [''TranslatedImage'', ''LocalizedImage'']"
| "message_path TranslatedImage = [''TranslatedImage'']"
| "message_path Shape = [''Shape'']"
| "message_path Stop = [''Stop'']"
| "message_path TripModifications_Modification = [''TripModifications'', ''Modification'']"
| "message_path TripModifications_SelectedTrips = [''TripModifications'', ''SelectedTrips'']"
| "message_path TripModifications = [''TripModifications'']"
| "message_path StopSelector = [''StopSelector'']"
| "message_path ReplacementStop = [''ReplacementStop'']"

fun enum_path :: "enum_id \<Rightarrow> string list" where
  "enum_path FeedHeader_Incrementality = [''FeedHeader'', ''Incrementality'']"
| "enum_path TripUpdate_StopTimeUpdate_StopTimeProperties_DropOffPickupType = [''TripUpdate'', ''StopTimeUpdate'', ''StopTimeProperties'', ''DropOffPickupType'']"
| "enum_path TripUpdate_StopTimeUpdate_ScheduleRelationship = [''TripUpdate'', ''StopTimeUpdate'', ''ScheduleRelationship'']"
| "enum_path VehiclePosition_VehicleStopStatus = [''VehiclePosition'', ''VehicleStopStatus'']"
| "enum_path VehiclePosition_CongestionLevel = [''VehiclePosition'', ''CongestionLevel'']"
| "enum_path VehiclePosition_OccupancyStatus = [''VehiclePosition'', ''OccupancyStatus'']"
| "enum_path Alert_Cause = [''Alert'', ''Cause'']"
| "enum_path Alert_Effect = [''Alert'', ''Effect'']"
| "enum_path Alert_SeverityLevel = [''Alert'', ''SeverityLevel'']"
| "enum_path TripDescriptor_ScheduleRelationship = [''TripDescriptor'', ''ScheduleRelationship'']"
| "enum_path VehicleDescriptor_WheelchairAccessible = [''VehicleDescriptor'', ''WheelchairAccessible'']"
| "enum_path Stop_WheelchairBoarding = [''Stop'', ''WheelchairBoarding'']"

end
