(* ===== verification/Pb_Tables_1.thy ===== *)
theory Pb_Tables_1
  imports Pb_Types
begin

text \<open>
  The descriptor tables of \<open>src/ingestion/gtfs-realtime.pb-c.c\<close> for feed messages and trip updates,
  in the order of the file.
\<close>

definition feed_message__field_descriptors :: "field_descriptor list" where
  "feed_message__field_descriptors =
    [Field ''header'' 1 REQUIRED T_MESSAGE
        No_Offset (Offset_Of FeedMessage ''header'') (Message_Ref FeedHeader) None 0,
     Field ''entity'' 2 REPEATED T_MESSAGE
        (Offset_Of FeedMessage ''n_entity'') (Offset_Of FeedMessage ''entity'') (Message_Ref FeedEntity) None 0]"

definition feed_message__field_indices_by_name :: "nat list" where
  "feed_message__field_indices_by_name = [1, 0]"

definition feed_message__number_ranges :: "int_range list" where
  "feed_message__number_ranges = [Int_Range 1 0, Int_Range 0 2]"

definition feed_message__descriptor :: message_descriptor where
  "feed_message__descriptor = Message_Descriptor
    ''transit_realtime.FeedMessage'' ''FeedMessage'' ''TransitRealtime__FeedMessage'' ''transit_realtime''
    FeedMessage 2
    feed_message__field_descriptors
    feed_message__field_indices_by_name
    1 feed_message__number_ranges
    FeedMessage"

definition feed_header__incrementality__enum_values_by_number :: "enum_value list" where
  "feed_header__incrementality__enum_values_by_number =
    [Enum_Value ''FULL_DATASET''
       ''TRANSIT_REALTIME__FEED_HEADER__INCREMENTALITY__FULL_DATASET'' 0,
     Enum_Value ''DIFFERENTIAL''
       ''TRANSIT_REALTIME__FEED_HEADER__INCREMENTALITY__DIFFERENTIAL'' 1]"

definition feed_header__incrementality__value_ranges :: "int_range list" where
  "feed_header__incrementality__value_ranges = [Int_Range 0 0, Int_Range 0 2]"

definition feed_header__incrementality__enum_values_by_name :: "enum_value_index list" where
  "feed_header__incrementality__enum_values_by_name =
    [Enum_Value_Index ''DIFFERENTIAL'' 1,
     Enum_Value_Index ''FULL_DATASET'' 0]"

definition feed_header__incrementality__descriptor :: enum_descriptor where
  "feed_header__incrementality__descriptor = Enum_Descriptor
    ''transit_realtime.FeedHeader.Incrementality'' ''Incrementality''
    ''TransitRealtime__FeedHeader__Incrementality'' ''transit_realtime''
    2 feed_header__incrementality__enum_values_by_number
    2 feed_header__incrementality__enum_values_by_name
    1 feed_header__incrementality__value_ranges"

definition feed_header__incrementality__default_value :: scalar where
  "feed_header__incrementality__default_value = Enum_Const FeedHeader_Incrementality ''FULL_DATASET''"

definition feed_header__field_descriptors :: "field_descriptor list" where
  "feed_header__field_descriptors =
    [Field ''gtfs_realtime_version'' 1 REQUIRED T_STRING
        No_Offset (Offset_Of FeedHeader ''gtfs_realtime_version'') Null_Descriptor None 0,
     Field ''incrementality'' 2 OPTIONAL T_ENUM
        (Offset_Of FeedHeader ''has_incrementality'') (Offset_Of FeedHeader ''incrementality'') (Enum_Ref FeedHeader_Incrementality) (Some feed_header__incrementality__default_value) 0,
     Field ''timestamp'' 3 OPTIONAL T_UINT64
        (Offset_Of FeedHeader ''has_timestamp'') (Offset_Of FeedHeader ''timestamp'') Null_Descriptor None 0,
     Field ''feed_version'' 4 OPTIONAL T_STRING
        No_Offset (Offset_Of FeedHeader ''feed_version'') Null_Descriptor None 0]"

definition feed_header__field_indices_by_name :: "nat list" where
  "feed_header__field_indices_by_name = [3, 0, 1, 2]"

definition feed_header__number_ranges :: "int_range list" where
  "feed_header__number_ranges = [Int_Range 1 0, Int_Range 0 4]"

definition feed_header__descriptor :: message_descriptor where
  "feed_header__descriptor = Message_Descriptor
    ''transit_realtime.FeedHeader'' ''FeedHeader'' ''TransitRealtime__FeedHeader'' ''transit_realtime''
    FeedHeader 4
    feed_header__field_descriptors
    feed_header__field_indices_by_name
    1 feed_header__number_ranges
    FeedHeader"

definition feed_entity__is_deleted__default_value :: scalar where
  "feed_entity__is_deleted__default_value = Bool_Const False"

definition feed_entity__field_descriptors :: "field_descriptor list" where
  "feed_entity__field_descriptors =
    [Field ''id'' 1 REQUIRED T_STRING
        No_Offset (Offset_Of FeedEntity ''id'') Null_Descriptor None 0,
     Field ''is_deleted'' 2 OPTIONAL T_BOOL
        (Offset_Of FeedEntity ''has_is_deleted'') (Offset_Of FeedEntity ''is_deleted'') Null_Descriptor (Some feed_entity__is_deleted__default_value) 0,
     Field ''trip_update'' 3 OPTIONAL T_MESSAGE
        No_Offset (Offset_Of FeedEntity ''trip_update'') (Message_Ref TripUpdate) None 0,
     Field ''vehicle'' 4 OPTIONAL T_MESSAGE
        No_Offset (Offset_Of FeedEntity ''vehicle'') (Message_Ref VehiclePosition) None 0,
     Field ''alert'' 5 OPTIONAL T_MESSAGE
        No_Offset (Offset_Of FeedEntity ''alert'') (Message_Ref Alert) None 0,
     Field ''shape'' 6 OPTIONAL T_MESSAGE
        No_Offset (Offset_Of FeedEntity ''shape'') (Message_Ref Shape) None 0,
     Field ''stop'' 7 OPTIONAL T_MESSAGE
        No_Offset (Offset_Of FeedEntity ''stop'') (Message_Ref Stop) None 0,
     Field ''trip_modifications'' 8 OPTIONAL T_MESSAGE
        No_Offset (Offset_Of FeedEntity ''trip_modifications'') (Message_Ref TripModifications) None 0]"

definition feed_entity__field_indices_by_name :: "nat list" where
  "feed_entity__field_indices_by_name = [4, 0, 1, 5, 6, 7, 2, 3]"

definition feed_entity__number_ranges :: "int_range list" where
  "feed_entity__number_ranges = [Int_Range 1 0, Int_Range 0 8]"

definition feed_entity__descriptor :: message_descriptor where
  "feed_entity__descriptor = Message_Descriptor
    ''transit_realtime.FeedEntity'' ''FeedEntity'' ''TransitRealtime__FeedEntity'' ''transit_realtime''
    FeedEntity 8
    feed_entity__field_descriptors
    feed_entity__field_indices_by_name
    1 feed_entity__number_ranges
    FeedEntity"

definition trip_update__stop_time_event__field_descriptors :: "field_descriptor list" where
  "trip_update__stop_time_event__field_descriptors =
    [Field ''delay'' 1 OPTIONAL T_INT32
        (Offset_Of TripUpdate_StopTimeEvent ''has_delay'') (Offset_Of TripUpdate_StopTimeEvent ''delay'') Null_Descriptor None 0,
     Field ''time'' 2 OPTIONAL T_INT64
        (Offset_Of TripUpdate_StopTimeEvent ''has_time'') (Offset_Of TripUpdate_StopTimeEvent ''time'') Null_Descriptor None 0,
     Field ''uncertainty'' 3 OPTIONAL T_INT32
        (Offset_Of TripUpdate_StopTimeEvent ''has_uncertainty'') (Offset_Of TripUpdate_StopTimeEvent ''uncertainty'') Null_Descriptor None 0,
     Field ''scheduled_time'' 4 OPTIONAL T_INT64
        (Offset_Of TripUpdate_StopTimeEvent ''has_scheduled_time'') (Offset_Of TripUpdate_StopTimeEvent ''scheduled_time'') Null_Descriptor None 0]"

definition trip_update__stop_time_event__field_indices_by_name :: "nat list" where
  "trip_update__stop_time_event__field_indices_by_name = [0, 3, 1, 2]"

definition trip_update__stop_time_event__number_ranges :: "int_range list" where
  "trip_update__stop_time_event__number_ranges = [Int_Range 1 0, Int_Range 0 4]"

definition trip_update__stop_time_event__descriptor :: message_descriptor where
  "trip_update__stop_time_event__descriptor = Message_Descriptor
    ''transit_realtime.TripUpdate.StopTimeEvent'' ''StopTimeEvent'' ''TransitRealtime__TripUpdate__StopTimeEvent'' ''transit_realtime''
    TripUpdate_StopTimeEvent 4
    trip_update__stop_time_event__field_descriptors
    trip_update__stop_time_event__field_indices_by_name
    1 trip_update__stop_time_event__number_ranges
    TripUpdate_StopTimeEvent"

definition trip_update__stop_time_update__stop_time_properties__drop_off_pickup_type__enum_values_by_number :: "enum_value list" where
  "trip_update__stop_time_update__stop_time_properties__drop_off_pickup_type__enum_values_by_number =
    [Enum_Value ''REGULAR''
       ''TRANSIT_REALTIME__TRIP_UPDATE__STOP_TIME_UPDATE__STOP_TIME_PROPERTIES__DROP_OFF_PICKUP_TYPE__REGULAR'' 0,
     Enum_Value ''NONE''
       ''TRANSIT_REALTIME__TRIP_UPDATE__STOP_TIME_UPDATE__STOP_TIME_PROPERTIES__DROP_OFF_PICKUP_TYPE__NONE'' 1,
     Enum_Value ''PHONE_AGENCY''
       ''TRANSIT_REALTIME__TRIP_UPDATE__STOP_TIME_UPDATE__STOP_TIME_PROPERTIES__DROP_OFF_PICKUP_TYPE__PHONE_AGENCY'' 2,
     Enum_Value ''COORDINATE_WITH_DRIVER''
       ''TRANSIT_REALTIME__TRIP_UPDATE__STOP_TIME_UPDATE__STOP_TIME_PROPERTIES__DROP_OFF_PICKUP_TYPE__COORDINATE_WITH_DRIVER'' 3]"

definition trip_update__stop_time_update__stop_time_properties__drop_off_pickup_type__value_ranges :: "int_range list" where
  "trip_update__stop_time_update__stop_time_properties__drop_off_pickup_type__value_ranges = [Int_Range 0 0, Int_Range 0 4]"

definition trip_update__stop_time_update__stop_time_properties__drop_off_pickup_type__enum_values_by_name :: "enum_value_index list" where
  "trip_update__stop_time_update__stop_time_properties__drop_off_pickup_type__enum_values_by_name =
    [Enum_Value_Index ''COORDINATE_WITH_DRIVER'' 3,
     Enum_Value_Index ''NONE'' 1,
     Enum_Value_Index ''PHONE_AGENCY'' 2,
     Enum_Value_Index ''REGULAR'' 0]"

definition trip_update__stop_time_update__stop_time_properties__drop_off_pickup_type__descriptor :: enum_descriptor where
  "trip_update__stop_time_update__stop_time_properties__drop_off_pickup_type__descriptor = Enum_Descriptor
    ''transit_realtime.TripUpdate.StopTimeUpdate.StopTimeProperties.DropOffPickupType'' ''DropOffPickupType''
    ''TransitRealtime__TripUpdate__StopTimeUpdate__StopTimeProperties__DropOffPickupType'' ''transit_realtime''
    4 trip_update__stop_time_update__stop_time_properties__drop_off_pickup_type__enum_values_by_number
    4 trip_update__stop_time_update__stop_time_properties__drop_off_pickup_type__enum_values_by_name
    1 trip_update__stop_time_update__stop_time_properties__drop_off_pickup_type__value_ranges"

definition trip_update__stop_time_update__stop_time_properties__field_descriptors :: "field_descriptor list" where
  "trip_update__stop_time_update__stop_time_properties__field_descriptors =
    [Field ''assigned_stop_id'' 1 OPTIONAL T_STRING
        No_Offset (Offset_Of TripUpdate_StopTimeUpdate_StopTimeProperties ''assigned_stop_id'') Null_Descriptor None 0,
     Field ''stop_headsign'' 2 OPTIONAL T_STRING
        No_Offset (Offset_Of TripUpdate_StopTimeUpdate_StopTimeProperties ''stop_headsign'') Null_Descriptor None 0,
     Field ''pickup_type'' 3 OPTIONAL T_ENUM
        (Offset_Of TripUpdate_StopTimeUpdate_StopTimeProperties ''has_pickup_type'') (Offset_Of TripUpdate_StopTimeUpdate_StopTimeProperties ''pickup_type'') (Enum_Ref TripUpdate_StopTimeUpdate_StopTimeProperties_DropOffPickupType) None 0,
     Field ''drop_off_type'' 4 OPTIONAL T_ENUM
        (Offset_Of TripUpdate_StopTimeUpdate_StopTimeProperties ''has_drop_off_type'') (Offset_Of TripUpdate_StopTimeUpdate_StopTimeProperties ''drop_off_type'') (Enum_Ref TripUpdate_StopTimeUpdate_StopTimeProperties_DropOffPickupType) None 0]"

definition trip_update__stop_time_update__stop_time_properties__field_indices_by_name :: "nat list" where
  "trip_update__stop_time_update__stop_time_properties__field_indices_by_name = [0, 3, 2, 1]"

definition trip_update__stop_time_update__stop_time_properties__number_ranges :: "int_range list" where
  "trip_update__stop_time_update__stop_time_properties__number_ranges = [Int_Range 1 0, Int_Range 0 4]"

definition trip_update__stop_time_update__stop_time_properties__descriptor :: message_descriptor where
  "trip_update__stop_time_update__stop_time_properties__descriptor = Message_Descriptor
    ''transit_realtime.TripUpdate.StopTimeUpdate.StopTimeProperties'' ''StopTimeProperties'' ''TransitRealtime__TripUpdate__StopTimeUpdate__StopTimeProperties'' ''transit_realtime''
    TripUpdate_StopTimeUpdate_StopTimeProperties 4
    trip_update__stop_time_update__stop_time_properties__field_descriptors
    trip_update__stop_time_update__stop_time_properties__field_indices_by_name
    1 trip_update__stop_time_update__stop_time_properties__number_ranges
    TripUpdate_StopTimeUpdate_StopTimeProperties"

definition trip_update__stop_time_update__schedule_relationship__enum_values_by_number :: "enum_value list" where
  "trip_update__stop_time_update__schedule_relationship__enum_values_by_number =
    [Enum_Value ''SCHEDULED''
       ''TRANSIT_REALTIME__TRIP_UPDATE__STOP_TIME_UPDATE__SCHEDULE_RELATIONSHIP__SCHEDULED'' 0,
     Enum_Value ''SKIPPED''
       ''TRANSIT_REALTIME__TRIP_UPDATE__STOP_TIME_UPDATE__SCHEDULE_RELATIONSHIP__SKIPPED'' 1,
     Enum_Value ''NO_DATA''
       ''TRANSIT_REALTIME__TRIP_UPDATE__STOP_TIME_UPDATE__SCHEDULE_RELATIONSHIP__NO_DATA'' 2,
     Enum_Value ''UNSCHEDULED''
       ''TRANSIT_REALTIME__TRIP_UPDATE__STOP_TIME_UPDATE__SCHEDULE_RELATIONSHIP__UNSCHEDULED'' 3]"

definition trip_update__stop_time_update__schedule_relationship__value_ranges :: "int_range list" where
  "trip_update__stop_time_update__schedule_relationship__value_ranges = [Int_Range 0 0, Int_Range 0 4]"

definition trip_update__stop_time_update__schedule_relationship__enum_values_by_name :: "enum_value_index list" where
  "trip_update__stop_time_update__schedule_relationship__enum_values_by_name =
    [Enum_Value_Index ''NO_DATA'' 2,
     Enum_Value_Index ''SCHEDULED'' 0,
     Enum_Value_Index ''SKIPPED'' 1,
     Enum_Value_Index ''UNSCHEDULED'' 3]"

definition trip_update__stop_time_update__schedule_relationship__descriptor :: enum_descriptor where
  "trip_update__stop_time_update__schedule_relationship__descriptor = Enum_Descriptor
    ''transit_realtime.TripUpdate.StopTimeUpdate.ScheduleRelationship'' ''ScheduleRelationship''
    ''TransitRealtime__TripUpdate__StopTimeUpdate__ScheduleRelationship'' ''transit_realtime''
    4 trip_update__stop_time_update__schedule_relationship__enum_values_by_number
    4 trip_update__stop_time_update__schedule_relationship__enum_values_by_name
    1 trip_update__stop_time_update__schedule_relationship__value_ranges"

definition trip_update__stop_time_update__schedule_relationship__default_value :: scalar where
  "trip_update__stop_time_update__schedule_relationship__default_value = Enum_Const TripUpdate_StopTimeUpdate_ScheduleRelationship ''SCHEDULED''"

definition trip_update__stop_time_update__field_descriptors :: "field_descriptor list" where
  "trip_update__stop_time_update__field_descriptors =
    [Field ''stop_sequence'' 1 OPTIONAL T_UINT32
        (Offset_Of TripUpdate_StopTimeUpdate ''has_stop_sequence'') (Offset_Of TripUpdate_StopTimeUpdate ''stop_sequence'') Null_Descriptor None 0,
     Field ''arrival'' 2 OPTIONAL T_MESSAGE
        No_Offset (Offset_Of TripUpdate_StopTimeUpdate ''arrival'') (Message_Ref TripUpdate_StopTimeEvent) None 0,
     Field ''departure'' 3 OPTIONAL T_MESSAGE
        No_Offset (Offset_Of TripUpdate_StopTimeUpdate ''departure'') (Message_Ref TripUpdate_StopTimeEvent) None 0,
     Field ''stop_id'' 4 OPTIONAL T_STRING
        No_Offset (Offset_Of TripUpdate_StopTimeUpdate ''stop_id'') Null_Descriptor None 0,
     Field ''schedule_relationship'' 5 OPTIONAL T_ENUM
        (Offset_Of TripUpdate_StopTimeUpdate ''has_schedule_relationship'') (Offset_Of TripUpdate_StopTimeUpdate ''schedule_relationship'') (Enum_Ref TripUpdate_StopTimeUpdate_ScheduleRelationship) (Some trip_update__stop_time_update__schedule_relationship__default_value) 0,
     Field ''stop_time_properties'' 6 OPTIONAL T_MESSAGE
        No_Offset (Offset_Of TripUpdate_StopTimeUpdate ''stop_time_properties'') (Message_Ref TripUpdate_StopTimeUpdate_StopTimeProperties) None 0,
     Field ''departure_occupancy_status'' 7 OPTIONAL T_ENUM
        (Offset_Of TripUpdate_StopTimeUpdate ''has_departure_occupancy_status'') (Offset_Of TripUpdate_StopTimeUpdate ''departure_occupancy_status'') (Enum_Ref VehiclePosition_OccupancyStatus) None 0]"

definition trip_update__stop_time_update__field_indices_by_name :: "nat list" where
  "trip_update__stop_time_update__field_indices_by_name = [1, 2, 6, 4, 3, 0, 5]"

definition trip_update__stop_time_update__number_ranges :: "int_range list" where
  "trip_update__stop_time_update__number_ranges = [Int_Range 1 0, Int_Range 0 7]"

definition trip_update__stop_time_update__descriptor :: message_descriptor where
  "trip_update__stop_time_update__descriptor = Message_Descriptor
    ''transit_realtime.TripUpdate.StopTimeUpdate'' ''StopTimeUpdate'' ''TransitRealtime__TripUpdate__StopTimeUpdate'' ''transit_realtime''
    TripUpdate_StopTimeUpdate 7
    trip_update__stop_time_update__field_descriptors
    trip_update__stop_time_update__field_indices_by_name
    1 trip_update__stop_time_update__number_ranges
    TripUpdate_StopTimeUpdate"

definition trip_update__trip_properties__field_descriptors :: "field_descriptor list" where
  "trip_update__trip_properties__field_descriptors =
    [Field ''trip_id'' 1 OPTIONAL T_STRING
        No_Offset (Offset_Of TripUpdate_TripProperties ''trip_id'') Null_Descriptor None 0,
     Field ''start_date'' 2 OPTIONAL T_STRING
        No_Offset (Offset_Of TripUpdate_TripProperties ''start_date'') Null_Descriptor None 0,
     Field ''start_time'' 3 OPTIONAL T_STRING
        No_Offset (Offset_Of TripUpdate_TripProperties ''start_time'') Null_Descriptor None 0,
     Field ''shape_id'' 4 OPTIONAL T_STRING
        No_Offset (Offset_Of TripUpdate_TripProperties ''shape_id'') Null_Descriptor None 0,
     Field ''trip_headsign'' 5 OPTIONAL T_STRING
        No_Offset (Offset_Of TripUpdate_TripProperties ''trip_headsign'') Null_Descriptor None 0,
     Field ''trip_short_name'' 6 OPTIONAL T_STRING
        No_Offset (Offset_Of TripUpdate_TripProperties ''trip_short_name'') Null_Descriptor None 0]"

definition trip_update__trip_properties__field_indices_by_name :: "nat list" where
  "trip_update__trip_properties__field_indices_by_name = [3, 1, 2, 4, 0, 5]"

definition trip_update__trip_properties__number_ranges :: "int_range list" where
  "trip_update__trip_properties__number_ranges = [Int_Range 1 0, Int_Range 0 6]"

definition trip_update__trip_properties__descriptor :: message_descriptor where
  "trip_update__trip_properties__descriptor = Message_Descriptor
    ''transit_realtime.TripUpdate.TripProperties'' ''TripProperties'' ''TransitRealtime__TripUpdate__TripProperties'' ''transit_realtime''
    TripUpdate_TripProperties 6
    trip_update__trip_properties__field_descriptors
    trip_update__trip_properties__field_indices_by_name
    1 trip_update__trip_properties__number_ranges
    TripUpdate_TripProperties"

definition trip_update__field_descriptors :: "field_descriptor list" where
  "trip_update__field_descriptors =
    [Field ''trip'' 1 REQUIRED T_MESSAGE
        No_Offset (Offset_Of TripUpdate ''trip'') (Message_Ref TripDescriptor) None 0,
     Field ''stop_time_update'' 2 REPEATED T_MESSAGE
        (Offset_Of TripUpdate ''n_stop_time_update'') (Offset_Of TripUpdate ''stop_time_update'') (Message_Ref TripUpdate_StopTimeUpdate) None 0,
     Field ''vehicle'' 3 OPTIONAL T_MESSAGE
        No_Offset (Offset_Of TripUpdate ''vehicle'') (Message_Ref VehicleDescriptor) None 0,
     Field ''timestamp'' 4 OPTIONAL T_UINT64
        (Offset_Of TripUpdate ''has_timestamp'') (Offset_Of TripUpdate ''timestamp'') Null_Descriptor None 0,
     Field ''delay'' 5 OPTIONAL T_INT32
        (Offset_Of TripUpdate ''has_delay'') (Offset_Of TripUpdate ''delay'') Null_Descriptor None 0,
     Field ''trip_properties'' 6 OPTIONAL T_MESSAGE
        No_Offset (Offset_Of TripUpdate ''trip_properties'') (Message_Ref TripUpdate_TripProperties) None 0]"

definition trip_update__field_indices_by_name :: "nat list" where
  "trip_update__field_indices_by_name = [4, 1, 3, 0, 5, 2]"

definition trip_update__number_ranges :: "int_range list" where
  "trip_update__number_ranges = [Int_Range 1 0, Int_Range 0 6]"

definition trip_update__descriptor :: message_descriptor where
  "trip_update__descriptor = Message_Descriptor
    ''transit_realtime.TripUpdate'' ''TripUpdate'' ''TransitRealtime__TripUpdate'' ''transit_realtime''
    TripUpdate 6
    trip_update__field_descriptors
    trip_update__field_indices_by_name
    1 trip_update__number_ranges
    TripUpdate"

end
