(* ===== verification/Pb_Tables_2.thy ===== *)
theory Pb_Tables_2
  imports Pb_Types
begin

text \<open>
  The descriptor tables of \<open>src/ingestion/gtfs-realtime.pb-c.c\<close> for vehicle positions and alerts,
  in the order of the file.
\<close>

definition vehicle_position__carriage_details__occupancy_status__default_value :: scalar where
  "vehicle_position__carriage_details__occupancy_status__default_value = Enum_Const VehiclePosition_OccupancyStatus ''NO_DATA_AVAILABLE''"

definition vehicle_position__carriage_details__occupancy_percentage__default_value :: scalar where
  "vehicle_position__carriage_details__occupancy_percentage__default_value = Int_Const (-1)"

definition vehicle_position__carriage_details__field_descriptors :: "field_descriptor list" where
  "vehicle_position__carriage_details__field_descriptors =
    [Field ''id'' 1 OPTIONAL T_STRING
        No_Offset (Offset_Of VehiclePosition_CarriageDetails ''id'') Null_Descriptor None 0,
     Field ''label'' 2 OPTIONAL T_STRING
        No_Offset (Offset_Of VehiclePosition_CarriageDetails ''label'') Null_Descriptor None 0,
     Field ''occupancy_status'' 3 OPTIONAL T_ENUM
        (Offset_Of VehiclePosition_CarriageDetails ''has_occupancy_status'') (Offset_Of VehiclePosition_CarriageDetails ''occupancy_status'') (Enum_Ref VehiclePosition_OccupancyStatus) (Some vehicle_position__carriage_details__occupancy_status__default_value) 0,
     Field ''occupancy_percentage'' 4 OPTIONAL T_INT32
        (Offset_Of VehiclePosition_CarriageDetails ''has_occupancy_percentage'') (Offset_Of VehiclePosition_CarriageDetails ''occupancy_percentage'') Null_Descriptor (Some vehicle_position__carriage_details__occupancy_percentage__default_value) 0,
     Field ''carriage_sequence'' 5 OPTIONAL T_UINT32
        (Offset_Of VehiclePosition_CarriageDetails ''has_carriage_sequence'') (Offset_Of VehiclePosition_CarriageDetails ''carriage_sequence'') Null_Descriptor None 0]"

definition vehicle_position__carriage_details__field_indices_by_name :: "nat list" where
  "vehicle_position__carriage_details__field_indices_by_name = [4, 0, 1, 3, 2]"

definition vehicle_position__carriage_details__number_ranges :: "int_range list" where
  "vehicle_position__carriage_details__number_ranges = [Int_Range 1 0, Int_Range 0 5]"

definition vehicle_position__carriage_details__descriptor :: message_descriptor where
  "vehicle_position__carriage_details__descriptor = Message_Descriptor
    ''transit_realtime.VehiclePosition.CarriageDetails'' ''CarriageDetails'' ''TransitRealtime__VehiclePosition__CarriageDetails'' ''transit_realtime''
    VehiclePosition_CarriageDetails 5
    vehicle_position__carriage_details__field_descriptors
    vehicle_position__carriage_details__field_indices_by_name
    1 vehicle_position__carriage_details__number_ranges
    VehiclePosition_CarriageDetails"

definition vehicle_position__vehicle_stop_status__enum_values_by_number :: "enum_value list" where
  "vehicle_position__vehicle_stop_status__enum_values_by_number =
    [Enum_Value ''INCOMING_AT''
       ''TRANSIT_REALTIME__VEHICLE_POSITION__VEHICLE_STOP_STATUS__INCOMING_AT'' 0,
     Enum_Value ''STOPPED_AT''
       ''TRANSIT_REALTIME__VEHICLE_POSITION__VEHICLE_STOP_STATUS__STOPPED_AT'' 1,
     Enum_Value ''IN_TRANSIT_TO''
       ''TRANSIT_REALTIME__VEHICLE_POSITION__VEHICLE_STOP_STATUS__IN_TRANSIT_TO'' 2]"

definition vehicle_position__vehicle_stop_status__value_ranges :: "int_range list" where
  "vehicle_position__vehicle_stop_status__value_ranges = [Int_Range 0 0, Int_Range 0 3]"

definition vehicle_position__vehicle_stop_status__enum_values_by_name :: "enum_value_index list" where
  "vehicle_position__vehicle_stop_status__enum_values_by_name =
    [Enum_Value_Index ''INCOMING_AT'' 0,
     Enum_Value_Index ''IN_TRANSIT_TO'' 2,
     Enum_Value_Index ''STOPPED_AT'' 1]"

definition vehicle_position__vehicle_stop_status__descriptor :: enum_descriptor where
  "vehicle_position__vehicle_stop_status__descriptor = Enum_Descriptor
    ''transit_realtime.VehiclePosition.VehicleStopStatus'' ''VehicleStopStatus''
    ''TransitRealtime__VehiclePosition__VehicleStopStatus'' ''transit_realtime''
    3 vehicle_position__vehicle_stop_status__enum_values_by_number
    3 vehicle_position__vehicle_stop_status__enum_values_by_name
    1 vehicle_position__vehicle_stop_status__value_ranges"

definition vehicle_position__congestion_level__enum_values_by_number :: "enum_value list" where
  "vehicle_position__congestion_level__enum_values_by_number =
    [Enum_Value ''UNKNOWN_CONGESTION_LEVEL''
       ''TRANSIT_REALTIME__VEHICLE_POSITION__CONGESTION_LEVEL__UNKNOWN_CONGESTION_LEVEL'' 0,
     Enum_Value ''RUNNING_SMOOTHLY''
       ''TRANSIT_REALTIME__VEHICLE_POSITION__CONGESTION_LEVEL__RUNNING_SMOOTHLY'' 1,
     Enum_Value ''STOP_AND_GO''
       ''TRANSIT_REALTIME__VEHICLE_POSITION__CONGESTION_LEVEL__STOP_AND_GO'' 2,
     Enum_Value ''CONGESTION''
       ''TRANSIT_REALTIME__VEHICLE_POSITION__CONGESTION_LEVEL__CONGESTION'' 3,
     Enum_Value ''SEVERE_CONGESTION''
       ''TRANSIT_REALTIME__VEHICLE_POSITION__CONGESTION_LEVEL__SEVERE_CONGESTION'' 4]"

definition vehicle_position__congestion_level__value_ranges :: "int_range list" where
  "vehicle_position__congestion_level__value_ranges = [Int_Range 0 0, Int_Range 0 5]"

definition vehicle_position__congestion_level__enum_values_by_name :: "enum_value_index list" where
  "vehicle_position__congestion_level__enum_values_by_name =
    [Enum_Value_Index ''CONGESTION'' 3,
     Enum_Value_Index ''RUNNING_SMOOTHLY'' 1,
     Enum_Value_Index ''SEVERE_CONGESTION'' 4,
     Enum_Value_Index ''STOP_AND_GO'' 2,
     Enum_Value_Index ''UNKNOWN_CONGESTION_LEVEL'' 0]"

definition vehicle_position__congestion_level__descriptor :: enum_descriptor where
  "vehicle_position__congestion_level__descriptor = Enum_Descriptor
    ''transit_realtime.VehiclePosition.CongestionLevel'' ''CongestionLevel''
    ''TransitRealtime__VehiclePosition__CongestionLevel'' ''transit_realtime''
    5 vehicle_position__congestion_level__enum_values_by_number
    5 vehicle_position__congestion_level__enum_values_by_name
    1 vehicle_position__congestion_level__value_ranges"

definition vehicle_position__occupancy_status__enum_values_by_number :: "enum_value list" where
  "vehicle_position__occupancy_status__enum_values_by_number =
    [Enum_Value ''EMPTY''
       ''TRANSIT_REALTIME__VEHICLE_POSITION__OCCUPANCY_STATUS__EMPTY'' 0,
     Enum_Value ''MANY_SEATS_AVAILABLE''
       ''TRANSIT_REALTIME__VEHICLE_POSITION__OCCUPANCY_STATUS__MANY_SEATS_AVAILABLE'' 1,
     Enum_Value ''FEW_SEATS_AVAILABLE''
       ''TRANSIT_REALTIME__VEHICLE_POSITION__OCCUPANCY_STATUS__FEW_SEATS_AVAILABLE'' 2,
     Enum_Value ''STANDING_ROOM_ONLY''
       ''TRANSIT_REALTIME__VEHICLE_POSITION__OCCUPANCY_STATUS__STANDING_ROOM_ONLY'' 3,
     Enum_Value ''CRUSHED_STANDING_ROOM_ONLY''
       ''TRANSIT_REALTIME__VEHICLE_POSITION__OCCUPANCY_STATUS__CRUSHED_STANDING_ROOM_ONLY'' 4,
     Enum_Value ''FULL''
       ''TRANSIT_REALTIME__VEHICLE_POSITION__OCCUPANCY_STATUS__FULL'' 5,
     Enum_Value ''NOT_ACCEPTING_PASSENGERS''
       ''TRANSIT_REALTIME__VEHICLE_POSITION__OCCUPANCY_STATUS__NOT_ACCEPTING_PASSENGERS'' 6,
     Enum_Value ''NO_DATA_AVAILABLE''
       ''TRANSIT_REALTIME__VEHICLE_POSITION__OCCUPANCY_STATUS__NO_DATA_AVAILABLE'' 7,
     Enum_Value ''NOT_BOARDABLE''
       ''TRANSIT_REALTIME__VEHICLE_POSITION__OCCUPANCY_STATUS__NOT_BOARDABLE'' 8]"

definition vehicle_position__occupancy_status__value_ranges :: "int_range list" where
  "vehicle_position__occupancy_status__value_ranges = [Int_Range 0 0, Int_Range 0 9]"

definition vehicle_position__occupancy_status__enum_values_by_name :: "enum_value_index list" where
  "vehicle_position__occupancy_status__enum_values_by_name =
    [Enum_Value_Index ''CRUSHED_STANDING_ROOM_ONLY'' 4,
     Enum_Value_Index ''EMPTY'' 0,
     Enum_Value_Index ''FEW_SEATS_AVAILABLE'' 2,
     Enum_Value_Index ''FULL'' 5,
     Enum_Value_Index ''MANY_SEATS_AVAILABLE'' 1,
     Enum_Value_Index ''NOT_ACCEPTING_PASSENGERS'' 6,
     Enum_Value_Index ''NOT_BOARDABLE'' 8,
     Enum_Value_Index ''NO_DATA_AVAILABLE'' 7,
     Enum_Value_Index ''STANDING_ROOM_ONLY'' 3]"

definition vehicle_position__occupancy_status__descriptor :: enum_descriptor where
  "vehicle_position__occupancy_status__descriptor = Enum_Descriptor
    ''transit_realtime.VehiclePosition.OccupancyStatus'' ''OccupancyStatus''
    ''TransitRealtime__VehiclePosition__OccupancyStatus'' ''transit_realtime''
    9 vehicle_position__occupancy_status__enum_values_by_number
    9 vehicle_position__occupancy_status__enum_values_by_name
    1 vehicle_position__occupancy_status__value_ranges"

definition vehicle_position__current_status__default_value :: scalar where
  "vehicle_position__current_status__default_value = Enum_Const VehiclePosition_VehicleStopStatus ''IN_TRANSIT_TO''"

definition vehicle_position__field_descriptors :: "field_descriptor list" where
  "vehicle_position__field_descriptors =
    [Field ''trip'' 1 OPTIONAL T_MESSAGE
        No_Offset (Offset_Of VehiclePosition ''trip'') (Message_Ref TripDescriptor) None 0,
     Field ''position'' 2 OPTIONAL T_MESSAGE
        No_Offset (Offset_Of VehiclePosition ''position'') (Message_Ref Position) None 0,
     Field ''current_stop_sequence'' 3 OPTIONAL T_UINT32
        (Offset_Of VehiclePosition ''has_current_stop_sequence'') (Offset_Of VehiclePosition ''current_stop_sequence'') Null_Descriptor None 0,
     Field ''current_status'' 4 OPTIONAL T_ENUM
        (Offset_Of VehiclePosition ''has_current_status'') (Offset_Of VehiclePosition ''current_status'') (Enum_Ref VehiclePosition_VehicleStopStatus) (Some vehicle_position__current_status__default_value) 0,
     Field ''timestamp'' 5 OPTIONAL T_UINT64
        (Offset_Of VehiclePosition ''has_timestamp'') (Offset_Of VehiclePosition ''timestamp'') Null_Descriptor None 0,
     Field ''congestion_level'' 6 OPTIONAL T_ENUM
        (Offset_Of VehiclePosition ''has_congestion_level'') (Offset_Of VehiclePosition ''congestion_level'') (Enum_Ref VehiclePosition_CongestionLevel) None 0,
     Field ''stop_id'' 7 OPTIONAL T_STRING
        No_Offset (Offset_Of VehiclePosition ''stop_id'') Null_Descriptor None 0,
     Field ''vehicle'' 8 OPTIONAL T_MESSAGE
        No_Offset (Offset_Of VehiclePosition ''vehicle'') (Message_Ref VehicleDescriptor) None 0,
     Field ''occupancy_status'' 9 OPTIONAL T_ENUM
        (Offset_Of VehiclePosition ''has_occupancy_status'') (Offset_Of VehiclePosition ''occupancy_status'') (Enum_Ref VehiclePosition_OccupancyStatus) None 0,
     Field ''occupancy_percentage'' 10 OPTIONAL T_UINT32
        (Offset_Of VehiclePosition ''has_occupancy_percentage'') (Offset_Of VehiclePosition ''occupancy_percentage'') Null_Descriptor None 0,
     Field ''multi_carriage_details'' 11 REPEATED T_MESSAGE
        (Offset_Of VehiclePosition ''n_multi_carriage_details'') (Offset_Of VehiclePosition ''multi_carriage_details'') (Message_Ref VehiclePosition_CarriageDetails) None 0]"

definition vehicle_position__field_indices_by_name :: "nat list" where
  "vehicle_position__field_indices_by_name = [5, 3, 2, 10, 9, 8, 1, 6, 4, 0, 7]"

definition vehicle_position__number_ranges :: "int_range list" where
  "vehicle_position__number_ranges = [Int_Range 1 0, Int_Range 0 11]"

definition vehicle_position__descriptor :: message_descriptor where
  "vehicle_position__descriptor = Message_Descriptor
    ''transit_realtime.VehiclePosition'' ''VehiclePosition'' ''TransitRealtime__VehiclePosition'' ''transit_realtime''
    VehiclePosition 11
    vehicle_position__field_descriptors
    vehicle_position__field_indices_by_name
    1 vehicle_position__number_ranges
    VehiclePosition"

definition alert__cause__enum_values_by_number :: "enum_value list" where
  "alert__cause__enum_values_by_number =
    [Enum_Value ''UNKNOWN_CAUSE''
       ''TRANSIT_REALTIME__ALERT__CAUSE__UNKNOWN_CAUSE'' 1,
     Enum_Value ''OTHER_CAUSE''
       ''TRANSIT_REALTIME__ALERT__CAUSE__OTHER_CAUSE'' 2,
     Enum_Value ''TECHNICAL_PROBLEM''
       ''TRANSIT_REALTIME__ALERT__CAUSE__TECHNICAL_PROBLEM'' 3,
     Enum_Value ''STRIKE''
       ''TRANSIT_REALTIME__ALERT__CAUSE__STRIKE'' 4,
     Enum_Value ''DEMONSTRATION''
       ''TRANSIT_REALTIME__ALERT__CAUSE__DEMONSTRATION'' 5,
     Enum_Value ''ACCIDENT''
       ''TRANSIT_REALTIME__ALERT__CAUSE__ACCIDENT'' 6,
     Enum_Value ''HOLIDAY''
       ''TRANSIT_REALTIME__ALERT__CAUSE__HOLIDAY'' 7,
     Enum_Value ''WEATHER''
       ''TRANSIT_REALTIME__ALERT__CAUSE__WEATHER'' 8,
     Enum_Value ''MAINTENANCE''
       ''TRANSIT_REALTIME__ALERT__CAUSE__MAINTENANCE'' 9,
     Enum_Value ''CONSTRUCTION''
       ''TRANSIT_REALTIME__ALERT__CAUSE__CONSTRUCTION'' 10,
     Enum_Value ''POLICE_ACTIVITY''
       ''TRANSIT_REALTIME__ALERT__CAUSE__POLICE_ACTIVITY'' 11,
     Enum_Value ''MEDICAL_EMERGENCY''
       ''TRANSIT_REALTIME__ALERT__CAUSE__MEDICAL_EMERGENCY'' 12]"

definition alert__cause__value_ranges :: "int_range list" where
  "alert__cause__value_ranges = [Int_Range 1 0, Int_Range 0 12]"

definition alert__cause__enum_values_by_name :: "enum_value_index list" where
  "alert__cause__enum_values_by_name =
    [Enum_Value_Index ''ACCIDENT'' 5,
     Enum_Value_Index ''CONSTRUCTION'' 9,
     Enum_Value_Index ''DEMONSTRATION'' 4,
     Enum_Value_Index ''HOLIDAY'' 6,
     Enum_Value_Index ''MAINTENANCE'' 8,
     Enum_Value_Index ''MEDICAL_EMERGENCY'' 11,
     Enum_Value_Index ''OTHER_CAUSE'' 1,
     Enum_Value_Index ''POLICE_ACTIVITY'' 10,
     Enum_Value_Index ''STRIKE'' 3,
     Enum_Value_Index ''TECHNICAL_PROBLEM'' 2,
     Enum_Value_Index ''UNKNOWN_CAUSE'' 0,
     Enum_Value_Index ''WEATHER'' 7]"

definition alert__cause__descriptor :: enum_descriptor where
  "alert__cause__descriptor = Enum_Descriptor
    ''transit_realtime.Alert.Cause'' ''Cause''
    ''TransitRealtime__Alert__Cause'' ''transit_realtime''
    12 alert__cause__enum_values_by_number
    12 alert__cause__enum_values_by_name
    1 alert__cause__value_ranges"

definition alert__effect__enum_values_by_number :: "enum_value list" where
  "alert__effect__enum_values_by_number =
    [Enum_Value ''NO_SERVICE''
       ''TRANSIT_REALTIME__ALERT__EFFECT__NO_SERVICE'' 1,
     Enum_Value ''REDUCED_SERVICE''
       ''TRANSIT_REALTIME__ALERT__EFFECT__REDUCED_SERVICE'' 2,
     Enum_Value ''SIGNIFICANT_DELAYS''
       ''TRANSIT_REALTIME__ALERT__EFFECT__SIGNIFICANT_DELAYS'' 3,
     Enum_Value ''DETOUR''
       ''TRANSIT_REALTIME__ALERT__EFFECT__DETOUR'' 4,
     Enum_Value ''ADDITIONAL_SERVICE''
       ''TRANSIT_REALTIME__ALERT__EFFECT__ADDITIONAL_SERVICE'' 5,
     Enum_Value ''MODIFIED_SERVICE''
       ''TRANSIT_REALTIME__ALERT__EFFECT__MODIFIED_SERVICE'' 6,
     Enum_Value ''OTHER_EFFECT''
       ''TRANSIT_REALTIME__ALERT__EFFECT__OTHER_EFFECT'' 7,
     Enum_Value ''UNKNOWN_EFFECT''
       ''TRANSIT_REALTIME__ALERT__EFFECT__UNKNOWN_EFFECT'' 8,
     Enum_Value ''STOP_MOVED''
       ''TRANSIT_REALTIME__ALERT__EFFECT__STOP_MOVED'' 9,
     Enum_Value ''NO_EFFECT''
       ''TRANSIT_REALTIME__ALERT__EFFECT__NO_EFFECT'' 10,
     Enum_Value ''ACCESSIBILITY_ISSUE''
       ''TRANSIT_REALTIME__ALERT__EFFECT__ACCESSIBILITY_ISSUE'' 11]"

definition alert__effect__value_ranges :: "int_range list" where
  "alert__effect__value_ranges = [Int_Range 1 0, Int_Range 0 11]"

definition alert__effect__enum_values_by_name :: "enum_value_index list" where
  "alert__effect__enum_values_by_name =
    [Enum_Value_Index ''ACCESSIBILITY_ISSUE'' 10,
     Enum_Value_Index ''ADDITIONAL_SERVICE'' 4,
     Enum_Value_Index ''DETOUR'' 3,
     Enum_Value_Index ''MODIFIED_SERVICE'' 5,
     Enum_Value_Index ''NO_EFFECT'' 9,
     Enum_Value_Index ''NO_SERVICE'' 0,
     Enum_Value_Index ''OTHER_EFFECT'' 6,
     Enum_Value_Index ''REDUCED_SERVICE'' 1,
     Enum_Value_Index ''SIGNIFICANT_DELAYS'' 2,
     Enum_Value_Index ''STOP_MOVED'' 8,
     Enum_Value_Index ''UNKNOWN_EFFECT'' 7]"

definition alert__effect__descriptor :: enum_descriptor where
  "alert__effect__descriptor = Enum_Descriptor
    ''transit_realtime.Alert.Effect'' ''Effect''
    ''TransitRealtime__Alert__Effect'' ''transit_realtime''
    11 alert__effect__enum_values_by_number
    11 alert__effect__enum_values_by_name
    1 alert__effect__value_ranges"

definition alert__severity_level__enum_values_by_number :: "enum_value list" where
  "alert__severity_level__enum_values_by_number =
    [Enum_Value ''UNKNOWN_SEVERITY''
       ''TRANSIT_REALTIME__ALERT__SEVERITY_LEVEL__UNKNOWN_SEVERITY'' 1,
     Enum_Value ''INFO''
       ''TRANSIT_REALTIME__ALERT__SEVERITY_LEVEL__INFO'' 2,
     Enum_Value ''WARNING''
       ''TRANSIT_REALTIME__ALERT__SEVERITY_LEVEL__WARNING'' 3,
     Enum_Value ''SEVERE''
       ''TRANSIT_REALTIME__ALERT__SEVERITY_LEVEL__SEVERE'' 4]"

definition alert__severity_level__value_ranges :: "int_range list" where
  "alert__severity_level__value_ranges = [Int_Range 1 0, Int_Range 0 4]"

definition alert__severity_level__enum_values_by_name :: "enum_value_index list" where
  "alert__severity_level__enum_values_by_name =
    [Enum_Value_Index ''INFO'' 1,
     Enum_Value_Index ''SEVERE'' 3,
     Enum_Value_Index ''UNKNOWN_SEVERITY'' 0,
     Enum_Value_Index ''WARNING'' 2]"

definition alert__severity_level__descriptor :: enum_descriptor where
  "alert__severity_level__descriptor = Enum_Descriptor
    ''transit_realtime.Alert.SeverityLevel'' ''SeverityLevel''
    ''TransitRealtime__Alert__SeverityLevel'' ''transit_realtime''
    4 alert__severity_level__enum_values_by_number
    4 alert__severity_level__enum_values_by_name
    1 alert__severity_level__value_ranges"

definition alert__cause__default_value :: scalar where
  "alert__cause__default_value = Enum_Const Alert_Cause ''UNKNOWN_CAUSE''"

definition alert__effect__default_value :: scalar where
  "alert__effect__default_value = Enum_Const Alert_Effect ''UNKNOWN_EFFECT''"

definition alert__severity_level__default_value :: scalar where
  "alert__severity_level__default_value = Enum_Const Alert_SeverityLevel ''UNKNOWN_SEVERITY''"

definition alert__field_descriptors :: "field_descriptor list" where
  "alert__field_descriptors =
    [Field ''active_period'' 1 REPEATED T_MESSAGE
        (Offset_Of Alert ''n_active_period'') (Offset_Of Alert ''active_period'') (Message_Ref TimeRange) None 0,
     Field ''informed_entity'' 5 REPEATED T_MESSAGE
        (Offset_Of Alert ''n_informed_entity'') (Offset_Of Alert ''informed_entity'') (Message_Ref EntitySelector) None 0,
     Field ''cause'' 6 OPTIONAL T_ENUM
        (Offset_Of Alert ''has_cause'') (Offset_Of Alert ''cause'') (Enum_Ref Alert_Cause) (Some alert__cause__default_value) 0,
     Field ''effect'' 7 OPTIONAL T_ENUM
        (Offset_Of Alert ''has_effect'') (Offset_Of Alert ''effect'') (Enum_Ref Alert_Effect) (Some alert__effect__default_value) 0,
     Field ''url'' 8 OPTIONAL T_MESSAGE
        No_Offset (Offset_Of Alert ''url'') (Message_Ref TranslatedString) None 0,
     Field ''header_text'' 10 OPTIONAL T_MESSAGE
        No_Offset (Offset_Of Alert ''header_text'') (Message_Ref TranslatedString) None 0,
     Field ''description_text'' 11 OPTIONAL T_MESSAGE
        No_Offset (Offset_Of Alert ''description_text'') (Message_Ref TranslatedString) None 0,
     Field ''tts_header_text'' 12 OPTIONAL T_MESSAGE
        No_Offset (Offset_Of Alert ''tts_header_text'') (Message_Ref TranslatedString) None 0,
     Field ''tts_description_text'' 13 OPTIONAL T_MESSAGE
        No_Offset (Offset_Of Alert ''tts_description_text'') (Message_Ref TranslatedString) None 0,
     Field ''severity_level'' 14 OPTIONAL T_ENUM
        (Offset_Of Alert ''has_severity_level'') (Offset_Of Alert ''severity_level'') (Enum_Ref Alert_SeverityLevel) (Some alert__severity_level__default_value) 0,
     Field ''image'' 15 OPTIONAL T_MESSAGE
        No_Offset (Offset_Of Alert ''image'') (Message_Ref TranslatedImage) None 0,
     Field ''image_alternative_text'' 16 OPTIONAL T_MESSAGE
        No_Offset (Offset_Of Alert ''image_alternative_text'') (Message_Ref TranslatedString) None 0,
     Field ''cause_detail'' 17 OPTIONAL T_MESSAGE
        No_Offset (Offset_Of Alert ''cause_detail'') (Message_Ref TranslatedString) None 0,
     Field ''effect_detail'' 18 OPTIONAL T_MESSAGE
        No_Offset (Offset_Of Alert ''effect_detail'') (Message_Ref TranslatedString) None 0]"

definition alert__field_indices_by_name :: "nat list" where
  "alert__field_indices_by_name = [0, 2, 12, 6, 3, 13, 5, 10, 11, 1, 9, 8, 7, 4]"

definition alert__number_ranges :: "int_range list" where
  "alert__number_ranges = [Int_Range 1 0, Int_Range 5 1, Int_Range 10 5, Int_Range 0 14]"

definition alert__descriptor :: message_descriptor where
  "alert__descriptor = Message_Descriptor
    ''transit_realtime.Alert'' ''Alert'' ''TransitRealtime__Alert'' ''transit_realtime''
    Alert 14
    alert__field_descriptors
    alert__field_indices_by_name
    3 alert__number_ranges
    Alert"

end
