(* ===== verification/Pb_Tables_3.thy ===== *)
theory Pb_Tables_3
  imports Pb_Types
begin

text \<open>
  The descriptor tables of \<open>src/ingestion/gtfs-realtime.pb-c.c\<close> for positions, descriptors, selectors and translated strings,
  in the order of the file.
\<close>

definition time_range__field_descriptors :: "field_descriptor list" where
  "time_range__field_descriptors =
    [Field ''start'' 1 OPTIONAL T_UINT64
        (Offset_Of TimeRange ''has_start'') (Offset_Of TimeRange ''start'') Null_Descriptor None 0,
     Field ''end'' 2 OPTIONAL T_UINT64
        (Offset_Of TimeRange ''has_end'') (Offset_Of TimeRange ''end'') Null_Descriptor None 0]"

definition time_range__field_indices_by_name :: "nat list" where
  "time_range__field_indices_by_name = [1, 0]"

definition time_range__number_ranges :: "int_range list" where
  "time_range__number_ranges = [Int_Range 1 0, Int_Range 0 2]"

definition time_range__descriptor :: message_descriptor where
  "time_range__descriptor = Message_Descriptor
    ''transit_realtime.TimeRange'' ''TimeRange'' ''TransitRealtime__TimeRange'' ''transit_realtime''
    TimeRange 2
    time_range__field_descriptors
    time_range__field_indices_by_name
    1 time_range__number_ranges
    TimeRange"

definition position__field_descriptors :: "field_descriptor list" where
  "position__field_descriptors =
    [Field ''latitude'' 1 REQUIRED T_FLOAT
        No_Offset (Offset_Of Position ''latitude'') Null_Descriptor None 0,
     Field ''longitude'' 2 REQUIRED T_FLOAT
        No_Offset (Offset_Of Position ''longitude'') Null_Descriptor None 0,
     Field ''bearing'' 3 OPTIONAL T_FLOAT
        (Offset_Of Position ''has_bearing'') (Offset_Of Position ''bearing'') Null_Descriptor None 0,
     Field ''odometer'' 4 OPTIONAL T_DOUBLE
        (Offset_Of Position ''has_odometer'') (Offset_Of Position ''odometer'') Null_Descriptor None 0,
     Field ''speed'' 5 OPTIONAL T_FLOAT
        (Offset_Of Position ''has_speed'') (Offset_Of Position ''speed'') Null_Descriptor None 0]"

definition position__field_indices_by_name :: "nat list" where
  "position__field_indices_by_name = [2, 0, 1, 3, 4]"

definition position__number_ranges :: "int_range list" where
  "position__number_ranges = [Int_Range 1 0, Int_Range 0 5]"

definition position__descriptor :: message_descriptor where
  "position__descriptor = Message_Descriptor
    ''transit_realtime.Position'' ''Position'' ''TransitRealtime__Position'' ''transit_realtime''
    Position 5
    position__field_descriptors
    position__field_indices_by_name
    1 position__number_ranges
    Position"

definition trip_descriptor__modified_trip_selector__field_descriptors :: "field_descriptor list" where
  "trip_descriptor__modified_trip_selector__field_descriptors =
    [Field ''modifications_id'' 1 OPTIONAL T_STRING
        No_Offset (Offset_Of TripDescriptor_ModifiedTripSelector ''modifications_id'') Null_Descriptor None 0,
     Field ''affected_trip_id'' 2 OPTIONAL T_STRING
        No_Offset (Offset_Of TripDescriptor_ModifiedTripSelector ''affected_trip_id'') Null_Descriptor None 0,
     Field ''start_time'' 3 OPTIONAL T_STRING
        No_Offset (Offset_Of TripDescriptor_ModifiedTripSelector ''start_time'') Null_Descriptor None 0,
     Field ''start_date'' 4 OPTIONAL T_STRING
        No_Offset (Offset_Of TripDescriptor_ModifiedTripSelector ''start_date'') Null_Descriptor None 0]"

definition trip_descriptor__modified_trip_selector__field_indices_by_name :: "nat list" where
  "trip_descriptor__modified_trip_selector__field_indices_by_name = [1, 0, 3, 2]"

definition trip_descriptor__modified_trip_selector__number_ranges :: "int_range list" where
  "trip_descriptor__modified_trip_selector__number_ranges = [Int_Range 1 0, Int_Range 0 4]"

definition trip_descriptor__modified_trip_selector__descriptor :: message_descriptor where
  "trip_descriptor__modified_trip_selector__descriptor = Message_Descriptor
    ''transit_realtime.TripDescriptor.ModifiedTripSelector'' ''ModifiedTripSelector'' ''TransitRealtime__TripDescriptor__ModifiedTripSelector'' ''transit_realtime''
    TripDescriptor_ModifiedTripSelector 4
    trip_descriptor__modified_trip_selector__field_descriptors
    trip_descriptor__modified_trip_selector__field_indices_by_name
    1 trip_descriptor__modified_trip_selector__number_ranges
    TripDescriptor_ModifiedTripSelector"

definition trip_descriptor__schedule_relationship__enum_values_by_number :: "enum_value list" where
  "trip_descriptor__schedule_relationship__enum_values_by_number =
    [Enum_Value ''SCHEDULED''
       ''TRANSIT_REALTIME__TRIP_DESCRIPTOR__SCHEDULE_RELATIONSHIP__SCHEDULED'' 0,
     Enum_Value ''ADDED''
       ''TRANSIT_REALTIME__TRIP_DESCRIPTOR__SCHEDULE_RELATIONSHIP__ADDED'' 1,
     Enum_Value ''UNSCHEDULED''
       ''TRANSIT_REALTIME__TRIP_DESCRIPTOR__SCHEDULE_RELATIONSHIP__UNSCHEDULED'' 2,
     Enum_Value ''CANCELED''
       ''TRANSIT_REALTIME__TRIP_DESCRIPTOR__SCHEDULE_RELATIONSHIP__CANCELED'' 3,
     Enum_Value ''REPLACEMENT''
       ''TRANSIT_REALTIME__TRIP_DESCRIPTOR__SCHEDULE_RELATIONSHIP__REPLACEMENT'' 5,
     Enum_Value ''DUPLICATED''
       ''TRANSIT_REALTIME__TRIP_DESCRIPTOR__SCHEDULE_RELATIONSHIP__DUPLICATED'' 6,
     Enum_Value ''DELETED''
       ''TRANSIT_REALTIME__TRIP_DESCRIPTOR__SCHEDULE_RELATIONSHIP__DELETED'' 7,
     Enum_Value ''NEW''
       ''TRANSIT_REALTIME__TRIP_DESCRIPTOR__SCHEDULE_RELATIONSHIP__NEW'' 8]"

definition trip_descriptor__schedule_relationship__value_ranges :: "int_range list" where
  "trip_descriptor__schedule_relationship__value_ranges = [Int_Range 0 0, Int_Range 5 4, Int_Range 0 8]"

definition trip_descriptor__schedule_relationship__enum_values_by_name :: "enum_value_index list" where
  "trip_descriptor__schedule_relationship__enum_values_by_name =
    [Enum_Value_Index ''ADDED'' 1,
     Enum_Value_Index ''CANCELED'' 3,
     Enum_Value_Index ''DELETED'' 6,
     Enum_Value_Index ''DUPLICATED'' 5,
     Enum_Value_Index ''NEW'' 7,
     Enum_Value_Index ''REPLACEMENT'' 4,
     Enum_Value_Index ''SCHEDULED'' 0,
     Enum_Value_Index ''UNSCHEDULED'' 2]"

definition trip_descriptor__schedule_relationship__descriptor :: enum_descriptor where
  "trip_descriptor__schedule_relationship__descriptor = Enum_Descriptor
    ''transit_realtime.TripDescriptor.ScheduleRelationship'' ''ScheduleRelationship''
    ''TransitRealtime__TripDescriptor__ScheduleRelationship'' ''transit_realtime''
    8 trip_descriptor__schedule_relationship__enum_values_by_number
    8 trip_descriptor__schedule_relationship__enum_values_by_name
    2 trip_descriptor__schedule_relationship__value_ranges"

definition trip_descriptor__field_descriptors :: "field_descriptor list" where
  "trip_descriptor__field_descriptors =
    [Field ''trip_id'' 1 OPTIONAL T_STRING
        No_Offset (Offset_Of TripDescriptor ''trip_id'') Null_Descriptor None 0,
     Field ''start_time'' 2 OPTIONAL T_STRING
        No_Offset (Offset_Of TripDescriptor ''start_time'') Null_Descriptor None 0,
     Field ''start_date'' 3 OPTIONAL T_STRING
        No_Offset (Offset_Of TripDescriptor ''start_date'') Null_Descriptor None 0,
     Field ''schedule_relationship'' 4 OPTIONAL T_ENUM
        (Offset_Of TripDescriptor ''has_schedule_relationship'') (Offset_Of TripDescriptor ''schedule_relationship'') (Enum_Ref TripDescriptor_ScheduleRelationship) None 0,
     Field ''route_id'' 5 OPTIONAL T_STRING
        No_Offset (Offset_Of TripDescriptor ''route_id'') Null_Descriptor None 0,
     Field ''direction_id'' 6 OPTIONAL T_UINT32
        (Offset_Of TripDescriptor ''has_direction_id'') (Offset_Of TripDescriptor ''direction_id'') Null_Descriptor None 0,
     Field ''modified_trip'' 7 OPTIONAL T_MESSAGE
        No_Offset (Offset_Of TripDescriptor ''modified_trip'') (Message_Ref TripDescriptor_ModifiedTripSelector) None 0]"

definition trip_descriptor__field_indices_by_name :: "nat list" where
  "trip_descriptor__field_indices_by_name = [5, 6, 4, 3, 2, 1, 0]"

definition trip_descriptor__number_ranges :: "int_range list" where
  "trip_descriptor__number_ranges = [Int_Range 1 0, Int_Range 0 7]"

definition trip_descriptor__descriptor :: message_descriptor where
  "trip_descriptor__descriptor = Message_Descriptor
    ''transit_realtime.TripDescriptor'' ''TripDescriptor'' ''TransitRealtime__TripDescriptor'' ''transit_realtime''
    TripDescriptor 7
    trip_descriptor__field_descriptors
    trip_descriptor__field_indices_by_name
    1 trip_descriptor__number_ranges
    TripDescriptor"

definition vehicle_descriptor__wheelchair_accessible__enum_values_by_number :: "enum_value list" where
  "vehicle_descriptor__wheelchair_accessible__enum_values_by_number =
    [Enum_Value ''NO_VALUE''
       ''TRANSIT_REALTIME__VEHICLE_DESCRIPTOR__WHEELCHAIR_ACCESSIBLE__NO_VALUE'' 0,
     Enum_Value ''UNKNOWN''
       ''TRANSIT_REALTIME__VEHICLE_DESCRIPTOR__WHEELCHAIR_ACCESSIBLE__UNKNOWN'' 1,
     Enum_Value ''WHEELCHAIR_ACCESSIBLE''
       ''TRANSIT_REALTIME__VEHICLE_DESCRIPTOR__WHEELCHAIR_ACCESSIBLE__WHEELCHAIR_ACCESSIBLE'' 2,
     Enum_Value ''WHEELCHAIR_INACCESSIBLE''
       ''TRANSIT_REALTIME__VEHICLE_DESCRIPTOR__WHEELCHAIR_ACCESSIBLE__WHEELCHAIR_INACCESSIBLE'' 3]"

definition vehicle_descriptor__wheelchair_accessible__value_ranges :: "int_range list" where
  "vehicle_descriptor__wheelchair_accessible__value_ranges = [Int_Range 0 0, Int_Range 0 4]"

definition vehicle_descriptor__wheelchair_accessible__enum_values_by_name :: "enum_value_index list" where
  "vehicle_descriptor__wheelchair_accessible__enum_values_by_name =
    [Enum_Value_Index ''NO_VALUE'' 0,
     Enum_Value_Index ''UNKNOWN'' 1,
     Enum_Value_Index ''WHEELCHAIR_ACCESSIBLE'' 2,
     Enum_Value_Index ''WHEELCHAIR_INACCESSIBLE'' 3]"

definition vehicle_descriptor__wheelchair_accessible__descriptor :: enum_descriptor where
  "vehicle_descriptor__wheelchair_accessible__descriptor = Enum_Descriptor
    ''transit_realtime.VehicleDescriptor.WheelchairAccessible'' ''WheelchairAccessible''
    ''TransitRealtime__VehicleDescriptor__WheelchairAccessible'' ''transit_realtime''
    4 vehicle_descriptor__wheelchair_accessible__enum_values_by_number
    4 vehicle_descriptor__wheelchair_accessible__enum_values_by_name
    1 vehicle_descriptor__wheelchair_accessible__value_ranges"

definition vehicle_descriptor__wheelchair_accessible__default_value :: scalar where
  "vehicle_descriptor__wheelchair_accessible__default_value = Enum_Const VehicleDescriptor_WheelchairAccessible ''NO_VALUE''"

definition vehicle_descriptor__field_descriptors :: "field_descriptor list" where
  "vehicle_descriptor__field_descriptors =
    [Field ''id'' 1 OPTIONAL T_STRING
        No_Offset (Offset_Of VehicleDescriptor ''id'') Null_Descriptor None 0,
     Field ''label'' 2 OPTIONAL T_STRING
        No_Offset (Offset_Of VehicleDescriptor ''label'') Null_Descriptor None 0,
     Field ''license_plate'' 3 OPTIONAL T_STRING
        No_Offset (Offset_Of VehicleDescriptor ''license_plate'') Null_Descriptor None 0,
     Field ''wheelchair_accessible'' 4 OPTIONAL T_ENUM
        (Offset_Of VehicleDescriptor ''has_wheelchair_accessible'') (Offset_Of VehicleDescriptor ''wheelchair_accessible'') (Enum_Ref VehicleDescriptor_WheelchairAccessible) (Some vehicle_descriptor__wheelchair_accessible__default_value) 0]"

definition vehicle_descriptor__field_indices_by_name :: "nat list" where
  "vehicle_descriptor__field_indices_by_name = [0, 1, 2, 3]"

definition vehicle_descriptor__number_ranges :: "int_range list" where
  "vehicle_descriptor__number_ranges = [Int_Range 1 0, Int_Range 0 4]"

definition vehicle_descriptor__descriptor :: message_descriptor where
  "vehicle_descriptor__descriptor = Message_Descriptor
    ''transit_realtime.VehicleDescriptor'' ''VehicleDescriptor'' ''TransitRealtime__VehicleDescriptor'' ''transit_realtime''
    VehicleDescriptor 4
    vehicle_descriptor__field_descriptors
    vehicle_descriptor__field_indices_by_name
    1 vehicle_descriptor__number_ranges
    VehicleDescriptor"

definition entity_selector__field_descriptors :: "field_descriptor list" where
  "entity_selector__field_descriptors =
    [Field ''agency_id'' 1 OPTIONAL T_STRING
        No_Offset (Offset_Of EntitySelector ''agency_id'') Null_Descriptor None 0,
     Field ''route_id'' 2 OPTIONAL T_STRING
        No_Offset (Offset_Of EntitySelector ''route_id'') Null_Descriptor None 0,
     Field ''route_type'' 3 OPTIONAL T_INT32
        (Offset_Of EntitySelector ''has_route_type'') (Offset_Of EntitySelector ''route_type'') Null_Descriptor None 0,
     Field ''trip'' 4 OPTIONAL T_MESSAGE
        No_Offset (Offset_Of EntitySelector ''trip'') (Message_Ref TripDescriptor) None 0,
     Field ''stop_id'' 5 OPTIONAL T_STRING
        No_Offset (Offset_Of EntitySelector ''stop_id'') Null_Descriptor None 0,
     Field ''direction_id'' 6 OPTIONAL T_UINT32
        (Offset_Of EntitySelector ''has_direction_id'') (Offset_Of EntitySelector ''direction_id'') Null_Descriptor None 0]"

definition entity_selector__field_indices_by_name :: "nat list" where
  "entity_selector__field_indices_by_name = [0, 5, 1, 2, 4, 3]"

definition entity_selector__number_ranges :: "int_range list" where
  "entity_selector__number_ranges = [Int_Range 1 0, Int_Range 0 6]"

definition entity_selector__descriptor :: message_descriptor where
  "entity_selector__descriptor = Message_Descriptor
    ''transit_realtime.EntitySelector'' ''EntitySelector'' ''TransitRealtime__EntitySelector'' ''transit_realtime''
    EntitySelector 6
    entity_selector__field_descriptors
    entity_selector__field_indices_by_name
    1 entity_selector__number_ranges
    EntitySelector"

definition translated_string__translation__field_descriptors :: "field_descriptor list" where
  "translated_string__translation__field_descriptors =
    [Field ''text'' 1 REQUIRED T_STRING
        No_Offset (Offset_Of TranslatedString_Translation ''text'') Null_Descriptor None 0,
     Field ''language'' 2 OPTIONAL T_STRING
        No_Offset (Offset_Of TranslatedString_Translation ''language'') Null_Descriptor None 0]"

definition translated_string__translation__field_indices_by_name :: "nat list" where
  "translated_string__translation__field_indices_by_name = [1, 0]"

definition translated_string__translation__number_ranges :: "int_range list" where
  "translated_string__translation__number_ranges = [Int_Range 1 0, Int_Range 0 2]"

definition translated_string__translation__descriptor :: message_descriptor where
  "translated_string__translation__descriptor = Message_Descriptor
    ''transit_realtime.TranslatedString.Translation'' ''Translation'' ''TransitRealtime__TranslatedString__Translation'' ''transit_realtime''
    TranslatedString_Translation 2
    translated_string__translation__field_descriptors
    translated_string__translation__field_indices_by_name
    1 translated_string__translation__number_ranges
    TranslatedString_Translation"

definition translated_string__field_descriptors :: "field_descriptor list" where
  "translated_string__field_descriptors =
    [Field ''translation'' 1 REPEATED T_MESSAGE
        (Offset_Of TranslatedString ''n_translation'') (Offset_Of TranslatedString ''translation'') (Message_Ref TranslatedString_Translation) None 0]"

definition translated_string__field_indices_by_name :: "nat list" where
  "translated_string__field_indices_by_name = [0]"

definition translated_string__number_ranges :: "int_range list" where
  "translated_string__number_ranges = [Int_Range 1 0, Int_Range 0 1]"

definition translated_string__descriptor :: message_descriptor where
  "translated_string__descriptor = Message_Descriptor
    ''transit_realtime.TranslatedString'' ''TranslatedString'' ''TransitRealtime__TranslatedString'' ''transit_realtime''
    TranslatedString 1
    translated_string__field_descriptors
    translated_string__field_indices_by_name
    1 translated_string__number_ranges
    TranslatedString"

end
