(* ===== verification/Pb_Tables_4.thy ===== *)
theory Pb_Tables_4
  imports Pb_Types
begin

text \<open>
  The descriptor tables of \<open>src/ingestion/gtfs-realtime.pb-c.c\<close> for images, shapes, stops and trip modifications,
  in the order of the file.
\<close>

definition translated_image__localized_image__field_descriptors :: "field_descriptor list" where
  "translated_image__localized_image__field_descriptors =
    [Field ''url'' 1 REQUIRED T_STRING
        No_Offset (Offset_Of TranslatedImage_LocalizedImage ''url'') Null_Descriptor None 0,
     Field ''media_type'' 2 REQUIRED T_STRING
        No_Offset (Offset_Of TranslatedImage_LocalizedImage ''media_type'') Null_Descriptor None 0,
     Field ''language'' 3 OPTIONAL T_STRING
        No_Offset (Offset_Of TranslatedImage_LocalizedImage ''language'') Null_Descriptor None 0]"

definition translated_image__localized_image__field_indices_by_name :: "nat list" where
  "translated_image__localized_image__field_indices_by_name = [2, 1, 0]"

definition translated_image__localized_image__number_ranges :: "int_range list" where
  "translated_image__localized_image__number_ranges = [Int_Range 1 0, Int_Range 0 3]"

definition translated_image__localized_image__descriptor :: message_descriptor where
  "translated_image__localized_image__descriptor = Message_Descriptor
    ''transit_realtime.TranslatedImage.LocalizedImage'' ''LocalizedImage'' ''TransitRealtime__TranslatedImage__LocalizedImage'' ''transit_realtime''
    TranslatedImage_LocalizedImage 3
    translated_image__localized_image__field_descriptors
    translated_image__localized_image__field_indices_by_name
    1 translated_image__localized_image__number_ranges
    TranslatedImage_LocalizedImage"

definition translated_image__field_descriptors :: "field_descriptor list" where
  "translated_image__field_descriptors =
    [Field ''localized_image'' 1 REPEATED T_MESSAGE
        (Offset_Of TranslatedImage ''n_localized_image'') (Offset_Of TranslatedImage ''localized_image'') (Message_Ref TranslatedImage_LocalizedImage) None 0]"

definition translated_image__field_indices_by_name :: "nat list" where
  "translated_image__field_indices_by_name = [0]"

definition translated_image__number_ranges :: "int_range list" where
  "translated_image__number_ranges = [Int_Range 1 0, Int_Range 0 1]"

definition translated_image__descriptor :: message_descriptor where
  "translated_image__descriptor = Message_Descriptor
    ''transit_realtime.TranslatedImage'' ''TranslatedImage'' ''TransitRealtime__TranslatedImage'' ''transit_realtime''
    TranslatedImage 1
    translated_image__field_descriptors
    translated_image__field_indices_by_name
    1 translated_image__number_ranges
    TranslatedImage"

definition shape__field_descriptors :: "field_descriptor list" where
  "shape__field_descriptors =
    [Field ''shape_id'' 1 OPTIONAL T_STRING
        No_Offset (Offset_Of Shape ''shape_id'') Null_Descriptor None 0,
     Field ''encoded_polyline'' 2 OPTIONAL T_STRING
        No_Offset (Offset_Of Shape ''encoded_polyline'') Null_Descriptor None 0]"

definition shape__field_indices_by_name :: "nat list" where
  "shape__field_indices_by_name = [1, 0]"

definition shape__number_ranges :: "int_range list" where
  "shape__number_ranges = [Int_Range 1 0, Int_Range 0 2]"

definition shape__descriptor :: message_descriptor where
  "shape__descriptor = Message_Descriptor
    ''transit_realtime.Shape'' ''Shape'' ''TransitRealtime__Shape'' ''transit_realtime''
    Shape 2
    shape__field_descriptors
    shape__field_indices_by_name
    1 shape__number_ranges
    Shape"

definition stop__wheelchair_boarding__enum_values_by_number :: "enum_value list" where
  "stop__wheelchair_boarding__enum_values_by_number =
    [Enum_Value ''UNKNOWN''
       ''TRANSIT_REALTIME__STOP__WHEELCHAIR_BOARDING__UNKNOWN'' 0,
     Enum_Value ''AVAILABLE''
       ''TRANSIT_REALTIME__STOP__WHEELCHAIR_BOARDING__AVAILABLE'' 1,
     Enum_Value ''NOT_AVAILABLE''
       ''TRANSIT_REALTIME__STOP__WHEELCHAIR_BOARDING__NOT_AVAILABLE'' 2]"

definition stop__wheelchair_boarding__value_ranges :: "int_range list" where
  "stop__wheelchair_boarding__value_ranges = [Int_Range 0 0, Int_Range 0 3]"

definition stop__wheelchair_boarding__enum_values_by_name :: "enum_value_index list" where
  "stop__wheelchair_boarding__enum_values_by_name =
    [Enum_Value_Index ''AVAILABLE'' 1,
     Enum_Value_Index ''NOT_AVAILABLE'' 2,
     Enum_Value_Index ''UNKNOWN'' 0]"

definition stop__wheelchair_boarding__descriptor :: enum_descriptor where
  "stop__wheelchair_boarding__descriptor = Enum_Descriptor
    ''transit_realtime.Stop.WheelchairBoarding'' ''WheelchairBoarding''
    ''TransitRealtime__Stop__WheelchairBoarding'' ''transit_realtime''
    3 stop__wheelchair_boarding__enum_values_by_number
    3 stop__wheelchair_boarding__enum_values_by_name
    1 stop__wheelchair_boarding__value_ranges"

definition stop__wheelchair_boarding__default_value :: scalar where
  "stop__wheelchair_boarding__default_value = Enum_Const Stop_WheelchairBoarding ''UNKNOWN''"

definition stop__field_descriptors :: "field_descriptor list" where
  "stop__field_descriptors =
    [Field ''stop_id'' 1 OPTIONAL T_STRING
        No_Offset (Offset_Of Stop ''stop_id'') Null_Descriptor None 0,
     Field ''stop_code'' 2 OPTIONAL T_MESSAGE
        No_Offset (Offset_Of Stop ''stop_code'') (Message_Ref TranslatedString) None 0,
     Field ''stop_name'' 3 OPTIONAL T_MESSAGE
        No_Offset (Offset_Of Stop ''stop_name'') (Message_Ref TranslatedString) None 0,
     Field ''tts_stop_name'' 4 OPTIONAL T_MESSAGE
        No_Offset (Offset_Of Stop ''tts_stop_name'') (Message_Ref TranslatedString) None 0,
     Field ''stop_desc'' 5 OPTIONAL T_MESSAGE
        No_Offset (Offset_Of Stop ''stop_desc'') (Message_Ref TranslatedString) None 0,
     Field ''stop_lat'' 6 OPTIONAL T_FLOAT
        (Offset_Of Stop ''has_stop_lat'') (Offset_Of Stop ''stop_lat'') Null_Descriptor None 0,
     Field ''stop_lon'' 7 OPTIONAL T_FLOAT
        (Offset_Of Stop ''has_stop_lon'') (Offset_Of Stop ''stop_lon'') Null_Descriptor None 0,
     Field ''zone_id'' 8 OPTIONAL T_STRING
        No_Offset (Offset_Of Stop ''zone_id'') Null_Descriptor None 0,
     Field ''stop_url'' 9 OPTIONAL T_MESSAGE
        No_Offset (Offset_Of Stop ''stop_url'') (Message_Ref TranslatedString) None 0,
     Field ''parent_station'' 11 OPTIONAL T_STRING
        No_Offset (Offset_Of Stop ''parent_station'') Null_Descriptor None 0,
     Field ''stop_timezone'' 12 OPTIONAL T_STRING
        No_Offset (Offset_Of Stop ''stop_timezone'') Null_Descriptor None 0,
     Field ''wheelchair_boarding'' 13 OPTIONAL T_ENUM
        (Offset_Of Stop ''has_wheelchair_boarding'') (Offset_Of Stop ''wheelchair_boarding'') (Enum_Ref Stop_WheelchairBoarding) (Some stop__wheelchair_boarding__default_value) 0,
     Field ''level_id'' 14 OPTIONAL T_STRING
        No_Offset (Offset_Of Stop ''level_id'') Null_Descriptor None 0,
     Field ''platform_code'' 15 OPTIONAL T_MESSAGE
        No_Offset (Offset_Of Stop ''platform_code'') (Message_Ref TranslatedString) None 0]"

definition stop__field_indices_by_name :: "nat list" where
  "stop__field_indices_by_name = [12, 9, 13, 1, 4, 0, 5, 6, 2, 10, 8, 3, 11, 7]"

definition stop__number_ranges :: "int_range list" where
  "stop__number_ranges = [Int_Range 1 0, Int_Range 11 9, Int_Range 0 14]"

definition stop__descriptor :: message_descriptor where
  "stop__descriptor = Message_Descriptor
    ''transit_realtime.Stop'' ''Stop'' ''TransitRealtime__Stop'' ''transit_realtime''
    Stop 14
    stop__field_descriptors
    stop__field_indices_by_name
    2 stop__number_ranges
    Stop"

definition trip_modifications__modification__propagated_modification_delay__default_value :: scalar where
  "trip_modifications__modification__propagated_modification_delay__default_value = Int_Const 0"

definition trip_modifications__modification__field_descriptors :: "field_descriptor list" where
  "trip_modifications__modification__field_descriptors =
    [Field ''start_stop_selector'' 1 OPTIONAL T_MESSAGE
        No_Offset (Offset_Of TripModifications_Modification ''start_stop_selector'') (Message_Ref StopSelector) None 0,
     Field ''end_stop_selector'' 2 OPTIONAL T_MESSAGE
        No_Offset (Offset_Of TripModifications_Modification ''end_stop_selector'') (Message_Ref StopSelector) None 0,
     Field ''propagated_modification_delay'' 3 OPTIONAL T_INT32
        (Offset_Of TripModifications_Modification ''has_propagated_modification_delay'') (Offset_Of TripModifications_Modification ''propagated_modification_delay'') Null_Descriptor (Some trip_modifications__modification__propagated_modification_delay__default_value) 0,
     Field ''replacement_stops'' 4 REPEATED T_MESSAGE
        (Offset_Of TripModifications_Modification ''n_replacement_stops'') (Offset_Of TripModifications_Modification ''replacement_stops'') (Message_Ref ReplacementStop) None 0,
     Field ''service_alert_id'' 5 OPTIONAL T_STRING
        No_Offset (Offset_Of TripModifications_Modification ''service_alert_id'') Null_Descriptor None 0,
     Field ''last_modified_time'' 6 OPTIONAL T_UINT64
        (Offset_Of TripModifications_Modification ''has_last_modified_time'') (Offset_Of TripModifications_Modification ''last_modified_time'') Null_Descriptor None 0]"

definition trip_modifications__modification__field_indices_by_name :: "nat list" where
  "trip_modifications__modification__field_indices_by_name = [1, 5, 2, 3, 4, 0]"

definition trip_modifications__modification__number_ranges :: "int_range list" where
  "trip_modifications__modification__number_ranges = [Int_Range 1 0, Int_Range 0 6]"

definition trip_modifications__modification__descriptor :: message_descriptor where
  "trip_modifications__modification__descriptor = Message_Descriptor
    ''transit_realtime.TripModifications.Modification'' ''Modification'' ''TransitRealtime__TripModifications__Modification'' ''transit_realtime''
    TripModifications_Modification 6
    trip_modifications__modification__field_descriptors
    trip_modifications__modification__field_indices_by_name
    1 trip_modifications__modification__number_ranges
    TripModifications_Modification"

definition trip_modifications__selected_trips__field_descriptors :: "field_descriptor list" where
  "trip_modifications__selected_trips__field_descriptors =
    [Field ''trip_ids'' 1 REPEATED T_STRING
        (Offset_Of TripModifications_SelectedTrips ''n_trip_ids'') (Offset_Of TripModifications_SelectedTrips ''trip_ids'') Null_Descriptor None 0,
     Field ''shape_id'' 2 OPTIONAL T_STRING
        No_Offset (Offset_Of TripModifications_SelectedTrips ''shape_id'') Null_Descriptor None 0]"

definition trip_modifications__selected_trips__field_indices_by_name :: "nat list" where
  "trip_modifications__selected_trips__field_indices_by_name = [1, 0]"

definition trip_modifications__selected_trips__number_ranges :: "int_range list" where
  "trip_modifications__selected_trips__number_ranges = [Int_Range 1 0, Int_Range 0 2]"

definition trip_modifications__selected_trips__descriptor :: message_descriptor where
  "trip_modifications__selected_trips__descriptor = Message_Descriptor
    ''transit_realtime.TripModifications.SelectedTrips'' ''SelectedTrips'' ''TransitRealtime__TripModifications__SelectedTrips'' ''transit_realtime''
    TripModifications_SelectedTrips 2
    trip_modifications__selected_trips__field_descriptors
    trip_modifications__selected_trips__field_indices_by_name
    1 trip_modifications__selected_trips__number_ranges
    TripModifications_SelectedTrips"

definition trip_modifications__field_descriptors :: "field_descriptor list" where
  "trip_modifications__field_descriptors =
    [Field ''selected_trips'' 1 REPEATED T_MESSAGE
        (Offset_Of TripModifications ''n_selected_trips'') (Offset_Of TripModifications ''selected_trips'') (Message_Ref TripModifications_SelectedTrips) None 0,
     Field ''start_times'' 2 REPEATED T_STRING
        (Offset_Of TripModifications ''n_start_times'') (Offset_Of TripModifications ''start_times'') Null_Descriptor None 0,
     Field ''service_dates'' 3 REPEATED T_STRING
        (Offset_Of TripModifications ''n_service_dates'') (Offset_Of TripModifications ''service_dates'') Null_Descriptor None 0,
     Field ''modifications'' 4 REPEATED T_MESSAGE
        (Offset_Of TripModifications ''n_modifications'') (Offset_Of TripModifications ''modifications'') (Message_Ref TripModifications_Modification) None 0]"

definition trip_modifications__field_indices_by_name :: "nat list" where
  "trip_modifications__field_indices_by_name = [3, 0, 2, 1]"

definition trip_modifications__number_ranges :: "int_range list" where
  "trip_modifications__number_ranges = [Int_Range 1 0, Int_Range 0 4]"

definition trip_modifications__descriptor :: message_descriptor where
  "trip_modifications__descriptor = Message_Descriptor
    ''transit_realtime.TripModifications'' ''TripModifications'' ''TransitRealtime__TripModifications'' ''transit_realtime''
    TripModifications 4
    trip_modifications__field_descriptors
    trip_modifications__field_indices_by_name
    1 trip_modifications__number_ranges
    TripModifications"

definition stop_selector__field_descriptors :: "field_descriptor list" where
  "stop_selector__field_descriptors =
    [Field ''stop_sequence'' 1 OPTIONAL T_UINT32
        (Offset_Of StopSelector ''has_stop_sequence'') (Offset_Of StopSelector ''stop_sequence'') Null_Descriptor None 0,
     Field ''stop_id'' 2 OPTIONAL T_STRING
        No_Offset (Offset_Of StopSelector ''stop_id'') Null_Descriptor None 0]"

definition stop_selector__field_indices_by_name :: "nat list" where
  "stop_selector__field_indices_by_name = [1, 0]"

definition stop_selector__number_ranges :: "int_range list" where
  "stop_selector__number_ranges = [Int_Range 1 0, Int_Range 0 2]"

definition stop_selector__descriptor :: message_descriptor where
  "stop_selector__descriptor = Message_Descriptor
    ''transit_realtime.StopSelector'' ''StopSelector'' ''TransitRealtime__StopSelector'' ''transit_realtime''
    StopSelector 2
    stop_selector__field_descriptors
    stop_selector__field_indices_by_name
    1 stop_selector__number_ranges
    StopSelector"

definition replacement_stop__field_descriptors :: "field_descriptor list" where
  "replacement_stop__field_descriptors =
    [Field ''travel_time_to_stop'' 1 OPTIONAL T_INT32
        (Offset_Of ReplacementStop ''has_travel_time_to_stop'') (Offset_Of ReplacementStop ''travel_time_to_stop'') Null_Descriptor None 0,
     Field ''stop_id'' 2 OPTIONAL T_STRING
        No_Offset (Offset_Of ReplacementStop ''stop_id'') Null_Descriptor None 0]"

definition replacement_stop__field_indices_by_name :: "nat list" where
  "replacement_stop__field_indices_by_name = [1, 0]"

definition replacement_stop__number_ranges :: "int_range list" where
  "replacement_stop__number_ranges = [Int_Range 1 0, Int_Range 0 2]"

definition replacement_stop__descriptor :: message_descriptor where
  "replacement_stop__descriptor = Message_Descriptor
    ''transit_realtime.ReplacementStop'' ''ReplacementStop'' ''TransitRealtime__ReplacementStop'' ''transit_realtime''
    ReplacementStop 2
    replacement_stop__field_descriptors
    replacement_stop__field_indices_by_name
    1 replacement_stop__number_ranges
    ReplacementStop"

end
