(* ===== verification/Pb_Properties.thy ===== *)
theory Pb_Properties
  imports Pb_Check "HOL-Library.Multiset"
begin

text \<open>
  What the agreement of tables, structs and schema means for the library that interprets the
  tables: lookups by number and by value find exactly what the schema declares, every field
  has storage of its own inside its struct, and the recursion over nested messages is bounded.
\<close>

section \<open>Lookup by number\<close>

text \<open>The table entry for a field number, and for the value of an enum.\<close>

definition field_by_number :: "msg_id \<Rightarrow> int \<Rightarrow> field_descriptor option" where
  "field_by_number m v =
     (let d = message_descriptor_of m
      in map_option (\<lambda>i. md_fields d ! i) (range_lookup (md_ranges d) v))"

definition enum_value_by_number :: "enum_id \<Rightarrow> int \<Rightarrow> enum_value option" where
  "enum_value_by_number e v =
     (let d = enum_descriptor_of e
      in map_option (\<lambda>i. ed_values d ! i) (range_lookup (ed_ranges d) v))"

lemma distinct_numbers: "distinct (map pf_number (proto_of m))"
  by (induction m; code_simp)

lemma distinct_values: "distinct (map snd (proto_enum_of e))"
  by (induction e; code_simp)

section \<open>Storage of the fields\<close>

text \<open>
  The C layout of a message struct, given the layout \<open>b\<close> of the library's base struct. The
  library's boolean is an \<open>int\<close>, and an enum has the size of an \<open>int\<close>.
\<close>

fun member_ctype :: "ctype \<Rightarrow> member_type \<Rightarrow> ctype" where
  "member_ctype b M_Base = b"
| "member_ctype b M_Bool = C_Int"
| "member_ctype b M_Int32 = C_Int"
| "member_ctype b M_Uint32 = C_U32"
| "member_ctype b M_Int64 = C_I64"
| "member_ctype b M_Uint64 = C_U64"
| "member_ctype b M_Float = C_Float"
| "member_ctype b M_Double = C_Double"
| "member_ctype b M_Size = C_U64"
| "member_ctype b (M_Enum e) = C_Int"
| "member_ctype b M_String = C_Pointer"
| "member_ctype b (M_Message m) = C_Pointer"
| "member_ctype b M_String_Array = C_Pointer"
| "member_ctype b (M_Message_Array m) = C_Pointer"

definition message_layout :: "ctype \<Rightarrow> msg_id \<Rightarrow> (string \<times> ctype) list" where
  "message_layout b m = map (\<lambda>(n, t). (n, member_ctype b t)) (struct_of m)"

definition message_size :: "ctype \<Rightarrow> msg_id \<Rightarrow> nat" where
  "message_size b m = size_of (C_Struct 1 (message_layout b m))"

text \<open>The members a table entry points to, and the bytes \<open>(offset, size)\<close> of a member.\<close>

fun offset_member :: "offset \<Rightarrow> (msg_id \<times> string) list" where
  "offset_member No_Offset = []"
| "offset_member (Offset_Of m n) = [(m, n)]"

definition entry_members :: "field_descriptor \<Rightarrow> (msg_id \<times> string) list" where
  "entry_members d = offset_member (fd_quantifier d) @ offset_member (fd_offset d)"

definition member_bytes :: "ctype \<Rightarrow> msg_id \<times> string \<Rightarrow> (nat \<times> nat) option" where
  "member_bytes b = (\<lambda>(m, n).
     case (offset_of (message_layout b m) n, map_of (message_layout b m) n) of
       (Some off, Some t) \<Rightarrow> Some (off, size_of t)
     | _ \<Rightarrow> None)"

fun apart :: "nat \<times> nat \<Rightarrow> nat \<times> nat \<Rightarrow> bool" where
  "apart (off, n) (off', n') \<longleftrightarrow> off + n \<le> off' \<or> off' + n' \<le> off"

definition described_members :: "msg_id \<Rightarrow> (msg_id \<times> string) list" where
  "described_members m =
     (m, ''base'') # concat (map entry_members (md_fields (message_descriptor_of m)))"

lemma described_members_struct:
  "list_all (\<lambda>x. fst x = m \<and> snd x \<in> set (map fst (struct_of m))) (described_members m) \<and>
   list_all (\<lambda>x. (m, fst x) \<in> set (described_members m)) (struct_of m) \<and>
   distinct (described_members m)"
  by (induction m; code_simp)


text \<open>Distinct members are apart, and inside the struct.\<close>

lemma map_fst_message_layout: "map fst (message_layout b m) = map fst (struct_of m)"
  by (simp add: message_layout_def comp_def split_def)

lemma distinct_members: "distinct (map fst (message_layout b m))"
  using message_struct [of m] unfolding map_fst_message_layout conforms_struct_def by blast

lemma member_bytes_Some:
  assumes "n \<in> set (map fst (struct_of m))"
  obtains off t where "member_bytes b (m, n) = Some (off, size_of t)"
    "(n, off) \<in> set (member_offsets 0 (message_layout b m))"
    "(n, t) \<in> set (message_layout b m)"
proof -
  have "map_of (message_layout b m) n \<noteq> None"
    using assms by (metis map_fst_message_layout map_of_eq_None_iff set_map)
  moreover have "map_of (member_offsets 0 (message_layout b m)) n \<noteq> None"
    using assms by (metis map_fst_member_offsets map_fst_message_layout map_of_eq_None_iff set_map)
  ultimately obtain off t where
    "map_of (member_offsets 0 (message_layout b m)) n = Some off"
    "map_of (message_layout b m) n = Some t" by blast
  then show thesis
    by (intro that) (auto simp: member_bytes_def offset_of_def dest: map_of_SomeD)
qed

lemma member_bytes_apart:
  assumes "n \<in> set (map fst (struct_of m))" "n' \<in> set (map fst (struct_of m))" "n \<noteq> n'"
  shows "apart (the (member_bytes b (m, n))) (the (member_bytes b (m, n')))"
proof -
  obtain off t where 1: "member_bytes b (m, n) = Some (off, size_of t)"
    "(n, off) \<in> set (member_offsets 0 (message_layout b m))"
    "(n, t) \<in> set (message_layout b m)"
    using assms(1) by (rule member_bytes_Some)
  obtain off' t' where 2: "member_bytes b (m, n') = Some (off', size_of t')"
    "(n', off') \<in> set (member_offsets 0 (message_layout b m))"
    "(n', t') \<in> set (message_layout b m)"
    using assms(2) by (rule member_bytes_Some)
  from member_offsets_disjoint [OF 1(2) 2(2) distinct_members 1(3) 2(3) assms(3)]
  show ?thesis by (simp add: 1(1) 2(1))
qed

lemma member_bytes_within:
  assumes "n \<in> set (map fst (struct_of m))"
  shows "\<exists>off len. member_bytes b (m, n) = Some (off, len) \<and> off + len \<le> message_size b m"
proof -
  obtain off t where *: "member_bytes b (m, n) = Some (off, size_of t)"
    "(n, off) \<in> set (member_offsets 0 (message_layout b m))"
    "(n, t) \<in> set (message_layout b m)"
    using assms by (rule member_bytes_Some)
  have "off + size_of t \<le> message_size b m"
    unfolding message_size_def size_of.simps
    by (rule order_trans [OF member_offsets_within [OF *(2,3) distinct_members] align_up_ge
          [OF align_of_pos]])
  with *(1) show ?thesis by blast
qed

lemma described_members_apart:
  "sorted_wrt (\<lambda>x y. apart (the (member_bytes b x)) (the (member_bytes b y))) (described_members m)"
proof -
  have names: "list_all (\<lambda>x. fst x = m \<and> snd x \<in> set (map fst (struct_of m))) (described_members m)"
    and dist: "distinct (described_members m)"
    using described_members_struct by blast+
  show ?thesis
  proof (unfold sorted_wrt_iff_nth_less, intro allI impI)
    fix i j assume ij: "i < j" "j < length (described_members m)"
    define x y where "x = snd (described_members m ! i)" and "y = snd (described_members m ! j)"
    have names: "fst (described_members m ! k) = m \<and>
        snd (described_members m ! k) \<in> set (map fst (struct_of m))" if "k \<le> j" for k
      using names that ij(2) by (simp only: list_all_length)
    have xy: "described_members m ! i = (m, x)" "described_members m ! j = (m, y)"
      using names [of i] names [of j] ij(1) by (simp_all add: x_def y_def prod_eq_iff)
    have "described_members m ! i \<noteq> described_members m ! j"
      using dist ij by (simp add: nth_eq_iff_index_eq)
    with xy have "x \<noteq> y" by simp
    with names [of i] names [of j] ij(1)
    have "apart (the (member_bytes b (m, x))) (the (member_bytes b (m, y)))"
      by (intro member_bytes_apart) (simp_all add: x_def y_def)
    then show "apart (the (member_bytes b (described_members m ! i)))
        (the (member_bytes b (described_members m ! j)))" by (simp add: xy)
  qed
qed

section \<open>Nesting of the messages\<close>

text \<open>The messages a message's fields can hold.\<close>

fun referenced :: "desc_ref \<Rightarrow> msg_id list" where
  "referenced (Message_Ref m) = [m]"
| "referenced _ = []"

definition submessages :: "msg_id \<Rightarrow> msg_id list" where
  "submessages m = remdups (concat (map (referenced \<circ> fd_descriptor) (md_fields (message_descriptor_of m))))"

text \<open>The messages at each level of nesting below the given ones.\<close>

fun nested :: "nat \<Rightarrow> msg_id list \<Rightarrow> msg_id list" where
  "nested 0 ms = ms"
| "nested (Suc k) ms = nested k (remdups (concat (map submessages ms)))"

lemma nested_bounded: "nested 6 [FeedMessage] = []" "nested 5 [FeedMessage] \<noteq> []"
  by code_simp+

text \<open>A rank that every reference decreases.\<close>

fun height :: "msg_id \<Rightarrow> nat" where
  "height FeedMessage = 5"
| "height FeedEntity = 4"
| "height Alert = 3"
| "height TripUpdate = 3"
| "height VehiclePosition = 3"
| "height TripModifications = 3"
| "height EntitySelector = 2"
| "height TripUpdate_StopTimeUpdate = 2"
| "height TripModifications_Modification = 2"
| "height Stop = 2"
| "height TranslatedImage = 2"
| "height TripDescriptor = 1"
| "height TranslatedString = 1"
| "height _ = 0"

lemma submessages_height: "list_all (\<lambda>m'. height m' < height m) (submessages m)"
  by (induction m; code_simp)

lemma wf_submessages: "wf {(m', m). m' \<in> set (submessages m)}"
  by (rule wf_subset [OF wf_measure [of height]])
    (use submessages_height in \<open>auto simp: list_all_iff\<close>)

section \<open>Entries by number\<close>

lemma field_by_number_find:
  "field_by_number m v = find (\<lambda>d. int (fd_id d) = v) (md_fields (message_descriptor_of m))"
  unfolding field_by_number_def Let_def message_range_lookup [OF message_tables] map_of_index
  by (simp only: comp_apply)

lemma enum_value_by_number_find:
  "enum_value_by_number e v = find (\<lambda>w. ev_value w = v) (ed_values (enum_descriptor_of e))"
  unfolding enum_value_by_number_def Let_def enum_range_lookup [OF enum_tables] map_of_index ..

lemma find_schema_field:
  "find (\<lambda>f. int (pf_number f) = v) (by_number (proto_of m)) =
     find (\<lambda>f. int (pf_number f) = v) (proto_of m)"
  unfolding by_number_def
  by (rule find_sort_key) (use distinct_numbers [of m] in \<open>simp add: distinct_map inj_on_def\<close>)

lemma length_message_init: "length (message_init m x) = length (struct_of m)"
  by (induction m; code_simp)

lemma enum_entries:
  "map (\<lambda>w. (ev_name w, ev_value w)) (ed_values (enum_descriptor_of e)) =
     sort_key snd (proto_enum_of e)"
  "map ev_c_name (ed_values (enum_descriptor_of e)) =
     map (\<lambda>x. enum_prefix e @ fst x) (sort_key snd (proto_enum_of e))"
  "map ev_value (ed_values (enum_descriptor_of e)) = map snd (sort_key snd (proto_enum_of e))"
  "enum_constants e = proto_enum_of e"
proof -
  have entries: "map (\<lambda>w. (ev_name w, ev_value w)) (ed_values (enum_descriptor_of e)) =
      sort_key snd (proto_enum_of e)"
    and c_names: "list_all (\<lambda>v. ev_c_name v = enum_prefix e @ ev_name v)
      (ed_values (enum_descriptor_of e))"
    and header: "enum_constants e = proto_enum_of e"
    using enum_values [of e] by (simp_all only: conforms_enum_def)
  from c_names have "map ev_c_name (ed_values (enum_descriptor_of e)) =
      map (\<lambda>w. enum_prefix e @ ev_name w) (ed_values (enum_descriptor_of e))"
    by (simp add: list_all_iff)
  then show "map ev_c_name (ed_values (enum_descriptor_of e)) =
      map (\<lambda>x. enum_prefix e @ fst x) (sort_key snd (proto_enum_of e))"
    unfolding entries [symmetric] by (simp add: comp_def)
  show "map ev_value (ed_values (enum_descriptor_of e)) = map snd (sort_key snd (proto_enum_of e))"
    unfolding entries [symmetric] by (simp add: comp_def)
  show "map (\<lambda>w. (ev_name w, ev_value w)) (ed_values (enum_descriptor_of e)) =
      sort_key snd (proto_enum_of e)" by (rule entries)
  show "enum_constants e = proto_enum_of e" by (rule header)
qed

section \<open>Properties\<close>

text \<open>
  C11: the table of a message, read through its range index, is the schema: a field number
  finds exactly the schema's field with this number, with its name, label, type and default,
  and a number the schema does not declare finds nothing; the entry's offsets are those of
  the field's members.
\<close>

theorem lookup_is_schema:
  "Option.bind (field_by_number m v) described_field =
     find (\<lambda>f. int (pf_number f) = v) (proto_of m) \<and>
   map_option (\<lambda>d. (fd_quantifier d, fd_offset d)) (field_by_number m v) =
     map_option (expected_offsets m) (find (\<lambda>f. int (pf_number f) = v) (proto_of m))"
proof
  note fields = message_fields [of m, unfolded conforms_fields_def]
  show "Option.bind (field_by_number m v) described_field =
      find (\<lambda>f. int (pf_number f) = v) (proto_of m)"
    unfolding field_by_number_find find_schema_field [symmetric]
    by (rule find_described [OF conjunct1 [OF fields]])
  show "map_option (\<lambda>d. (fd_quantifier d, fd_offset d)) (field_by_number m v) =
      map_option (expected_offsets m) (find (\<lambda>f. int (pf_number f) = v) (proto_of m))"
    unfolding field_by_number_find find_schema_field [symmetric]
    by (rule find_parallel [OF conjunct1 [OF conjunct2 [OF fields]]
          described_ids [OF conjunct1 [OF fields]]])
qed

text \<open>
  C24: the static initialiser and the struct of a message are those the schema calls for:
  every field has its members, in the order of the schema, and the init function sets each to
  its default: absent, or no elements, or the declared value.
\<close>

theorem struct_is_schema:
  "conforms_struct (proto_of m) (struct_of m) \<and>
   message_init m x = expected_init enum_constants m (proto_of m) \<and>
   length (message_init m x) = length (struct_of m)"
  by (intro conjI message_struct message_initialiser length_message_init)

text \<open>The indices by name, in the terms of the library's order and multisets.\<close>

lemma mset_eq_of_sort: "sort xs = ys \<Longrightarrow> mset xs = mset ys"
  by (drule arg_cong [of _ _ mset]) simp

lemma message_name_index:
  assumes "message_tables_ok m d"
  shows "md_n_fields d = length (md_fields d)"
    "sorted_wrt (<) (map (\<lambda>i. fd_name (md_fields d ! i)) (md_fields_by_name d))"
    "mset (md_fields_by_name d) = mset [0..<md_n_fields d]"
  using assms by (simp_all add: message_tables_ok_def strictly_ascending_sorted mset_eq_of_sort)

lemma enum_name_index:
  assumes "enum_tables_ok d"
  shows "ed_n_values d = length (ed_values d)" "ed_n_names d = length (ed_by_name d)"
    "sorted_wrt (<) (map evi_name (ed_by_name d))"
    "mset (map evi_index (ed_by_name d)) = mset [0..<ed_n_values d]"
    "map (\<lambda>x. ev_name (ed_values d ! evi_index x)) (ed_by_name d) = map evi_name (ed_by_name d)"
proof -
  show "mset (map evi_index (ed_by_name d)) = mset [0..<ed_n_values d]"
    using assms by (intro mset_eq_of_sort) (simp add: enum_tables_ok_def)
qed (use assms in \<open>simp_all add: enum_tables_ok_def strictly_ascending_sorted\<close>)

text \<open>
  C32: the counts of the descriptors are right; the name indices of a message and of an enum
  list every field and value exactly once, in the byte order of the names, as the binary
  search of the library needs; the names in the descriptors are those of the schema and of
  the C code.
\<close>

theorem name_indices_sorted:
  "(let d = message_descriptor_of m
    in md_n_fields d = length (md_fields d) \<and>
       sorted_wrt (<) (map (\<lambda>i. fd_name (md_fields d ! i)) (md_fields_by_name d)) \<and>
       mset (md_fields_by_name d) = mset [0..<md_n_fields d] \<and> message_names_ok m d) \<and>
   (let d = enum_descriptor_of e
    in ed_n_values d = length (ed_values d) \<and> ed_n_names d = length (ed_by_name d) \<and>
       sorted_wrt (<) (map evi_name (ed_by_name d)) \<and>
       mset (map evi_index (ed_by_name d)) = mset [0..<ed_n_values d] \<and>
       map (\<lambda>x. ev_name (ed_values d ! evi_index x)) (ed_by_name d) = map evi_name (ed_by_name d) \<and>
       enum_names_ok e d)"
  unfolding Let_def
  by (intro conjI message_name_index [OF message_tables] enum_name_index [OF enum_tables]
      message_names enum_names)

text \<open>
  C23: the table of an enum is the schema: a number finds exactly the value the schema gives
  it, under the same name, and the C name in the table is that of the header's constant with
  this value.
\<close>

theorem enum_lookup_is_schema:
  "map_option (\<lambda>w. (ev_name w, ev_value w)) (enum_value_by_number e v) =
     find (\<lambda>x. snd x = v) (enum_constants e) \<and>
   map_option ev_c_name (enum_value_by_number e v) =
     map_option (\<lambda>x. enum_prefix e @ fst x) (find (\<lambda>x. snd x = v) (proto_enum_of e))"
proof -
  have unsorted: "find (\<lambda>x. snd x = v) (sort_key snd (proto_enum_of e)) =
      find (\<lambda>x. snd x = v) (proto_enum_of e)"
    by (rule find_sort_key [OF distinct_values])
  note * = find_parallel [OF _ enum_entries(3), where P = "\<lambda>k. k = v", unfolded unsorted]
  show ?thesis
    unfolding enum_value_by_number_find enum_entries(4)
    using * [where g = "\<lambda>w. (ev_name w, ev_value w)" and h = id] * [OF enum_entries(2)]
    by (simp add: enum_entries(1) option.map_id unsorted)
qed

text \<open>
  C20: whatever the layout of the library's base struct, the members that the table of a
  message describes, and the base, are all the members of its struct; they lie in it, and no
  two of them overlap, so that decoding a field changes no other field.
\<close>

theorem described_storage:
  "list_all (\<lambda>x. x \<in> set (map snd (described_members m))) (map fst (struct_of m)) \<and>
   list_all (\<lambda>x. pred_option (\<lambda>(off, len). off + len \<le> message_size b m) (member_bytes b x) \<and>
                 member_bytes b x \<noteq> None) (described_members m) \<and>
   sorted_wrt apart (map (the \<circ> member_bytes b) (described_members m))"
proof (intro conjI)
  note names = described_members_struct [of m]
  show "list_all (\<lambda>x. x \<in> set (map snd (described_members m))) (map fst (struct_of m))"
    using names by (force simp: list_all_iff)
  show "list_all (\<lambda>x. pred_option (\<lambda>(off, len). off + len \<le> message_size b m) (member_bytes b x) \<and>
      member_bytes b x \<noteq> None) (described_members m)"
    unfolding list_all_iff
  proof
    fix x assume "x \<in> set (described_members m)"
    with names have "x = (m, snd x)" "snd x \<in> set (map fst (struct_of m))"
      by (auto simp: list_all_iff prod_eq_iff)
    with member_bytes_within [of "snd x" m b]
    show "pred_option (\<lambda>(off, len). off + len \<le> message_size b m) (member_bytes b x) \<and>
        member_bytes b x \<noteq> None" by (metis (no_types, lifting) case_prodI option.pred_inject(2) option.simps(3))
  qed
  show "sorted_wrt apart (map (the \<circ> member_bytes b) (described_members m))"
    using described_members_apart [of b m] by (simp add: sorted_wrt_map)
qed

text \<open>
  C35: messages are not recursive: no chain of submessages returns to its start, and under a
  feed there are at most five levels of them, so the recursion of decoding, packing and
  freeing over the tables is bounded.
\<close>

theorem nesting_bounded:
  "wf {(m', m). m' \<in> set (submessages m)} \<and>
   nested 6 [FeedMessage] = [] \<and> nested 5 [FeedMessage] \<noteq> []"
  by (intro conjI wf_submessages nested_bounded)

end
