(* ===== verification/Pb_Functions.thy ===== *)
theory Pb_Functions
  imports Pb_Schema
begin

text \<open>
  The functions of \<open>src/ingestion/gtfs-realtime.pb-c.c\<close> that pack, unpack and release a
  message: each hands its message to the protobuf-c library, after asserting that the message
  carries the descriptor of its type. The library is a record of its functions; descriptors
  are compared by address, so the name of the message stands for its descriptor. A message in
  memory is its descriptor with a content that only the library looks into.
\<close>

section \<open>The library\<close>

record 'c pb_message =
  base_descriptor :: msg_id
  pb_content :: 'c

text \<open>
  The output parameters are results: the bytes of \<open>out\<close>, the buffer, and the state of the
  allocator and the library.
\<close>

record ('c, 'a, 'b, 'l) protobuf_c =
  message_get_packed_size :: "'c pb_message \<Rightarrow> u64"
  message_pack :: "'c pb_message \<Rightarrow> u8 list \<Rightarrow> u8 list \<times> u64"
  message_pack_to_buffer :: "'c pb_message \<Rightarrow> 'b \<Rightarrow> 'b \<times> u64"
  message_unpack :: "msg_id \<Rightarrow> 'a \<Rightarrow> u64 \<Rightarrow> u8 list \<Rightarrow> 'l \<Rightarrow> 'c pb_message option \<times> 'l"
  message_free_unpacked :: "'c pb_message \<Rightarrow> 'a \<Rightarrow> 'l \<Rightarrow> 'l"

text \<open>\<open>assert(message->base.descriptor == &d)\<close>\<close>

definition assert_descriptor :: "msg_id \<Rightarrow> 'c pb_message option \<Rightarrow> ub + 'c pb_message" where
  "assert_descriptor d message =
     (case message of
        None \<Rightarrow> Inl Null_Dereference
      | Some x \<Rightarrow> if base_descriptor x = d then Inr x else Inl Assertion_Failed)"

section \<open>The functions\<close>

definition feed_message__get_packed_size ::
  "('c, 'a, 'b, 'l) protobuf_c \<Rightarrow> 'c pb_message option \<Rightarrow> ub + u64"
where
  "feed_message__get_packed_size lib message =
     sum_bind (assert_descriptor FeedMessage message) (\<lambda>x. Inr (message_get_packed_size lib x))"

definition feed_message__pack ::
  "('c, 'a, 'b, 'l) protobuf_c \<Rightarrow> 'c pb_message option \<Rightarrow> u8 list \<Rightarrow> ub + (u8 list \<times> u64)"
where
  "feed_message__pack lib message out =
     sum_bind (assert_descriptor FeedMessage message) (\<lambda>x. Inr (message_pack lib x out))"

definition feed_message__pack_to_buffer ::
  "('c, 'a, 'b, 'l) protobuf_c \<Rightarrow> 'c pb_message option \<Rightarrow> 'b \<Rightarrow> ub + ('b \<times> u64)"
where
  "feed_message__pack_to_buffer lib message buffer =
     sum_bind (assert_descriptor FeedMessage message) (\<lambda>x. Inr (message_pack_to_buffer lib x buffer))"

definition feed_message__unpack ::
  "('c, 'a, 'b, 'l) protobuf_c \<Rightarrow> 'a \<Rightarrow> u64 \<Rightarrow> u8 list \<Rightarrow> 'l \<Rightarrow> 'c pb_message option \<times> 'l"
where
  "feed_message__unpack lib allocator len data = message_unpack lib FeedMessage allocator len data"

definition feed_message__free_unpacked ::
  "('c, 'a, 'b, 'l) protobuf_c \<Rightarrow> 'c pb_message option \<Rightarrow> 'a \<Rightarrow> 'l \<Rightarrow> ub + 'l"
where
  "feed_message__free_unpacked lib message allocator l =
     (if message = None then Inr l
      else sum_bind (assert_descriptor FeedMessage message) (\<lambda>x.
        Inr (message_free_unpacked lib x allocator l)))"

definition feed_header__get_packed_size ::
  "('c, 'a, 'b, 'l) protobuf_c \<Rightarrow> 'c pb_message option \<Rightarrow> ub + u64"
where
  "feed_header__get_packed_size lib message =
     sum_bind (assert_descriptor FeedHeader message) (\<lambda>x. Inr (message_get_packed_size lib x))"

definition feed_header__pack ::
  "('c, 'a, 'b, 'l) protobuf_c \<Rightarrow> 'c pb_message option \<Rightarrow> u8 list \<Rightarrow> ub + (u8 list \<times> u64)"
where
  "feed_header__pack lib message out =
     sum_bind (assert_descriptor FeedHeader message) (\<lambda>x. Inr (message_pack lib x out))"

definition feed_header__pack_to_buffer ::
  "('c, 'a, 'b, 'l) protobuf_c \<Rightarrow> 'c pb_message option \<Rightarrow> 'b \<Rightarrow> ub + ('b \<times> u64)"
where
  "feed_header__pack_to_buffer lib message buffer =
     sum_bind (assert_descriptor FeedHeader message) (\<lambda>x. Inr (message_pack_to_buffer lib x buffer))"

definition feed_header__unpack ::
  "('c, 'a, 'b, 'l) protobuf_c \<Rightarrow> 'a \<Rightarrow> u64 \<Rightarrow> u8 list \<Rightarrow> 'l \<Rightarrow> 'c pb_message option \<times> 'l"
where
  "feed_header__unpack lib allocator len data = message_unpack lib FeedHeader allocator len data"

definition feed_header__free_unpacked ::
  "('c, 'a, 'b, 'l) protobuf_c \<Rightarrow> 'c pb_message option \<Rightarrow> 'a \<Rightarrow> 'l \<Rightarrow> ub + 'l"
where
  "feed_header__free_unpacked lib message allocator l =
     (if message = None then Inr l
      else sum_bind (assert_descriptor FeedHeader message) (\<lambda>x.
        Inr (message_free_unpacked lib x allocator l)))"

definition feed_entity__get_packed_size ::
  "('c, 'a, 'b, 'l) protobuf_c \<Rightarrow> 'c pb_message option \<Rightarrow> ub + u64"
where
  "feed_entity__get_packed_size lib message =
     sum_bind (assert_descriptor FeedEntity message) (\<lambda>x. Inr (message_get_packed_size lib x))"

definition feed_entity__pack ::
  "('c, 'a, 'b, 'l) protobuf_c \<Rightarrow> 'c pb_message option \<Rightarrow> u8 list \<Rightarrow> ub + (u8 list \<times> u64)"
where
  "feed_entity__pack lib message out =
     sum_bind (assert_descriptor FeedEntity message) (\<lambda>x. Inr (message_pack lib x out))"

definition feed_entity__pack_to_buffer ::
  "('c, 'a, 'b, 'l) protobuf_c \<Rightarrow> 'c pb_message option \<Rightarrow> 'b \<Rightarrow> ub + ('b \<times> u64)"
where
  "feed_entity__pack_to_buffer lib message buffer =
     sum_bind (assert_descriptor FeedEntity message) (\<lambda>x. Inr (message_pack_to_buffer lib x buffer))"

definition feed_entity__unpack ::
  "('c, 'a, 'b, 'l) protobuf_c \<Rightarrow> 'a \<Rightarrow> u64 \<Rightarrow> u8 list \<Rightarrow> 'l \<Rightarrow> 'c pb_message option \<times> 'l"
where
  "feed_entity__unpack lib allocator len data = message_unpack lib FeedEntity allocator len data"

definition feed_entity__free_unpacked ::
  "('c, 'a, 'b, 'l) protobuf_c \<Rightarrow> 'c pb_message option \<Rightarrow> 'a \<Rightarrow> 'l \<Rightarrow> ub + 'l"
where
  "feed_entity__free_unpacked lib message allocator l =
     (if message = None then Inr l
      else sum_bind (assert_descriptor FeedEntity message) (\<lambda>x.
        Inr (message_free_unpacked lib x allocator l)))"

definition trip_update__get_packed_size ::
  "('c, 'a, 'b, 'l) protobuf_c \<Rightarrow> 'c pb_message option \<Rightarrow> ub + u64"
where
  "trip_update__get_packed_size lib message =
     sum_bind (assert_descriptor TripUpdate message) (\<lambda>x. Inr (message_get_packed_size lib x))"

definition trip_update__pack ::
  "('c, 'a, 'b, 'l) protobuf_c \<Rightarrow> 'c pb_message option \<Rightarrow> u8 list \<Rightarrow> ub + (u8 list \<times> u64)"
where
  "trip_update__pack lib message out =
     sum_bind (assert_descriptor TripUpdate message) (\<lambda>x. Inr (message_pack lib x out))"

definition trip_update__pack_to_buffer ::
  "('c, 'a, 'b, 'l) protobuf_c \<Rightarrow> 'c pb_message option \<Rightarrow> 'b \<Rightarrow> ub + ('b \<times> u64)"
where
  "trip_update__pack_to_buffer lib message buffer =
     sum_bind (assert_descriptor TripUpdate message) (\<lambda>x. Inr (message_pack_to_buffer lib x buffer))"

definition trip_update__unpack ::
  "('c, 'a, 'b, 'l) protobuf_c \<Rightarrow> 'a \<Rightarrow> u64 \<Rightarrow> u8 list \<Rightarrow> 'l \<Rightarrow> 'c pb_message option \<times> 'l"
where
  "trip_update__unpack lib allocator len data = message_unpack lib TripUpdate allocator len data"

definition trip_update__free_unpacked ::
  "('c, 'a, 'b, 'l) protobuf_c \<Rightarrow> 'c pb_message option \<Rightarrow> 'a \<Rightarrow> 'l \<Rightarrow> ub + 'l"
where
  "trip_update__free_unpacked lib message allocator l =
     (if message = None then Inr l
      else sum_bind (assert_descriptor TripUpdate message) (\<lambda>x.
        Inr (message_free_unpacked lib x allocator l)))"

definition vehicle_position__get_packed_size ::
  "('c, 'a, 'b, 'l) protobuf_c \<Rightarrow> 'c pb_message option \<Rightarrow> ub + u64"
where
  "vehicle_position__get_packed_size lib message =
     sum_bind (assert_descriptor VehiclePosition message) (\<lambda>x. Inr (message_get_packed_size lib x))"

definition vehicle_position__pack ::
  "('c, 'a, 'b, 'l) protobuf_c \<Rightarrow> 'c pb_message option \<Rightarrow> u8 list \<Rightarrow> ub + (u8 list \<times> u64)"
where
  "vehicle_position__pack lib message out =
     sum_bind (assert_descriptor VehiclePosition message) (\<lambda>x. Inr (message_pack lib x out))"

definition vehicle_position__pack_to_buffer ::
  "('c, 'a, 'b, 'l) protobuf_c \<Rightarrow> 'c pb_message option \<Rightarrow> 'b \<Rightarrow> ub + ('b \<times> u64)"
where
  "vehicle_position__pack_to_buffer lib message buffer =
     sum_bind (assert_descriptor VehiclePosition message) (\<lambda>x. Inr (message_pack_to_buffer lib x buffer))"

definition vehicle_position__unpack ::
  "('c, 'a, 'b, 'l) protobuf_c \<Rightarrow> 'a \<Rightarrow> u64 \<Rightarrow> u8 list \<Rightarrow> 'l \<Rightarrow> 'c pb_message option \<times> 'l"
where
  "vehicle_position__unpack lib allocator len data = message_unpack lib VehiclePosition allocator len data"

definition vehicle_position__free_unpacked ::
  "('c, 'a, 'b, 'l) protobuf_c \<Rightarrow> 'c pb_message option \<Rightarrow> 'a \<Rightarrow> 'l \<Rightarrow> ub + 'l"
where
  "vehicle_position__free_unpacked lib message allocator l =
     (if message = None then Inr l
      else sum_bind (assert_descriptor VehiclePosition message) (\<lambda>x.
        Inr (message_free_unpacked lib x allocator l)))"

definition alert__get_packed_size ::
  "('c, 'a, 'b, 'l) protobuf_c \<Rightarrow> 'c pb_message option \<Rightarrow> ub + u64"
where
  "alert__get_packed_size lib message =
     sum_bind (assert_descriptor Alert message) (\<lambda>x. Inr (message_get_packed_size lib x))"

definition alert__pack ::
  "('c, 'a, 'b, 'l) protobuf_c \<Rightarrow> 'c pb_message option \<Rightarrow> u8 list \<Rightarrow> ub + (u8 list \<times> u64)"
where
  "alert__pack lib message out =
     sum_bind (assert_descriptor Alert message) (\<lambda>x. Inr (message_pack lib x out))"

definition alert__pack_to_buffer ::
  "('c, 'a, 'b, 'l) protobuf_c \<Rightarrow> 'c pb_message option \<Rightarrow> 'b \<Rightarrow> ub + ('b \<times> u64)"
where
  "alert__pack_to_buffer lib message buffer =
     sum_bind (assert_descriptor Alert message) (\<lambda>x. Inr (message_pack_to_buffer lib x buffer))"

definition alert__unpack ::
  "('c, 'a, 'b, 'l) protobuf_c \<Rightarrow> 'a \<Rightarrow> u64 \<Rightarrow> u8 list \<Rightarrow> 'l \<Rightarrow> 'c pb_message option \<times> 'l"
where
  "alert__unpack lib allocator len data = message_unpack lib Alert allocator len data"

definition alert__free_unpacked ::
  "('c, 'a, 'b, 'l) protobuf_c \<Rightarrow> 'c pb_message option \<Rightarrow> 'a \<Rightarrow> 'l \<Rightarrow> ub + 'l"
where
  "alert__free_unpacked lib message allocator l =
     (if message = None then Inr l
      else sum_bind (assert_descriptor Alert message) (\<lambda>x.
        Inr (message_free_unpacked lib x allocator l)))"

definition time_range__get_packed_size ::
  "('c, 'a, 'b, 'l) protobuf_c \<Rightarrow> 'c pb_message option \<Rightarrow> ub + u64"
where
  "time_range__get_packed_size lib message =
     sum_bind (assert_descriptor TimeRange message) (\<lambda>x. Inr (message_get_packed_size lib x))"

definition time_range__pack ::
  "('c, 'a, 'b, 'l) protobuf_c \<Rightarrow> 'c pb_message option \<Rightarrow> u8 list \<Rightarrow> ub + (u8 list \<times> u64)"
where
  "time_range__pack lib message out =
     sum_bind (assert_descriptor TimeRange message) (\<lambda>x. Inr (message_pack lib x out))"

definition time_range__pack_to_buffer ::
  "('c, 'a, 'b, 'l) protobuf_c \<Rightarrow> 'c pb_message option \<Rightarrow> 'b \<Rightarrow> ub + ('b \<times> u64)"
where
  "time_range__pack_to_buffer lib message buffer =
     sum_bind (assert_descriptor TimeRange message) (\<lambda>x. Inr (message_pack_to_buffer lib x buffer))"

definition time_range__unpack ::
  "('c, 'a, 'b, 'l) protobuf_c \<Rightarrow> 'a \<Rightarrow> u64 \<Rightarrow> u8 list \<Rightarrow> 'l \<Rightarrow> 'c pb_message option \<times> 'l"
where
  "time_range__unpack lib allocator len data = message_unpack lib TimeRange allocator len data"

definition time_range__free_unpacked ::
  "('c, 'a, 'b, 'l) protobuf_c \<Rightarrow> 'c pb_message option \<Rightarrow> 'a \<Rightarrow> 'l \<Rightarrow> ub + 'l"
where
  "time_range__free_unpacked lib message allocator l =
     (if message = None then Inr l
      else sum_bind (assert_descriptor TimeRange message) (\<lambda>x.
        Inr (message_free_unpacked lib x allocator l)))"

definition position__get_packed_size ::
  "('c, 'a, 'b, 'l) protobuf_c \<Rightarrow> 'c pb_message option \<Rightarrow> ub + u64"
where
  "position__get_packed_size lib message =
     sum_bind (assert_descriptor Position message) (\<lambda>x. Inr (message_get_packed_size lib x))"

definition position__pack ::
  "('c, 'a, 'b, 'l) protobuf_c \<Rightarrow> 'c pb_message option \<Rightarrow> u8 list \<Rightarrow> ub + (u8 list \<times> u64)"
where
  "position__pack lib message out =
     sum_bind (assert_descriptor Position message) (\<lambda>x. Inr (message_pack lib x out))"

definition position__pack_to_buffer ::
  "('c, 'a, 'b, 'l) protobuf_c \<Rightarrow> 'c pb_message option \<Rightarrow> 'b \<Rightarrow> ub + ('b \<times> u64)"
where
  "position__pack_to_buffer lib message buffer =
     sum_bind (assert_descriptor Position message) (\<lambda>x. Inr (message_pack_to_buffer lib x buffer))"

definition position__unpack ::
  "('c, 'a, 'b, 'l) protobuf_c \<Rightarrow> 'a \<Rightarrow> u64 \<Rightarrow> u8 list \<Rightarrow> 'l \<Rightarrow> 'c pb_message option \<times> 'l"
where
  "position__unpack lib allocator len data = message_unpack lib Position allocator len data"

definition position__free_unpacked ::
  "('c, 'a, 'b, 'l) protobuf_c \<Rightarrow> 'c pb_message option \<Rightarrow> 'a \<Rightarrow> 'l \<Rightarrow> ub + 'l"
where
  "position__free_unpacked lib message allocator l =
     (if message = None then Inr l
      else sum_bind (assert_descriptor Position message) (\<lambda>x.
        Inr (message_free_unpacked lib x allocator l)))"

definition trip_descriptor__get_packed_size ::
  "('c, 'a, 'b, 'l) protobuf_c \<Rightarrow> 'c pb_message option \<Rightarrow> ub + u64"
where
  "trip_descriptor__get_packed_size lib message =
     sum_bind (assert_descriptor TripDescriptor message) (\<lambda>x. Inr (message_get_packed_size lib x))"

definition trip_descriptor__pack ::
  "('c, 'a, 'b, 'l) protobuf_c \<Rightarrow> 'c pb_message option \<Rightarrow> u8 list \<Rightarrow> ub + (u8 list \<times> u64)"
where
  "trip_descriptor__pack lib message out =
     sum_bind (assert_descriptor TripDescriptor message) (\<lambda>x. Inr (message_pack lib x out))"

definition trip_descriptor__pack_to_buffer ::
  "('c, 'a, 'b, 'l) protobuf_c \<Rightarrow> 'c pb_message option \<Rightarrow> 'b \<Rightarrow> ub + ('b \<times> u64)"
where
  "trip_descriptor__pack_to_buffer lib message buffer =
     sum_bind (assert_descriptor TripDescriptor message) (\<lambda>x. Inr (message_pack_to_buffer lib x buffer))"

definition trip_descriptor__unpack ::
  "('c, 'a, 'b, 'l) protobuf_c \<Rightarrow> 'a \<Rightarrow> u64 \<Rightarrow> u8 list \<Rightarrow> 'l \<Rightarrow> 'c pb_message option \<times> 'l"
where
  "trip_descriptor__unpack lib allocator len data = message_unpack lib TripDescriptor allocator len data"

definition trip_descriptor__free_unpacked ::
  "('c, 'a, 'b, 'l) protobuf_c \<Rightarrow> 'c pb_message option \<Rightarrow> 'a \<Rightarrow> 'l \<Rightarrow> ub + 'l"
where
  "trip_descriptor__free_unpacked lib message allocator l =
     (if message = None then Inr l
      else sum_bind (assert_descriptor TripDescriptor message) (\<lambda>x.
        Inr (message_free_unpacked lib x allocator l)))"

definition vehicle_descriptor__get_packed_size ::
  "('c, 'a, 'b, 'l) protobuf_c \<Rightarrow> 'c pb_message option \<Rightarrow> ub + u64"
where
  "vehicle_descriptor__get_packed_size lib message =
     sum_bind (assert_descriptor VehicleDescriptor message) (\<lambda>x. Inr (message_get_packed_size lib x))"

definition vehicle_descriptor__pack ::
  "('c, 'a, 'b, 'l) protobuf_c \<Rightarrow> 'c pb_message option \<Rightarrow> u8 list \<Rightarrow> ub + (u8 list \<times> u64)"
where
  "vehicle_descriptor__pack lib message out =
     sum_bind (assert_descriptor VehicleDescriptor message) (\<lambda>x. Inr (message_pack lib x out))"

definition vehicle_descriptor__pack_to_buffer ::
  "('c, 'a, 'b, 'l) protobuf_c \<Rightarrow> 'c pb_message option \<Rightarrow> 'b \<Rightarrow> ub + ('b \<times> u64)"
where
  "vehicle_descriptor__pack_to_buffer lib message buffer =
     sum_bind (assert_descriptor VehicleDescriptor message) (\<lambda>x. Inr (message_pack_to_buffer lib x buffer))"

definition vehicle_descriptor__unpack ::
  "('c, 'a, 'b, 'l) protobuf_c \<Rightarrow> 'a \<Rightarrow> u64 \<Rightarrow> u8 list \<Rightarrow> 'l \<Rightarrow> 'c pb_message option \<times> 'l"
where
  "vehicle_descriptor__unpack lib allocator len data = message_unpack lib VehicleDescriptor allocator len data"

definition vehicle_descriptor__free_unpacked ::
  "('c, 'a, 'b, 'l) protobuf_c \<Rightarrow> 'c pb_message option \<Rightarrow> 'a \<Rightarrow> 'l \<Rightarrow> ub + 'l"
where
  "vehicle_descriptor__free_unpacked lib message allocator l =
     (if message = None then Inr l
      else sum_bind (assert_descriptor VehicleDescriptor message) (\<lambda>x.
        Inr (message_free_unpacked lib x allocator l)))"

definition entity_selector__get_packed_size ::
  "('c, 'a, 'b, 'l) protobuf_c \<Rightarrow> 'c pb_message option \<Rightarrow> ub + u64"
where
  "entity_selector__get_packed_size lib message =
     sum_bind (assert_descriptor EntitySelector message) (\<lambda>x. Inr (message_get_packed_size lib x))"

definition entity_selector__pack ::
  "('c, 'a, 'b, 'l) protobuf_c \<Rightarrow> 'c pb_message option \<Rightarrow> u8 list \<Rightarrow> ub + (u8 list \<times> u64)"
where
  "entity_selector__pack lib message out =
     sum_bind (assert_descriptor EntitySelector message) (\<lambda>x. Inr (message_pack lib x out))"

definition entity_selector__pack_to_buffer ::
  "('c, 'a, 'b, 'l) protobuf_c \<Rightarrow> 'c pb_message option \<Rightarrow> 'b \<Rightarrow> ub + ('b \<times> u64)"
where
  "entity_selector__pack_to_buffer lib message buffer =
     sum_bind (assert_descriptor EntitySelector message) (\<lambda>x. Inr (message_pack_to_buffer lib x buffer))"

definition entity_selector__unpack ::
  "('c, 'a, 'b, 'l) protobuf_c \<Rightarrow> 'a \<Rightarrow> u64 \<Rightarrow> u8 list \<Rightarrow> 'l \<Rightarrow> 'c pb_message option \<times> 'l"
where
  "entity_selector__unpack lib allocator len data = message_unpack lib EntitySelector allocator len data"

definition entity_selector__free_unpacked ::
  "('c, 'a, 'b, 'l) protobuf_c \<Rightarrow> 'c pb_message option \<Rightarrow> 'a \<Rightarrow> 'l \<Rightarrow> ub + 'l"
where
  "entity_selector__free_unpacked lib message allocator l =
     (if message = None then Inr l
      else sum_bind (assert_descriptor EntitySelector message) (\<lambda>x.
        Inr (message_free_unpacked lib x allocator l)))"

definition translated_string__get_packed_size ::
  "('c, 'a, 'b, 'l) protobuf_c \<Rightarrow> 'c pb_message option \<Rightarrow> ub + u64"
where
  "translated_string__get_packed_size lib message =
     sum_bind (assert_descriptor TranslatedString message) (\<lambda>x. Inr (message_get_packed_size lib x))"

definition translated_string__pack ::
  "('c, 'a, 'b, 'l) protobuf_c \<Rightarrow> 'c pb_message option \<Rightarrow> u8 list \<Rightarrow> ub + (u8 list \<times> u64)"
where
  "translated_string__pack lib message out =
     sum_bind (assert_descriptor TranslatedString message) (\<lambda>x. Inr (message_pack lib x out))"

definition translated_string__pack_to_buffer ::
  "('c, 'a, 'b, 'l) protobuf_c \<Rightarrow> 'c pb_message option \<Rightarrow> 'b \<Rightarrow> ub + ('b \<times> u64)"
where
  "translated_string__pack_to_buffer lib message buffer =
     sum_bind (assert_descriptor TranslatedString message) (\<lambda>x. Inr (message_pack_to_buffer lib x buffer))"

definition translated_string__unpack ::
  "('c, 'a, 'b, 'l) protobuf_c \<Rightarrow> 'a \<Rightarrow> u64 \<Rightarrow> u8 list \<Rightarrow> 'l \<Rightarrow> 'c pb_message option \<times> 'l"
where
  "translated_string__unpack lib allocator len data = message_unpack lib TranslatedString allocator len data"

definition translated_string__free_unpacked ::
  "('c, 'a, 'b, 'l) protobuf_c \<Rightarrow> 'c pb_message option \<Rightarrow> 'a \<Rightarrow> 'l \<Rightarrow> ub + 'l"
where
  "translated_string__free_unpacked lib message allocator l =
     (if message = None then Inr l
      else sum_bind (assert_descriptor TranslatedString message) (\<lambda>x.
        Inr (message_free_unpacked lib x allocator l)))"

definition translated_image__get_packed_size ::
  "('c, 'a, 'b, 'l) protobuf_c \<Rightarrow> 'c pb_message option \<Rightarrow> ub + u64"
where
  "translated_image__get_packed_size lib message =
     sum_bind (assert_descriptor TranslatedImage message) (\<lambda>x. Inr (message_get_packed_size lib x))"

definition translated_image__pack ::
  "('c, 'a, 'b, 'l) protobuf_c \<Rightarrow> 'c pb_message option \<Rightarrow> u8 list \<Rightarrow> ub + (u8 list \<times> u64)"
where
  "translated_image__pack lib message out =
     sum_bind (assert_descriptor TranslatedImage message) (\<lambda>x. Inr (message_pack lib x out))"

definition translated_image__pack_to_buffer ::
  "('c, 'a, 'b, 'l) protobuf_c \<Rightarrow> 'c pb_message option \<Rightarrow> 'b \<Rightarrow> ub + ('b \<times> u64)"
where
  "translated_image__pack_to_buffer lib message buffer =
     sum_bind (assert_descriptor TranslatedImage message) (\<lambda>x. Inr (message_pack_to_buffer lib x buffer))"

definition translated_image__unpack ::
  "('c, 'a, 'b, 'l) protobuf_c \<Rightarrow> 'a \<Rightarrow> u64 \<Rightarrow> u8 list \<Rightarrow> 'l \<Rightarrow> 'c pb_message option \<times> 'l"
where
  "translated_image__unpack lib allocator len data = message_unpack lib TranslatedImage allocator len data"

definition translated_image__free_unpacked ::
  "('c, 'a, 'b, 'l) protobuf_c \<Rightarrow> 'c pb_message option \<Rightarrow> 'a \<Rightarrow> 'l \<Rightarrow> ub + 'l"
where
  "translated_image__free_unpacked lib message allocator l =
     (if message = None then Inr l
      else sum_bind (assert_descriptor TranslatedImage message) (\<lambda>x.
        Inr (message_free_unpacked lib x allocator l)))"

definition shape__get_packed_size ::
  "('c, 'a, 'b, 'l) protobuf_c \<Rightarrow> 'c pb_message option \<Rightarrow> ub + u64"
where
  "shape__get_packed_size lib message =
     sum_bind (assert_descriptor Shape message) (\<lambda>x. Inr (message_get_packed_size lib x))"

definition shape__pack ::
  "('c, 'a, 'b, 'l) protobuf_c \<Rightarrow> 'c pb_message option \<Rightarrow> u8 list \<Rightarrow> ub + (u8 list \<times> u64)"
where
  "shape__pack lib message out =
     sum_bind (assert_descriptor Shape message) (\<lambda>x. Inr (message_pack lib x out))"

definition shape__pack_to_buffer ::
  "('c, 'a, 'b, 'l) protobuf_c \<Rightarrow> 'c pb_message option \<Rightarrow> 'b \<Rightarrow> ub + ('b \<times> u64)"
where
  "shape__pack_to_buffer lib message buffer =
     sum_bind (assert_descriptor Shape message) (\<lambda>x. Inr (message_pack_to_buffer lib x buffer))"

definition shape__unpack ::
  "('c, 'a, 'b, 'l) protobuf_c \<Rightarrow> 'a \<Rightarrow> u64 \<Rightarrow> u8 list \<Rightarrow> 'l \<Rightarrow> 'c pb_message option \<times> 'l"
where
  "shape__unpack lib allocator len data = message_unpack lib Shape allocator len data"

definition shape__free_unpacked ::
  "('c, 'a, 'b, 'l) protobuf_c \<Rightarrow> 'c pb_message option \<Rightarrow> 'a \<Rightarrow> 'l \<Rightarrow> ub + 'l"
where
  "shape__free_unpacked lib message allocator l =
     (if message = None then Inr l
      else sum_bind (assert_descriptor Shape message) (\<lambda>x.
        Inr (message_free_unpacked lib x allocator l)))"

definition stop__get_packed_size ::
  "('c, 'a, 'b, 'l) protobuf_c \<Rightarrow> 'c pb_message option \<Rightarrow> ub + u64"
where
  "stop__get_packed_size lib message =
     sum_bind (assert_descriptor Stop message) (\<lambda>x. Inr (message_get_packed_size lib x))"

definition stop__pack ::
  "('c, 'a, 'b, 'l) protobuf_c \<Rightarrow> 'c pb_message option \<Rightarrow> u8 list \<Rightarrow> ub + (u8 list \<times> u64)"
where
  "stop__pack lib message out =
     sum_bind (assert_descriptor Stop message) (\<lambda>x. Inr (message_pack lib x out))"

definition stop__pack_to_buffer ::
  "('c, 'a, 'b, 'l) protobuf_c \<Rightarrow> 'c pb_message option \<Rightarrow> 'b \<Rightarrow> ub + ('b \<times> u64)"
where
  "stop__pack_to_buffer lib message buffer =
     sum_bind (assert_descriptor Stop message) (\<lambda>x. Inr (message_pack_to_buffer lib x buffer))"

definition stop__unpack ::
  "('c, 'a, 'b, 'l) protobuf_c \<Rightarrow> 'a \<Rightarrow> u64 \<Rightarrow> u8 list \<Rightarrow> 'l \<Rightarrow> 'c pb_message option \<times> 'l"
where
  "stop__unpack lib allocator len data = message_unpack lib Stop allocator len data"

definition stop__free_unpacked ::
  "('c, 'a, 'b, 'l) protobuf_c \<Rightarrow> 'c pb_message option \<Rightarrow> 'a \<Rightarrow> 'l \<Rightarrow> ub + 'l"
where
  "stop__free_unpacked lib message allocator l =
     (if message = None then Inr l
      else sum_bind (assert_descriptor Stop message) (\<lambda>x.
        Inr (message_free_unpacked lib x allocator l)))"

definition trip_modifications__get_packed_size ::
  "('c, 'a, 'b, 'l) protobuf_c \<Rightarrow> 'c pb_message option \<Rightarrow> ub + u64"
where
  "trip_modifications__get_packed_size lib message =
     sum_bind (assert_descriptor TripModifications message) (\<lambda>x. Inr (message_get_packed_size lib x))"

definition trip_modifications__pack ::
  "('c, 'a, 'b, 'l) protobuf_c \<Rightarrow> 'c pb_message option \<Rightarrow> u8 list \<Rightarrow> ub + (u8 list \<times> u64)"
where
  "trip_modifications__pack lib message out =
     sum_bind (assert_descriptor TripModifications message) (\<lambda>x. Inr (message_pack lib x out))"

definition trip_modifications__pack_to_buffer ::
  "('c, 'a, 'b, 'l) protobuf_c \<Rightarrow> 'c pb_message option \<Rightarrow> 'b \<Rightarrow> ub + ('b \<times> u64)"
where
  "trip_modifications__pack_to_buffer lib message buffer =
     sum_bind (assert_descriptor TripModifications message) (\<lambda>x. Inr (message_pack_to_buffer lib x buffer))"

definition trip_modifications__unpack ::
  "('c, 'a, 'b, 'l) protobuf_c \<Rightarrow> 'a \<Rightarrow> u64 \<Rightarrow> u8 list \<Rightarrow> 'l \<Rightarrow> 'c pb_message option \<times> 'l"
where
  "trip_modifications__unpack lib allocator len data = message_unpack lib TripModifications allocator len data"

definition trip_modifications__free_unpacked ::
  "('c, 'a, 'b, 'l) protobuf_c \<Rightarrow> 'c pb_message option \<Rightarrow> 'a \<Rightarrow> 'l \<Rightarrow> ub + 'l"
where
  "trip_modifications__free_unpacked lib message allocator l =
     (if message = None then Inr l
      else sum_bind (assert_descriptor TripModifications message) (\<lambda>x.
        Inr (message_free_unpacked lib x allocator l)))"

definition stop_selector__get_packed_size ::
  "('c, 'a, 'b, 'l) protobuf_c \<Rightarrow> 'c pb_message option \<Rightarrow> ub + u64"
where
  "stop_selector__get_packed_size lib message =
     sum_bind (assert_descriptor StopSelector message) (\<lambda>x. Inr (message_get_packed_size lib x))"

definition stop_selector__pack ::
  "('c, 'a, 'b, 'l) protobuf_c \<Rightarrow> 'c pb_message option \<Rightarrow> u8 list \<Rightarrow> ub + (u8 list \<times> u64)"
where
  "stop_selector__pack lib message out =
     sum_bind (assert_descriptor StopSelector message) (\<lambda>x. Inr (message_pack lib x out))"

definition stop_selector__pack_to_buffer ::
  "('c, 'a, 'b, 'l) protobuf_c \<Rightarrow> 'c pb_message option \<Rightarrow> 'b \<Rightarrow> ub + ('b \<times> u64)"
where
  "stop_selector__pack_to_buffer lib message buffer =
     sum_bind (assert_descriptor StopSelector message) (\<lambda>x. Inr (message_pack_to_buffer lib x buffer))"

definition stop_selector__unpack ::
  "('c, 'a, 'b, 'l) protobuf_c \<Rightarrow> 'a \<Rightarrow> u64 \<Rightarrow> u8 list \<Rightarrow> 'l \<Rightarrow> 'c pb_message option \<times> 'l"
where
  "stop_selector__unpack lib allocator len data = message_unpack lib StopSelector allocator len data"

definition stop_selector__free_unpacked ::
  "('c, 'a, 'b, 'l) protobuf_c \<Rightarrow> 'c pb_message option \<Rightarrow> 'a \<Rightarrow> 'l \<Rightarrow> ub + 'l"
where
  "stop_selector__free_unpacked lib message allocator l =
     (if message = None then Inr l
      else sum_bind (assert_descriptor StopSelector message) (\<lambda>x.
        Inr (message_free_unpacked lib x allocator l)))"

definition replacement_stop__get_packed_size ::
  "('c, 'a, 'b, 'l) protobuf_c \<Rightarrow> 'c pb_message option \<Rightarrow> ub + u64"
where
  "replacement_stop__get_packed_size lib message =
     sum_bind (assert_descriptor ReplacementStop message) (\<lambda>x. Inr (message_get_packed_size lib x))"

definition replacement_stop__pack ::
  "('c, 'a, 'b, 'l) protobuf_c \<Rightarrow> 'c pb_message option \<Rightarrow> u8 list \<Rightarrow> ub + (u8 list \<times> u64)"
where
  "replacement_stop__pack lib message out =
     sum_bind (assert_descriptor ReplacementStop message) (\<lambda>x. Inr (message_pack lib x out))"

definition replacement_stop__pack_to_buffer ::
  "('c, 'a, 'b, 'l) protobuf_c \<Rightarrow> 'c pb_message option \<Rightarrow> 'b \<Rightarrow> ub + ('b \<times> u64)"
where
  "replacement_stop__pack_to_buffer lib message buffer =
     sum_bind (assert_descriptor ReplacementStop message) (\<lambda>x. Inr (message_pack_to_buffer lib x buffer))"

definition replacement_stop__unpack ::
  "('c, 'a, 'b, 'l) protobuf_c \<Rightarrow> 'a \<Rightarrow> u64 \<Rightarrow> u8 list \<Rightarrow> 'l \<Rightarrow> 'c pb_message option \<times> 'l"
where
  "replacement_stop__unpack lib allocator len data = message_unpack lib ReplacementStop allocator len data"

definition replacement_stop__free_unpacked ::
  "('c, 'a, 'b, 'l) protobuf_c \<Rightarrow> 'c pb_message option \<Rightarrow> 'a \<Rightarrow> 'l \<Rightarrow> ub + 'l"
where
  "replacement_stop__free_unpacked lib message allocator l =
     (if message = None then Inr l
      else sum_bind (assert_descriptor ReplacementStop message) (\<lambda>x.
        Inr (message_free_unpacked lib x allocator l)))"

section \<open>By message\<close>

text \<open>The functions of a message; \<open>None\<close> for the nested messages, which have none.\<close>

record ('c, 'a, 'b, 'l) message_functions =
  get_packed_size_fn :: "'c pb_message option \<Rightarrow> ub + u64"
  pack_fn :: "'c pb_message option \<Rightarrow> u8 list \<Rightarrow> ub + (u8 list \<times> u64)"
  pack_to_buffer_fn :: "'c pb_message option \<Rightarrow> 'b \<Rightarrow> ub + ('b \<times> u64)"
  unpack_fn :: "'a \<Rightarrow> u64 \<Rightarrow> u8 list \<Rightarrow> 'l \<Rightarrow> 'c pb_message option \<times> 'l"
  free_unpacked_fn :: "'c pb_message option \<Rightarrow> 'a \<Rightarrow> 'l \<Rightarrow> ub + 'l"

fun functions_of ::
  "('c, 'a, 'b, 'l) protobuf_c \<Rightarrow> msg_id \<Rightarrow> ('c, 'a, 'b, 'l) message_functions option"
where
  "functions_of lib FeedMessage = Some
     \<lparr>get_packed_size_fn = feed_message__get_packed_size lib, pack_fn = feed_message__pack lib,
      pack_to_buffer_fn = feed_message__pack_to_buffer lib, unpack_fn = feed_message__unpack lib,
      free_unpacked_fn = feed_message__free_unpacked lib\<rparr>"
| "functions_of lib FeedHeader = Some
     \<lparr>get_packed_size_fn = feed_header__get_packed_size lib, pack_fn = feed_header__pack lib,
      pack_to_buffer_fn = feed_header__pack_to_buffer lib, unpack_fn = feed_header__unpack lib,
      free_unpacked_fn = feed_header__free_unpacked lib\<rparr>"
| "functions_of lib FeedEntity = Some
     \<lparr>get_packed_size_fn = feed_entity__get_packed_size lib, pack_fn = feed_entity__pack lib,
      pack_to_buffer_fn = feed_entity__pack_to_buffer lib, unpack_fn = feed_entity__unpack lib,
      free_unpacked_fn = feed_entity__free_unpacked lib\<rparr>"
| "functions_of lib TripUpdate = Some
     \<lparr>get_packed_size_fn = trip_update__get_packed_size lib, pack_fn = trip_update__pack lib,
      pack_to_buffer_fn = trip_update__pack_to_buffer lib, unpack_fn = trip_update__unpack lib,
      free_unpacked_fn = trip_update__free_unpacked lib\<rparr>"
| "functions_of lib VehiclePosition = Some
     \<lparr>get_packed_size_fn = vehicle_position__get_packed_size lib, pack_fn = vehicle_position__pack lib,
      pack_to_buffer_fn = vehicle_position__pack_to_buffer lib, unpack_fn = vehicle_position__unpack lib,
      free_unpacked_fn = vehicle_position__free_unpacked lib\<rparr>"
| "functions_of lib Alert = Some
     \<lparr>get_packed_size_fn = alert__get_packed_size lib, pack_fn = alert__pack lib,
      pack_to_buffer_fn = alert__pack_to_buffer lib, unpack_fn = alert__unpack lib,
      free_unpacked_fn = alert__free_unpacked lib\<rparr>"
| "functions_of lib TimeRange = Some
     \<lparr>get_packed_size_fn = time_range__get_packed_size lib, pack_fn = time_range__pack lib,
      pack_to_buffer_fn = time_range__pack_to_buffer lib, unpack_fn = time_range__unpack lib,
      free_unpacked_fn = time_range__free_unpacked lib\<rparr>"
| "functions_of lib Position = Some
     \<lparr>get_packed_size_fn = position__get_packed_size lib, pack_fn = position__pack lib,
      pack_to_buffer_fn = position__pack_to_buffer lib, unpack_fn = position__unpack lib,
      free_unpacked_fn = position__free_unpacked lib\<rparr>"
| "functions_of lib TripDescriptor = Some
     \<lparr>get_packed_size_fn = trip_descriptor__get_packed_size lib, pack_fn = trip_descriptor__pack lib,
      pack_to_buffer_fn = trip_descriptor__pack_to_buffer lib, unpack_fn = trip_descriptor__unpack lib,
      free_unpacked_fn = trip_descriptor__free_unpacked lib\<rparr>"
| "functions_of lib VehicleDescriptor = Some
     \<lparr>get_packed_size_fn = vehicle_descriptor__get_packed_size lib, pack_fn = vehicle_descriptor__pack lib,
      pack_to_buffer_fn = vehicle_descriptor__pack_to_buffer lib, unpack_fn = vehicle_descriptor__unpack lib,
      free_unpacked_fn = vehicle_descriptor__free_unpacked lib\<rparr>"
| "functions_of lib EntitySelector = Some
     \<lparr>get_packed_size_fn = entity_selector__get_packed_size lib, pack_fn = entity_selector__pack lib,
      pack_to_buffer_fn = entity_selector__pack_to_buffer lib, unpack_fn = entity_selector__unpack lib,
      free_unpacked_fn = entity_selector__free_unpacked lib\<rparr>"
| "functions_of lib TranslatedString = Some
     \<lparr>get_packed_size_fn = translated_string__get_packed_size lib, pack_fn = translated_string__pack lib,
      pack_to_buffer_fn = translated_string__pack_to_buffer lib, unpack_fn = translated_string__unpack lib,
      free_unpacked_fn = translated_string__free_unpacked lib\<rparr>"
| "functions_of lib TranslatedImage = Some
     \<lparr>get_packed_size_fn = translated_image__get_packed_size lib, pack_fn = translated_image__pack lib,
      pack_to_buffer_fn = translated_image__pack_to_buffer lib, unpack_fn = translated_image__unpack lib,
      free_unpacked_fn = translated_image__free_unpacked lib\<rparr>"
| "functions_of lib Shape = Some
     \<lparr>get_packed_size_fn = shape__get_packed_size lib, pack_fn = shape__pack lib,
      pack_to_buffer_fn = shape__pack_to_buffer lib, unpack_fn = shape__unpack lib,
      free_unpacked_fn = shape__free_unpacked lib\<rparr>"
| "functions_of lib Stop = Some
     \<lparr>get_packed_size_fn = stop__get_packed_size lib, pack_fn = stop__pack lib,
      pack_to_buffer_fn = stop__pack_to_buffer lib, unpack_fn = stop__unpack lib,
      free_unpacked_fn = stop__free_unpacked lib\<rparr>"
| "functions_of lib TripModifications = Some
     \<lparr>get_packed_size_fn = trip_modifications__get_packed_size lib, pack_fn = trip_modifications__pack lib,
      pack_to_buffer_fn = trip_modifications__pack_to_buffer lib, unpack_fn = trip_modifications__unpack lib,
      free_unpacked_fn = trip_modifications__free_unpacked lib\<rparr>"
| "functions_of lib StopSelector = Some
     \<lparr>get_packed_size_fn = stop_selector__get_packed_size lib, pack_fn = stop_selector__pack lib,
      pack_to_buffer_fn = stop_selector__pack_to_buffer lib, unpack_fn = stop_selector__unpack lib,
      free_unpacked_fn = stop_selector__free_unpacked lib\<rparr>"
| "functions_of lib ReplacementStop = Some
     \<lparr>get_packed_size_fn = replacement_stop__get_packed_size lib, pack_fn = replacement_stop__pack lib,
      pack_to_buffer_fn = replacement_stop__pack_to_buffer lib, unpack_fn = replacement_stop__unpack lib,
      free_unpacked_fn = replacement_stop__free_unpacked lib\<rparr>"
| "functions_of lib _ = None"

lemmas wrapper_defs =
  feed_message__get_packed_size_def feed_message__pack_def
  feed_message__pack_to_buffer_def feed_message__unpack_def
  feed_message__free_unpacked_def feed_header__get_packed_size_def
  feed_header__pack_def feed_header__pack_to_buffer_def
  feed_header__unpack_def feed_header__free_unpacked_def
  feed_entity__get_packed_size_def feed_entity__pack_def
  feed_entity__pack_to_buffer_def feed_entity__unpack_def
  feed_entity__free_unpacked_def trip_update__get_packed_size_def
  trip_update__pack_def trip_update__pack_to_buffer_def
  trip_update__unpack_def trip_update__free_unpacked_def
  vehicle_position__get_packed_size_def vehicle_position__pack_def
  vehicle_position__pack_to_buffer_def vehicle_position__unpack_def
  vehicle_position__free_unpacked_def alert__get_packed_size_def
  alert__pack_def alert__pack_to_buffer_def
  alert__unpack_def alert__free_unpacked_def
  time_range__get_packed_size_def time_range__pack_def
  time_range__pack_to_buffer_def time_range__unpack_def
  time_range__free_unpacked_def position__get_packed_size_def
  position__pack_def position__pack_to_buffer_def
  position__unpack_def position__free_unpacked_def
  trip_descriptor__get_packed_size_def trip_descriptor__pack_def
  trip_descriptor__pack_to_buffer_def trip_descriptor__unpack_def
  trip_descriptor__free_unpacked_def vehicle_descriptor__get_packed_size_def
  vehicle_descriptor__pack_def vehicle_descriptor__pack_to_buffer_def
  vehicle_descriptor__unpack_def vehicle_descriptor__free_unpacked_def
  entity_selector__get_packed_size_def entity_selector__pack_def
  entity_selector__pack_to_buffer_def entity_selector__unpack_def
  entity_selector__free_unpacked_def translated_string__get_packed_size_def
  translated_string__pack_def translated_string__pack_to_buffer_def
  translated_string__unpack_def translated_string__free_unpacked_def
  translated_image__get_packed_size_def translated_image__pack_def
  translated_image__pack_to_buffer_def translated_image__unpack_def
  translated_image__free_unpacked_def shape__get_packed_size_def
  shape__pack_def shape__pack_to_buffer_def
  shape__unpack_def shape__free_unpacked_def
  stop__get_packed_size_def stop__pack_def
  stop__pack_to_buffer_def stop__unpack_def
  stop__free_unpacked_def trip_modifications__get_packed_size_def
  trip_modifications__pack_def trip_modifications__pack_to_buffer_def
  trip_modifications__unpack_def trip_modifications__free_unpacked_def
  stop_selector__get_packed_size_def stop_selector__pack_def
  stop_selector__pack_to_buffer_def stop_selector__unpack_def
  stop_selector__free_unpacked_def replacement_stop__get_packed_size_def
  replacement_stop__pack_def replacement_stop__pack_to_buffer_def
  replacement_stop__unpack_def replacement_stop__free_unpacked_def

end
