(* ===== verification/Pb_Roundtrip.thy ===== *)
theory Pb_Roundtrip
  imports Pb_Functions
begin

text \<open>
  The functions of the generated code, whatever the message: they differ only in the
  descriptor they assert and unpack with, so a message goes the way from unpacking through
  packing to its release by the functions of its own type, and not by those of another.
\<close>

section \<open>The functions of a type\<close>

definition typed_functions ::
  "('c, 'a, 'b, 'l) protobuf_c \<Rightarrow> msg_id \<Rightarrow> ('c, 'a, 'b, 'l) message_functions"
where
  "typed_functions lib m =
     \<lparr>get_packed_size_fn = (\<lambda>x. map_sum id (message_get_packed_size lib) (assert_descriptor m x)),
      pack_fn = (\<lambda>x out. map_sum id (\<lambda>x. message_pack lib x out) (assert_descriptor m x)),
      pack_to_buffer_fn =
        (\<lambda>x buffer. map_sum id (\<lambda>x. message_pack_to_buffer lib x buffer) (assert_descriptor m x)),
      unpack_fn = message_unpack lib m,
      free_unpacked_fn = (\<lambda>x a l. if x = None then Inr l
        else map_sum id (\<lambda>x. message_free_unpacked lib x a l) (assert_descriptor m x))\<rparr>"

lemma sum_bind_map_sum: "sum_bind c (\<lambda>x. Inr (f x)) = map_sum id f c"
  by (cases c) simp_all

lemma functions_of_typed:
  "functions_of lib m = (if length (message_path m) = 1 then Some (typed_functions lib m) else None)"
  by (cases m) (simp_all add: typed_functions_def wrapper_defs sum_bind_map_sum fun_eq_iff)

lemma functions_ofD: "functions_of lib m = Some f \<Longrightarrow> f = typed_functions lib m"
  by (simp add: functions_of_typed split: if_splits)

section \<open>The contract of the library\<close>

text \<open>
  What protobuf-c documents: what unpacking returns carries the descriptor it was unpacked with.
\<close>

definition unpacks_typed :: "('c, 'a, 'b, 'l) protobuf_c \<Rightarrow> bool" where
  "unpacks_typed lib \<longleftrightarrow>
     (\<forall>d a len data l. pred_option (\<lambda>y. base_descriptor y = d) (fst (message_unpack lib d a len data l)))"

section \<open>Properties\<close>

text \<open>A library that stores the content as it is.\<close>

definition copying_library :: "(u8 list, unit, u8 list, unit) protobuf_c" where
  "copying_library =
     \<lparr>message_get_packed_size = (\<lambda>x. word_of_nat (length (pb_content x))),
      message_pack = (\<lambda>x out. (pb_content x @ drop (length (pb_content x)) out,
        word_of_nat (length (pb_content x)))),
      message_pack_to_buffer = (\<lambda>x b. (b @ pb_content x, word_of_nat (length (pb_content x)))),
      message_unpack = (\<lambda>d a len data l.
        (Some \<lparr>base_descriptor = d, pb_content = take (unat len) data\<rparr>, l)),
      message_free_unpacked = (\<lambda>x a l. l)\<rparr>"

text \<open>
  C27: a message that unpacking returned, whatever the bytes, is accepted by the functions of
  its type without a failing assertion, and a message of another type makes each of them
  abort; no function dereferences a null pointer when releasing.
\<close>

theorem assertions_are_type_checks:
  assumes "unpacks_typed lib" "functions_of lib m = Some f"
  shows "(case unpack_fn f a len data l of
       (None, l') \<Rightarrow> free_unpacked_fn f None a l' = Inr l'
     | (Some y, l') \<Rightarrow>
         get_packed_size_fn f (Some y) = Inr (message_get_packed_size lib y) \<and>
         pack_fn f (Some y) out = Inr (message_pack lib y out) \<and>
         pack_to_buffer_fn f (Some y) buffer = Inr (message_pack_to_buffer lib y buffer) \<and>
         free_unpacked_fn f (Some y) a l' = Inr (message_free_unpacked lib y a l')) \<and>
    (base_descriptor x \<noteq> m \<longrightarrow>
       get_packed_size_fn f (Some x) = Inl Assertion_Failed \<and>
       pack_fn f (Some x) out = Inl Assertion_Failed \<and>
       pack_to_buffer_fn f (Some x) buffer = Inl Assertion_Failed \<and>
       free_unpacked_fn f (Some x) a l = Inl Assertion_Failed)"
proof -
  have f: "f = typed_functions lib m" by (rule functions_ofD [OF assms(2)])
  have "pred_option (\<lambda>y. base_descriptor y = m) (fst (message_unpack lib m a len data l))"
    using assms(1) by (simp add: unpacks_typed_def)
  then show ?thesis
    by (cases "message_unpack lib m a len data l")
      (auto simp: f typed_functions_def assert_descriptor_def split: option.split)
qed

theorem assertions_are_type_checks_witness:
  "feed_message__free_unpacked copying_library
     (fst (feed_message__unpack copying_library () 2 [8, 1] ())) () () = Inr () \<and>
   feed_message__free_unpacked copying_library
     (fst (feed_header__unpack copying_library () 2 [8, 1] ())) () () = Inl Assertion_Failed"
proof -
  have typed: "unpacks_typed copying_library" by (simp add: unpacks_typed_def copying_library_def)
  have f: "functions_of copying_library FeedMessage = Some
     \<lparr>get_packed_size_fn = feed_message__get_packed_size copying_library,
      pack_fn = feed_message__pack copying_library,
      pack_to_buffer_fn = feed_message__pack_to_buffer copying_library,
      unpack_fn = feed_message__unpack copying_library,
      free_unpacked_fn = feed_message__free_unpacked copying_library\<rparr>"
    by simp
  show ?thesis
    using assertions_are_type_checks [OF typed f, where a = "()" and len = 2 and data = "[8, 1]"
        and l = "()" and x = "\<lparr>base_descriptor = FeedHeader, pb_content = [8, 1]\<rparr>"]
    by (simp add: feed_message__unpack_def feed_header__unpack_def copying_library_def)
qed

end
