(* ===== verification/Schema_Agreement.thy ===== *)
theory Schema_Agreement
  imports Parser Engine Pb_Structs Pb_Schema "HOL-Library.Sublist"
begin

text \<open>
  The hand-written code against the schema: the numbers the parser substitutes for absent
  values and the main loop compares with, and the texts of the occupancy levels, are written
  out in \<open>src/ingestion/parser.c\<close> and \<open>src/main.cpp\<close>; here they meet the enums of the generated
  header and of \<open>proto/gtfs-realtime.proto\<close>.
\<close>

text \<open>The number of a constant of an enum, and the constant that is the default of a field.\<close>

abbreviation constant_number :: "enum_id \<Rightarrow> string \<Rightarrow> int option" where
  "constant_number e \<equiv> map_of (enum_constants e)"

definition default_of :: "msg_id \<Rightarrow> string \<Rightarrow> scalar option" where
  "default_of m x = Option.bind (find (\<lambda>f. pf_name f = x) (proto_of m)) pf_default"

text \<open>A value of an enum survives its way through 32 bits into an \<open>int\<close>.\<close>

lemma enum_value_kept: "c_int_ok k \<Longrightarrow> sint (word_of_int k :: u32) = k"
  by (simp add: c_int_ok_def INT_MIN_def INT_MAX_def signed_of_int signed_take_bit_int_eq_self)

lemma enum_constants_int: "list_all (\<lambda>(n, k). c_int_ok k) (enum_constants e)"
  by (induction e; code_simp)

lemma enum_constants_kept:
  "list_all (\<lambda>(n, k). x = word_of_int k \<longrightarrow> sint (word_of_int k :: u32) = k) (enum_constants e)"
  using enum_constants_int [of e] by (auto simp: list_all_iff enum_value_kept)

lemma sentinel_numbers:
  "constant_number VehiclePosition_OccupancyStatus ''NO_DATA_AVAILABLE'' = Some 7"
  "constant_number VehiclePosition_VehicleStopStatus ''IN_TRANSIT_TO'' = Some 2"
  "constant_number VehiclePosition_CongestionLevel ''UNKNOWN_CONGESTION_LEVEL'' = Some 0"
  "default_of VehiclePosition ''current_status'' =
     Some (Enum_Const VehiclePosition_VehicleStopStatus ''IN_TRANSIT_TO'')"
  by code_simp+

lemma occupancy_constants:
  "enum_constants VehiclePosition_OccupancyStatus =
     [(''EMPTY'', 0), (''MANY_SEATS_AVAILABLE'', 1), (''FEW_SEATS_AVAILABLE'', 2),
      (''STANDING_ROOM_ONLY'', 3), (''CRUSHED_STANDING_ROOM_ONLY'', 4), (''FULL'', 5),
      (''NOT_ACCEPTING_PASSENGERS'', 6), (''NO_DATA_AVAILABLE'', 7), (''NOT_BOARDABLE'', 8)]"
  by code_simp

text \<open>The words in front of the number in the text of an occupancy level.\<close>

lemma label_witness:
  "label \<noteq> [] \<Longrightarrow> prefix label words \<Longrightarrow> text = label @ rest \<Longrightarrow>
   \<exists>label. label \<noteq> [] \<and> prefix label words \<and> text = label @ rest"
  by blast

lemma occupancy_labels:
  "list_all (\<lambda>(n, k). \<exists>label. label \<noteq> [] \<and>
       prefix label (map (\<lambda>c. if c = CHR ''_'' then CHR '' '' else c) n) \<and>
       get_occupancy_string k = label @ '' ('' @ [char_of (48 + nat k)] @ '')'')
      (enum_constants VehiclePosition_OccupancyStatus)"
  unfolding occupancy_constants list.pred_inject prod.case
  by (intro conjI list.pred_inject(1),
      rule label_witness [where label = "''EMPTY''"], code_simp, code_simp, code_simp,
      rule label_witness [where label = "''MANY SEATS''"], code_simp, code_simp, code_simp,
      rule label_witness [where label = "''FEW SEATS''"], code_simp, code_simp, code_simp,
      rule label_witness [where label = "''STANDING ROOM ONLY''"], code_simp, code_simp, code_simp,
      rule label_witness [where label = "''CRUSHED STANDING''"], code_simp, code_simp, code_simp,
      rule label_witness [where label = "''FULL''"], code_simp, code_simp, code_simp,
      rule label_witness [where label = "''NOT ACCEPTING PASSENGERS''"], code_simp, code_simp, code_simp,
      rule label_witness [where label = "''NO DATA''"], code_simp, code_simp, code_simp,
      rule label_witness [where label = "''NOT BOARDABLE''"], code_simp, code_simp, code_simp)

section \<open>Properties\<close>

text \<open>
  C33: in the record the parser fills, an absent occupancy is the schema's constant for no
  data, an absent status the schema's default (in transit), an absent congestion level the
  unknown one, as the comments say; and every constant of the three enums that is present
  reaches the record with its own number.
\<close>

theorem sentinels_are_schema_constants:
  assumes "item_shape item" "string_ok (fe_id e)" "vehicle_ok vp"
  shows "\<exists>v. fill_item item e vp pos = Inr v \<and>
     (if vp_has_occupancy_status vp
      then list_all (\<lambda>(n, k). vp_occupancy_status vp = word_of_int k \<longrightarrow> occupancy_status v = k)
        (enum_constants VehiclePosition_OccupancyStatus)
      else constant_number VehiclePosition_OccupancyStatus ''NO_DATA_AVAILABLE'' =
        Some (occupancy_status v)) \<and>
     (if vp_has_current_status vp
      then list_all (\<lambda>(n, k). vp_current_status vp = word_of_int k \<longrightarrow> current_status v = k)
        (enum_constants VehiclePosition_VehicleStopStatus)
      else \<exists>n. default_of VehiclePosition ''current_status'' =
          Some (Enum_Const VehiclePosition_VehicleStopStatus n) \<and>
        constant_number VehiclePosition_VehicleStopStatus n = Some (current_status v)) \<and>
     (if vp_has_congestion_level vp
      then list_all (\<lambda>(n, k). vp_congestion_level vp = word_of_int k \<longrightarrow> congestion_level v = k)
        (enum_constants VehiclePosition_CongestionLevel)
      else constant_number VehiclePosition_CongestionLevel ''UNKNOWN_CONGESTION_LEVEL'' =
        Some (congestion_level v))"
  using fill_item_record [OF assms, of pos]
  by (simp add: vehicle_record_def scalar_or_def sentinel_numbers enum_constants_kept
      del: enum_constants.simps)

theorem sentinels_are_schema_constants_witness:
  "\<exists>v. fill_item sample_garbage \<lparr>fe_id = None, fe_vehicle = None\<rparr> sample_vehicle sample_position = Inr v \<and>
    constant_number VehiclePosition_OccupancyStatus ''NO_DATA_AVAILABLE'' = Some (occupancy_status v) \<and>
    constant_number VehiclePosition_VehicleStopStatus ''STOPPED_AT'' = Some (current_status v)"
proof -
  have stopped: "(''STOPPED_AT'', 1) \<in> set (enum_constants VehiclePosition_VehicleStopStatus)"
    "constant_number VehiclePosition_VehicleStopStatus ''STOPPED_AT'' = Some 1"
    by code_simp+
  have v: "\<not> vp_has_occupancy_status sample_vehicle" "vp_has_current_status sample_vehicle"
    "vp_current_status sample_vehicle = word_of_int 1"
    by (simp_all add: sample_vehicle_def)
  show ?thesis
    using sentinels_are_schema_constants [of sample_garbage "\<lparr>fe_id = None, fe_vehicle = None\<rparr>"
        sample_vehicle sample_position] stopped v
    by (fastforce simp: sample_garbage_shape string_ok_def vehicle_ok_def sample_vehicle_def list_all_iff)
qed

text \<open>
  C36: the text of an occupancy level is the first words of the name that the schema gives it,
  with its number, and UNKNOWN exactly for what is no constant of the schema; and when the main
  loop has an identified vehicle it prints it, with the text of its level, exactly if the
  level is one of the four from few seats to full.
\<close>

theorem occupancy_strings_match_schema:
  assumes "arena_inv (en_arena en)" "strings_ok v" "identified v"
  shows "list_all (\<lambda>(n, k). \<exists>label. label \<noteq> [] \<and>
       prefix label (map (\<lambda>c. if c = CHR ''_'' then CHR '' '' else c) n) \<and>
       get_occupancy_string k = label @ '' ('' @ [char_of (48 + nat k)] @ '')'')
      (enum_constants VehiclePosition_OccupancyStatus) \<and>
    (get_occupancy_string k = ''UNKNOWN'' \<longleftrightarrow>
       k \<notin> snd ` set (enum_constants VehiclePosition_OccupancyStatus)) \<and>
    (\<exists>en' rs. main_iteration d lltc st (Some v) en = Inr (Returns en') \<and>
       en_output en' = en_output en @ rs \<and>
       map rp_load rs =
         (if Some (occupancy_status v) \<in> constant_number VehiclePosition_OccupancyStatus `
             {''FEW_SEATS_AVAILABLE'', ''STANDING_ROOM_ONLY'', ''CRUSHED_STANDING_ROOM_ONLY'', ''FULL''}
          then [get_occupancy_string (occupancy_status v)] else []))"
proof (intro conjI)
  show "list_all (\<lambda>(n, k). \<exists>label. label \<noteq> [] \<and>
       prefix label (map (\<lambda>c. if c = CHR ''_'' then CHR '' '' else c) n) \<and>
       get_occupancy_string k = label @ '' ('' @ [char_of (48 + nat k)] @ '')'')
      (enum_constants VehiclePosition_OccupancyStatus)"
    by (rule occupancy_labels)
  show "get_occupancy_string k = ''UNKNOWN'' \<longleftrightarrow>
      k \<notin> snd ` set (enum_constants VehiclePosition_OccupancyStatus)"
    unfolding occupancy_constants by (simp add: get_occupancy_string_def)
  obtain a stored where u: "update d lltc (en_arena en) (widen (lat v)) (widen (lon v)) (speed v)
      (timestamp v) = Inr (Returns (a, stored))"
    using assms(1) by (rule update_returns)
  have "carries_passengers v \<longleftrightarrow> Some (occupancy_status v) \<in>
      constant_number VehiclePosition_OccupancyStatus `
        {''FEW_SEATS_AVAILABLE'', ''STANDING_ROOM_ONLY'', ''CRUSHED_STANDING_ROOM_ONLY'', ''FULL''}"
    unfolding occupancy_constants by (auto simp: carries_passengers_def)
  with main_iteration_identified [OF assms(2,3) u, of st]
  show "\<exists>en' rs. main_iteration d lltc st (Some v) en = Inr (Returns en') \<and>
     en_output en' = en_output en @ rs \<and>
     map rp_load rs =
       (if Some (occupancy_status v) \<in> constant_number VehiclePosition_OccupancyStatus `
           {''FEW_SEATS_AVAILABLE'', ''STANDING_ROOM_ONLY'', ''CRUSHED_STANDING_ROOM_ONLY'', ''FULL''}
        then [get_occupancy_string (occupancy_status v)] else [])"
    by (auto simp: report_of_def)
qed

theorem occupancy_strings_match_schema_witness:
  "\<exists>en'. main_iteration id sample_h3 no_statics (Some (sample_bus ''8123'' 3)) new_engine = Inr (Returns en') \<and>
     map rp_load (en_output en') = [''STANDING ROOM ONLY (3)''] \<and>
     get_occupancy_string 9 = ''UNKNOWN''"
proof -
  let ?v = "sample_bus ''8123'' 3"
  have v: "arena_inv (en_arena new_engine)" "strings_ok ?v" "identified ?v" "occupancy_status ?v = 3"
    "en_output new_engine = []" "get_occupancy_string 3 = ''STANDING ROOM ONLY (3)''"
    by (simp_all add: new_engine_def new_arena_inv strings_ok_def sample_bus_def identified_def
        get_occupancy_string_def)
  have "Some 3 \<in> constant_number VehiclePosition_OccupancyStatus `
      {''FEW_SEATS_AVAILABLE'', ''STANDING_ROOM_ONLY'', ''CRUSHED_STANDING_ROOM_ONLY'', ''FULL''}"
    "9 \<notin> snd ` set (enum_constants VehiclePosition_OccupancyStatus)"
    unfolding occupancy_constants by simp_all
  with occupancy_strings_match_schema [OF v(1-3), of 9 id sample_h3 no_statics] v(4-6)
  show ?thesis by (simp del: enum_constants.simps)
qed

end
