(* ===== verification/Spec2Isabelle.thy ===== *)
theory Spec2Isabelle
  imports Ring_Monitor Arena_Threads Program Startup Pb_Properties Pb_Roundtrip Schema_Agreement
begin

text \<open>
  A verification library for telemetrix-db.

  \<^bold>\<open>The program.\<close> An ingestion thread downloads a GTFS-realtime feed every 15 seconds
  (\<open>src/ingestion/fetcher.c\<close>), decodes it with protobuf-c and the generated tables
  (\<open>src/ingestion/gtfs-realtime.pb-c.c\<close>), turns each vehicle into a fixed-size record
  (\<open>src/ingestion/parser.c\<close>) and pushes it into a bounded ring buffer
  (\<open>src/ingestion/buffer.c\<close>), waiting when it is full. The main thread (\<open>src/main.cpp\<close>) takes
  the records out, stores a speed sample of each in a spatial arena
  (\<open>src/storage/storage.cpp\<close>) and prints the vehicles with a passenger load, under names from
  two static files.

  \<^bold>\<open>How C and C++ are modelled.\<close> A function is a HOL function; state is passed explicitly. A
  computation that the language leaves undefined (signed overflow, an index out of range, a
  read of indeterminate memory, an invalid \<open>free\<close>, a null dereference), or that an assertion
  aborts, is \<open>Inl\<close> of an error of type \<open>ub\<close>; the theorems show that it does not occur, or when.
  \<open>int\<close> is HOL's \<open>int\<close> with checked operations, unsigned types are words, \<open>float\<close> and \<open>double\<close>
  are their IEEE bit patterns. A call that may wait for ever returns \<open>Blocks\<close> or
  \<open>Returns\<close> of its result (type \<open>call\<close>), so waiting is never confused with returning.
  Allocation may fail at any request (\<open>refuses\<close> of the heap).

  \<^bold>\<open>Parts.\<close>
  \<^item> \<open>Prelude\<close>, \<open>C_Layout\<close>, \<open>Heap\<close>, \<open>C_Strings\<close>, \<open>Float_Bits\<close>: the language. Checked arithmetic and
    arrays; sizes, alignments and offsets of structs on LP64; \<open>malloc\<close>, \<open>realloc\<close>, \<open>free\<close>; \<open>strncpy\<close>
    and \<open>strncmp\<close>; conversions between \<open>float\<close> and \<open>double\<close>, a product
    with its rounding.
  \<^item> \<open>Queue_Interface\<close>, \<open>Sink_Interface\<close>, \<open>Sample_Log\<close>: the contracts between the parts, as
    locales: a closable bounded queue, a sink that takes values in order (with a credit that
    bounds waiting), a log that keeps the newest samples. Their interpretations are the ring
    buffer, the ring buffer with a consumer (once in general, once while nobody shuts it down),
    and the window of a bucket. \<open>Program\<close> extends the sink to that of the ingestion thread.
  \<^item> \<open>Vehicle_Data\<close>, \<open>Ring_Buffer\<close>: \<open>include/buffer.h\<close> and \<open>buffer.c\<close> between lock and unlock.
    Invariant, refinement of the abstract queue, balanced creation and destruction.
  \<^item> \<open>Ring_Threads\<close>, \<open>Ring_Monitor\<close>: the same code under any number of threads, as a step
    relation with the mutex, both condition variables, signals, broadcasts and spurious
    wake-ups. Mutual exclusion, linearisability, order of delivery, no lost wake-up, shutdown.
  \<^item> \<open>Arena\<close>: \<open>include/arena.h\<close> and \<open>SpatialArena::update\<close>. The effect of an update and of any
    sequence of updates; the sizes the code asserts; the bucket chosen by H3's index.
    \<open>Arena_Threads\<close>: the spinlock and the statements it protects, under any number of threads.
  \<^item> \<open>Fetcher\<close>: the write callback and \<open>fetch_gtfs_data\<close> on the heap: which transfers come back in
    full is decided by the handle, the code of the transfer and the requests the allocator refuses.
  \<^item> \<open>Pb_Types\<close>, \<open>Pb_Structs\<close>, \<open>Pb_Schema\<close>, \<open>Pb_Tables_1\<close> to \<open>Pb_Tables_4\<close>: the generated header and
    code and \<open>proto/gtfs-realtime.proto\<close>, transcribed entry by entry. \<open>Pb_Check\<close> evaluates, for
    each message and enum, that they agree; \<open>Pb_Properties\<close> draws the consequences for a library
    that interprets the tables. \<open>Pb_Functions\<close>: the functions of each message (packed size,
    pack, pack to buffer, unpack, free), which assert a descriptor and call the library;
    \<open>Pb_Roundtrip\<close>: on which messages their assertions fail, given the library's contract.
  \<^item> \<open>Parser\<close>: \<open>parse_and_queue\<close>, from a decoded message to the pushes. \<open>Schema_Agreement\<close>: its
    sentinels, and the levels and texts of the main loop, against the schema.
  \<^item> \<open>Pipeline\<close>: the parser in front of the ring buffer, with a consumer that acts between
    pushes. \<open>Ingestion\<close>: the loop of the ingestion thread. \<open>Static_Gtfs\<close>: the static files.
    \<open>Engine\<close>: the main loop. \<open>Startup\<close>: \<open>main\<close> before and after its loop. \<open>Program\<close>: both threads
    over any number of downloads; which vehicles they bring is computed from the transfers
    (\<open>downloads\<close>), and all of them reach the arena unless the ring is shut down. This theory:
    one payload from end to end.

  \<^bold>\<open>Names.\<close> A definition has the name of the function it models (\<open>buffer_push\<close>,
  \<open>fetch_gtfs_data\<close>, \<open>parse_and_queue\<close>, \<open>load_static_gtfs\<close>, \<open>ingestion_thread\<close>); the loop and the
  straight-line parts of a long function are definitions of their own (\<open>push_body\<close>,
  \<open>fill_item\<close>, \<open>parse_loop\<close>, \<open>main_iteration\<close>, \<open>main_start\<close>). Generated names lose the prefix
  \<open>transit_realtime__\<close>.

  \<^bold>\<open>Parameters.\<close> Libraries are arguments: libcurl (a transfer runs the write callback on the
  chunks of the body, \<open>curl_contract\<close>; the calls that set its options, with the URL and the
  callback, are part of this argument), protobuf-c (\<open>unpack\<close> returns nothing or a message whose
  counts and strings are in order, \<open>message_ok\<close>; for the generated functions the record
  \<open>protobuf_c\<close>), H3 (\<open>latLngToCell\<close> gives a nonzero cell; for one property the documented layout
  of the index, \<open>h3_layout\<close>), and the allocator. The contents of the static files, the size of
  \<open>RingBuffer\<close> (it depends on pthread types) and the schedule are arguments too.

  \<^bold>\<open>Loops and bounds.\<close> No definition has fuel. Loops over lists and indices are structural or
  have a termination proof; the endless loops of the two threads run over a given list of
  iterations, so the theorems hold after any number of them. Bounds of the code that the
  theorems use: a capacity is an \<open>int\<close>, a body is shorter than the address space, an allocation
  of at least 2^63 bytes fails.

  \<^bold>\<open>Not modelled.\<close> Log messages, sleeping, and the formatting of numbers. Weak memory: steps are sequentially
  consistent, which the locks justify. A failing \<open>pthread_create\<close>, whose result the code
  ignores. Addresses: the alignment of 64 bytes that the allocation of the arena asks for. What
  C leaves open about a signalling NaN: the conversions are those of IEEE 754, which make it
  quiet. The library code behind the generated tables: only the tables, and the calls into
  it. Copying and assigning an arena are deleted in the code. Tests and benchmarks.
\<close>

section \<open>From a payload to the arena\<close>

text \<open>
  C3: end to end, for any schedule of the consumer and any time of shutdown: the parser reports
  the number \<open>k\<close> of vehicles it queued, and releases the message. These are all the vehicles of
  the feed, unless the ring buffer is shut down, which it is not if nobody does so. Once the
  main loop has taken what is left in the ring it has got exactly these, in order; the arena
  then holds exactly the newest located samples of the identified ones, and exactly those that
  carry passengers have been reported, without undefined behaviour. The parser does not wait
  for ever when the main loop takes an item between any two pushes.
\<close>

theorem payload_reaches_arena:
  assumes "unpack lib (take len buffer) = (Some msg, lib')" "message_ok msg"
    and "\<And>i. item_shape (garbage i)" and "0 < capacity" "capacity \<le> INT_MAX"
    and "\<forall>x h. lltc x H3_RESOLUTION = Some h \<longrightarrow> h \<noteq> 0"
    and "vs = feed_vehicles msg"
  shows "\<exists>c. parse_and_queue unpack free_unpacked feed_push garbage buffer len lib
        (fresh_feed capacity turns) = Inr c \<and>
     (\<forall>l rf n. c = Returns (l, rf, n) \<longrightarrow> l = free_unpacked msg lib' \<and>
        (\<exists>k \<le> length vs. n = Some (int k) \<and> reaches_arena d lltc st (take k vs) rf \<and>
           (k < length vs \<longrightarrow> ring_closed rf)) \<and>
        (list_all (\<lambda>ops. Shut \<notin> set ops) turns \<longrightarrow> \<not> ring_closed rf)) \<and>
     (length vs \<le> length turns \<and> list_all (\<lambda>ops. Take \<in> set ops) turns \<longrightarrow> c \<noteq> Blocks)"
proof -
  let ?ring = "fresh_feed capacity turns :: vehicle_data ring_feed"
  note start = fresh_feed_inv [OF assms(4,5), of turns]
  have pushed: "pushed_values (rf_events ?ring) = []" by (simp add: fresh_feed_def)
  from ring_sink.offer_all_prefix [OF start, of vs] pushed obtain c where
    c: "offer_all feed_push ?ring vs = Inr c"
      "\<And>rf k. c = Returns (rf, k) \<Longrightarrow> feed_inv rf \<and> k \<le> length vs \<and>
         pushed_values (rf_events rf) = take k vs \<and> (k < length vs \<longrightarrow> rb_shutdown (rf_ring rf))"
    by auto
  note credit = ring_sink.offer_all_credit [OF start c(1)]
  have ok: "list_all strings_ok (take k vs)" for k
    using feed_vehicles_strings_ok [of msg] by (auto simp: assms(7) list_all_iff dest: in_set_takeD)
  have parsed: "parse_and_queue unpack free_unpacked feed_push garbage buffer len lib ?ring =
      call_bind (Inr c) (\<lambda>(rf, k). Inr (Returns (free_unpacked msg lib', rf, Some (int k))))"
    by (subst parse_and_queue_feed)
      (simp_all add: assms(1-3) c(1) flip: assms(7) del: call_bind.simps)
  have stays_open: "\<not> ring_closed rf" if "c = Returns (rf, k)" "list_all (\<lambda>ops. Shut \<notin> set ops) turns" for rf k
    using open_sink.offer_all_prefix [of ?ring vs] start that c(1) fresh_feed_never_shut [OF that(2)]
    by (auto simp: never_shut_def ring_closed_def buffer_is_shutdown_def)
  show ?thesis
  proof (cases c)
    case Blocks
    with credit show ?thesis by (auto simp: parsed fresh_feed_credit)
  next
    case (Returns r)
    obtain rf k where r: "c = Returns (rf, k)" using Returns by (cases r) simp
    from c(2) [OF r] have "reaches_arena d lltc st (take k vs) rf"
      by (auto intro!: feed_reaches_arena ok assms(6))
    with c(2) [OF r] stays_open [OF r] show ?thesis
      by (auto simp: parsed r ring_closed_def buffer_is_shutdown_def)
  qed
qed

theorem payload_reaches_arena_witness:
  "\<exists>rf. parse_and_queue sample_unpack (\<lambda>_ n. n - 1) feed_push (\<lambda>_. sample_garbage) [8, 1] 2 0
        (fresh_feed 1 [[Take]]) = Inr (Returns (0, rf, Some 1)) \<and>
     reaches_arena id sample_h3 no_statics (feed_vehicles sample_feed) rf \<and>
     length (feed_vehicles sample_feed) = 1"
proof -
  have unpack: "sample_unpack 0 (take 2 [8, 1]) = (Some sample_feed, 1)"
    by (simp add: sample_unpack_def)
  have h3: "\<forall>x h. sample_h3 x H3_RESOLUTION = Some h \<longrightarrow> h \<noteq> 0"
    by (simp add: sample_h3_def sample_cell_def)
  have len: "length (feed_vehicles sample_feed) = 1" by (simp add: sample_feed_vehicles)
  let ?call = "parse_and_queue sample_unpack (\<lambda>_ n. n - 1) feed_push (\<lambda>_. sample_garbage) [8, 1] 2 0
      (fresh_feed 1 [[Take]])"
  have "\<exists>rf. ?call = Inr (Returns (0, rf, Some 1)) \<and> reaches_arena id sample_h3 no_statics vs rf"
    if vs: "vs = feed_vehicles sample_feed" "length vs = 1" for vs
  proof -
    from payload_reaches_arena [where unpack = sample_unpack and lib = 0 and len = 2 and buffer = "[8, 1]"
        and garbage = "\<lambda>_. sample_garbage" and capacity = 1 and free_unpacked = "\<lambda>_ n. n - 1"
        and turns = "[[Take]]" and d = id and lltc = sample_h3 and st = no_statics,
        OF unpack sample_feed_ok _ _ _ h3 vs(1)] vs(2)
    obtain c where c: "?call = Inr c" "c \<noteq> Blocks"
      "\<And>l rf n. c = Returns (l, rf, n) \<Longrightarrow> l = 0 \<and>
         n = Some 1 \<and> reaches_arena id sample_h3 no_statics vs rf"
      by (fastforce simp: sample_garbage_shape INT_MAX_def le_Suc_eq)
    then show ?thesis by (cases c) fastforce+
  qed
  from this [OF refl len] len show ?thesis by simp
qed

end
